(* ===== verification/Prelude.thy ===== *)
theory Prelude
  imports Main "HOL-Library.Word" "HOL-Library.State_Monad" "HOL-Library.Sublist"
begin

text \<open>
  Shared ground of the development: the parts of Go and of its standard library that the
  operator uses (decimal and quoted formatting, string predicates, nil-able string maps),
  the state monad in which the reconciler's handlers are written, and the triples
  \<open>valid P m Q\<close> with which facts about those handlers are proved.

  A Go \<open>string\<close> is a \<open>string\<close> (a list of bytes). A Go \<open>map[string]string\<close> is a
  \<open>gomap\<close>: \<open>None\<close> is the nil map, \<open>Some\<close> an association list with distinct keys. A pointer
  is an \<open>option\<close>, \<open>None\<close> being nil.
\<close>

named_theorems go_str \<open>evaluation rules for the string helpers\<close>
named_theorems hoare \<open>rules for triples over the state monad\<close>

section \<open>Go strings\<close>

definition digit_char :: "nat \<Rightarrow> char" where
  "digit_char d = ''0123456789'' ! (d mod 10)"

fun nat_dec :: "nat \<Rightarrow> string" where
  "nat_dec n = (if n < 10 then [digit_char n] else nat_dec (n div 10) @ [digit_char (n mod 10)])"

declare nat_dec.simps [simp del]

text \<open>\<open>fmt.Sprintf("%d", n)\<close>.\<close>

definition itoa :: "int \<Rightarrow> string" where
  "itoa i = (if i < 0 then ''-'' @ nat_dec (nat (- i)) else nat_dec (nat i))"

text \<open>\<open>fmt.Sprintf("%t", b)\<close> and \<open>%v\<close> on a bool.\<close>

definition btoa :: "bool \<Rightarrow> string" where
  "btoa b = (if b then ''true'' else ''false'')"

definition hex_char :: "nat \<Rightarrow> char" where
  "hex_char d = ''0123456789abcdef'' ! (d mod 16)"

definition hex_val :: "char \<Rightarrow> nat option" where
  "hex_val c = (let n = (of_char c :: nat) in
     if 48 \<le> n \<and> n \<le> 57 then Some (n - 48)
     else if 97 \<le> n \<and> n \<le> 102 then Some (n - 87)
     else if 65 \<le> n \<and> n \<le> 70 then Some (n - 55) else None)"

text \<open>
  \<open>fmt.Sprintf("%q", s)\<close> (\<open>strconv.Quote\<close>): the escapes of ASCII text; a byte of a multi-byte
  rune is copied, as Go does for printable runes.
\<close>

definition quote_char :: "char \<Rightarrow> string" where
  "quote_char c =
     (if c = CHR 0x22 then [CHR 0x5C, CHR 0x22]
      else if c = CHR 0x5C then [CHR 0x5C, CHR 0x5C]
      else if c = CHR 0x07 then [CHR 0x5C, CHR ''a'']
      else if c = CHR 0x08 then [CHR 0x5C, CHR ''b'']
      else if c = CHR 0x0C then [CHR 0x5C, CHR ''f'']
      else if c = CHR 0x0A then [CHR 0x5C, CHR ''n'']
      else if c = CHR 0x0D then [CHR 0x5C, CHR ''r'']
      else if c = CHR 0x09 then [CHR 0x5C, CHR ''t'']
      else if c = CHR 0x0B then [CHR 0x5C, CHR ''v'']
      else if (of_char c :: nat) < 32 \<or> (of_char c :: nat) = 127
      then [CHR 0x5C, CHR ''x'', hex_char ((of_char c :: nat) div 16), hex_char (of_char c :: nat)]
      else [c])"

definition goquote :: "string \<Rightarrow> string" where
  "goquote s = [CHR 0x22] @ concat (map quote_char s) @ [CHR 0x22]"

text \<open>\<open>strings.HasPrefix\<close>, \<open>HasSuffix\<close>, \<open>Contains\<close> and the last index of a byte.\<close>

definition hasPrefix :: "string \<Rightarrow> string \<Rightarrow> bool" where
  "hasPrefix s p \<longleftrightarrow> take (length p) s = p"

definition hasSuffix :: "string \<Rightarrow> string \<Rightarrow> bool" where
  "hasSuffix s p \<longleftrightarrow> hasPrefix (rev s) (rev p)"

fun containsStr :: "string \<Rightarrow> string \<Rightarrow> bool" where
  "containsStr [] p \<longleftrightarrow> p = []"
| "containsStr (c # s) p \<longleftrightarrow> hasPrefix (c # s) p \<or> containsStr s p"

fun lastIndexFrom :: "int \<Rightarrow> int \<Rightarrow> char \<Rightarrow> string \<Rightarrow> int" where
  "lastIndexFrom best i c [] = best"
| "lastIndexFrom best i c (x # s) = lastIndexFrom (if x = c then i else best) (i + 1) c s"

definition lastIndexChar :: "string \<Rightarrow> char \<Rightarrow> int" where
  "lastIndexChar s c = lastIndexFrom (-1) 0 c s"

text \<open>\<open>strings.TrimSpace\<close> and \<open>strings.ToLower\<close> on ASCII text.\<close>

definition is_space :: "char \<Rightarrow> bool" where
  "is_space c \<longleftrightarrow> c \<in> {CHR 0x09, CHR 0x0A, CHR 0x0B, CHR 0x0C, CHR 0x0D, CHR 0x20}"

definition trimSpace :: "string \<Rightarrow> string" where
  "trimSpace s = rev (dropWhile is_space (rev (dropWhile is_space s)))"

definition lower_char :: "char \<Rightarrow> char" where
  "lower_char c = (let n = (of_char c :: nat) in if 65 \<le> n \<and> n \<le> 90 then char_of (n + 32) else c)"

definition toLower :: "string \<Rightarrow> string" where
  "toLower s = map lower_char s"

text \<open>\<open>strings.Split(s, sep)\<close> for a one-byte separator, and \<open>strings.Join\<close>.\<close>

fun splitOn :: "char \<Rightarrow> string \<Rightarrow> string list" where
  "splitOn c [] = [[]]"
| "splitOn c (x # s) =
     (if x = c then [] # splitOn c s
      else (case splitOn c s of [] \<Rightarrow> [[x]] | w # ws \<Rightarrow> (x # w) # ws))"

fun joinWith :: "string \<Rightarrow> string list \<Rightarrow> string" where
  "joinWith sep [] = []"
| "joinWith sep [w] = w"
| "joinWith sep (w # v # ws) = w @ sep @ joinWith sep (v # ws)"

text \<open>Decimal text is injective and has only digits and a sign.\<close>

lemma digit_char_inject: "a < 10 \<Longrightarrow> b < 10 \<Longrightarrow> digit_char a = digit_char b \<longleftrightarrow> a = b"
proof -
  have d: "distinct ''0123456789''" by simp
  assume "a < 10" "b < 10"
  then show ?thesis
    using nth_eq_iff_index_eq[OF d, of a b] by (simp add: digit_char_def)
qed

lemma nat_dec_nonempty: "nat_dec n \<noteq> []"
  by (subst nat_dec.simps) simp

lemma nat_dec_inject: "nat_dec n = nat_dec m \<longleftrightarrow> n = m"
proof (induction n arbitrary: m rule: nat_dec.induct)
  case (1 n)
  show ?case
  proof
    assume eq: "nat_dec n = nat_dec m"
    show "n = m"
    proof (cases "n < 10")
      case True
      with eq have m: "nat_dec m = [digit_char n]" by (subst (asm) nat_dec.simps) simp
      then have "m < 10" by (subst (asm) nat_dec.simps) (auto split: if_splits simp: nat_dec_nonempty)
      with m True show ?thesis by (subst (asm) nat_dec.simps) (simp add: digit_char_inject)
    next
      case False
      then have n: "nat_dec n = nat_dec (n div 10) @ [digit_char (n mod 10)]" by (subst nat_dec.simps) simp
      have m10: "\<not> m < 10"
      proof
        assume "m < 10"
        then have "nat_dec m = [digit_char m]" by (subst nat_dec.simps) simp
        with eq n nat_dec_nonempty show False by auto
      qed
      then have m: "nat_dec m = nat_dec (m div 10) @ [digit_char (m mod 10)]" by (subst nat_dec.simps) simp
      from eq n m have "nat_dec (n div 10) = nat_dec (m div 10)" "n mod 10 = m mod 10"
        by (simp_all add: digit_char_inject)
      with 1[OF False] show ?thesis by (metis div_mult_mod_eq)
    qed
  qed simp
qed

lemma set_nat_dec: "set (nat_dec n) \<subseteq> set ''0123456789''"
proof (induction n rule: nat_dec.induct)
  case (1 n)
  have d: "digit_char k \<in> set ''0123456789''" for k
    unfolding digit_char_def by (rule nth_mem) simp
  from 1 d show ?case by (subst nat_dec.simps) auto
qed

lemma itoa_inject: "itoa a = itoa b \<longleftrightarrow> a = b"
proof -
  have "CHR ''-'' \<notin> set (nat_dec n)" for n using set_nat_dec[of n] by auto
  then have "nat_dec n \<noteq> CHR ''-'' # nat_dec k" "CHR ''-'' # nat_dec k \<noteq> nat_dec n" for n k
    by (metis list.set_intros(1))+
  then show ?thesis by (auto simp: itoa_def nat_dec_inject)
qed

lemma set_itoa: "set (itoa i) \<subseteq> insert (CHR ''-'') (set ''0123456789'')"
proof (cases "i < 0")
  case True
  then have "set (itoa i) = insert (CHR ''-'') (set (nat_dec (nat (- i))))" by (simp add: itoa_def)
  then show ?thesis using set_nat_dec by (metis insert_mono)
next
  case False
  then have "itoa i = nat_dec (nat i)" by (simp add: itoa_def)
  then show ?thesis using set_nat_dec by (metis subset_insertI2)
qed

text \<open>Cutting at a separator that the part before it does not contain.\<close>

lemma cut_first: "c \<notin> set a \<Longrightarrow> c \<notin> set b \<Longrightarrow> a @ c # u = b @ c # v \<longleftrightarrow> a = b \<and> u = v"
proof (induction a arbitrary: b)
  case (Cons x a)
  then show ?case by (cases b) auto
qed (auto simp: Cons_eq_append_conv)

lemma cut_last:
  assumes "c \<notin> set u" "c \<notin> set v"
  shows "a @ c # u = b @ c # v \<longleftrightarrow> a = b \<and> u = v"
proof -
  have "a @ c # u = b @ c # v \<longleftrightarrow> rev u @ c # rev a = rev v @ c # rev b"
    by (metis append.assoc append_Cons append_Nil rev.simps(2) rev_append rev_rev_ident)
  then show ?thesis using cut_first[of c "rev u" "rev v" "rev a" "rev b"] assms by auto
qed

lemma itoa_no_bar: "CHR ''|'' \<notin> set (itoa i)" "itoa i \<noteq> ''none''"
proof -
  have "CHR ''|'' \<notin> insert (CHR ''-'') (set ''0123456789'')" "CHR ''o'' \<notin> insert (CHR ''-'') (set ''0123456789'')" by simp_all
  then show "CHR ''|'' \<notin> set (itoa i)" and "itoa i \<noteq> ''none''" using set_itoa[of i] by (blast, auto)
qed

lemma btoa_inject: "btoa a = btoa b \<longleftrightarrow> a = b"
  by (simp add: btoa_def)

text \<open>Prefixes, suffixes and occurrences.\<close>

lemma hasPrefix_iff: "hasPrefix s p \<longleftrightarrow> (\<exists>t. s = p @ t)"
  unfolding hasPrefix_def by (metis append_eq_conv_conj append_take_drop_id)

lemma hasSuffix_iff: "hasSuffix s p \<longleftrightarrow> (\<exists>t. s = t @ p)"
  unfolding hasSuffix_def hasPrefix_iff by (metis rev_append rev_rev_ident)

lemma containsStr_char: "containsStr s [c] \<longleftrightarrow> c \<in> set s"
  by (induction s) (auto simp: hasPrefix_def)

text \<open>Splitting and joining, and trimming twice.\<close>

lemma splitOn_nonempty: "splitOn c s \<noteq> []"
  by (cases s) (simp_all split: list.split)

lemma splitOn_parts: "w \<in> set (splitOn c s) \<Longrightarrow> c \<notin> set w"
  by (induction c s arbitrary: w rule: splitOn.induct) (fastforce split: if_splits list.splits)+

lemma splitOn_word: "c \<notin> set w \<Longrightarrow> splitOn c w = [w]"
  by (induction w) auto

lemma splitOn_append: "c \<notin> set w \<Longrightarrow> splitOn c (w @ c # s) = w # splitOn c s"
  by (induction w) auto

lemma splitOn_joinWith: "ws \<noteq> [] \<Longrightarrow> (\<And>w. w \<in> set ws \<Longrightarrow> c \<notin> set w) \<Longrightarrow> splitOn c (joinWith [c] ws) = ws"
  by (induction "[c]" ws rule: joinWith.induct) (simp_all add: splitOn_word splitOn_append)

lemma dropWhile_stable: "(s \<noteq> [] \<Longrightarrow> \<not> P (hd s)) \<Longrightarrow> dropWhile P s = s"
  by (cases s) simp_all

lemma trimSpace_twice [simp]: "trimSpace (trimSpace s) = trimSpace s"
proof -
  define t where "t = dropWhile is_space s"
  define u where "u = dropWhile is_space (rev t)"
  have "dropWhile is_space (rev u) = rev u"
  proof (rule dropWhile_stable)
    assume "rev u \<noteq> []"
    then have "t \<noteq> []" by (auto simp: u_def)
    obtain v where v: "rev t = v @ u" by (metis takeWhile_dropWhile_id u_def)
    then have "t = rev u @ rev v" by (metis rev_append rev_rev_ident)
    then have "hd (rev u) = hd t" using \<open>rev u \<noteq> []\<close> by simp
    with \<open>t \<noteq> []\<close> show "\<not> is_space (hd (rev u))" unfolding t_def by (metis hd_dropWhile)
  qed
  moreover have "dropWhile is_space u = u" by (rule dropWhile_stable) (metis u_def hd_dropWhile)
  moreover have "trimSpace s = rev u" by (simp add: trimSpace_def t_def u_def)
  ultimately show ?thesis by (simp add: trimSpace_def)
qed

lemma trimSpace_subset: "set (trimSpace s) \<subseteq> set s"
  unfolding trimSpace_def by (auto dest!: set_dropWhileD)

lemma joinWith_splitOn: "joinWith [c] (splitOn c s) = s"
proof (induction c s rule: splitOn.induct)
  case (2 c x s)
  then show ?case using splitOn_nonempty[of c s] by (cases "splitOn c s"; cases "tl (splitOn c s)") auto
qed simp

lemma joinWith_empty: "[] \<notin> set ws \<Longrightarrow> joinWith sep ws = [] \<longleftrightarrow> ws = []"
  by (induction sep ws rule: joinWith.induct) auto

text \<open>A comma-separated list of trimmed entries, blank ones left out, as flags and variables have it.\<close>

definition commaList :: "string \<Rightarrow> string list" where
  "commaList s = (if s = [] then [] else filter (\<lambda>w. w \<noteq> []) (map trimSpace (splitOn (CHR '','') s)))"

section \<open>Nil-able string maps\<close>

type_synonym gomap = "(string \<times> string) list option"

definition gm_list :: "gomap \<Rightarrow> (string \<times> string) list" where
  "gm_list m = (case m of None \<Rightarrow> [] | Some xs \<Rightarrow> xs)"

definition gm_get :: "gomap \<Rightarrow> string \<Rightarrow> string option" where
  "gm_get m k = map_of (gm_list m) k"

definition gm_len :: "gomap \<Rightarrow> nat" where
  "gm_len m = length (gm_list m)"

text \<open>Well-formed: a Go map has every key once.\<close>

definition gm_wf :: "gomap \<Rightarrow> bool" where
  "gm_wf m \<longleftrightarrow> distinct (map fst (gm_list m))"

section \<open>The state monad and its triples\<close>

definition valid :: "('s \<Rightarrow> bool) \<Rightarrow> ('s, 'a) state \<Rightarrow> ('a \<Rightarrow> 's \<Rightarrow> bool) \<Rightarrow> bool" where
  "valid P m Q \<longleftrightarrow> (\<forall>s. P s \<longrightarrow> (case run_state m s of (r, s') \<Rightarrow> Q r s'))"

text \<open>A fact of the state that a handler keeps, whatever it returns.\<close>

abbreviation keeps :: "('s \<Rightarrow> bool) \<Rightarrow> ('s, 'a) state \<Rightarrow> bool" where
  "keeps P m \<equiv> valid P m (\<lambda>_. P)"

lemma validI: "(\<And>s r s'. P s \<Longrightarrow> run_state m s = (r, s') \<Longrightarrow> Q r s') \<Longrightarrow> valid P m Q"
  by (auto simp: valid_def)

lemma validD: "valid P m Q \<Longrightarrow> P s \<Longrightarrow> run_state m s = (r, s') \<Longrightarrow> Q r s'"
  by (auto simp: valid_def)

lemma valid_pre: "valid P' m Q \<Longrightarrow> (\<And>s. P s \<Longrightarrow> P' s) \<Longrightarrow> valid P m Q"
  by (auto simp: valid_def)

lemma valid_post: "valid P m Q' \<Longrightarrow> (\<And>r s. Q' r s \<Longrightarrow> Q r s) \<Longrightarrow> valid P m Q"
  by (fastforce simp: valid_def split: prod.splits)

lemma valid_return [hoare]: "valid (Q x) (State_Monad.return x) Q"
  by (simp add: valid_def)

lemma valid_bind [hoare]:
  "(\<And>x. valid (R x) (f x) Q) \<Longrightarrow> valid P m R \<Longrightarrow> valid P (State_Monad.bind m f) Q"
  by (fastforce simp: valid_def split: prod.splits)

lemma keeps_bind: "keeps P m \<Longrightarrow> (\<And>x. keeps P (f x)) \<Longrightarrow> keeps P (State_Monad.bind m f)"
  by (rule valid_bind)

lemma keeps_return: "keeps P (State_Monad.return x)"
  by (rule valid_return)

section \<open>Lists\<close>

lemma find_append:
  "List.find P (xs @ ys) = (case List.find P xs of None \<Rightarrow> List.find P ys | Some x \<Rightarrow> Some x)"
  by (induction xs) auto

lemma find_none: "(\<And>x. x \<in> set xs \<Longrightarrow> \<not> P x) \<Longrightarrow> List.find P xs = None"
  by (auto simp: find_None_iff)

section \<open>Lossless conversions\<close>

text \<open>
  The contract of a pair of conversion functions between two versions of a type. What a client
  of the pair may use (lists and optional values convert losslessly, a conversion is
  injective) is proved once, from the two laws.
\<close>

locale lossless =
  fixes conv_to :: "'a \<Rightarrow> 'b" and conv_from :: "'b \<Rightarrow> 'a"
  assumes from_to: "conv_from (conv_to x) = x"
    and to_from: "conv_to (conv_from y) = y"
begin

lemma map_from_to: "map conv_from (map conv_to xs) = xs"
  by (simp add: from_to o_def)

lemma map_to_from: "map conv_to (map conv_from ys) = ys"
  by (simp add: to_from o_def)

lemma to_inject: "conv_to x = conv_to x' \<longleftrightarrow> x = x'"
  by (metis from_to)

lemma from_inject: "conv_from y = conv_from y' \<longleftrightarrow> y = y'"
  by (metis to_from)

lemma to_eq_iff: "conv_to x = y \<longleftrightarrow> x = conv_from y"
  by (metis from_to to_from)

end

end
