(* ===== verification/K8s.thy ===== *)
theory K8s
  imports Prelude
begin

text \<open>
  The Kubernetes API objects the operator reads and writes. These Go types are declared in
  \<open>k8s.io/api\<close> and \<open>k8s.io/apimachinery\<close>, not in the operator's repository: only their shape is
  fixed here, field by field where the operator touches a field, with the remaining content of
  an object carried in an opaque \<open>...Other\<close> field. No Kubernetes code is modelled; the library
  functions and the API server are parameters of the definitions that use them
  (theory Env).
\<close>

section \<open>Metadata and conditions\<close>

type_synonym ConditionStatus = string
type_synonym time = nat

abbreviation ConditionTrue :: ConditionStatus where "ConditionTrue \<equiv> ''True''"
abbreviation ConditionFalse :: ConditionStatus where "ConditionFalse \<equiv> ''False''"
abbreviation ConditionUnknown :: ConditionStatus where "ConditionUnknown \<equiv> ''Unknown''"

record Condition =
  cType :: string
  cStatus :: ConditionStatus
  cReason :: string
  cMessage :: string
  cObservedGeneration :: int
  cLastTransitionTime :: time

record OwnerReference =
  orAPIVersion :: string
  orKind :: string
  orName :: string
  orUID :: string
  orController :: "bool option"

record ObjectMeta =
  omName :: string
  omNamespace :: string
  omUID :: string
  omResourceVersion :: string
  omGeneration :: int
  omDeletionTimestamp :: "time option"
  omLabels :: gomap
  omAnnotations :: gomap
  omOwnerReferences :: "OwnerReference list"

record LabelSelector =
  lsMatchLabels :: "(string \<times> string) list"
  lsMatchExpressions :: "string list"

datatype IntOrString = IntVal int | StrVal string

section \<open>Containers and pods\<close>

record KeySelector =
  ksName :: string
  ksKey :: string
  ksOptional :: "bool option"

record EnvVarSource =
  evsConfigMapKeyRef :: "KeySelector option"
  evsSecretKeyRef :: "KeySelector option"
  evsOther :: string

record EnvVar =
  evName :: string
  evValue :: string
  evValueFrom :: "EnvVarSource option"

record EnvSource =
  esName :: string
  esOptional :: "bool option"

record EnvFromSource =
  efPrefix :: string
  efConfigMapRef :: "EnvSource option"
  efSecretRef :: "EnvSource option"

record ConfigMapVolumeSource =
  cmvName :: string
  cmvOptional :: "bool option"
  cmvOther :: string

record SecretVolumeSource =
  svSecretName :: string
  svOptional :: "bool option"
  svOther :: string

record EmptyDirVolumeSource =
  edOther :: string

record Capabilities =
  capAdd :: "string list"
  capDrop :: "string list"

record PodSecurityContext =
  pscRunAsNonRoot :: "bool option"
  pscRunAsUser :: "int option"
  pscOther :: string

record SecurityContext =
  scPrivileged :: "bool option"
  scAllowPrivilegeEscalation :: "bool option"
  scReadOnlyRootFilesystem :: "bool option"
  scRunAsNonRoot :: "bool option"
  scRunAsUser :: "int option"
  scCapabilities :: "Capabilities option"
  scSeccompProfile :: "string option"
  scOther :: string

text \<open>A quantity is kept as the text \<open>resource.MustParse\<close> is applied to.\<close>

record ResourceRequirements =
  rrRequests :: "(string \<times> string) list"
  rrLimits :: "(string \<times> string) list"
  rrOther :: string

datatype ProbeHandler = TCPSocket IntOrString | OtherHandler string

record Probe =
  prHandler :: ProbeHandler
  prFailureThreshold :: int
  prPeriodSeconds :: int
  prSuccessThreshold :: int
  prTimeoutSeconds :: int
  prOther :: string

record ContainerPort =
  cpName :: string
  cpContainerPort :: int
  cpProtocol :: string

record VolumeMount =
  vmName :: string
  vmMountPath :: string
  vmReadOnly :: bool
  vmRecursiveReadOnly :: "string option"

record Volume =
  volName :: string
  volConfigMap :: "ConfigMapVolumeSource option"
  volSecret :: "SecretVolumeSource option"
  volEmptyDir :: "EmptyDirVolumeSource option"

record Container =
  ctName :: string
  ctImage :: string
  ctImagePullPolicy :: string
  ctPorts :: "ContainerPort list"
  ctArgs :: "string list"
  ctEnv :: "EnvVar list"
  ctEnvFrom :: "EnvFromSource list"
  ctSecurityContext :: "SecurityContext option"
  ctResources :: ResourceRequirements
  ctLivenessProbe :: "Probe option"
  ctReadinessProbe :: "Probe option"
  ctVolumeMounts :: "VolumeMount list"
  ctOther :: string

record PodSpec =
  psContainers :: "Container list"
  psImagePullSecrets :: "string list"
  psVolumes :: "Volume list"
  psServiceAccountName :: string
  psSecurityContext :: "PodSecurityContext option"
  psOther :: string

record ContainerStateWaiting =
  cswReason :: string
  cswMessage :: string

record ContainerStateTerminated =
  cstReason :: string
  cstExitCode :: int

record ContainerState =
  csWaiting :: "ContainerStateWaiting option"
  csRunning :: bool
  csTerminated :: "ContainerStateTerminated option"

record ContainerStatus =
  cnsName :: string
  cnsImage :: string
  cnsReady :: bool
  cnsRestartCount :: int
  cnsState :: ContainerState
  cnsLastTerminationState :: ContainerState

record Pod =
  podMeta :: ObjectMeta
  podInitContainerStatuses :: "ContainerStatus list"
  podContainerStatuses :: "ContainerStatus list"

section \<open>Workloads\<close>

record DeploymentCondition =
  dcType :: string
  dcStatus :: string
  dcMessage :: string

record DeploymentStatus =
  dsConditions :: "DeploymentCondition list"
  dsReadyReplicas :: int
  dsObservedGeneration :: int

record Deployment =
  depMeta :: ObjectMeta
  depReplicas :: "int option"
  depSelector :: "LabelSelector option"
  depTemplateLabels :: gomap
  depTemplateAnnotations :: gomap
  depPodSpec :: PodSpec
  depStatus :: DeploymentStatus

record DaemonSet =
  dmnMeta :: ObjectMeta
  dmnSelector :: "LabelSelector option"
  dmnDesiredNumberScheduled :: int
  dmnCurrentNumberScheduled :: int
  dmnNumberReady :: int
  dmnNumberAvailable :: int
  dmnNumberUnavailable :: int
  dmnObservedGeneration :: int

record StatefulSet =
  stsMeta :: ObjectMeta
  stsReplicas :: "int option"
  stsSelector :: "LabelSelector option"
  stsReadyReplicas :: int
  stsAvailableReplicas :: int
  stsUpdatedReplicas :: int
  stsObservedGeneration :: int

section \<open>Networking, configuration and namespaces\<close>

record ServicePort =
  spName :: string
  spPort :: int
  spTargetPort :: IntOrString
  spProtocol :: string

record Service =
  svcMeta :: ObjectMeta
  svcType :: string
  svcSelector :: gomap
  svcPorts :: "ServicePort list"
  svcSessionAffinity :: string
  svcOther :: string

record IPBlock =
  ipbCIDR :: string
  ipbExcept :: "string list"

record NetworkPolicyPeer =
  nppPodSelector :: "LabelSelector option"
  nppNamespaceSelector :: "LabelSelector option"
  nppIPBlock :: "IPBlock option"

record NetworkPolicyPort =
  nptProtocol :: "string option"
  nptPort :: "IntOrString option"
  nptEndPort :: "int option"

record NetworkPolicyIngressRule =
  inPorts :: "NetworkPolicyPort list"
  inFrom :: "NetworkPolicyPeer list"

record NetworkPolicyEgressRule =
  egPorts :: "NetworkPolicyPort list"
  egTo :: "NetworkPolicyPeer list"

record NetworkPolicySpec =
  npsPodSelector :: LabelSelector
  npsPolicyTypes :: "string list"
  npsIngress :: "NetworkPolicyIngressRule list"
  npsEgress :: "NetworkPolicyEgressRule list"

record NetworkPolicy =
  npMeta :: ObjectMeta
  npSpec :: NetworkPolicySpec

record ConfigMap =
  cmMeta :: ObjectMeta
  cmData :: "(string \<times> string) list"
  cmBinaryData :: "(string \<times> string) list"

record Secret =
  secMeta :: ObjectMeta
  secData :: "(string \<times> string) list"

record Namespace =
  nsMeta :: ObjectMeta

end
