(* ===== verification/Types.thy ===== *)
theory Types
  imports K8s
begin

text \<open>
  The operator's own API types, version \<open>v1beta1\<close> (the hub and storage version):
  \<open>api/v1beta1/mcpserver_types.go\<close>, and the \<open>MCPGatewayBinding\<close> of
  \<open>api/v1alpha1/mcpgatewaybinding_types.go\<close>. One record per struct with the source's fields; the
  Go string enumerations stay strings, because the code has default branches for values outside
  them. The invariants that the CRD markers of these structs impose on stored objects (the CEL
  rules of \<open>MCPServerSpec\<close>) are the predicate \<open>spec_admitted\<close>.
\<close>

section \<open>Enumerations\<close>

type_synonym WorkloadKind = string

abbreviation WorkloadKindDeployment :: WorkloadKind where "WorkloadKindDeployment \<equiv> ''Deployment''"
abbreviation WorkloadKindDaemonSet :: WorkloadKind where "WorkloadKindDaemonSet \<equiv> ''DaemonSet''"
abbreviation WorkloadKindStatefulSet :: WorkloadKind where "WorkloadKindStatefulSet \<equiv> ''StatefulSet''"

type_synonym SourceType = string

abbreviation SourceTypeContainerImage :: SourceType where "SourceTypeContainerImage \<equiv> ''ContainerImage''"

type_synonym StorageType = string

abbreviation StorageTypeConfigMap :: StorageType where "StorageTypeConfigMap \<equiv> ''ConfigMap''"
abbreviation StorageTypeSecret :: StorageType where "StorageTypeSecret \<equiv> ''Secret''"
abbreviation StorageTypeEmptyDir :: StorageType where "StorageTypeEmptyDir \<equiv> ''EmptyDir''"

type_synonym MountPermissions = string

abbreviation MountPermissionsReadOnly :: MountPermissions where "MountPermissionsReadOnly \<equiv> ''ReadOnly''"
abbreviation MountPermissionsReadWrite :: MountPermissions where "MountPermissionsReadWrite \<equiv> ''ReadWrite''"
abbreviation MountPermissionsRecursiveReadOnly :: MountPermissions where "MountPermissionsRecursiveReadOnly \<equiv> ''RecursiveReadOnly''"

section \<open>Specification\<close>

record WorkloadReference =
  wrName :: string
  wrKind :: WorkloadKind

record ServiceReference =
  srName :: string

record ContainerImageSource =
  cisRef :: string
  cisPullPolicy :: string
  cisImagePullSecrets :: "string list"

record Source =
  srcType :: SourceType
  srcContainerImage :: "ContainerImageSource option"

record StorageSource =
  ssType :: StorageType
  ssConfigMap :: "ConfigMapVolumeSource option"
  ssSecret :: "SecretVolumeSource option"
  ssEmptyDir :: "EmptyDirVolumeSource option"

record StorageMount =
  smPath :: string
  smPermissions :: MountPermissions
  smSource :: StorageSource

record ServerConfig =
  cfgPort :: int
  cfgArguments :: "string list"
  cfgEnv :: "EnvVar list"
  cfgEnvFrom :: "EnvFromSource list"
  cfgStorage :: "StorageMount list"
  cfgPath :: string

record SecurityConfig =
  secServiceAccountName :: string
  secPodSecurityContext :: "PodSecurityContext option"
  secSecurityContext :: "SecurityContext option"

record HealthConfig =
  hcLivenessProbe :: "Probe option"
  hcReadinessProbe :: "Probe option"

record RuntimeConfig =
  rtReplicas :: "int option"
  rtSecurity :: SecurityConfig
  rtResources :: "ResourceRequirements option"
  rtHealth :: HealthConfig

record NetworkConfig =
  netIngressFrom :: "NetworkPolicyPeer list"
  netEgressTo :: "NetworkPolicyPeer list"
  netEgressPorts :: "NetworkPolicyPort list"
  netDNSEgressPeer :: "NetworkPolicyPeer option"

record GatewaySpec =
  gwProvider :: string
  gwConfigRef :: string

record SecretReference =
  secrefName :: string

record TLSClientConfig =
  tlsEnabled :: bool
  tlsCABundleSecret :: "SecretReference option"
  tlsInsecureSkipVerify :: bool

record TransportConfig =
  trTLS :: "TLSClientConfig option"

record MCPConfig =
  mcpStateless :: "bool option"

record MCPServerSpec =
  spExtraLabels :: gomap
  spExtraAnnotations :: gomap
  spWorkloadRef :: "WorkloadReference option"
  spServiceRef :: "ServiceReference option"
  spSource :: Source
  spConfig :: ServerConfig
  spRuntime :: RuntimeConfig
  spMCP :: MCPConfig
  spNetwork :: "NetworkConfig option"
  spTransport :: "TransportConfig option"
  spGateway :: "GatewaySpec option"

section \<open>Status\<close>

record MCPServerAddress =
  addrURL :: string

record MCPServerCapabilities =
  capTools :: bool
  capResources :: bool
  capPrompts :: bool
  capLogging :: bool
  capCompletions :: bool

record MCPServerInfo =
  siName :: string
  siVersion :: string
  siProtocolVersion :: string
  siInstructions :: string
  siCapabilities :: "MCPServerCapabilities option"

record GatewayBindingStatus =
  gbsName :: string
  gbsProvider :: string

record MCPServerStatus =
  stObservedGeneration :: int
  stDeploymentName :: string
  stServiceName :: string
  stWorkloadName :: string
  stWorkloadSummary :: string
  stGatewayBinding :: "GatewayBindingStatus option"
  stAddress :: "MCPServerAddress option"
  stServerInfo :: "MCPServerInfo option"
  stReplicas :: int
  stReadyReplicas :: int
  stConditions :: "Condition list"

record MCPServer =
  msMeta :: ObjectMeta
  msSpec :: MCPServerSpec
  msStatus :: MCPServerStatus

text \<open>\<open>GroupVersion\<close> and the kind of the API (\<open>groupversion_info.go\<close>).\<close>

abbreviation MCPGroup :: string where "MCPGroup \<equiv> ''mcp.x-k8s.io''"
abbreviation MCPServerKind :: string where "MCPServerKind \<equiv> ''MCPServer''"

section \<open>Gateway bindings\<close>

record MCPGatewayBindingSpec =
  gbMCPServerRef :: string
  gbProvider :: string
  gbConfigRef :: string

record MCPGatewayBindingStatus =
  gbURL :: string
  gbConditions :: "Condition list"

record MCPGatewayBinding =
  gbMeta :: ObjectMeta
  gbSpec :: MCPGatewayBindingSpec
  gbStatus :: MCPGatewayBindingStatus

section \<open>Shorthands\<close>

abbreviation srvName :: "MCPServer \<Rightarrow> string" where "srvName m \<equiv> omName (msMeta m)"
abbreviation srvNamespace :: "MCPServer \<Rightarrow> string" where "srvNamespace m \<equiv> omNamespace (msMeta m)"
abbreviation srvUID :: "MCPServer \<Rightarrow> string" where "srvUID m \<equiv> omUID (msMeta m)"
abbreviation srvGeneration :: "MCPServer \<Rightarrow> int" where "srvGeneration m \<equiv> omGeneration (msMeta m)"
abbreviation srvConditions :: "MCPServer \<Rightarrow> Condition list" where "srvConditions m \<equiv> stConditions (msStatus m)"

section \<open>Zero values\<close>

definition zero_meta :: ObjectMeta where
  "zero_meta = \<lparr>omName = [], omNamespace = [], omUID = [], omResourceVersion = [], omGeneration = 0,
     omDeletionTimestamp = None, omLabels = None, omAnnotations = None, omOwnerReferences = []\<rparr>"

definition zero_config :: ServerConfig where
  "zero_config = \<lparr>cfgPort = 0, cfgArguments = [], cfgEnv = [], cfgEnvFrom = [], cfgStorage = [], cfgPath = []\<rparr>"

definition zero_runtime :: RuntimeConfig where
  "zero_runtime = \<lparr>rtReplicas = None,
     rtSecurity = \<lparr>secServiceAccountName = [], secPodSecurityContext = None, secSecurityContext = None\<rparr>,
     rtResources = None, rtHealth = \<lparr>hcLivenessProbe = None, hcReadinessProbe = None\<rparr>\<rparr>"

definition zero_spec :: MCPServerSpec where
  "zero_spec = \<lparr>spExtraLabels = None, spExtraAnnotations = None, spWorkloadRef = None, spServiceRef = None,
     spSource = \<lparr>srcType = [], srcContainerImage = None\<rparr>, spConfig = zero_config, spRuntime = zero_runtime,
     spMCP = \<lparr>mcpStateless = None\<rparr>, spNetwork = None, spTransport = None, spGateway = None\<rparr>"

definition zero_status :: MCPServerStatus where
  "zero_status = \<lparr>stObservedGeneration = 0, stDeploymentName = [], stServiceName = [], stWorkloadName = [],
     stWorkloadSummary = [], stGatewayBinding = None, stAddress = None, stServerInfo = None,
     stReplicas = 0, stReadyReplicas = 0, stConditions = []\<rparr>"

definition zero_server :: MCPServer where
  "zero_server = \<lparr>msMeta = zero_meta, msSpec = zero_spec, msStatus = zero_status\<rparr>"

lemmas zero_defs = zero_meta_def zero_config_def zero_runtime_def zero_spec_def zero_status_def zero_server_def

section \<open>What admission guarantees of a stored specification\<close>

text \<open>
  The CEL rules on \<open>MCPServerSpec\<close>. With \<open>omitzero\<close> and \<open>omitempty\<close> a field is present
  (\<open>has\<close>) exactly when it is not its zero value.
\<close>

definition spec_admitted :: "MCPServerSpec \<Rightarrow> bool" where
  "spec_admitted sp \<longleftrightarrow>
     (let byo = (spWorkloadRef sp \<noteq> None); ext = (spServiceRef sp \<noteq> None);
          src = (spSource sp \<noteq> spSource zero_spec)
      in (byo \<longrightarrow> \<not> src)
       \<and> (byo \<or> src)
       \<and> (byo \<longrightarrow> cfgStorage (spConfig sp) = [] \<and> cfgEnv (spConfig sp) = []
                 \<and> cfgEnvFrom (spConfig sp) = [] \<and> cfgArguments (spConfig sp) = [])
       \<and> (byo \<longrightarrow> spRuntime sp = zero_runtime)
       \<and> (byo \<longrightarrow> spNetwork sp = None)
       \<and> (ext \<longrightarrow> mcpStateless (spMCP sp) = None)
       \<and> (byo \<and> ext \<or> cfgPort (spConfig sp) \<noteq> 0)
       \<and> (byo \<and> ext \<longrightarrow> gm_len (spExtraLabels sp) = 0 \<and> gm_len (spExtraAnnotations sp) = 0))"

end
