(* ===== verification/AlphaTypes.thy ===== *)
theory AlphaTypes
  imports Types
begin

text \<open>
  The deprecated API version \<open>v1alpha1\<close> (\<open>api/v1alpha1/mcpserver_types.go\<close>). Every struct is a
  type of its own, as in Go, so that the conversion functions have to copy field by field; the
  records carry the suffix \<open>A\<close>. The specification has no \<open>workloadRef\<close>, \<open>serviceRef\<close> and
  \<open>gateway\<close>; the status has \<open>handshakeRetryCount\<close> and a \<open>Ready\<close> condition in place of
  \<open>Available\<close> and \<open>Verified\<close>.
\<close>

record ContainerImageSourceA =
  cisRefA :: string
  cisPullPolicyA :: string
  cisImagePullSecretsA :: "string list"

record SourceA =
  srcTypeA :: string
  srcContainerImageA :: "ContainerImageSourceA option"

record StorageSourceA =
  ssTypeA :: string
  ssConfigMapA :: "ConfigMapVolumeSource option"
  ssSecretA :: "SecretVolumeSource option"
  ssEmptyDirA :: "EmptyDirVolumeSource option"

record StorageMountA =
  smPathA :: string
  smPermissionsA :: string
  smSourceA :: StorageSourceA

record ServerConfigA =
  cfgPortA :: int
  cfgArgumentsA :: "string list"
  cfgEnvA :: "EnvVar list"
  cfgEnvFromA :: "EnvFromSource list"
  cfgStorageA :: "StorageMountA list"
  cfgPathA :: string

record SecurityConfigA =
  secServiceAccountNameA :: string
  secPodSecurityContextA :: "PodSecurityContext option"
  secSecurityContextA :: "SecurityContext option"

record HealthConfigA =
  hcLivenessProbeA :: "Probe option"
  hcReadinessProbeA :: "Probe option"

record RuntimeConfigA =
  rtReplicasA :: "int option"
  rtSecurityA :: SecurityConfigA
  rtResourcesA :: "ResourceRequirements option"
  rtHealthA :: HealthConfigA

record NetworkConfigA =
  netIngressFromA :: "NetworkPolicyPeer list"
  netEgressToA :: "NetworkPolicyPeer list"
  netEgressPortsA :: "NetworkPolicyPort list"
  netDNSEgressPeerA :: "NetworkPolicyPeer option"

record SecretReferenceA =
  secrefNameA :: string

record TLSClientConfigA =
  tlsEnabledA :: bool
  tlsCABundleSecretA :: "SecretReferenceA option"
  tlsInsecureSkipVerifyA :: bool

record TransportConfigA =
  trTLSA :: "TLSClientConfigA option"

record MCPConfigA =
  mcpStatelessA :: "bool option"

record MCPServerSpecA =
  spExtraLabelsA :: gomap
  spExtraAnnotationsA :: gomap
  spSourceA :: SourceA
  spConfigA :: ServerConfigA
  spRuntimeA :: RuntimeConfigA
  spMCPA :: MCPConfigA
  spNetworkA :: "NetworkConfigA option"
  spTransportA :: "TransportConfigA option"

record MCPServerAddressA =
  addrURLA :: string

record MCPServerCapabilitiesA =
  capToolsA :: bool
  capResourcesA :: bool
  capPromptsA :: bool
  capLoggingA :: bool
  capCompletionsA :: bool

record MCPServerInfoA =
  siNameA :: string
  siVersionA :: string
  siProtocolVersionA :: string
  siInstructionsA :: string
  siCapabilitiesA :: "MCPServerCapabilitiesA option"

record MCPServerStatusA =
  stObservedGenerationA :: int
  stDeploymentNameA :: string
  stServiceNameA :: string
  stAddressA :: "MCPServerAddressA option"
  stServerInfoA :: "MCPServerInfoA option"
  stHandshakeRetryCountA :: int
  stReplicasA :: int
  stReadyReplicasA :: int
  stConditionsA :: "Condition list"

record MCPServerA =
  msMetaA :: ObjectMeta
  msSpecA :: MCPServerSpecA
  msStatusA :: MCPServerStatusA

end
