(* ===== verification/GatewayTypes.thy ===== *)
theory GatewayTypes
  imports Types
begin

text \<open>
  The objects of the gateway providers: what they use of the Gateway API (\<open>sigs.k8s.io/gateway-api\<close>), and the Kuadrant types that the
  repository declares itself (\<open>internal/controller/providers/kuadrant/api/types.go\<close>). Fields of a route that the
  providers never set are kept as one text, so that a difference there still counts.
\<close>

section \<open>The Gateway API\<close>

record ParentReference =
  prGroup :: "string option"
  prKind :: "string option"
  prName :: string
  prNamespace :: "string option"
  prSectionName :: "string option"

record RouteParentStatus =
  rpsParentRef :: ParentReference
  rpsConditions :: "Condition list"

record HTTPPathMatch =
  pmType :: "string option"
  pmValue :: "string option"

record HTTPBackendRef =
  brGroup :: "string option"
  brKind :: "string option"
  brName :: string
  brPort :: "int option"
  brWeight :: "int option"

record HTTPRouteRule =
  ruleMatches :: "HTTPPathMatch list"
  ruleBackendRefs :: "HTTPBackendRef list"

record HTTPRouteSpec =
  hrsParentRefs :: "ParentReference list"
  hrsHostnames :: "string list"
  hrsRules :: "HTTPRouteRule list"
  hrsOther :: string

record HTTPRoute =
  hrMeta :: ObjectMeta
  hrSpec :: HTTPRouteSpec
  hrParents :: "RouteParentStatus list"

record Listener =
  lnName :: string
  lnProtocol :: string
  lnHostname :: "string option"

record GatewayStatusAddress =
  gsaType :: "string option"
  gsaValue :: string

record GatewayObject =
  goMeta :: ObjectMeta
  goListeners :: "Listener list"
  goAddresses :: "GatewayStatusAddress list"

section \<open>Kuadrant\<close>

record TargetReference =
  tgtGroup :: string
  tgtKind :: string
  tgtName :: string
  tgtNamespace :: string
  tgtSectionName :: string

record MCPServerRegistrationSpec =
  mrsTargetRef :: TargetReference
  mrsPrefix :: string
  mrsPath :: string
  mrsState :: string

record MCPServerRegistrationStatus =
  mrstConditions :: "Condition list"

record MCPServerRegistration =
  mrMeta :: ObjectMeta
  mrSpec :: MCPServerRegistrationSpec
  mrStatus :: MCPServerRegistrationStatus

record MCPGatewayExtensionSpec =
  gesPublicHost :: string
  gesTargetRef :: TargetReference

record MCPGatewayExtensionStatus =
  gestConditions :: "Condition list"

record MCPGatewayExtension =
  geMeta :: ObjectMeta
  geSpec :: MCPGatewayExtensionSpec
  geStatus :: MCPGatewayExtensionStatus

end
