(* ===== verification/Env.thy ===== *)
theory Env
  imports GatewayTypes
begin

text \<open>
  What surrounds the operator's code.

  \<^item> \<open>go_error\<close>: Go error values, with the wrapping of \<open>fmt.Errorf("...%w", err)\<close>.
  \<^item> \<open>K8sLib\<close>: the library functions of \<open>k8s.io/apimachinery\<close>, \<open>controller-runtime\<close> and the MCP
    client that the code calls. They are not part of the repository, so they are a parameter \<open>K\<close> of
    every definition that uses one; the documented laws a theorem needs are the named predicates
    at the end of this theory.
    \<open>jsonErrorText\<close> is the wording of a decoding error of \<open>encoding/json\<close>, which is only ever put in messages.
  \<^item> \<open>Api\<close>: the API server (through the cached client and through \<open>APIReader\<close>), the MCP endpoint
    and the clock, as a parameter \<open>A\<close>. Every call may fail and may change the world
    \<open>'w\<close>, so whatever other clients do between two calls of the operator is covered.
  \<^item> \<open>rstate\<close>: the reconciler's own state: the world, the two in-memory maps of
    \<open>MCPServerReconciler\<close>, and the trace of everything the operator has sent out (requests that
    change the cluster, events, counters, audit records), in order.
\<close>

section \<open>Errors\<close>

datatype go_error =
    ApiError string string
  | ValidationError string string
  | OwnershipConflictError string
  | ErrorString string
  | Wrap string go_error

fun errText :: "go_error \<Rightarrow> string" where
  "errText (ApiError r t) = t"
| "errText (ValidationError r m) = m"
| "errText (OwnershipConflictError m) = m"
| "errText (ErrorString m) = m"
| "errText (Wrap m e) = m @ errText e"

text \<open>\<open>errors.AsType[*ValidationError](err)\<close> follows the chain of wrapped errors.\<close>

fun asValidationError :: "go_error \<Rightarrow> (string \<times> string) option" where
  "asValidationError (ValidationError r m) = Some (r, m)"
| "asValidationError (Wrap m e) = asValidationError e"
| "asValidationError _ = None"

fun isOwnershipConflict :: "go_error \<Rightarrow> bool" where
  "isOwnershipConflict (OwnershipConflictError m) = True"
| "isOwnershipConflict (Wrap m e) = isOwnershipConflict e"
| "isOwnershipConflict _ = False"

section \<open>Library functions\<close>

text \<open>The dynamic types that \<open>equality.Semantic\<close> is applied to.\<close>

datatype iface =
    IStrings "string list"
  | IStringMap gomap
  | IEnv "EnvVar list"
  | IEnvFrom "EnvFromSource list"
  | IPodSecurity "PodSecurityContext option"
  | ISecurity "SecurityContext option"
  | IVolumes "Volume list"
  | IVolumeMounts "VolumeMount list"
  | IResources ResourceRequirements
  | IContainerPorts "ContainerPort list"
  | IProbe "Probe option"
  | IInt32Ptr "int option"
  | IPodSpec PodSpec
  | IServicePorts "ServicePort list"
  | INetworkPolicySpec NetworkPolicySpec
  | IBindingSpec MCPGatewayBindingSpec

record K8sLib =
  findStatusCondition :: "Condition list \<Rightarrow> string \<Rightarrow> Condition option"
  isNotFound :: "go_error \<Rightarrow> bool"
  isConflict :: "go_error \<Rightarrow> bool"
  isBadRequest :: "go_error \<Rightarrow> bool"
  getControllerOf :: "ObjectMeta \<Rightarrow> OwnerReference option"
  setControllerReference :: "MCPServer \<Rightarrow> ObjectMeta \<Rightarrow> go_error + ObjectMeta"
  parseGroupVersion :: "string \<Rightarrow> (string \<times> string) option"
  objectKinds :: "string \<Rightarrow> string list"
  isValidPortName :: "string \<Rightarrow> string list"
  labelSelectorAsSelector :: "LabelSelector \<Rightarrow> go_error option"
  semanticDeepEqual :: "iface \<Rightarrow> iface \<Rightarrow> bool"
  semanticDeepDerivative :: "iface \<Rightarrow> iface \<Rightarrow> bool"
  appendCertsFromPEM :: "string \<Rightarrow> bool"
  sha256hex :: "string \<Rightarrow> string"
  jsonErrorText :: "string \<Rightarrow> string"

section \<open>The API server, the MCP endpoint and the clock\<close>

text \<open>The TLS settings of the \<open>http.Transport\<close> handed to the MCP dialer.\<close>

record TLSTransport =
  ttMinVersion :: nat
  ttInsecureSkipVerify :: bool
  ttRootCAs :: "string option"
  ttCipherSuites :: "nat list"
  ttCurvePreferences :: "nat list"

text \<open>
  What the MCP client of the go-sdk returns for a session: \<open>InitializeResult\<close> with the implementation's
  name and version. A capability is a pointer to an object whose content the operator does not read.
\<close>

record ServerCapabilities =
  sdkTools :: "string option"
  sdkResources :: "string option"
  sdkPrompts :: "string option"
  sdkLogging :: "string option"
  sdkCompletions :: "string option"

record InitializeResult =
  irProtocolVersion :: string
  irInstructions :: string
  irServerInfo :: "(string \<times> string) option"
  irCapabilities :: "ServerCapabilities option"

text \<open>
  \<open>MCPServerStatusApplyConfiguration\<close>: the status the operator sends by server-side apply. A field
  that is not set is not owned by the operator's field manager after the apply; the
  conditions are appended by every \<open>WithConditions\<close>.
\<close>

record StatusAC =
  acObservedGeneration :: "int option"
  acDeploymentName :: "string option"
  acServiceName :: "string option"
  acWorkloadName :: "string option"
  acWorkloadSummary :: "string option"
  acGatewayBinding :: "GatewayBindingStatus option"
  acAddress :: "MCPServerAddress option"
  acServerInfo :: "MCPServerInfo option"
  acReplicas :: "int option"
  acReadyReplicas :: "int option"
  acConditions :: "Condition list"

type_synonym ('w, 'a) apicall = "'w \<Rightarrow> (go_error + 'a) \<times> 'w"

record 'w Api =
  getMCPServer :: "string \<Rightarrow> string \<Rightarrow> ('w, MCPServer) apicall"
  getNamespace :: "string \<Rightarrow> ('w, Namespace) apicall"
  getDeployment :: "string \<Rightarrow> string \<Rightarrow> ('w, Deployment) apicall"
  getService :: "string \<Rightarrow> string \<Rightarrow> ('w, Service) apicall"
  getNetworkPolicy :: "string \<Rightarrow> string \<Rightarrow> ('w, NetworkPolicy) apicall"
  getBinding :: "string \<Rightarrow> string \<Rightarrow> ('w, MCPGatewayBinding) apicall"
  listPods :: "string \<Rightarrow> LabelSelector \<Rightarrow> ('w, Pod list) apicall"
  listMCPServers :: "string \<Rightarrow> string \<Rightarrow> string \<Rightarrow> ('w, MCPServer list) apicall"
  readConfigMap :: "string \<Rightarrow> string \<Rightarrow> ('w, ConfigMap) apicall"
  readSecret :: "string \<Rightarrow> string \<Rightarrow> ('w, Secret) apicall"
  readService :: "string \<Rightarrow> string \<Rightarrow> ('w, Service) apicall"
  readDeployment :: "string \<Rightarrow> string \<Rightarrow> ('w, Deployment) apicall"
  readDaemonSet :: "string \<Rightarrow> string \<Rightarrow> ('w, DaemonSet) apicall"
  readStatefulSet :: "string \<Rightarrow> string \<Rightarrow> ('w, StatefulSet) apicall"
  createDeploymentApi :: "Deployment \<Rightarrow> ('w, Deployment) apicall"
  updateDeploymentApi :: "Deployment \<Rightarrow> ('w, Deployment) apicall"
  createServiceApi :: "Service \<Rightarrow> ('w, Service) apicall"
  updateServiceApi :: "Service \<Rightarrow> ('w, Service) apicall"
  deleteServiceApi :: "Service \<Rightarrow> string option \<Rightarrow> string option \<Rightarrow> ('w, unit) apicall"
  createNetworkPolicyApi :: "NetworkPolicy \<Rightarrow> ('w, NetworkPolicy) apicall"
  updateNetworkPolicyApi :: "NetworkPolicy \<Rightarrow> ('w, NetworkPolicy) apicall"
  createBindingApi :: "MCPGatewayBinding \<Rightarrow> ('w, MCPGatewayBinding) apicall"
  updateBindingApi :: "MCPGatewayBinding \<Rightarrow> ('w, MCPGatewayBinding) apicall"
  deleteBindingApi :: "MCPGatewayBinding \<Rightarrow> ('w, unit) apicall"
  applyStatusApi :: "string \<Rightarrow> string \<Rightarrow> StatusAC \<Rightarrow> ('w, unit) apicall"
  dialMCP :: "string \<Rightarrow> TLSTransport option \<Rightarrow> ('w, InitializeResult option) apicall"
  nowApi :: "'w \<Rightarrow> time \<times> 'w"

section \<open>The reconciler's configuration and state\<close>

record Reconciler =
  rHasRecorder :: bool
  rTLSEnvVars :: "EnvVar list"
  rTLSProfile :: "(TLSTransport \<Rightarrow> TLSTransport) option"
  rPosture :: string
  rOperatorNamespace :: string
  rOperatorPodLabels :: "(string \<times> string) list"
  rWebhookEnabled :: bool
  rAdmissionPolicyActive :: bool

record handshakeRetryState =
  hrsGeneration :: int
  hrsCount :: "32 word"

datatype effect =
    EEvent string string string string
  | ECreateDeployment Deployment
  | EUpdateDeployment Deployment
  | ECreateService Service
  | EUpdateService Service
  | EDeleteService Service "string option" "string option"
  | ECreateNetworkPolicy NetworkPolicy
  | EUpdateNetworkPolicy NetworkPolicy
  | ECreateBinding MCPGatewayBinding
  | EUpdateBinding MCPGatewayBinding
  | EDeleteBinding MCPGatewayBinding
  | EApplyStatus string string StatusAC
  | EDial string "TLSTransport option"
  | EMetric string "(string \<times> string) list"
  | EAudit string "(string \<times> string) list"
  | ECreateRoute HTTPRoute
  | EUpdateRoute HTTPRoute
  | EDeleteRoute HTTPRoute
  | ECreateRegistration MCPServerRegistration
  | EUpdateRegistration MCPServerRegistration
  | EDeleteRegistration MCPServerRegistration
  | EPatchBinding MCPGatewayBinding
  | EBindingStatus MCPGatewayBinding

record 'w rstate =
  world :: 'w
  tlsCABundleHashes :: "string \<rightharpoonup> string"
  handshakeRetries :: "string \<rightharpoonup> handshakeRetryState"
  trace :: "effect list"

type_synonym ('w, 'a) M = "('w rstate, 'a) state"

definition call :: "('w \<Rightarrow> 'a \<times> 'w) \<Rightarrow> ('w, 'a) M" where
  "call f = State (\<lambda>s. case f (world s) of (r, w) \<Rightarrow> (r, s\<lparr>world := w\<rparr>))"

definition emit :: "effect \<Rightarrow> ('w, unit) M" where
  "emit e = State (\<lambda>s. ((), s\<lparr>trace := trace s @ [e]\<rparr>))"

text \<open>A request that changes the cluster is recorded, then answered by the API server.\<close>

definition request :: "effect \<Rightarrow> ('w, 'a) apicall \<Rightarrow> ('w, go_error + 'a) M" where
  "request e f = do { emit e; call f }"

definition loadHash :: "string \<Rightarrow> ('w, string option) M" where
  "loadHash k = State (\<lambda>s. (tlsCABundleHashes s k, s))"

definition storeHash :: "string \<Rightarrow> string option \<Rightarrow> ('w, unit) M" where
  "storeHash k v = State (\<lambda>s. ((), s\<lparr>tlsCABundleHashes := (tlsCABundleHashes s)(k := v)\<rparr>))"

definition loadRetry :: "string \<Rightarrow> ('w, handshakeRetryState option) M" where
  "loadRetry k = State (\<lambda>s. (handshakeRetries s k, s))"

definition storeRetry :: "string \<Rightarrow> handshakeRetryState option \<Rightarrow> ('w, unit) M" where
  "storeRetry k v = State (\<lambda>s. ((), s\<lparr>handshakeRetries := (handshakeRetries s)(k := v)\<rparr>))"

lemmas state_op_defs = call_def emit_def loadHash_def storeHash_def loadRetry_def storeRetry_def

section \<open>The documented laws of the library\<close>

text \<open>\<open>meta.FindStatusCondition\<close> returns the first condition of the given type, or nil.\<close>

definition find_law :: "K8sLib \<Rightarrow> bool" where
  "find_law K \<longleftrightarrow> (\<forall>cs t. findStatusCondition K cs t = List.find (\<lambda>c. cType c = t) cs)"

text \<open>\<open>metav1.GetControllerOf\<close> returns the owner reference with \<open>controller: true\<close>, or nil.\<close>

definition controller_law :: "K8sLib \<Rightarrow> bool" where
  "controller_law K \<longleftrightarrow>
     (\<forall>m. getControllerOf K m = List.find (\<lambda>o'. orController o' = Some True) (omOwnerReferences m))"

text \<open>\<open>equality.Semantic.DeepEqual\<close> is reflexive.\<close>

definition deep_equal_refl :: "K8sLib \<Rightarrow> bool" where
  "deep_equal_refl K \<longleftrightarrow> (\<forall>a. semanticDeepEqual K a a)"

text \<open>
  \<open>controllerutil.SetControllerReference\<close> changes only the owner references, and on success the
  object's controller is the given server.
\<close>

definition set_controller_law :: "K8sLib \<Rightarrow> bool" where
  "set_controller_law K \<longleftrightarrow>
     (\<forall>ms m m'. setControllerReference K ms m = Inr m' \<longrightarrow>
        m'\<lparr>omOwnerReferences := omOwnerReferences m\<rparr> = m \<and>
        (\<exists>r. getControllerOf K m' = Some r \<and> orUID r = srvUID ms \<and> orKind r = MCPServerKind \<and> orName r = srvName ms))"

section \<open>Triples for the primitive operations\<close>

lemma run_call: "run_state (call f) s = (let (r, w) = f (world s) in (r, s\<lparr>world := w\<rparr>))"
  by (simp add: call_def split: prod.splits)

lemma run_emit: "run_state (emit e) s = ((), s\<lparr>trace := trace s @ [e]\<rparr>)"
  by (simp add: emit_def)

lemma run_retry_hash:
  "run_state (loadHash k) s = (tlsCABundleHashes s k, s)"
  "run_state (storeHash k h) s = ((), s\<lparr>tlsCABundleHashes := (tlsCABundleHashes s)(k := h)\<rparr>)"
  "run_state (loadRetry k) s = (handshakeRetries s k, s)"
  "run_state (storeRetry k v) s = ((), s\<lparr>handshakeRetries := (handshakeRetries s)(k := v)\<rparr>)"
  by (simp_all add: loadHash_def storeHash_def loadRetry_def storeRetry_def)

lemmas run_ops = run_call run_emit run_retry_hash

text \<open>
  Most facts about the handlers are facts about what they send: a handler only ever appends to the
  trace, and every effect it appends satisfies \<open>G\<close>.
\<close>

definition emits :: "(effect \<Rightarrow> bool) \<Rightarrow> ('w, 'a) M \<Rightarrow> bool" where
  "emits G m \<longleftrightarrow> (\<forall>s. \<exists>es. trace (snd (run_state m s)) = trace s @ es \<and> list_all G es)"

lemma emitsI: "(\<And>s. \<exists>es. trace (snd (run_state m s)) = trace s @ es \<and> list_all G es) \<Longrightarrow> emits G m"
  by (simp add: emits_def)

lemma emitsD: "emits G m \<Longrightarrow> run_state m s = (r, s') \<Longrightarrow> \<exists>es. trace s' = trace s @ es \<and> list_all G es"
  by (metis emits_def snd_conv)

lemma emits_nothing: "emits (\<lambda>_. False) m \<Longrightarrow> trace (snd (run_state m s)) = trace s"
proof -
  assume "emits (\<lambda>_. False) m"
  then obtain es where "trace (snd (run_state m s)) = trace s @ es" "list_all (\<lambda>_. False) es"
    unfolding emits_def by blast
  then show ?thesis by (cases es) auto
qed

lemma emits_mono: "emits G m \<Longrightarrow> (\<And>e. G e \<Longrightarrow> H e) \<Longrightarrow> emits H m"
  unfolding emits_def by (metis list.pred_mono_strong)

lemma emits_return: "emits G (State_Monad.return x)"
  by (simp add: emits_def)

lemma emits_bind_value:
  assumes "emits G m" "valid (\<lambda>_. True) m (\<lambda>x _. Q x)" "\<And>x. Q x \<Longrightarrow> emits G (f x)"
  shows "emits G (State_Monad.bind m f)"
proof (rule emitsI)
  fix s
  obtain x s1 where m: "run_state m s = (x, s1)" by fastforce
  obtain y s2 where f: "run_state (f x) s1 = (y, s2)" by fastforce
  obtain es where es: "trace s1 = trace s @ es" "list_all G es" using emitsD[OF assms(1) m] by blast
  have "Q x" using validD[OF assms(2) _ m] by simp
  then obtain fs where fs: "trace s2 = trace s1 @ fs" "list_all G fs" using emitsD[OF assms(3) f] by blast
  from m f es fs show "\<exists>es. trace (snd (run_state (State_Monad.bind m f) s)) = trace s @ es \<and> list_all G es"
    by (intro exI[of _ "es @ fs"]) simp
qed

lemma emits_bind: "emits G m \<Longrightarrow> (\<And>x. emits G (f x)) \<Longrightarrow> emits G (State_Monad.bind m f)"
  by (rule emits_bind_value[where Q = "\<lambda>_. True"]) (simp_all add: valid_def split: prod.split)

lemma emits_call: "emits G (call f)"
  by (simp add: emits_def run_call split: prod.split)

text \<open>What a call returns is an answer of the API server in some world.\<close>

lemma call_value: "valid (\<lambda>_. True) (call f) (\<lambda>x _. \<exists>w w'. f w = (x, w'))"
  by (auto simp: valid_def run_call split: prod.splits)

lemma emits_emit: "G e \<Longrightarrow> emits G (emit e)"
  by (simp add: emits_def run_emit)

lemma emits_request: "G e \<Longrightarrow> emits G (request e f)"
  unfolding request_def by (intro emits_bind emits_emit emits_call)

lemma emits_maps:
  "emits G (loadHash k)" "emits G (storeHash k h)" "emits G (loadRetry k)" "emits G (storeRetry k v)"
  by (simp_all add: emits_def run_retry_hash)

lemma emits_if: "(b \<Longrightarrow> emits G m) \<Longrightarrow> (\<not> b \<Longrightarrow> emits G n) \<Longrightarrow> emits G (if b then m else n)"
  by simp

lemma emits_case:
  "(\<And>e. v = Inl e \<Longrightarrow> emits G (f e)) \<Longrightarrow> (\<And>x. v = Inr x \<Longrightarrow> emits G (g x)) \<Longrightarrow> emits G (case v of Inl e \<Rightarrow> f e | Inr x \<Rightarrow> g x)"
  "(u = None \<Longrightarrow> emits G m) \<Longrightarrow> (\<And>x. u = Some x \<Longrightarrow> emits G (h x)) \<Longrightarrow> emits G (case u of None \<Rightarrow> m | Some x \<Rightarrow> h x)"
  "(\<And>x y. p = (x, y) \<Longrightarrow> emits G (k x y)) \<Longrightarrow> emits G (case p of (x, y) \<Rightarrow> k x y)"
  by (simp_all split: sum.split option.split prod.split)

lemmas emits_rules = emits_return emits_bind emits_call emits_emit emits_request emits_maps

text \<open>\<open>yields m Q\<close>: whatever the state, the value that \<open>m\<close> returns satisfies \<open>Q\<close>.\<close>

abbreviation yields :: "('w, 'a) M \<Rightarrow> ('a \<Rightarrow> bool) \<Rightarrow> bool" where
  "yields m Q \<equiv> valid (\<lambda>_. True) m (\<lambda>x _. Q x)"

lemma yields_bind: "yields m P \<Longrightarrow> (\<And>x. P x \<Longrightarrow> yields (f x) Q) \<Longrightarrow> yields (State_Monad.bind m f) Q"
  by (fastforce simp: valid_def split: prod.splits)

lemma yields_any: "yields m (\<lambda>_. True)"
  by (simp add: valid_def split: prod.split)

lemma yields_return: "Q x \<Longrightarrow> yields (State_Monad.return x) Q"
  by (simp add: valid_def)

lemma yields_if: "(b \<Longrightarrow> yields m Q) \<Longrightarrow> (\<not> b \<Longrightarrow> yields n Q) \<Longrightarrow> yields (if b then m else n) Q"
  by simp

lemma yields_case:
  "(\<And>e. v = Inl e \<Longrightarrow> yields (f e) Q) \<Longrightarrow> (\<And>x. v = Inr x \<Longrightarrow> yields (g x) Q) \<Longrightarrow> yields (case v of Inl e \<Rightarrow> f e | Inr x \<Rightarrow> g x) Q"
  "(u = None \<Longrightarrow> yields m Q) \<Longrightarrow> (\<And>x. u = Some x \<Longrightarrow> yields (h x) Q) \<Longrightarrow> yields (case u of None \<Rightarrow> m | Some x \<Rightarrow> h x) Q"
  "(\<And>x y. p = (x, y) \<Longrightarrow> yields (k x y) Q) \<Longrightarrow> yields (case p of (x, y) \<Rightarrow> k x y) Q"
  by (simp_all split: sum.split option.split prod.split)

lemma yields_imp: "yields m P \<Longrightarrow> (\<And>x. P x \<Longrightarrow> Q x) \<Longrightarrow> yields m Q"
  by (rule valid_post)

lemma yields_call: "yields (call f) (\<lambda>x. \<exists>w w'. f w = (x, w'))"
  by (rule call_value)

lemma yields_request: "yields (request e f) (\<lambda>x. \<exists>w w'. f w = (x, w'))"
  unfolding request_def by (rule yields_bind[OF yields_any yields_call])

text \<open>
  The contract of a handler of the reconciler towards its callers: given the laws of the library it relies on, and whatever
  the API server answers, it sends nothing but what its guard allows. A caller gets from it the trace of a run, and composes handlers by
  a common guard.
\<close>

locale guarded_handler =
  fixes laws :: bool and handler :: "('w, 'a) M" and guard :: "effect \<Rightarrow> bool"
  assumes guarded: "laws \<Longrightarrow> emits guard handler"
begin

lemma run_appends: "laws \<Longrightarrow> run_state handler s = (r, s') \<Longrightarrow> \<exists>es. trace s' = trace s @ es \<and> list_all guard es"
  by (rule emitsD[OF guarded])

lemma run_from_empty: "laws \<Longrightarrow> run_state handler s = (r, s') \<Longrightarrow> trace s = [] \<Longrightarrow> e \<in> set (trace s') \<Longrightarrow> guard e"
  using run_appends[of s r s'] by (auto simp: list_all_iff)

lemma guarded_within: "laws \<Longrightarrow> (\<And>e. guard e \<Longrightarrow> H e) \<Longrightarrow> emits H handler"
  by (rule emits_mono[OF guarded])

end

section \<open>A concrete library\<close>

text \<open>
  An instance of the parameter \<open>K\<close> that satisfies the laws, at which theorems about all
  \<open>K\<close> are applied to concrete inputs.
\<close>

fun reasonOf :: "go_error \<Rightarrow> string" where
  "reasonOf (ApiError r t) = r"
| "reasonOf (Wrap m e) = reasonOf e"
| "reasonOf _ = []"

definition sample_lib :: K8sLib where
  "sample_lib = \<lparr>
     findStatusCondition = (\<lambda>cs t. List.find (\<lambda>c. cType c = t) cs),
     isNotFound = (\<lambda>e. reasonOf e = ''NotFound''),
     isConflict = (\<lambda>e. reasonOf e = ''Conflict''),
     isBadRequest = (\<lambda>e. reasonOf e = ''BadRequest''),
     getControllerOf = (\<lambda>m. List.find (\<lambda>o'. orController o' = Some True) (omOwnerReferences m)),
     setControllerReference = (\<lambda>ms m. Inr (m\<lparr>omOwnerReferences :=
        \<lparr>orAPIVersion = ''mcp.x-k8s.io/v1beta1'', orKind = MCPServerKind, orName = srvName ms,
         orUID = srvUID ms, orController = Some True\<rparr>
        # filter (\<lambda>o'. orController o' \<noteq> Some True) (omOwnerReferences m)\<rparr>)),
     parseGroupVersion = (\<lambda>s. case splitOn (CHR ''/'') s of
        [v] \<Rightarrow> Some ([], v) | [g, v] \<Rightarrow> Some (g, v) | _ \<Rightarrow> None),
     objectKinds = (\<lambda>k. [k]),
     isValidPortName = (\<lambda>s. if s = [] then [''must not be empty''] else []),
     labelSelectorAsSelector = (\<lambda>_. None),
     semanticDeepEqual = (\<lambda>a b. a = b),
     semanticDeepDerivative = (\<lambda>a b. a = b),
     appendCertsFromPEM = (\<lambda>s. s \<noteq> []),
     sha256hex = (\<lambda>s. s),
     jsonErrorText = (\<lambda>s. ''invalid JSON'')\<rparr>"

lemma sample_lib_laws: "find_law sample_lib" "controller_law sample_lib" "deep_equal_refl sample_lib"
    "set_controller_law sample_lib"
  by (auto simp: sample_lib_def find_law_def controller_law_def deep_equal_refl_def set_controller_law_def)

text \<open>An API server that holds nothing and accepts everything; its world is the clock.\<close>

abbreviation not_found :: go_error where "not_found \<equiv> ApiError ''NotFound'' ''not found''"

definition sample_api :: "nat Api" where
  "sample_api = \<lparr>
     getMCPServer = (\<lambda>n ns w. (Inl not_found, w)),
     getNamespace = (\<lambda>n w. (Inl not_found, w)),
     getDeployment = (\<lambda>n ns w. (Inl not_found, w)),
     getService = (\<lambda>n ns w. (Inl not_found, w)),
     getNetworkPolicy = (\<lambda>n ns w. (Inl not_found, w)),
     getBinding = (\<lambda>n ns w. (Inl not_found, w)),
     listPods = (\<lambda>ns sel w. (Inr [], w)),
     listMCPServers = (\<lambda>ns key v w. (Inr [], w)),
     readConfigMap = (\<lambda>n ns w. (Inl not_found, w)),
     readSecret = (\<lambda>n ns w. (Inl not_found, w)),
     readService = (\<lambda>n ns w. (Inl not_found, w)),
     readDeployment = (\<lambda>n ns w. (Inl not_found, w)),
     readDaemonSet = (\<lambda>n ns w. (Inl not_found, w)),
     readStatefulSet = (\<lambda>n ns w. (Inl not_found, w)),
     createDeploymentApi = (\<lambda>o' w. (Inr o', w)),
     updateDeploymentApi = (\<lambda>o' w. (Inr o', w)),
     createServiceApi = (\<lambda>o' w. (Inr o', w)),
     updateServiceApi = (\<lambda>o' w. (Inr o', w)),
     deleteServiceApi = (\<lambda>o' u rv w. (Inr (), w)),
     createNetworkPolicyApi = (\<lambda>o' w. (Inr o', w)),
     updateNetworkPolicyApi = (\<lambda>o' w. (Inr o', w)),
     createBindingApi = (\<lambda>o' w. (Inr o', w)),
     updateBindingApi = (\<lambda>o' w. (Inr o', w)),
     deleteBindingApi = (\<lambda>o' w. (Inr (), w)),
     applyStatusApi = (\<lambda>n ns ac w. (Inr (), w)),
     dialMCP = (\<lambda>url tr w. (Inr None, w)),
     nowApi = (\<lambda>w. (w, Suc w))\<rparr>"

abbreviation start_state :: "nat rstate" where
  "start_state \<equiv> \<lparr>world = 0, tlsCABundleHashes = Map.empty, handshakeRetries = Map.empty, trace = []\<rparr>"

text \<open>A reconciler with the restricted network posture (\<open>PostureRestricted\<close>) and an event recorder.\<close>

definition sample_reconciler :: Reconciler where
  "sample_reconciler = \<lparr>rHasRecorder = True, rTLSEnvVars = [], rTLSProfile = None, rPosture = ''restricted'',
     rOperatorNamespace = ''ops'', rOperatorPodLabels = [(''control-plane'', ''manager'')], rWebhookEnabled = False,
     rAdmissionPolicyActive = False\<rparr>"

end
