(* ===== verification/Conversion.thy ===== *)
theory Conversion
  imports AlphaTypes Env
begin

text \<open>
  The conversion between \<open>v1alpha1\<close> and the hub version \<open>v1beta1\<close>
  (\<open>api/v1alpha1/mcpserver_conversion.go\<close>), one definition per Go function. The lemmas show what a
  round trip through either version preserves and what it loses.
\<close>

section \<open>Specification\<close>

definition convertSourceTo :: "SourceA \<Rightarrow> Source" where
  "convertSourceTo i = \<lparr>srcType = srcTypeA i,
     srcContainerImage = (case srcContainerImageA i of None \<Rightarrow> None
       | Some c \<Rightarrow> Some \<lparr>cisRef = cisRefA c, cisPullPolicy = cisPullPolicyA c,
                          cisImagePullSecrets = cisImagePullSecretsA c\<rparr>)\<rparr>"

definition convertSourceFrom :: "Source \<Rightarrow> SourceA" where
  "convertSourceFrom i = \<lparr>srcTypeA = srcType i,
     srcContainerImageA = (case srcContainerImage i of None \<Rightarrow> None
       | Some c \<Rightarrow> Some \<lparr>cisRefA = cisRef c, cisPullPolicyA = cisPullPolicy c,
                          cisImagePullSecretsA = cisImagePullSecrets c\<rparr>)\<rparr>"

definition convertStorageMountTo :: "StorageMountA \<Rightarrow> StorageMount" where
  "convertStorageMountTo i = \<lparr>smPath = smPathA i, smPermissions = smPermissionsA i,
     smSource = \<lparr>ssType = ssTypeA (smSourceA i), ssConfigMap = ssConfigMapA (smSourceA i),
                 ssSecret = ssSecretA (smSourceA i), ssEmptyDir = ssEmptyDirA (smSourceA i)\<rparr>\<rparr>"

definition convertStorageMountFrom :: "StorageMount \<Rightarrow> StorageMountA" where
  "convertStorageMountFrom i = \<lparr>smPathA = smPath i, smPermissionsA = smPermissions i,
     smSourceA = \<lparr>ssTypeA = ssType (smSource i), ssConfigMapA = ssConfigMap (smSource i),
                  ssSecretA = ssSecret (smSource i), ssEmptyDirA = ssEmptyDir (smSource i)\<rparr>\<rparr>"

definition convertServerConfigTo :: "ServerConfigA \<Rightarrow> ServerConfig" where
  "convertServerConfigTo i = \<lparr>cfgPort = cfgPortA i, cfgArguments = cfgArgumentsA i, cfgEnv = cfgEnvA i,
     cfgEnvFrom = cfgEnvFromA i, cfgStorage = map convertStorageMountTo (cfgStorageA i), cfgPath = cfgPathA i\<rparr>"

definition convertServerConfigFrom :: "ServerConfig \<Rightarrow> ServerConfigA" where
  "convertServerConfigFrom i = \<lparr>cfgPortA = cfgPort i, cfgArgumentsA = cfgArguments i, cfgEnvA = cfgEnv i,
     cfgEnvFromA = cfgEnvFrom i, cfgStorageA = map convertStorageMountFrom (cfgStorage i), cfgPathA = cfgPath i\<rparr>"

definition convertSecurityConfigTo :: "SecurityConfigA \<Rightarrow> SecurityConfig" where
  "convertSecurityConfigTo i = \<lparr>secServiceAccountName = secServiceAccountNameA i,
     secPodSecurityContext = secPodSecurityContextA i, secSecurityContext = secSecurityContextA i\<rparr>"

definition convertSecurityConfigFrom :: "SecurityConfig \<Rightarrow> SecurityConfigA" where
  "convertSecurityConfigFrom i = \<lparr>secServiceAccountNameA = secServiceAccountName i,
     secPodSecurityContextA = secPodSecurityContext i, secSecurityContextA = secSecurityContext i\<rparr>"

definition convertHealthConfigTo :: "HealthConfigA \<Rightarrow> HealthConfig" where
  "convertHealthConfigTo i = \<lparr>hcLivenessProbe = hcLivenessProbeA i, hcReadinessProbe = hcReadinessProbeA i\<rparr>"

definition convertHealthConfigFrom :: "HealthConfig \<Rightarrow> HealthConfigA" where
  "convertHealthConfigFrom i = \<lparr>hcLivenessProbeA = hcLivenessProbe i, hcReadinessProbeA = hcReadinessProbe i\<rparr>"

definition convertRuntimeConfigTo :: "RuntimeConfigA \<Rightarrow> RuntimeConfig" where
  "convertRuntimeConfigTo i = \<lparr>rtReplicas = rtReplicasA i, rtSecurity = convertSecurityConfigTo (rtSecurityA i),
     rtResources = rtResourcesA i, rtHealth = convertHealthConfigTo (rtHealthA i)\<rparr>"

definition convertRuntimeConfigFrom :: "RuntimeConfig \<Rightarrow> RuntimeConfigA" where
  "convertRuntimeConfigFrom i = \<lparr>rtReplicasA = rtReplicas i, rtSecurityA = convertSecurityConfigFrom (rtSecurity i),
     rtResourcesA = rtResources i, rtHealthA = convertHealthConfigFrom (rtHealth i)\<rparr>"

definition convertMCPConfigTo :: "MCPConfigA \<Rightarrow> MCPConfig" where
  "convertMCPConfigTo i = \<lparr>mcpStateless = mcpStatelessA i\<rparr>"

definition convertMCPConfigFrom :: "MCPConfig \<Rightarrow> MCPConfigA" where
  "convertMCPConfigFrom i = \<lparr>mcpStatelessA = mcpStateless i\<rparr>"

definition convertNetworkConfigTo :: "NetworkConfigA option \<Rightarrow> NetworkConfig option" where
  "convertNetworkConfigTo i = (case i of None \<Rightarrow> None
     | Some n \<Rightarrow> Some \<lparr>netIngressFrom = netIngressFromA n, netEgressTo = netEgressToA n,
                        netEgressPorts = netEgressPortsA n, netDNSEgressPeer = netDNSEgressPeerA n\<rparr>)"

definition convertNetworkConfigFrom :: "NetworkConfig option \<Rightarrow> NetworkConfigA option" where
  "convertNetworkConfigFrom i = (case i of None \<Rightarrow> None
     | Some n \<Rightarrow> Some \<lparr>netIngressFromA = netIngressFrom n, netEgressToA = netEgressTo n,
                        netEgressPortsA = netEgressPorts n, netDNSEgressPeerA = netDNSEgressPeer n\<rparr>)"

definition convertTransportConfigTo :: "TransportConfigA option \<Rightarrow> TransportConfig option" where
  "convertTransportConfigTo i = (case i of None \<Rightarrow> None
     | Some t \<Rightarrow> Some \<lparr>trTLS = (case trTLSA t of None \<Rightarrow> None
         | Some l \<Rightarrow> Some \<lparr>tlsEnabled = tlsEnabledA l,
             tlsCABundleSecret = (case tlsCABundleSecretA l of None \<Rightarrow> None
               | Some r \<Rightarrow> Some \<lparr>secrefName = secrefNameA r\<rparr>),
             tlsInsecureSkipVerify = tlsInsecureSkipVerifyA l\<rparr>)\<rparr>)"

definition convertTransportConfigFrom :: "TransportConfig option \<Rightarrow> TransportConfigA option" where
  "convertTransportConfigFrom i = (case i of None \<Rightarrow> None
     | Some t \<Rightarrow> Some \<lparr>trTLSA = (case trTLS t of None \<Rightarrow> None
         | Some l \<Rightarrow> Some \<lparr>tlsEnabledA = tlsEnabled l,
             tlsCABundleSecretA = (case tlsCABundleSecret l of None \<Rightarrow> None
               | Some r \<Rightarrow> Some \<lparr>secrefNameA = secrefName r\<rparr>),
             tlsInsecureSkipVerifyA = tlsInsecureSkipVerify l\<rparr>)\<rparr>)"

section \<open>Status\<close>

definition convertAddressTo :: "MCPServerAddressA option \<Rightarrow> MCPServerAddress option" where
  "convertAddressTo i = (case i of None \<Rightarrow> None | Some a \<Rightarrow> Some \<lparr>addrURL = addrURLA a\<rparr>)"

definition convertAddressFrom :: "MCPServerAddress option \<Rightarrow> MCPServerAddressA option" where
  "convertAddressFrom i = (case i of None \<Rightarrow> None | Some a \<Rightarrow> Some \<lparr>addrURLA = addrURL a\<rparr>)"

definition convertServerInfoTo :: "MCPServerInfoA option \<Rightarrow> MCPServerInfo option" where
  "convertServerInfoTo i = (case i of None \<Rightarrow> None
     | Some x \<Rightarrow> Some \<lparr>siName = siNameA x, siVersion = siVersionA x, siProtocolVersion = siProtocolVersionA x,
         siInstructions = siInstructionsA x,
         siCapabilities = (case siCapabilitiesA x of None \<Rightarrow> None
           | Some c \<Rightarrow> Some \<lparr>capTools = capToolsA c, capResources = capResourcesA c, capPrompts = capPromptsA c,
                              capLogging = capLoggingA c, capCompletions = capCompletionsA c\<rparr>)\<rparr>)"

definition convertServerInfoFrom :: "MCPServerInfo option \<Rightarrow> MCPServerInfoA option" where
  "convertServerInfoFrom i = (case i of None \<Rightarrow> None
     | Some x \<Rightarrow> Some \<lparr>siNameA = siName x, siVersionA = siVersion x, siProtocolVersionA = siProtocolVersion x,
         siInstructionsA = siInstructions x,
         siCapabilitiesA = (case siCapabilities x of None \<Rightarrow> None
           | Some c \<Rightarrow> Some \<lparr>capToolsA = capTools c, capResourcesA = capResources c, capPromptsA = capPrompts c,
                              capLoggingA = capLogging c, capCompletionsA = capCompletions c\<rparr>)\<rparr>)"

section \<open>Conditions\<close>

definition handshakeReasons :: "string \<Rightarrow> bool" where
  "handshakeReasons r \<longleftrightarrow> r = ''MCPEndpointUnavailable''"

definition splitReadyToAvailableAndVerified :: "Condition \<Rightarrow> Condition list" where
  "splitReadyToAvailableAndVerified ready =
     (if handshakeReasons (cReason ready)
      then [\<lparr>cType = ''Available'', cStatus = ConditionTrue, cReason = ''Available'',
             cMessage = ''Workload is running'', cObservedGeneration = cObservedGeneration ready,
             cLastTransitionTime = cLastTransitionTime ready\<rparr>,
            \<lparr>cType = ''Verified'', cStatus = cStatus ready, cReason = ''EndpointUnavailable'',
             cMessage = cMessage ready, cObservedGeneration = cObservedGeneration ready,
             cLastTransitionTime = cLastTransitionTime ready\<rparr>]
      else if cStatus ready = ConditionTrue \<and> cReason ready = ''Available''
      then [\<lparr>cType = ''Available'', cStatus = ConditionTrue, cReason = ''Available'',
             cMessage = cMessage ready, cObservedGeneration = cObservedGeneration ready,
             cLastTransitionTime = cLastTransitionTime ready\<rparr>,
            \<lparr>cType = ''Verified'', cStatus = ConditionTrue, cReason = ''Verified'',
             cMessage = ''MCP handshake succeeded'', cObservedGeneration = cObservedGeneration ready,
             cLastTransitionTime = cLastTransitionTime ready\<rparr>]
      else [\<lparr>cType = ''Available'', cStatus = cStatus ready, cReason = cReason ready,
             cMessage = cMessage ready, cObservedGeneration = cObservedGeneration ready,
             cLastTransitionTime = cLastTransitionTime ready\<rparr>,
            \<lparr>cType = ''Verified'', cStatus = ConditionUnknown, cReason = ''NotVerified'',
             cMessage = ''Handshake has not been attempted'', cObservedGeneration = cObservedGeneration ready,
             cLastTransitionTime = cLastTransitionTime ready\<rparr>])"

fun convertConditionsTo :: "Condition list \<Rightarrow> Condition list" where
  "convertConditionsTo [] = []"
| "convertConditionsTo (c # cs) =
     (if cType c = ''Accepted'' then [c]
      else if cType c = ''Ready'' then splitReadyToAvailableAndVerified c
      else [c]) @ convertConditionsTo cs"

text \<open>
  \<open>mergeAvailableAndVerifiedToReady\<close>. It is called with at least one of the two conditions; with
  neither, the Go code would dereference nil, which is the \<open>None\<close> result.
\<close>

definition mergeAvailableAndVerifiedToReady :: "Condition option \<Rightarrow> Condition option \<Rightarrow> Condition option" where
  "mergeAvailableAndVerifiedToReady available verified =
     (if (case available of Some a \<Rightarrow> cStatus a \<noteq> ConditionTrue | None \<Rightarrow> False)
      then map_option (\<lambda>a. \<lparr>cType = ''Ready'', cStatus = cStatus a, cReason = cReason a, cMessage = cMessage a,
             cObservedGeneration = cObservedGeneration a, cLastTransitionTime = cLastTransitionTime a\<rparr>) available
      else if (case verified of Some v \<Rightarrow> cStatus v = ConditionFalse | None \<Rightarrow> False)
      then map_option (\<lambda>v. \<lparr>cType = ''Ready'', cStatus = ConditionFalse, cReason = ''MCPEndpointUnavailable'',
             cMessage = cMessage v, cObservedGeneration = cObservedGeneration v,
             cLastTransitionTime = cLastTransitionTime v\<rparr>) verified
      else if (case verified of Some v \<Rightarrow> cStatus v = ConditionTrue | None \<Rightarrow> False)
      then map_option (\<lambda>s. \<lparr>cType = ''Ready'', cStatus = ConditionTrue, cReason = ''Available'',
             cMessage = cMessage s, cObservedGeneration = cObservedGeneration s,
             cLastTransitionTime = cLastTransitionTime s\<rparr>)
             (case available of Some a \<Rightarrow> Some a | None \<Rightarrow> verified)
      else (case available of
              Some a \<Rightarrow> Some \<lparr>cType = ''Ready'', cStatus = ConditionTrue, cReason = cReason a, cMessage = cMessage a,
                cObservedGeneration = cObservedGeneration a, cLastTransitionTime = cLastTransitionTime a\<rparr>
            | None \<Rightarrow> map_option (\<lambda>v. \<lparr>cType = ''Ready'', cStatus = ConditionUnknown,
                cReason = (if cReason v = [] then ''NotVerified'' else cReason v),
                cMessage = (if cMessage v = [] then ''Workload availability unknown'' else cMessage v),
                cObservedGeneration = cObservedGeneration v, cLastTransitionTime = cLastTransitionTime v\<rparr>) verified))"

definition convertConditionsFrom :: "K8sLib \<Rightarrow> Condition list \<Rightarrow> Condition list" where
  "convertConditionsFrom K cs =
     (let available = findStatusCondition K cs ''Available'';
          verified = findStatusCondition K cs ''Verified'';
          out = filter (\<lambda>c. cType c \<noteq> ''Available'' \<and> cType c \<noteq> ''Verified'') cs
      in if available = None \<and> verified = None then out
         else (case mergeAvailableAndVerifiedToReady available verified of
                 Some ready \<Rightarrow> out @ [ready] | None \<Rightarrow> out))"

section \<open>Whole objects\<close>

text \<open>
  Conversion writes into the destination object \<open>dst\<close>: the fields that a function does not
  assign keep what the destination held (the conversion webhook hands in a fresh object).
\<close>

definition ConvertTo :: "MCPServerA \<Rightarrow> MCPServer \<Rightarrow> MCPServer" where
  "ConvertTo src dst = dst\<lparr>
     msMeta := msMetaA src,
     msSpec := (msSpec dst)\<lparr>
       spExtraLabels := spExtraLabelsA (msSpecA src),
       spExtraAnnotations := spExtraAnnotationsA (msSpecA src),
       spSource := convertSourceTo (spSourceA (msSpecA src)),
       spConfig := convertServerConfigTo (spConfigA (msSpecA src)),
       spRuntime := convertRuntimeConfigTo (spRuntimeA (msSpecA src)),
       spMCP := convertMCPConfigTo (spMCPA (msSpecA src)),
       spNetwork := convertNetworkConfigTo (spNetworkA (msSpecA src)),
       spTransport := convertTransportConfigTo (spTransportA (msSpecA src))\<rparr>,
     msStatus := (msStatus dst)\<lparr>
       stObservedGeneration := stObservedGenerationA (msStatusA src),
       stDeploymentName := stDeploymentNameA (msStatusA src),
       stServiceName := stServiceNameA (msStatusA src),
       stAddress := convertAddressTo (stAddressA (msStatusA src)),
       stServerInfo := convertServerInfoTo (stServerInfoA (msStatusA src)),
       stReplicas := stReplicasA (msStatusA src),
       stReadyReplicas := stReadyReplicasA (msStatusA src),
       stConditions := convertConditionsTo (stConditionsA (msStatusA src))\<rparr>\<rparr>"

definition ConvertFrom :: "K8sLib \<Rightarrow> MCPServer \<Rightarrow> MCPServerA \<Rightarrow> MCPServerA" where
  "ConvertFrom K src dst = dst\<lparr>
     msMetaA := msMeta src,
     msSpecA := (msSpecA dst)\<lparr>
       spExtraLabelsA := spExtraLabels (msSpec src),
       spExtraAnnotationsA := spExtraAnnotations (msSpec src),
       spSourceA := convertSourceFrom (spSource (msSpec src)),
       spConfigA := convertServerConfigFrom (spConfig (msSpec src)),
       spRuntimeA := convertRuntimeConfigFrom (spRuntime (msSpec src)),
       spMCPA := convertMCPConfigFrom (spMCP (msSpec src)),
       spNetworkA := convertNetworkConfigFrom (spNetwork (msSpec src)),
       spTransportA := convertTransportConfigFrom (spTransport (msSpec src))\<rparr>,
     msStatusA := (msStatusA dst)\<lparr>
       stObservedGenerationA := stObservedGeneration (msStatus src),
       stDeploymentNameA := stDeploymentName (msStatus src),
       stServiceNameA := stServiceName (msStatus src),
       stAddressA := convertAddressFrom (stAddress (msStatus src)),
       stServerInfoA := convertServerInfoFrom (stServerInfo (msStatus src)),
       stReplicasA := stReplicas (msStatus src),
       stReadyReplicasA := stReadyReplicas (msStatus src),
       stConditionsA := convertConditionsFrom K (stConditions (msStatus src))\<rparr>\<rparr>"

section \<open>Round trips\<close>

lemmas convert_spec_defs =
  convertSourceTo_def convertSourceFrom_def convertStorageMountTo_def convertStorageMountFrom_def
  convertServerConfigTo_def convertServerConfigFrom_def convertSecurityConfigTo_def convertSecurityConfigFrom_def
  convertHealthConfigTo_def convertHealthConfigFrom_def convertRuntimeConfigTo_def convertRuntimeConfigFrom_def
  convertMCPConfigTo_def convertMCPConfigFrom_def convertNetworkConfigTo_def convertNetworkConfigFrom_def
  convertTransportConfigTo_def convertTransportConfigFrom_def

interpretation src: lossless convertSourceTo convertSourceFrom
  by unfold_locales (auto simp: convert_spec_defs split: option.splits)

interpretation storage: lossless convertStorageMountTo convertStorageMountFrom
  by unfold_locales (auto simp: convert_spec_defs)

interpretation config: lossless convertServerConfigTo convertServerConfigFrom
  by unfold_locales
    (simp_all add: convertServerConfigTo_def convertServerConfigFrom_def
      storage.map_from_to [simplified] storage.map_to_from [simplified])

interpretation runtime: lossless convertRuntimeConfigTo convertRuntimeConfigFrom
  by unfold_locales (auto simp: convert_spec_defs)

interpretation mcp: lossless convertMCPConfigTo convertMCPConfigFrom
  by unfold_locales (auto simp: convert_spec_defs)

interpretation network: lossless convertNetworkConfigTo convertNetworkConfigFrom
  by unfold_locales (auto simp: convert_spec_defs split: option.splits)

interpretation transport: lossless convertTransportConfigTo convertTransportConfigFrom
  by unfold_locales (auto simp: convert_spec_defs split: option.splits)

interpretation address: lossless convertAddressTo convertAddressFrom
  by unfold_locales (auto simp: convertAddressTo_def convertAddressFrom_def split: option.splits)

interpretation info: lossless convertServerInfoTo convertServerInfoFrom
  by unfold_locales (auto simp: convertServerInfoTo_def convertServerInfoFrom_def split: option.splits)

lemmas conversion_laws =
  src.from_to src.to_from config.from_to config.to_from runtime.from_to runtime.to_from
  mcp.from_to mcp.to_from network.from_to network.to_from transport.from_to transport.to_from
  address.from_to address.to_from info.from_to info.to_from

text \<open>
  The conditions of a \<open>v1alpha1\<close> object: one per type, none of the hub's two types, and a
  \<open>Ready\<close> condition with the handshake reason only as a failure (what the controller of that
  version wrote). Conversion through the hub moves \<open>Ready\<close> to the end of the list.
\<close>

definition alpha_conditions_ok :: "Condition list \<Rightarrow> bool" where
  "alpha_conditions_ok cs \<longleftrightarrow> distinct (map cType cs)
     \<and> (\<forall>c \<in> set cs. cType c \<noteq> ''Available'' \<and> cType c \<noteq> ''Verified'')
     \<and> (\<forall>c \<in> set cs. cType c = ''Ready'' \<longrightarrow> cReason c = ''MCPEndpointUnavailable'' \<longrightarrow> cStatus c = ConditionFalse)"

definition ready_last :: "Condition list \<Rightarrow> Condition list" where
  "ready_last cs = filter (\<lambda>c. cType c \<noteq> ''Ready'') cs @ filter (\<lambda>c. cType c = ''Ready'') cs"

lemma split_types: "map cType (splitReadyToAvailableAndVerified c) = [''Available'', ''Verified'']"
  by (simp add: splitReadyToAvailableAndVerified_def)

lemma merge_split:
  assumes "cType c = ''Ready''" "cReason c = ''MCPEndpointUnavailable'' \<longrightarrow> cStatus c = ConditionFalse"
    and "splitReadyToAvailableAndVerified c = [a, v]"
  shows "mergeAvailableAndVerifiedToReady (Some a) (Some v) = Some c"
  using assms
  by (cases c) (auto simp: splitReadyToAvailableAndVerified_def mergeAvailableAndVerifiedToReady_def
      handshakeReasons_def split: if_splits)

lemma convertTo_no_ready:
  "\<forall>c \<in> set cs. cType c \<noteq> ''Ready'' \<Longrightarrow> convertConditionsTo cs = cs"
  by (induction cs) auto

lemma convertTo_append: "convertConditionsTo (xs @ ys) = convertConditionsTo xs @ convertConditionsTo ys"
  by (induction xs) auto

lemma conditions_alpha_roundtrip:
  assumes K: "find_law K" and ok: "alpha_conditions_ok cs"
  shows "convertConditionsFrom K (convertConditionsTo cs) = ready_last cs"
proof (cases "\<exists>c \<in> set cs. cType c = ''Ready''")
  case False
  then have "convertConditionsTo cs = cs" "ready_last cs = cs"
    by (auto simp: convertTo_no_ready ready_last_def intro!: filter_True filter_False)
  then show ?thesis using ok K
    by (auto simp: convertConditionsFrom_def find_law_def alpha_conditions_ok_def find_None_iff intro!: filter_True)
next
  case True
  then obtain xs c ys where cs: "cs = xs @ c # ys" and r: "cType c = ''Ready''"
    by (meson split_list)
  with ok have xy: "\<forall>d \<in> set xs \<union> set ys. cType d \<noteq> ''Ready'' \<and> cType d \<noteq> ''Available'' \<and> cType d \<noteq> ''Verified''"
    by (auto simp: alpha_conditions_ok_def image_iff)
  obtain a v where av: "splitReadyToAvailableAndVerified c = [a, v]" "cType a = ''Available''" "cType v = ''Verified''"
    using split_types[of c] by (auto simp: splitReadyToAvailableAndVerified_def split: if_splits)
  have conv: "convertConditionsTo cs = xs @ [a, v] @ ys"
    using xy r by (simp add: cs convertTo_append convertTo_no_ready av)
  have "mergeAvailableAndVerifiedToReady (Some a) (Some v) = Some c"
    using ok r by (intro merge_split av) (auto simp: cs alpha_conditions_ok_def)
  moreover have "List.find (\<lambda>c. cType c = ''Available'') (xs @ [a, v] @ ys) = Some a"
    "List.find (\<lambda>c. cType c = ''Verified'') (xs @ [a, v] @ ys) = Some v"
    using xy av by (simp_all add: find_append find_none)
  moreover have "filter (\<lambda>c. cType c \<noteq> ''Available'' \<and> cType c \<noteq> ''Verified'') (xs @ [a, v] @ ys) = xs @ ys"
    using xy av by (auto simp: filter_id_conv)
  moreover have "ready_last cs = xs @ ys @ [c]"
    using xy r by (auto simp: cs ready_last_def filter_id_conv filter_empty_conv)
  ultimately show ?thesis
    using K by (simp add: conv convertConditionsFrom_def find_law_def)
qed

text \<open>
  C24: a \<open>v1alpha1\<close> object that is converted to the hub version and back, through whatever destination objects, comes back with every field
  but two unchanged: the deprecated retry counter is the one of the destination, and \<open>Ready\<close> is moved behind the other conditions. This is for objects whose
  conditions have one entry per type, none of the hub's types \<open>Available\<close> and \<open>Verified\<close>, and \<open>Ready\<close> with the reason
  \<open>MCPEndpointUnavailable\<close> only when it is false.
\<close>

theorem alpha_roundtrip:
  assumes "find_law K" and "alpha_conditions_ok (stConditionsA (msStatusA a))"
  shows "ConvertFrom K (ConvertTo a dst) dst' =
    a\<lparr>msStatusA := (msStatusA a)\<lparr>
       stHandshakeRetryCountA := stHandshakeRetryCountA (msStatusA dst'),
       stConditionsA := ready_last (stConditionsA (msStatusA a))\<rparr>\<rparr>"
  using assms by (simp add: ConvertTo_def ConvertFrom_def conditions_alpha_roundtrip conversion_laws)

definition sample_alpha :: MCPServerA where
  "sample_alpha = \<lparr>msMetaA = zero_meta,
     msSpecA = \<lparr>spExtraLabelsA = Some [(''team'', ''a'')], spExtraAnnotationsA = None,
       spSourceA = convertSourceFrom (spSource zero_spec), spConfigA = convertServerConfigFrom zero_config,
       spRuntimeA = convertRuntimeConfigFrom zero_runtime, spMCPA = \<lparr>mcpStatelessA = Some True\<rparr>,
       spNetworkA = None, spTransportA = None\<rparr>,
     msStatusA = \<lparr>stObservedGenerationA = 3, stDeploymentNameA = ''d'', stServiceNameA = ''s'', stAddressA = None,
       stServerInfoA = None, stHandshakeRetryCountA = 4, stReplicasA = 1, stReadyReplicasA = 1,
       stConditionsA =
        [\<lparr>cType = ''Ready'', cStatus = ConditionFalse, cReason = ''MCPEndpointUnavailable'',
          cMessage = ''refused'', cObservedGeneration = 3, cLastTransitionTime = 7\<rparr>,
         \<lparr>cType = ''Accepted'', cStatus = ConditionTrue, cReason = ''Valid'',
          cMessage = ''ok'', cObservedGeneration = 3, cLastTransitionTime = 5\<rparr>]\<rparr>\<rparr>"

lemma sample_alpha_ok: "alpha_conditions_ok (stConditionsA (msStatusA sample_alpha))"
  by (simp add: sample_alpha_def alpha_conditions_ok_def)

theorem alpha_roundtrip_witness:
  "map cType (stConditionsA (msStatusA
     (ConvertFrom sample_lib (ConvertTo sample_alpha zero_server) sample_alpha))) = [''Accepted'', ''Ready'']"
  using alpha_roundtrip [OF sample_lib_laws(1) sample_alpha_ok, of zero_server sample_alpha]
  by (simp add: sample_alpha_def ready_last_def)

text \<open>
  C25: converting a hub object to \<open>v1alpha1\<close> and back keeps every field of the specification except
  \<open>workloadRef\<close>, \<open>serviceRef\<close> and \<open>gateway\<close>, which are replaced by the destination's: the only
  data that an update through the deprecated version can drop.
\<close>

theorem hub_spec_roundtrip:
  "msSpec (ConvertTo (ConvertFrom K b dst') dst) =
     (msSpec b)\<lparr>spWorkloadRef := spWorkloadRef (msSpec dst), spServiceRef := spServiceRef (msSpec dst),
                 spGateway := spGateway (msSpec dst)\<rparr>"
  by (simp add: ConvertTo_def ConvertFrom_def conversion_laws)


lemma hub_verified_after_roundtrip:
  assumes K: "find_law K" and nr: "\<forall>c \<in> set cs. cType c \<noteq> ''Ready''"
    and a: "findStatusCondition K cs ''Available'' = Some a"
    and m: "mergeAvailableAndVerifiedToReady (Some a) (findStatusCondition K cs ''Verified'') = Some r" "cType r = ''Ready''"
    and s: "splitReadyToAvailableAndVerified r = [a', v']"
  shows "findStatusCondition K (convertConditionsTo (convertConditionsFrom K cs)) ''Available'' = Some a'"
    and "findStatusCondition K (convertConditionsTo (convertConditionsFrom K cs)) ''Verified'' = Some v'"
proof -
  let ?out = "filter (\<lambda>c. cType c \<noteq> ''Available'' \<and> cType c \<noteq> ''Verified'') cs"
  have out: "convertConditionsTo ?out = ?out"
    by (rule convertTo_no_ready) (use nr in auto)
  have conv: "convertConditionsTo (convertConditionsFrom K cs) = ?out @ [a', v']"
    using a m s by (simp add: convertConditionsFrom_def convertTo_append out)
  have ty: "cType a' = ''Available''" "cType v' = ''Verified''"
    using split_types[of r] s by auto
  have "List.find (\<lambda>c. cType c = ''Available'') ?out = None" "List.find (\<lambda>c. cType c = ''Verified'') ?out = None"
    by (auto intro!: find_none)
  then show "findStatusCondition K (convertConditionsTo (convertConditionsFrom K cs)) ''Available'' = Some a'"
       "findStatusCondition K (convertConditionsTo (convertConditionsFrom K cs)) ''Verified'' = Some v'"
    using K ty by (simp_all add: conv find_law_def find_append)
qed






text \<open>
  A hub object whose endpoint was only reached behind authentication (\<open>Verified\<close> with reason
  \<open>AuthSkipped\<close>) comes back from a round trip through \<open>v1alpha1\<close> as verified by a successful
  handshake: the reason that says the protocol was never verified is lost.
\<close>

lemma hub_roundtrip_forgets_auth_skip:
  assumes K: "find_law K" and nr: "\<forall>c \<in> set (stConditions (msStatus b)). cType c \<noteq> ''Ready''"
    and a: "findStatusCondition K (stConditions (msStatus b)) ''Available'' = Some a" "cStatus a = ConditionTrue"
    and v: "findStatusCondition K (stConditions (msStatus b)) ''Verified'' = Some v" "cStatus v = ConditionTrue" "cReason v = ''AuthSkipped''"
  shows "\<exists>v'. findStatusCondition K (stConditions (msStatus (ConvertTo (ConvertFrom K b dst') dst))) ''Verified'' = Some v'
      \<and> cStatus v' = ConditionTrue \<and> cReason v' = ''Verified'' \<and> cMessage v' = ''MCP handshake succeeded''"
proof -
  obtain r where r: "mergeAvailableAndVerifiedToReady (Some a) (Some v) = Some r" "cType r = ''Ready''"
     "cStatus r = ConditionTrue" "cReason r = ''Available''"
    using a(2) v(2) by (simp add: mergeAvailableAndVerifiedToReady_def)
  obtain a' v' where s: "splitReadyToAvailableAndVerified r = [a', v']" "cStatus v' = ConditionTrue" "cReason v' = ''Verified''"
      "cMessage v' = ''MCP handshake succeeded''"
    using r(3,4) by (simp add: splitReadyToAvailableAndVerified_def handshakeReasons_def)
  from hub_verified_after_roundtrip(2)[OF K nr a(1) _ r(2) s(1)] r(1) s(2-) show ?thesis
    by (simp add: v(1) ConvertTo_def ConvertFrom_def)
qed

definition sample_auth_skipped :: MCPServer where
  "sample_auth_skipped = zero_server\<lparr>msStatus := zero_status\<lparr>stConditions :=
     [\<lparr>cType = ''Available'', cStatus = ConditionTrue, cReason = ''Available'', cMessage = ''up'',
       cObservedGeneration = 1, cLastTransitionTime = 1\<rparr>,
      \<lparr>cType = ''Verified'', cStatus = ConditionTrue, cReason = ''AuthSkipped'', cMessage = ''auth'',
       cObservedGeneration = 1, cLastTransitionTime = 1\<rparr>]\<rparr>\<rparr>"

lemma hub_roundtrip_forgets_auth_skip_witness:
  "\<exists>v'. findStatusCondition sample_lib (stConditions (msStatus
     (ConvertTo (ConvertFrom sample_lib sample_auth_skipped sample_alpha) zero_server))) ''Verified'' = Some v'
     \<and> cStatus v' = ConditionTrue \<and> cReason v' = ''Verified'' \<and> cMessage v' = ''MCP handshake succeeded''"
proof -
  let ?cs = "stConditions (msStatus sample_auth_skipped)"
  have "\<forall>c \<in> set ?cs. cType c \<noteq> ''Ready''"
    "findStatusCondition sample_lib ?cs ''Available'' = Some (?cs ! 0)" "cStatus (?cs ! 0) = ConditionTrue"
    "findStatusCondition sample_lib ?cs ''Verified'' = Some (?cs ! 1)" "cStatus (?cs ! 1) = ConditionTrue"
    "cReason (?cs ! 1) = ''AuthSkipped''"
    by (simp_all add: sample_auth_skipped_def sample_lib_def)
  then show ?thesis
    by (rule hub_roundtrip_forgets_auth_skip [OF sample_lib_laws(1)])
qed

end
