(* ===== verification/NetCIDR.thy ===== *)
theory NetCIDR
  imports Prelude
begin

unbundle bit_operations_syntax

text \<open>
  The part of Go's \<open>net\<close> package that the operator uses on NetworkPolicy IP blocks:
  \<open>net.ParseCIDR\<close> (with the address grammar of \<open>netip.ParseAddr\<close>), \<open>IPMask.Size\<close> and
  \<open>IPNet.Contains\<close>. An address is its list of bytes, four for IPv4 and sixteen for IPv6. The
  contract the operator relies on is the locale \<open>cidr_blocks\<close>, interpreted here on these
  definitions.
\<close>

section \<open>Parsing\<close>

definition is_digit :: "char \<Rightarrow> bool" where
  "is_digit c \<longleftrightarrow> 48 \<le> (of_char c :: nat) \<and> (of_char c :: nat) \<le> 57"

definition digit_val :: "char \<Rightarrow> nat" where
  "digit_val c = of_char c - 48"

definition dec_val :: "string \<Rightarrow> nat" where
  "dec_val s = foldl (\<lambda>v c. v * 10 + digit_val c) 0 s"

text \<open>One octet: decimal, no leading zero, at most 255.\<close>

definition parseOctet :: "string \<Rightarrow> 8 word option" where
  "parseOctet s =
     (if s \<noteq> [] \<and> list_all is_digit s \<and> (hd s = CHR ''0'' \<longrightarrow> length s = 1) \<and> dec_val s \<le> 255
      then Some (of_nat (dec_val s)) else None)"

definition parseIPv4Fields :: "string \<Rightarrow> 8 word list option" where
  "parseIPv4Fields s = (case splitOn (CHR ''.'') s of
     [a, b, c, d] \<Rightarrow> (case (parseOctet a, parseOctet b, parseOctet c, parseOctet d) of
        (Some a', Some b', Some c', Some d') \<Rightarrow> Some [a', b', c', d'] | _ \<Rightarrow> None)
   | _ \<Rightarrow> None)"

text \<open>A group of one to four hexadecimal digits: its value and what follows it.\<close>

fun hexGroup :: "nat \<Rightarrow> nat \<Rightarrow> string \<Rightarrow> (nat \<times> nat \<times> string) option" where
  "hexGroup off acc [] = Some (off, acc, [])"
| "hexGroup off acc (c # s) = (case hex_val c of
     None \<Rightarrow> Some (off, acc, c # s)
   | Some d \<Rightarrow> if off > 3 then None else hexGroup (Suc off) (acc * 16 + d) s)"

lemma hexGroup_length: "hexGroup off acc s = Some (off', acc', s') \<Longrightarrow> length s' + off' = length s + off"
  by (induction off acc s rule: hexGroup.induct) (auto split: option.splits if_splits)

text \<open>
  The loop of \<open>parseIPv6\<close>: \<open>ip\<close> are the bytes read so far, \<open>ell\<close> the position of the ellipsis. The
  result is the bytes, the position and the rest of the string when the loop ends.
\<close>

function ipv6Loop :: "8 word list \<Rightarrow> nat option \<Rightarrow> string \<Rightarrow> (8 word list \<times> nat option \<times> string) option" where
  "ipv6Loop ip ell s =
     (if \<not> length ip < 16 then Some (ip, ell, s)
      else case hexGroup 0 0 s of
        None \<Rightarrow> None
      | Some (off, acc, rest) \<Rightarrow>
          if off = 0 then None
          else if rest \<noteq> [] \<and> hd rest = CHR ''.''
          then (if ell = None \<and> length ip \<noteq> 12 then None
                else if length ip + 4 > 16 then None
                else (case parseIPv4Fields s of
                  None \<Rightarrow> None | Some v4 \<Rightarrow> Some (ip @ v4, ell, [])))
          else let ip' = ip @ [of_nat (acc div 256), of_nat (acc mod 256)]
               in (case rest of
                  [] \<Rightarrow> Some (ip', ell, [])
                | c # s1 \<Rightarrow>
                    if c \<noteq> CHR '':'' then None
                    else (case s1 of
                       [] \<Rightarrow> None
                     | d # s2 \<Rightarrow>
                         if d = CHR '':''
                         then (if ell \<noteq> None then None
                               else if s2 = [] then Some (ip', Some (length ip'), [])
                               else ipv6Loop ip' (Some (length ip')) s2)
                         else ipv6Loop ip' ell (d # s2))))"
  by pat_completeness auto
termination
  by (relation "measure (\<lambda>(ip, ell, s). length s)") (auto dest: hexGroup_length)

declare ipv6Loop.simps [simp del]

definition expandEllipsis :: "8 word list \<Rightarrow> nat option \<Rightarrow> 8 word list option" where
  "expandEllipsis ip ell =
     (if length ip < 16
      then (case ell of None \<Rightarrow> None
            | Some e \<Rightarrow> Some (take e ip @ replicate (16 - length ip) 0 @ drop e ip))
      else if ell \<noteq> None then None else Some ip)"

definition parseIPv6 :: "string \<Rightarrow> 8 word list option" where
  "parseIPv6 s =
     (let lead = hasPrefix s ''::''; s' = (if lead then drop 2 s else s)
      in if lead \<and> s' = [] then Some (replicate 16 0)
         else case ipv6Loop [] (if lead then Some 0 else None) s' of
           None \<Rightarrow> None
         | Some (ip, ell, rest) \<Rightarrow> if rest \<noteq> [] then None else expandEllipsis ip ell)"

text \<open>
  \<open>netip.ParseAddr\<close>, for the callers that refuse zones: the first of the bytes \<open>.\<close>, \<open>:\<close> and \<open>%\<close>
  selects the family, and an address with a \<open>%\<close> is either malformed or has a zone.
\<close>

definition parseAddr :: "string \<Rightarrow> 8 word list option" where
  "parseAddr s =
     (if CHR ''%'' \<in> set s then None
      else case List.find (\<lambda>c. c = CHR ''.'' \<or> c = CHR '':'') s of
        None \<Rightarrow> None
      | Some c \<Rightarrow> if c = CHR ''.'' then parseIPv4Fields s else parseIPv6 s)"

section \<open>Masks\<close>

fun cidrMask :: "nat \<Rightarrow> nat \<Rightarrow> 8 word list" where
  "cidrMask 0 n = []"
| "cidrMask (Suc l) n =
     (if n \<ge> 8 then 0xFF # cidrMask l (n - 8) else NOT (drop_bit n 0xFF) # cidrMask l 0)"

definition maskIP :: "8 word list \<Rightarrow> 8 word list \<Rightarrow> 8 word list" where
  "maskIP ip m = map2 (AND) ip m"

record IPNet =
  netIP :: "8 word list"
  netMask :: "8 word list"

text \<open>The number of leading one bits of a byte, and what is left of it.\<close>

fun topOnes :: "nat \<Rightarrow> 8 word \<Rightarrow> nat \<times> 8 word" where
  "topOnes 0 v = (0, v)"
| "topOnes (Suc f) v =
     (if v AND 0x80 \<noteq> 0 then (let (n, r) = topOnes f (push_bit 1 v) in (Suc n, r)) else (0, v))"

text \<open>\<open>simpleMaskLength\<close>; \<open>None\<close> is Go's -1.\<close>

fun maskLength :: "8 word list \<Rightarrow> nat option" where
  "maskLength [] = Some 0"
| "maskLength (v # m) =
     (if v = 0xFF then map_option ((+) 8) (maskLength m)
      else (let (n, r) = topOnes 8 v
            in if r \<noteq> 0 \<or> \<not> list_all (\<lambda>b. b = 0) m then None else Some n))"

definition maskSize :: "8 word list \<Rightarrow> nat \<times> nat" where
  "maskSize m = (case maskLength m of None \<Rightarrow> (0, 0) | Some n \<Rightarrow> (n, 8 * length m))"

text \<open>\<open>net.ParseCIDR\<close>: the network of a CIDR text, or an error.\<close>

definition parseCIDR :: "string \<Rightarrow> IPNet option" where
  "parseCIDR s =
     (if CHR ''/'' \<notin> set s then None
      else let addr = takeWhile (\<lambda>c. c \<noteq> CHR ''/'') s;
               msk = tl (dropWhile (\<lambda>c. c \<noteq> CHR ''/'') s)
           in case parseAddr addr of
                None \<Rightarrow> None
              | Some ip \<Rightarrow>
                  if msk = [] \<or> \<not> list_all is_digit msk \<or> dec_val msk > 8 * length ip then None
                  else let m = cidrMask (length ip) (dec_val msk)
                       in Some \<lparr>netIP = maskIP ip m, netMask = m\<rparr>)"

section \<open>Containment\<close>

definition v4InV6Prefix :: "8 word list" where
  "v4InV6Prefix = replicate 10 0 @ [0xFF, 0xFF]"

definition to4 :: "8 word list \<Rightarrow> 8 word list option" where
  "to4 ip = (if length ip = 4 then Some ip
     else if length ip = 16 \<and> take 12 ip = v4InV6Prefix then Some (drop 12 ip) else None)"

text \<open>\<open>networkNumberAndMask\<close> for a network of \<open>ParseCIDR\<close> (mask as long as the address).\<close>

definition networkNumberAndMask :: "IPNet \<Rightarrow> 8 word list \<times> 8 word list" where
  "networkNumberAndMask n = (case to4 (netIP n) of
     Some ip \<Rightarrow> (ip, if length (netMask n) = 16 then drop 12 (netMask n) else netMask n)
   | None \<Rightarrow> (netIP n, netMask n))"

definition netContains :: "IPNet \<Rightarrow> 8 word list \<Rightarrow> bool" where
  "netContains n ip =
     (let (nn, m) = networkNumberAndMask n; x = (case to4 ip of Some y \<Rightarrow> y | None \<Rightarrow> ip)
      in length x = length nn \<and> maskIP nn m = maskIP x m)"

text \<open>The addresses of a network, as sequences of bytes of its family.\<close>

definition block :: "IPNet \<Rightarrow> 8 word list set" where
  "block n = {ip. length ip = length (netIP n) \<and> maskIP ip (netMask n) = netIP n}"

section \<open>Facts\<close>


lemma length_cidrMask [simp]: "length (cidrMask l n) = l"
  by (induction l n rule: cidrMask.induct) auto

lemma length_maskIP [simp]: "length (maskIP ip m) = min (length ip) (length m)"
  by (simp add: maskIP_def)

lemma ff_minus_one: "(0xFF :: 8 word) = - 1"
  by simp

lemma byte_mask_mono: "n \<le> m \<Longrightarrow> NOT (drop_bit n (0xFF :: 8 word)) AND NOT (drop_bit m 0xFF) = NOT (drop_bit n 0xFF)"
  unfolding ff_minus_one by (rule bit_eqI) (auto simp: bit_simps)

lemma byte_ff: "(x :: 8 word) AND 0xFF = x"
  unfolding ff_minus_one by simp

lemma cidrMask_mono: "n \<le> m \<Longrightarrow> map2 (AND) (cidrMask l n) (cidrMask l m) = cidrMask l n"
proof (induction l arbitrary: n m)
  case (Suc l)
  show ?case
  proof (cases "n \<ge> 8")
    case True
    with Suc show ?thesis by simp
  next
    case False
    then show ?thesis using Suc.prems Suc.IH[of 0] by (auto simp: byte_mask_mono byte_ff)
  qed
qed simp

lemma topOnes_mask: "n < 8 \<Longrightarrow> topOnes 8 (NOT (drop_bit n (0xFF :: 8 word))) = (n, 0)"
proof -
  assume "n < 8"
  then have "n \<in> {0,1,2,3,4,5,6,7}" by auto
  moreover have "topOnes 8 (NOT (drop_bit 0 (0xFF :: 8 word))) = (0, 0)" "topOnes 8 (NOT (drop_bit 1 (0xFF :: 8 word))) = (1, 0)"
    "topOnes 8 (NOT (drop_bit 2 (0xFF :: 8 word))) = (2, 0)" "topOnes 8 (NOT (drop_bit 3 (0xFF :: 8 word))) = (3, 0)"
    "topOnes 8 (NOT (drop_bit 4 (0xFF :: 8 word))) = (4, 0)" "topOnes 8 (NOT (drop_bit 5 (0xFF :: 8 word))) = (5, 0)"
    "topOnes 8 (NOT (drop_bit 6 (0xFF :: 8 word))) = (6, 0)" "topOnes 8 (NOT (drop_bit 7 (0xFF :: 8 word))) = (7, 0)"
    by code_simp+
  ultimately show ?thesis by auto
qed

lemma byte_mask_not_ff: "n < 8 \<Longrightarrow> NOT (drop_bit n (0xFF :: 8 word)) \<noteq> 0xFF"
proof
  assume "n < 8" and eq: "NOT (drop_bit n (0xFF :: 8 word)) = 0xFF"
  have "topOnes 8 (0xFF :: 8 word) = (8, 0)" by code_simp
  with topOnes_mask[OF \<open>n < 8\<close>] eq \<open>n < 8\<close> show False by simp
qed

lemma cidrMask_zero: "list_all (\<lambda>b. b = 0) (cidrMask l 0)"
  by (induction l) (auto simp: ff_minus_one)

lemma maskLength_cidrMask: "n \<le> 8 * l \<Longrightarrow> maskLength (cidrMask l n) = Some n"
proof (induction l arbitrary: n)
  case (Suc l)
  show ?case
  proof (cases "n \<ge> 8")
    case True
    with Suc show ?thesis by simp
  next
    case False
    then have "n < 8" by simp
    then show ?thesis using cidrMask_zero[of l] by (simp add: topOnes_mask byte_mask_not_ff)
  qed
qed simp


lemma parseIPv4Fields_length: "parseIPv4Fields s = Some ip \<Longrightarrow> length ip = 4"
  by (auto simp: parseIPv4Fields_def split: list.splits option.splits)

lemma expandEllipsis_length:
  "expandEllipsis ip ell = Some r \<Longrightarrow> length ip \<le> 16 \<Longrightarrow> length r = 16"
  by (auto simp: expandEllipsis_def split: option.splits if_splits)

lemma ipv6Loop_length:
  "ipv6Loop ip ell s = Some (r, e, t) \<Longrightarrow> length ip \<le> 16 \<Longrightarrow> even (length ip) \<Longrightarrow> length r \<le> 16"
proof (induction ip ell s rule: ipv6Loop.induct)
  case (1 ip ell s)
  show ?case
  proof (cases "length ip < 16")
    case True
    with 1(5) have l: "Suc (Suc (length ip)) \<le> 16" by presburger
    note eq = 1(3) [unfolded ipv6Loop.simps [of ip ell s]]
    from True eq obtain off acc rest where h: "hexGroup 0 0 s = Some (off, acc, rest)" and off: "off \<noteq> 0"
      by (auto split: option.splits if_splits)
    define ip' where "ip' = ip @ [word_of_nat (acc div 256), word_of_nat (acc mod 256) :: 8 word]"
    have ip': "length ip' \<le> 16" "even (length ip')" using l 1(5) by (auto simp: ip'_def)
    show ?thesis
    proof (cases "rest \<noteq> [] \<and> hd rest = CHR ''.''")
      case dot: True
      with eq True h off show ?thesis
        by (auto dest!: parseIPv4Fields_length split: if_splits option.splits)
    next
      case nodot: False
      note IH1 = 1(1)[of "(off, acc, rest)" off "(acc, rest)" acc rest ip', OF _ _ _ _ off nodot ip'_def]
      note IH2 = 1(2)[of "(off, acc, rest)" off "(acc, rest)" acc rest ip', OF _ _ _ _ off nodot ip'_def]
      show ?thesis
      proof (cases rest)
        case Nil
        with eq True h off ip' show ?thesis by (simp add: ip'_def Let_def)
      next
        case (Cons c s1)
        with eq True h off nodot obtain d s2 where s1: "c = CHR '':''" "s1 = d # s2"
          by (auto simp: Let_def split: if_splits list.splits)
        show ?thesis
        proof (cases "d = CHR '':''")
          case True
          with eq \<open>length ip < 16\<close> h off nodot Cons s1 IH1[of c s1 d s2] ip' show ?thesis
            by (auto simp: Let_def ip'_def [symmetric] split: if_splits)
        next
          case False
          with eq \<open>length ip < 16\<close> h off nodot Cons s1 IH2[of c s1 d s2] ip' show ?thesis
            by (simp add: Let_def ip'_def [symmetric])
        qed
      qed
    qed
  next
    case False
    with 1(3) [unfolded ipv6Loop.simps [of ip ell s]] 1(4) show ?thesis by auto
  qed
qed

lemma parseAddr_length: "parseAddr s = Some ip \<Longrightarrow> length ip = 4 \<or> length ip = 16"
  by (auto simp: parseAddr_def parseIPv6_def Let_def dest!: parseIPv4Fields_length ipv6Loop_length expandEllipsis_length
      split: option.splits if_splits)

lemma parseCIDR_shape:
  assumes "parseCIDR s = Some n"
  obtains ip k where "length ip = 4 \<or> length ip = 16" "k \<le> 8 * length ip"
    "n = \<lparr>netIP = maskIP ip (cidrMask (length ip) k), netMask = cidrMask (length ip) k\<rparr>"
    "maskSize (netMask n) = (k, 8 * length ip)"
proof -
  from assms obtain ip where ip: "parseAddr (takeWhile (\<lambda>c. c \<noteq> CHR ''/'') s) = Some ip"
    and rest: "let m = cidrMask (length ip) (dec_val (tl (dropWhile (\<lambda>c. c \<noteq> CHR ''/'') s))) in
        n = \<lparr>netIP = maskIP ip m, netMask = m\<rparr>"
        "dec_val (tl (dropWhile (\<lambda>c. c \<noteq> CHR ''/'') s)) \<le> 8 * length ip"
    by (auto simp: parseCIDR_def Let_def split: if_splits option.splits)
  show ?thesis
    by (rule that[of ip "dec_val (tl (dropWhile (\<lambda>c. c \<noteq> CHR ''/'') s))"])
       (use rest parseAddr_length[OF ip] in \<open>auto simp: Let_def maskSize_def maskLength_cidrMask\<close>)
qed

lemma maskIP_idem: "maskIP (maskIP ip m) m = maskIP ip m"
  by (auto simp: maskIP_def list_eq_iff_nth_eq)

lemma maskIP_narrow:
  "n \<le> m \<Longrightarrow> maskIP (maskIP ip (cidrMask l m)) (cidrMask l n) = maskIP ip (cidrMask l n)"
proof -
  assume "n \<le> m"
  have "cidrMask l n ! i AND cidrMask l m ! i = cidrMask l n ! i" if "i < l" for i
    using arg_cong[OF cidrMask_mono[OF \<open>n \<le> m\<close>, of l], of "\<lambda>xs. xs ! i"] that by simp
  then show ?thesis
    by (auto simp: maskIP_def list_eq_iff_nth_eq ac_simps)
qed

lemma maskIP_cong_parts:
  "length a = 16 \<Longrightarrow> length b = 16 \<Longrightarrow> length m = 16 \<Longrightarrow> take 12 a = take 12 b \<Longrightarrow>
   maskIP (drop 12 a) (drop 12 m) = maskIP (drop 12 b) (drop 12 m) \<Longrightarrow> maskIP a m = maskIP b m"
proof -
  assume l: "length a = 16" "length b = 16" "length m = 16" and t: "take 12 a = take 12 b"
    and d: "maskIP (drop 12 a) (drop 12 m) = maskIP (drop 12 b) (drop 12 m)"
  have "maskIP x m = maskIP (take 12 x) (take 12 m) @ maskIP (drop 12 x) (drop 12 m)" if "length x = 16" for x
    using that l(3) by (simp add: maskIP_def zip_append [symmetric] flip: map_append)
  with l t d show ?thesis by simp
qed

lemma netContains_masked:
  assumes "length (netIP n) = length (netMask n)" "length (netIP n) = 4 \<or> length (netIP n) = 16"
    and "length ip = length (netIP n)" and "netContains n ip"
  shows "maskIP (netIP n) (netMask n) = maskIP ip (netMask n)"
proof (cases "length ip = 16 \<and> take 12 (netIP n) = v4InV6Prefix")
  case True
  with assms(1,3) have t4: "to4 (netIP n) = Some (drop 12 (netIP n))" and lm: "length (netMask n) = 16"
    by (auto simp: to4_def)
  show ?thesis
  proof (cases "take 12 ip = v4InV6Prefix")
    case ipv4: True
    with True have "to4 ip = Some (drop 12 ip)" by (simp add: to4_def)
    with assms(4) t4 lm have d: "maskIP (drop 12 (netIP n)) (drop 12 (netMask n)) = maskIP (drop 12 ip) (drop 12 (netMask n))"
      by (simp add: netContains_def networkNumberAndMask_def)
    from True assms(3) have "length (netIP n) = 16" "length ip = 16" "take 12 (netIP n) = take 12 ip"
      using ipv4 by auto
    then show ?thesis by (rule maskIP_cong_parts [OF _ _ lm _ d])
  next
    case False
    with True have "to4 ip = None" by (simp add: to4_def)
    with assms(3,4) t4 True show ?thesis by (simp add: netContains_def networkNumberAndMask_def)
  qed
next
  case False
  show ?thesis
  proof (cases "length ip = 4")
    case True
    with assms(1,3) have "to4 (netIP n) = Some (netIP n)" "to4 ip = Some ip" "length (netMask n) = 4"
      by (simp_all add: to4_def)
    with assms(4) show ?thesis
      by (simp add: netContains_def networkNumberAndMask_def)
  next
    case l16: False
    with False assms(2,3) have n: "to4 (netIP n) = None" "length ip = 16" by (auto simp: to4_def)
    have "to4 ip = None"
    proof (cases "to4 ip")
      case (Some y)
      then have "length y = 4" using n(2) by (auto simp: to4_def split: if_splits)
      with assms(3,4) n Some show ?thesis by (simp add: netContains_def networkNumberAndMask_def)
    qed
    with assms(4) n show ?thesis by (simp add: netContains_def networkNumberAndMask_def)
  qed
qed

lemma block_narrow:
  assumes "parseCIDR s = Some p" "parseCIDR t = Some e"
    and "snd (maskSize (netMask p)) = snd (maskSize (netMask e))"
    and "fst (maskSize (netMask p)) \<le> fst (maskSize (netMask e))"
    and c: "netContains p (netIP e)"
  shows "block e \<subseteq> block p"
proof -
  from parseCIDR_shape[OF assms(1)] obtain ip k where
    p: "length ip = 4 \<or> length ip = 16" "p = \<lparr>netIP = maskIP ip (cidrMask (length ip) k), netMask = cidrMask (length ip) k\<rparr>"
      "maskSize (netMask p) = (k, 8 * length ip)" by metis
  from parseCIDR_shape[OF assms(2)] obtain ie ke where
    e: "length ie = 4 \<or> length ie = 16" "e = \<lparr>netIP = maskIP ie (cidrMask (length ie) ke), netMask = cidrMask (length ie) ke\<rparr>"
      "maskSize (netMask e) = (ke, 8 * length ie)" by metis
  have len: "length ie = length ip" and kk: "k \<le> ke"
    using assms(3,4) p(3) e(3) by auto
  have m: "maskIP (netIP p) (netMask p) = maskIP (netIP e) (netMask p)"
    by (rule netContains_masked[OF _ _ _ c]) (use p e len in auto)
  show ?thesis
  proof
    fix a assume a: "a \<in> block e"
    then have la: "length a = length ip" and ae: "maskIP a (netMask e) = netIP e"
      using e len by (auto simp: block_def)
    have "maskIP a (netMask p) = maskIP (maskIP a (netMask e)) (netMask p)"
      using kk len by (simp add: p(2) e(2) maskIP_narrow)
    also have "\<dots> = maskIP (netIP p) (netMask p)" by (simp add: ae m)
    also have "\<dots> = netIP p" by (simp add: p(2) maskIP_idem)
    finally show "a \<in> block p" using la p by (simp add: block_def)
  qed
qed

lemma cidrMask_0: "cidrMask l 0 = replicate l 0"
  by (induction l) (auto simp: ff_minus_one)

lemma maskIP_zero: "length m = length ip \<Longrightarrow> maskIP (replicate (length ip) 0) m = replicate (length ip) 0"
  by (auto simp: maskIP_def list_eq_iff_nth_eq)

lemma maskIP_by_zero: "length ip = l \<Longrightarrow> maskIP ip (replicate l 0) = replicate l 0"
  by (auto simp: maskIP_def list_eq_iff_nth_eq)

lemma maskIP_ones: "maskIP (replicate (length m) 0xFF) m = m"
  by (auto simp: maskIP_def list_eq_iff_nth_eq byte_ff and.commute [of "0xFF :: 8 word"] simp del: numeral_One)

text \<open>A network is the whole address family exactly when its prefix length is zero.\<close>

lemma block_universal_iff:
  assumes "parseCIDR s = Some p"
  shows "fst (maskSize (netMask p)) = 0 \<longleftrightarrow> block p = {ip. length ip = length (netIP p)}"
proof -
  from parseCIDR_shape[OF assms(1)] obtain ip k where
    p: "p = \<lparr>netIP = maskIP ip (cidrMask (length ip) k), netMask = cidrMask (length ip) k\<rparr>"
      "maskSize (netMask p) = (k, 8 * length ip)" and k: "k \<le> 8 * length ip" by metis
  show ?thesis
  proof
    assume "fst (maskSize (netMask p)) = 0"
    with p have "k = 0" by simp
    then show "block p = {ip. length ip = length (netIP p)}"
      by (auto simp: block_def p(1) cidrMask_0 maskIP_by_zero)
  next
    assume all: "block p = {ip. length ip = length (netIP p)}"
    let ?n = "length ip"
    have "replicate ?n 0 \<in> block p" "replicate ?n 0xFF \<in> block p"
      unfolding all by (simp_all add: p(1))
    then have "maskIP (replicate ?n 0) (cidrMask ?n k) = maskIP (replicate ?n 0xFF) (cidrMask ?n k)"
      by (simp add: block_def p(1))
    then have "cidrMask ?n k = replicate ?n 0"
      using maskIP_zero[of "cidrMask ?n k" ip] maskIP_ones[of "cidrMask ?n k"] by simp
    then have "maskLength (cidrMask ?n k) = maskLength (cidrMask ?n 0)" by (simp add: cidrMask_0)
    with k have "k = 0" by (simp add: maskLength_cidrMask)
    with p(2) show "fst (maskSize (netMask p)) = 0" by simp
  qed
qed

lemma netIP_in_block: "parseCIDR s = Some p \<Longrightarrow> netIP p \<in> block p"
  by (erule parseCIDR_shape) (auto simp: block_def maskIP_idem)

section \<open>The contract of the address library\<close>

text \<open>
  What validation and posture reporting use: a network contained in another by the checks they
  make holds a subset of its addresses, and a zero prefix is the whole family.
\<close>

locale cidr_blocks =
  fixes parse :: "string \<Rightarrow> 'n option" and size_of :: "'n \<Rightarrow> nat \<times> nat"
    and base :: "'n \<Rightarrow> 'i" and contains :: "'n \<Rightarrow> 'i \<Rightarrow> bool"
    and addresses :: "'n \<Rightarrow> 'i set" and family :: "'n \<Rightarrow> 'i set"
  assumes narrow: "parse s = Some p \<Longrightarrow> parse t = Some e \<Longrightarrow> snd (size_of p) = snd (size_of e) \<Longrightarrow>
      fst (size_of p) \<le> fst (size_of e) \<Longrightarrow> contains p (base e) \<Longrightarrow> addresses e \<subseteq> addresses p"
    and universal: "parse s = Some p \<Longrightarrow> fst (size_of p) = 0 \<longleftrightarrow> addresses p = family p"
    and inhabited: "parse s = Some p \<Longrightarrow> base p \<in> addresses p"
begin

text \<open>A list of exceptions that all pass the checks removes only addresses of the network.\<close>

lemma excepts_within:
  assumes "parse c = Some p"
    and "\<forall>t \<in> set ex. \<exists>e. parse t = Some e \<and> snd (size_of p) = snd (size_of e)
           \<and> fst (size_of p) \<le> fst (size_of e) \<and> contains p (base e)"
  shows "\<forall>t \<in> set ex. \<exists>e. parse t = Some e \<and> base e \<in> addresses e \<and> addresses e \<subseteq> addresses p"
  using assms narrow inhabited by metis

end

interpretation go_net: cidr_blocks parseCIDR "\<lambda>n. maskSize (netMask n)" netIP netContains block
  "\<lambda>n. {ip. length ip = length (netIP n)}"
  by unfold_locales (erule (4) block_narrow, erule block_universal_iff, erule netIP_in_block)

end
