(* ===== verification/Json.thy ===== *)
theory Json
  imports Prelude "HOL-Library.AList" "HOL-Library.List_Lexorder" "HOL-Library.Char_ord"
begin

text \<open>
  The part of Go's \<open>encoding/json\<close> that the operator uses: \<open>json.Marshal\<close> of a
  \<open>map[string]string\<close> and \<open>json.Unmarshal\<close> into one. The operator records in annotations, as
  JSON, which labels and annotations it has added to an object. API strings are valid UTF-8, so a
  byte above 127 stands for a part of a rune and is copied; the replacement of invalid
  UTF-8 is not modelled.
\<close>

section \<open>Encoding\<close>

definition unicode_escape :: "char \<Rightarrow> string" where
  "unicode_escape c = [CHR 0x5C, CHR ''u'', CHR ''0'', CHR ''0'', hex_char ((of_char c :: nat) div 16), hex_char (of_char c)]"

text \<open>One byte of a string, with the HTML-safe escapes that \<open>Marshal\<close> applies.\<close>

definition json_byte :: "char \<Rightarrow> string" where
  "json_byte c =
     (if c = CHR 0x22 then [CHR 0x5C, CHR 0x22]
      else if c = CHR 0x5C then [CHR 0x5C, CHR 0x5C]
      else if c = CHR 0x08 then [CHR 0x5C, CHR ''b'']
      else if c = CHR 0x0C then [CHR 0x5C, CHR ''f'']
      else if c = CHR 0x0A then [CHR 0x5C, CHR ''n'']
      else if c = CHR 0x0D then [CHR 0x5C, CHR ''r'']
      else if c = CHR 0x09 then [CHR 0x5C, CHR ''t'']
      else if (of_char c :: nat) < 32 \<or> c = CHR ''<'' \<or> c = CHR ''>'' \<or> c = CHR ''&'' then unicode_escape c
      else [c])"

text \<open>The line and paragraph separators U+2028 and U+2029 are escaped too.\<close>

function json_escape :: "string \<Rightarrow> string" where
  "json_escape [] = []"
| "json_escape (c # s) =
     (if hasPrefix (c # s) [CHR 0xE2, CHR 0x80, CHR 0xA8] then [CHR 0x5C] @ ''u2028'' @ json_escape (drop 2 s)
      else if hasPrefix (c # s) [CHR 0xE2, CHR 0x80, CHR 0xA9] then [CHR 0x5C] @ ''u2029'' @ json_escape (drop 2 s)
      else json_byte c @ json_escape s)"
  by pat_completeness auto
termination by (relation "measure length") auto

declare json_escape.simps(2) [simp del]

definition json_string :: "string \<Rightarrow> string" where
  "json_string s = [CHR 0x22] @ json_escape s @ [CHR 0x22]"

definition json_member :: "string \<times> string \<Rightarrow> string" where
  "json_member kv = json_string (fst kv) @ '':'' @ json_string (snd kv)"

text \<open>\<open>json.Marshal\<close>: \<open>null\<close> for the nil map, otherwise the members sorted by key.\<close>

definition json_marshal :: "gomap \<Rightarrow> string" where
  "json_marshal m = (case m of
     None \<Rightarrow> ''null''
   | Some kvs \<Rightarrow> ''{'' @ joinWith '','' (map json_member (sort_key fst kvs)) @ ''}'')"

section \<open>Decoding\<close>

text \<open>Four hexadecimal digits, \<open>getu4\<close> after the backslash and the \<open>u\<close>.\<close>

fun hex4 :: "string \<Rightarrow> (nat \<times> string) option" where
  "hex4 (a # b # c # d # s) = (case (hex_val a, hex_val b, hex_val c, hex_val d) of
     (Some a', Some b', Some c', Some d') \<Rightarrow> Some (((a' * 16 + b') * 16 + c') * 16 + d', s)
   | _ \<Rightarrow> None)"
| "hex4 _ = None"

definition utf8 :: "nat \<Rightarrow> string" where
  "utf8 n =
     (if n < 0x80 then [char_of n]
      else if n < 0x800 then [char_of (0xC0 + n div 0x40), char_of (0x80 + n mod 0x40)]
      else if n < 0x10000
      then [char_of (0xE0 + n div 0x1000), char_of (0x80 + n div 0x40 mod 0x40), char_of (0x80 + n mod 0x40)]
      else [char_of (0xF0 + n div 0x40000), char_of (0x80 + n div 0x1000 mod 0x40),
            char_of (0x80 + n div 0x40 mod 0x40), char_of (0x80 + n mod 0x40)])"

definition simple_escape :: "char \<Rightarrow> char option" where
  "simple_escape e =
     (if e = CHR 0x22 \<or> e = CHR 0x5C \<or> e = CHR ''/'' then Some e
      else if e = CHR ''b'' then Some (CHR 0x08) else if e = CHR ''f'' then Some (CHR 0x0C)
      else if e = CHR ''n'' then Some (CHR 0x0A) else if e = CHR ''r'' then Some (CHR 0x0D)
      else if e = CHR ''t'' then Some (CHR 0x09) else None)"

text \<open>The low half of a surrogate pair that directly follows, if there is one.\<close>

definition low_surrogate :: "string \<Rightarrow> (nat \<times> string) option" where
  "low_surrogate s =
     (if hasPrefix s [CHR 0x5C, CHR ''u'']
      then (case hex4 (drop 2 s) of
              Some (v, t) \<Rightarrow> if 0xDC00 \<le> v \<and> v < 0xE000 then Some (v, t) else None
            | None \<Rightarrow> None)
      else None)"

definition escaped_rune :: "nat \<Rightarrow> string \<Rightarrow> string \<times> string" where
  "escaped_rune v t =
     (if 0xD800 \<le> v \<and> v < 0xE000
      then (case low_surrogate t of
              Some (w, u) \<Rightarrow> if v < 0xDC00
                then (utf8 ((v - 0xD800) * 0x400 + (w - 0xDC00) + 0x10000), u) else (utf8 0xFFFD, t)
            | None \<Rightarrow> (utf8 0xFFFD, t))
      else (utf8 v, t))"

lemma hex4_length: "hex4 s = Some (v, t) \<Longrightarrow> length t < length s"
  by (induction s rule: hex4.induct) (auto split: option.splits)

lemma escaped_rune_length: "length (snd (escaped_rune v t)) \<le> length t"
  by (auto simp: escaped_rune_def low_surrogate_def dest!: hex4_length split: option.splits if_splits)

text \<open>A string after its opening quote: the decoded text and what follows the closing quote.\<close>

function unquote :: "string \<Rightarrow> (string \<times> string) option" where
  "unquote [] = None"
| "unquote (c # s) =
     (if c = CHR 0x22 then Some ([], s)
      else if c = CHR 0x5C
      then (case s of
              [] \<Rightarrow> None
            | e # t \<Rightarrow>
                if e = CHR ''u''
                then (case hex4 t of
                        None \<Rightarrow> None
                      | Some (v, t') \<Rightarrow> map_option (apfst ((@) (fst (escaped_rune v t')))) (unquote (snd (escaped_rune v t'))))
                else (case simple_escape e of
                        None \<Rightarrow> None
                      | Some x \<Rightarrow> map_option (apfst ((#) x)) (unquote t)))
      else if (of_char c :: nat) < 32 then None
      else map_option (apfst ((#) c)) (unquote s))"
  by pat_completeness auto
termination
  by (relation "measure length") (auto intro!: le_less_trans[OF escaped_rune_length] dest: hex4_length)

declare unquote.simps(2) [simp del]

definition json_ws :: "char \<Rightarrow> bool" where
  "json_ws c \<longleftrightarrow> c \<in> {CHR 0x20, CHR 0x09, CHR 0x0A, CHR 0x0D}"

abbreviation skip_ws :: "string \<Rightarrow> string" where
  "skip_ws s \<equiv> dropWhile json_ws s"

text \<open>A quoted string, and a value: a string, or \<open>null\<close>, which leaves the zero value.\<close>

definition json_read_string :: "string \<Rightarrow> (string \<times> string) option" where
  "json_read_string s = (case skip_ws s of c # t \<Rightarrow> if c = CHR 0x22 then unquote t else None | [] \<Rightarrow> None)"

definition json_read_value :: "string \<Rightarrow> (string \<times> string) option" where
  "json_read_value s = (if hasPrefix (skip_ws s) ''null'' then Some ([], drop 4 (skip_ws s)) else json_read_string s)"

definition json_read_member :: "string \<Rightarrow> ((string \<times> string) \<times> string) option" where
  "json_read_member s = (case json_read_string s of
     None \<Rightarrow> None
   | Some (k, t) \<Rightarrow> (case skip_ws t of
        [] \<Rightarrow> None
      | c # u \<Rightarrow> if c \<noteq> CHR '':'' then None
          else map_option (\<lambda>(v, r). ((k, v), r)) (json_read_value u)))"

lemma unquote_length: "unquote s = Some (d, r) \<Longrightarrow> length r < length s"
proof (induction s arbitrary: d r rule: unquote.induct)
  case (2 c s)
  note eq = 2(4)[unfolded unquote.simps(2)]
  show ?case
  proof (cases "c = CHR 0x22 \<or> c \<noteq> CHR 0x5C")
    case True
    with eq 2(3) show ?thesis by (auto split: if_splits)
  next
    case False
    with eq obtain e t where s: "s = e # t" by (auto split: list.splits)
    show ?thesis
    proof (cases "e = CHR ''u''")
      case True
      with eq False s obtain v t' where h: "hex4 t = Some (v, t')" by (auto split: option.splits)
      with eq False s True obtain d' where "unquote (snd (escaped_rune v t')) = Some (d', r)" by auto
      from 2(1)[OF _ _ s True h refl this] False h show ?thesis
        using hex4_length[OF h] escaped_rune_length[of v t'] s by auto
    next
      case nu: False
      with eq False s obtain x d' where x: "simple_escape e = Some x" "unquote t = Some (d', r)"
        by (auto split: option.splits)
      from 2(2)[OF _ _ s nu x] False s show ?thesis by auto
    qed
  qed
qed simp

lemma json_read_member_length: "json_read_member s = Some (kv, t) \<Longrightarrow> length t < length s"
proof -
  assume a: "json_read_member s = Some (kv, t)"
  have str: "length r < length u" if "json_read_string u = Some (d, r)" for u d r
    using that unquote_length[of _ d r] length_dropWhile_le[of json_ws u]
    by (fastforce simp: json_read_string_def split: list.splits if_splits)
  have val: "length r \<le> length u" if "json_read_value u = Some (d, r)" for u d r
    using that str[of u d r] length_dropWhile_le[of json_ws u]
    by (auto simp: json_read_value_def split: if_splits)
  from a obtain k u c w where 1: "json_read_string s = Some (k, u)" "skip_ws u = c # w"
    and 2: "json_read_value w = Some (snd kv, t)"
    by (auto simp: json_read_member_def split: option.splits list.splits if_splits)
  from str[OF 1(1)] val[OF 2] 1(2) length_dropWhile_le[of json_ws u] show ?thesis by simp
qed

text \<open>The members after the opening brace of a non-empty object.\<close>

function json_read_members :: "string \<Rightarrow> ((string \<times> string) list \<times> string) option" where
  "json_read_members s = (case json_read_member s of
     None \<Rightarrow> None
   | Some (kv, t) \<Rightarrow> (case skip_ws t of
        [] \<Rightarrow> None
      | c # u \<Rightarrow> if c = CHR '','' then map_option (apfst ((#) kv)) (json_read_members u)
          else if c = CHR ''}'' then Some ([kv], u) else None))"
  by pat_completeness auto
termination
proof (relation "measure length", simp)
  fix s x kv t c u
  assume "json_read_member s = Some x" "(kv, t) = x" "skip_ws t = c # u"
  then show "(u, s) \<in> measure length"
    using json_read_member_length[of s kv t] length_dropWhile_le[of json_ws t] by simp
qed

declare json_read_members.simps [simp del]

definition json_read_object :: "string \<Rightarrow> ((string \<times> string) list \<times> string) option" where
  "json_read_object s = (case skip_ws s of
     [] \<Rightarrow> None
   | c # t \<Rightarrow> if c \<noteq> CHR ''{'' then None
       else if hasPrefix (skip_ws t) ''}'' then Some ([], tl (skip_ws t))
       else json_read_members t)"

definition json_is_null :: "string \<Rightarrow> bool" where
  "json_is_null s \<longleftrightarrow> hasPrefix (skip_ws s) ''null'' \<and> skip_ws (drop 4 (skip_ws s)) = []"

text \<open>
  \<open>json.Unmarshal\<close> into a \<open>map[string]string\<close>: \<open>None\<close> when the text is not JSON or not
  an object of strings, \<open>Some None\<close> for \<open>null\<close>; of a repeated key the last value stays.
\<close>

definition json_unmarshal :: "string \<Rightarrow> gomap option" where
  "json_unmarshal s =
     (if json_is_null s then Some None
      else case json_read_object s of
        None \<Rightarrow> None
      | Some (kvs, rest) \<Rightarrow> if skip_ws rest \<noteq> [] then None
          else Some (Some (fold (\<lambda>(k, v). AList.update k v) kvs [])))"

section \<open>Decoding what was encoded\<close>

lemma hex_val_char: "n < 16 \<Longrightarrow> hex_val (hex_char n) = Some n"
proof -
  have "\<forall>n \<in> set [0..<16]. hex_val (hex_char n) = Some n" by code_simp
  then show "n < 16 \<Longrightarrow> hex_val (hex_char n) = Some n" by auto
qed

lemma hex_char_mod: "hex_char n = hex_char (n mod 16)"
  by (simp add: hex_char_def)

lemma append_singleton: "(@) [c] = (#) c"
  by (rule ext) simp

lemma unquote_u_escape:
  assumes "(of_char c :: nat) < 128"
  shows "unquote (unicode_escape c @ t) = map_option (apfst ((#) c)) (unquote t)"
proof -
  have d: "(of_char c :: nat) div 16 < 16" using assms by simp
  have z: "hex_val (CHR ''0'') = Some 0" by code_simp
  have "hex4 (CHR ''0'' # CHR ''0'' # hex_char ((of_char c :: nat) div 16) # hex_char (of_char c) # t) = Some (of_char c, t)"
    using d by (simp add: z hex_val_char hex_char_mod[of "of_char c"])
  moreover have "escaped_rune (of_char c) t = ([c], t)"
    using assms by (simp add: escaped_rune_def utf8_def)
  ultimately show ?thesis
    by (simp add: unicode_escape_def unquote.simps(2) append_singleton del: hex4.simps)
qed

lemma unquote_json_byte: "unquote (json_byte c @ t) = map_option (apfst ((#) c)) (unquote t)"
proof (cases "(of_char c :: nat) < 32 \<or> c = CHR ''<'' \<or> c = CHR ''>'' \<or> c = CHR ''&''")
  case True
  then have "(of_char c :: nat) < 128" by auto
  then show ?thesis
    using unquote_u_escape[of c t] True
    by (auto simp: json_byte_def unquote.simps(2) simple_escape_def)
next
  case False
  then show ?thesis
    by (auto simp: json_byte_def unquote.simps(2) simple_escape_def)
qed

lemma unquote_separators:
  "unquote (CHR 0x5C # ''u2028'' @ t) = map_option (apfst ((@) [CHR 0xE2, CHR 0x80, CHR 0xA8])) (unquote t)"
  "unquote (CHR 0x5C # ''u2029'' @ t) = map_option (apfst ((@) [CHR 0xE2, CHR 0x80, CHR 0xA9])) (unquote t)"
proof -
  have h: "hex4 (''2028'' @ t) = Some (0x2028, t)" "hex4 (''2029'' @ t) = Some (0x2029, t)"
    by (simp_all add: hex_val_def)
  have bytes: "char_of (226 :: nat) = CHR 0xE2" "char_of (128 :: nat) = CHR 0x80" "char_of (168 :: nat) = CHR 0xA8"
    "char_of (169 :: nat) = CHR 0xA9"
    by code_simp+
  have e: "escaped_rune 0x2028 t = ([CHR 0xE2, CHR 0x80, CHR 0xA8], t)"
     "escaped_rune 0x2029 t = ([CHR 0xE2, CHR 0x80, CHR 0xA9], t)"
    by (simp_all add: escaped_rune_def utf8_def bytes)
  show "unquote (CHR 0x5C # ''u2028'' @ t) = map_option (apfst ((@) [CHR 0xE2, CHR 0x80, CHR 0xA8])) (unquote t)"
    using h(1) e(1) by (simp add: unquote.simps(2))
  show "unquote (CHR 0x5C # ''u2029'' @ t) = map_option (apfst ((@) [CHR 0xE2, CHR 0x80, CHR 0xA9])) (unquote t)"
    using h(2) e(2) by (simp add: unquote.simps(2))
qed


lemma json_escape_separators:
  "json_escape (CHR 0xE2 # CHR 0x80 # CHR 0xA8 # u) = CHR 0x5C # ''u2028'' @ json_escape u"
  "json_escape (CHR 0xE2 # CHR 0x80 # CHR 0xA9 # u) = CHR 0x5C # ''u2029'' @ json_escape u"
  by (simp_all add: json_escape.simps(2)[of "CHR 0xE2"] hasPrefix_def)

lemma unquote_escape: "unquote (json_escape s @ CHR 0x22 # r) = Some (s, r)"
proof (induction s rule: json_escape.induct)
  case 1
  then show ?case by (simp add: unquote.simps(2))
next
  case (2 c s)
  show ?case
  proof (cases "hasPrefix (c # s) [CHR 0xE2, CHR 0x80, CHR 0xA8] \<or> hasPrefix (c # s) [CHR 0xE2, CHR 0x80, CHR 0xA9]")
    case True
    then obtain x u where s: "c = CHR 0xE2" "s = CHR 0x80 # x # u" "x = CHR 0xA8 \<or> x = CHR 0xA9"
      by (cases s rule: list.exhaust[case_product list.exhaust]; cases "tl s") (auto simp: hasPrefix_def)
    have p: "hasPrefix (CHR 0xE2 # CHR 0x80 # x # u) [CHR 0xE2, CHR 0x80, y] \<longleftrightarrow> x = y" for y by (simp add: hasPrefix_def)
    have "unquote (json_escape u @ CHR 0x22 # r) = Some (u, r)"
      using 2(1,2) s by (auto simp: p)
    with s show ?thesis using unquote_separators[of "json_escape u @ CHR 0x22 # r"]
      by (auto simp: json_escape_separators)
  next
    case False
    with 2(3) show ?thesis by (simp add: json_escape.simps(2) unquote_json_byte)
  qed
qed

lemma json_read_string_json: "json_read_string (json_string s @ r) = Some (s, r)"
  by (simp add: json_read_string_def json_string_def json_ws_def unquote_escape)

lemma json_read_value_json: "json_read_value (json_string s @ r) = Some (s, r)"
proof -
  have "\<not> hasPrefix (skip_ws (json_string s @ r)) ''null''"
    by (simp add: json_string_def json_ws_def hasPrefix_def)
  then show ?thesis by (simp add: json_read_value_def json_read_string_json)
qed

lemma json_read_member_json: "json_read_member (json_member kv @ r) = Some (kv, r)"
  by (simp add: json_read_member_def json_member_def json_read_string_json json_ws_def json_read_value_json)

lemma json_read_members_json:
  "kvs \<noteq> [] \<Longrightarrow> json_read_members (joinWith '','' (map json_member kvs) @ CHR ''}'' # r) = Some (kvs, r)"
proof (induction kvs)
  case (Cons kv kvs)
  show ?case
  proof (cases kvs)
    case Nil
    then show ?thesis by (simp add: json_read_members.simps json_read_member_json json_ws_def)
  next
    case (Cons kv' kvs')
    with Cons.IH show ?thesis
      by (simp add: json_read_members.simps[of "json_member kv @ _"] json_read_member_json json_ws_def)
  qed
qed simp

lemma json_member_not_brace: "\<not> hasPrefix (skip_ws (json_member kv @ r)) ''}''"
  by (simp add: json_member_def json_string_def json_ws_def hasPrefix_def)

lemma update_fresh: "k \<notin> set (map fst acc) \<Longrightarrow> AList.update k v acc = acc @ [(k, v)]"
  by (induction acc) auto

lemma fold_update_distinct:
  "distinct (map fst kvs) \<Longrightarrow> set (map fst kvs) \<inter> set (map fst acc) = {} \<Longrightarrow>
   fold (\<lambda>(k, v). AList.update k v) kvs acc = acc @ kvs"
proof (induction kvs arbitrary: acc)
  case (Cons kv kvs)
  have "AList.update (fst kv) (snd kv) acc = acc @ [kv]"
    using Cons(3) by (simp add: update_fresh)
  with Cons show ?case by (auto simp: case_prod_beta)
qed simp

lemma json_unmarshal_marshal:
  assumes "gm_wf m"
  shows "json_unmarshal (json_marshal m) = Some (map_option (sort_key fst) m)"
proof (cases m)
  case None
  have "json_unmarshal ''null'' = Some None" by (simp add: json_unmarshal_def json_is_null_def json_ws_def hasPrefix_def)
  with None show ?thesis by (simp add: json_marshal_def)
next
  case (Some kvs)
  let ?k = "sort_key fst kvs"
  have d: "distinct (map fst ?k)" using assms Some
    by (simp add: gm_wf_def gm_list_def distinct_map) 
  have n: "\<not> hasPrefix (skip_ws (CHR ''{'' # u)) ''null''" for u by (simp add: json_ws_def hasPrefix_def)
  have "json_read_object (json_marshal m) = Some (?k, [])"
  proof (cases "?k")
    case Nil
    then show ?thesis by (simp add: Some json_marshal_def json_read_object_def json_ws_def hasPrefix_def)
  next
    case (Cons kv ks)
    then have "\<not> hasPrefix (skip_ws (joinWith '','' (map json_member ?k) @ ''}'')) ''}''"
      by (cases ks) (simp_all add: json_member_not_brace)
    then show ?thesis
      using json_read_members_json[of ?k "[]"] Cons
      by (simp add: Some json_marshal_def json_read_object_def json_ws_def)
  qed
  then show ?thesis
    using fold_update_distinct[OF d, of "[]"] n
    by (simp add: json_unmarshal_def json_is_null_def Some json_marshal_def)
qed

end
