(* ===== verification/Metadata.thy ===== *)
theory Metadata
  imports Env Json
begin

text \<open>
  User-supplied labels and annotations (\<open>internal/controller/custom_metadata.go\<close>). The operator
  merges \<open>spec.extraLabels\<close> and \<open>spec.extraAnnotations\<close> into the objects it manages and
  records what it added, as JSON, in two annotations, so that a later reconcile can remove
  what the user has dropped. The change detectors decide from the same record whether an
  object has to be updated.
\<close>

section \<open>Go maps\<close>

definition gm_put :: "gomap \<Rightarrow> string \<Rightarrow> string \<Rightarrow> gomap" where
  "gm_put m k v = map_option (AList.update k v) m"

text \<open>\<open>delete\<close> on a nil map does nothing.\<close>

definition gm_delete :: "string \<Rightarrow> gomap \<Rightarrow> gomap" where
  "gm_delete k m = map_option (AList.delete k) m"

definition gm_delete_keys :: "gomap \<Rightarrow> gomap \<Rightarrow> gomap" where
  "gm_delete_keys ks m = fold (\<lambda>(k, v). gm_delete k) (gm_list ks) m"

text \<open>\<open>maps.Copy(dst, src)\<close> and \<open>maps.Equal\<close>.\<close>

definition gm_copy :: "gomap \<Rightarrow> gomap \<Rightarrow> gomap" where
  "gm_copy dst src = fold (\<lambda>(k, v) m. gm_put m k v) (gm_list src) dst"

definition gm_equal :: "gomap \<Rightarrow> gomap \<Rightarrow> bool" where
  "gm_equal a b \<longleftrightarrow> gm_len a = gm_len b \<and> list_all (\<lambda>(k, v). gm_get b k = Some v) (gm_list a)"

text \<open>\<open>if m == nil { m = make(map[string]string) }\<close>.\<close>

definition gm_make :: "gomap \<Rightarrow> gomap" where
  "gm_make m = (case m of None \<Rightarrow> Some [] | Some _ \<Rightarrow> m)"

section \<open>The operations\<close>

abbreviation LabelKeyApp :: string where "LabelKeyApp \<equiv> ''app''"
abbreviation LabelKeyMCPServer :: string where "LabelKeyMCPServer \<equiv> ''mcp-server''"
abbreviation managedExtraLabels :: string where "managedExtraLabels \<equiv> ''mcp.x-k8s.io/managed-extra-labels''"
abbreviation managedExtraAnnotations :: string where "managedExtraAnnotations \<equiv> ''mcp.x-k8s.io/managed-extra-annotations''"
abbreviation reservedAnnotationPrefix :: string where "reservedAnnotationPrefix \<equiv> ''mcp.x-k8s.io/''"

abbreviation ManagedWorkloadName :: string where "ManagedWorkloadName \<equiv> ''mcp-server''"

definition managedWorkloadLabels :: "string \<Rightarrow> gomap" where
  "managedWorkloadLabels name = Some [(LabelKeyApp, ManagedWorkloadName), (LabelKeyMCPServer, name)]"

definition managedWorkloadSelector :: "string \<Rightarrow> (string \<times> string) list" where
  "managedWorkloadSelector name = [(LabelKeyMCPServer, name)]"

definition reservedLabelKeys :: "string \<Rightarrow> bool" where
  "reservedLabelKeys k \<longleftrightarrow> k = LabelKeyApp \<or> k = LabelKeyMCPServer"

definition filterReservedKeys :: "gomap \<Rightarrow> gomap" where
  "filterReservedKeys m = (if gm_len m = 0 then m else Some (filter (\<lambda>(k, v). \<not> reservedLabelKeys k) (gm_list m)))"

definition filterReservedAnnotationKeys :: "gomap \<Rightarrow> gomap" where
  "filterReservedAnnotationKeys m =
     (if gm_len m = 0 then m else Some (filter (\<lambda>(k, v). \<not> hasPrefix k reservedAnnotationPrefix) (gm_list m)))"

abbreviation effectiveLabels :: "MCPServer \<Rightarrow> gomap" where
  "effectiveLabels ms \<equiv> filterReservedKeys (spExtraLabels (msSpec ms))"

abbreviation effectiveAnnotations :: "MCPServer \<Rightarrow> gomap" where
  "effectiveAnnotations ms \<equiv> filterReservedAnnotationKeys (spExtraAnnotations (msSpec ms))"

definition mergeMaps :: "gomap \<Rightarrow> gomap \<Rightarrow> go_error + gomap" where
  "mergeMaps dst src = (if dst = None then Inl (ErrorString ''destination map not initialized'') else Inr (gm_copy dst src))"

text \<open>The record of what was added: absent, not readable (\<open>None\<close>), or a map.\<close>

definition readManaged :: "string \<Rightarrow> gomap \<Rightarrow> gomap option" where
  "readManaged key annotations = (case gm_get annotations key of None \<Rightarrow> Some None | Some v \<Rightarrow> json_unmarshal v)"

text \<open>The text of the record, for error messages.\<close>

definition managedText :: "string \<Rightarrow> gomap \<Rightarrow> string" where
  "managedText key annotations = (case gm_get annotations key of None \<Rightarrow> [] | Some v \<Rightarrow> v)"

text \<open>\<open>annotations[key] = json\<close>, unless the JSON text is \<open>null\<close>.\<close>

definition recordManaged :: "string \<Rightarrow> gomap \<Rightarrow> gomap \<Rightarrow> gomap" where
  "recordManaged key m annotations =
     (let j = json_marshal m in if j \<noteq> [] \<and> j \<noteq> ''null'' then gm_put annotations key j else annotations)"

definition mergeIfAny :: "string \<Rightarrow> gomap \<Rightarrow> gomap \<Rightarrow> go_error + gomap" where
  "mergeIfAny msg dst src =
     (if gm_len src > 0 then (case mergeMaps dst src of Inl e \<Rightarrow> Inl (Wrap msg e) | Inr m \<Rightarrow> Inr m) else Inr dst)"

definition applyCustomObjectMetadata :: "K8sLib \<Rightarrow> MCPServer \<Rightarrow> ObjectMeta \<Rightarrow> go_error + ObjectMeta" where
  "applyCustomObjectMetadata K ms obj =
     (let annotations = omAnnotations obj; effL = effectiveLabels ms; effA = effectiveAnnotations ms
      in case readManaged managedExtraLabels annotations of
        None \<Rightarrow> Inl (Wrap ''retrieving current custom labels failed; ''
                     (ErrorString (jsonErrorText K (managedText managedExtraLabels annotations))))
      | Some currentLabels \<Rightarrow>
         (let labels1 = (if gm_equal effL currentLabels then omLabels obj else gm_delete_keys currentLabels (omLabels obj));
              ann1 = (if gm_equal effL currentLabels then annotations else gm_delete managedExtraLabels annotations)
          in case readManaged managedExtraAnnotations ann1 of
            None \<Rightarrow> Inl (Wrap ''retrieving current custom annotations failed; ''
                         (ErrorString (jsonErrorText K (managedText managedExtraAnnotations ann1))))
          | Some currentAnnotations \<Rightarrow>
             (let ann2 = (if gm_equal effA currentAnnotations then ann1
                          else gm_delete managedExtraAnnotations (gm_delete_keys currentAnnotations ann1))
              in if gm_len effL = 0 \<and> gm_len effA = 0 \<and> gm_len currentLabels = 0 \<and> gm_len currentAnnotations = 0
                 then Inr (obj\<lparr>omLabels := labels1, omAnnotations := ann2\<rparr>)
                 else (case mergeIfAny ''appending labels failed; '' (gm_make labels1) effL of
                    Inl e \<Rightarrow> Inl e
                  | Inr labels3 \<Rightarrow>
                     (case mergeIfAny ''appending annotations failed; '' (gm_make ann2) effA of
                        Inl e \<Rightarrow> Inl e
                      | Inr ann3 \<Rightarrow> Inr (obj\<lparr>omLabels := labels3,
                          omAnnotations := recordManaged managedExtraAnnotations effA
                            (recordManaged managedExtraLabels effL ann3)\<rparr>))))))"

text \<open>
  On a Deployment the pod template gets the same entries. The old record is read before the object
  is changed; when it cannot be read, the call on the object fails, so what a failed
  decoding leaves in the Go variable is never used.
\<close>

definition updateTemplateMap :: "string \<Rightarrow> gomap \<Rightarrow> gomap \<Rightarrow> gomap \<Rightarrow> go_error + gomap" where
  "updateTemplateMap msg eff old m =
     (let m1 = (if gm_equal eff old then m else gm_delete_keys old m)
      in if gm_len eff > 0 then mergeIfAny msg (gm_make m1) eff else Inr m1)"

definition applyCustomDeploymentMetadata :: "K8sLib \<Rightarrow> MCPServer \<Rightarrow> Deployment \<Rightarrow> go_error + Deployment" where
  "applyCustomDeploymentMetadata K ms d =
     (let annotations = omAnnotations (depMeta d);
          oldLabels = (case readManaged managedExtraLabels annotations of None \<Rightarrow> None | Some m \<Rightarrow> m);
          oldAnnotations = (case readManaged managedExtraAnnotations annotations of None \<Rightarrow> None | Some m \<Rightarrow> m)
      in case applyCustomObjectMetadata K ms (depMeta d) of
        Inl e \<Rightarrow> Inl e
      | Inr meta \<Rightarrow>
         (case updateTemplateMap ''appending pod template labels failed; '' (effectiveLabels ms) oldLabels (depTemplateLabels d) of
            Inl e \<Rightarrow> Inl e
          | Inr tLabels \<Rightarrow>
             (case updateTemplateMap ''appending pod template annotations failed; '' (effectiveAnnotations ms) oldAnnotations
                     (depTemplateAnnotations d) of
                Inl e \<Rightarrow> Inl e
              | Inr tAnnotations \<Rightarrow> Inr (d\<lparr>depMeta := meta, depTemplateLabels := tLabels, depTemplateAnnotations := tAnnotations\<rparr>))))"

text \<open>
  \<open>objectLabelsChanged\<close> and \<open>objectAnnotationsChanged\<close> are one test, on the record under \<open>key\<close>, the
  effective entries and the maps that must have every recorded key.
\<close>

definition managedChanged :: "string \<Rightarrow> gomap \<Rightarrow> gomap \<Rightarrow> gomap list \<Rightarrow> bool" where
  "managedChanged key eff annotations holders =
     (case readManaged key annotations of
        None \<Rightarrow> True
      | Some current \<Rightarrow>
          if gm_len current > 0
          then (if gm_len eff \<noteq> 0 \<and> \<not> gm_equal current eff then True
                else if gm_len eff = 0 then True
                else list_ex (\<lambda>(k, v). list_ex (\<lambda>m. gm_get m k = None) holders) (gm_list current))
          else gm_len eff \<noteq> 0)"

definition objectLabelsChanged :: "MCPServer \<Rightarrow> ObjectMeta \<Rightarrow> gomap list \<Rightarrow> bool" where
  "objectLabelsChanged ms obj extraLabelMaps =
     managedChanged managedExtraLabels (effectiveLabels ms) (omAnnotations obj) (omLabels obj # extraLabelMaps)"

definition objectAnnotationsChanged :: "MCPServer \<Rightarrow> ObjectMeta \<Rightarrow> gomap list \<Rightarrow> bool" where
  "objectAnnotationsChanged ms obj extraAnnotationMaps =
     managedChanged managedExtraAnnotations (effectiveAnnotations ms) (omAnnotations obj)
       (omAnnotations obj # extraAnnotationMaps)"

definition deploymentLabelsChanged :: "MCPServer \<Rightarrow> Deployment \<Rightarrow> bool" where
  "deploymentLabelsChanged ms d = objectLabelsChanged ms (depMeta d) [depTemplateLabels d]"

definition deploymentAnnotationsChanged :: "MCPServer \<Rightarrow> Deployment \<Rightarrow> bool" where
  "deploymentAnnotationsChanged ms d = objectAnnotationsChanged ms (depMeta d) [depTemplateAnnotations d]"

section \<open>Map lemmas\<close>

lemma gm_get_None [simp]: "gm_get None k = None"
  by (simp add: gm_get_def gm_list_def)

lemma gm_get_put: "m \<noteq> None \<Longrightarrow> gm_get (gm_put m k v) k' = (if k' = k then Some v else gm_get m k')"
  by (auto simp: gm_get_def gm_put_def gm_list_def update_conv')

lemma gm_put_none [simp]: "gm_put m k v = None \<longleftrightarrow> m = None"
  by (auto simp: gm_put_def)

lemma gm_get_delete: "gm_get (gm_delete k m) k' = (if k' = k then None else gm_get m k')"
  by (auto simp: gm_get_def gm_delete_def gm_list_def delete_conv' split: option.splits)

lemma gm_get_make [simp]: "gm_get (gm_make m) k = gm_get m k" "gm_make m \<noteq> None"
  by (auto simp: gm_get_def gm_make_def gm_list_def split: option.splits)

lemma gm_get_delete_keys:
  "gm_get (gm_delete_keys ks m) k = (if gm_get ks k = None then gm_get m k else None)"
proof -
  have "gm_get (fold (\<lambda>(k, v). gm_delete k) xs m) k = (if k \<in> fst ` set xs then None else gm_get m k)"
    for xs :: "(string \<times> string) list"
    by (induction xs arbitrary: m) (auto simp: gm_get_delete)
  moreover have "gm_get ks k = None \<longleftrightarrow> k \<notin> fst ` set (gm_list ks)" by (simp add: gm_get_def map_of_eq_None_iff)
  ultimately show ?thesis by (simp add: gm_delete_keys_def)
qed

lemma gm_get_copy:
  assumes "dst \<noteq> None" "gm_wf src"
  shows "gm_get (gm_copy dst src) k = (case gm_get src k of Some v \<Rightarrow> Some v | None \<Rightarrow> gm_get dst k) \<and> gm_copy dst src \<noteq> None"
proof -
  have "distinct (map fst xs) \<Longrightarrow> dst \<noteq> None \<Longrightarrow>
      gm_get (fold (\<lambda>(k, v) m. gm_put m k v) xs dst) k = (case map_of xs k of Some v \<Rightarrow> Some v | None \<Rightarrow> gm_get dst k)
      \<and> fold (\<lambda>(k, v) m. gm_put m k v) xs dst \<noteq> None" for xs
  proof (induction xs arbitrary: dst)
    case (Cons kv xs)
    have "map_of xs (fst kv) = None" using Cons(2) by (simp add: map_of_eq_None_iff)
    with Cons(1)[of "gm_put dst (fst kv) (snd kv)"] Cons(2,3) show ?case
      by (simp add: gm_get_put case_prod_beta del: not_None_eq split: option.splits)
  qed simp
  with assms show ?thesis by (simp add: gm_copy_def gm_wf_def gm_get_def)
qed

lemma gm_len_zero: "gm_len m = 0 \<longleftrightarrow> (\<forall>k. gm_get m k = None)"
proof
  assume "\<forall>k. gm_get m k = None"
  then have "set (map fst (gm_list m)) = {}" by (auto simp: gm_get_def map_of_eq_None_iff)
  then show "gm_len m = 0" by (simp add: gm_len_def)
qed (simp add: gm_len_def gm_get_def)

lemma gm_equal_iff:
  assumes "gm_wf a" "gm_wf b"
  shows "gm_equal a b \<longleftrightarrow> gm_get a = gm_get b"
proof -
  have da: "distinct (map fst (gm_list a))" and db: "distinct (map fst (gm_list b))"
    using assms by (simp_all add: gm_wf_def)
  have len: "length (gm_list m) = card (dom (gm_get m))" if "distinct (map fst (gm_list m))" for m
    using that by (metis dom_map_of_conv_image_fst gm_get_def[abs_def] length_map distinct_card set_map ext)
  show ?thesis
  proof
    assume eq: "gm_equal a b"
    then have sub: "gm_get a \<subseteq>\<^sub>m gm_get b"
      unfolding map_le_def gm_equal_def list_all_iff
      by (metis (mono_tags, lifting) case_prodD domD gm_get_def map_of_SomeD)
    have "card (dom (gm_get a)) = card (dom (gm_get b))"
      using eq len[OF da] len[OF db] by (simp add: gm_equal_def gm_len_def)
    moreover have "finite (dom (gm_get b))" by (simp add: gm_get_def[abs_def] finite_dom_map_of)
    ultimately have "dom (gm_get a) = dom (gm_get b)"
      using sub by (metis card_subset_eq map_le_implies_dom_le)
    with sub show "gm_get a = gm_get b"
      by (metis map_le_antisym map_le_def)
  next
    assume eq: "gm_get a = gm_get b"
    have "gm_get a k = Some v" if "(k, v) \<in> set (gm_list a)" for k v
      using that da by (simp add: gm_get_def)
    with eq show "gm_equal a b"
      using len[OF da] len[OF db] by (auto simp: gm_equal_def gm_len_def list_all_iff)
  qed
qed

lemma filter_wf: "gm_wf m \<Longrightarrow> gm_wf (filterReservedKeys m)" "gm_wf m \<Longrightarrow> gm_wf (filterReservedAnnotationKeys m)"
  by (auto simp: filterReservedKeys_def filterReservedAnnotationKeys_def gm_wf_def gm_list_def distinct_map_filter)


lemma fold_update_keys:
  "distinct (map fst acc) \<Longrightarrow> distinct (map fst (fold (\<lambda>(k, v). AList.update k v) kvs acc))"
  by (induction kvs arbitrary: acc) (auto simp: distinct_update)

lemma json_unmarshal_wf:
  assumes "json_unmarshal t = Some m"
  shows "gm_wf m"
proof (cases m)
  case (Some xs)
  with assms obtain kvs where "xs = fold (\<lambda>(k, v). AList.update k v) kvs []"
    unfolding json_unmarshal_def by (cases "json_is_null t"; cases "json_read_object t") (auto split: if_splits)
  with Some fold_update_keys[of "[]" kvs] show ?thesis by (simp add: gm_wf_def gm_list_def)
qed (simp add: gm_wf_def gm_list_def)

lemma readManaged_wf: "readManaged key a = Some m \<Longrightarrow> gm_wf m"
  unfolding readManaged_def
  by (cases "gm_get a key") (auto intro: json_unmarshal_wf simp: gm_wf_def[of None] gm_list_def)

lemma marshal_nonempty: "json_marshal m \<noteq> []" "json_marshal m = ''null'' \<longleftrightarrow> m = None"
  by (auto simp: json_marshal_def split: option.splits)

lemma gm_get_record:
  assumes "a \<noteq> None"
  shows "gm_get (recordManaged key m a) k =
    (if k = key \<and> m \<noteq> None then Some (json_marshal m) else gm_get a k) \<and> recordManaged key m a \<noteq> None"
  using assms by (simp add: recordManaged_def Let_def marshal_nonempty gm_get_put del: not_None_eq)

lemma read_recorded:
  assumes "gm_wf m" "gm_get a key = Some (json_marshal m)"
  shows "\<exists>m'. readManaged key a = Some m' \<and> gm_get m' = gm_get m \<and> gm_len m' = gm_len m \<and> gm_wf m'"
proof -
  have r: "readManaged key a = Some (map_option (sort_key fst) m)"
    using assms json_unmarshal_marshal[OF assms(1)] by (simp add: readManaged_def)
  moreover have "gm_get (map_option (sort_key fst) m) = gm_get m"
  proof (cases m)
    case (Some xs)
    then have d: "distinct (map fst xs)" using assms(1) by (simp add: gm_wf_def gm_list_def)
    then have "distinct (map fst (sort_key fst xs))" by (simp add: distinct_map)
    then have "map_of (sort_key fst xs) = map_of xs" using d by (simp add: map_of_inject_set)
    then show ?thesis by (rule_tac ext) (simp add: gm_get_def gm_list_def Some)
  qed simp
  moreover have "gm_len (map_option (sort_key fst) m) = gm_len m" by (simp add: gm_len_def gm_list_def split: option.splits)
  ultimately show ?thesis using readManaged_wf[OF r] by blast
qed

lemma mergeIfAny_Inr:
  assumes "mergeIfAny msg dst src = Inr m" "gm_wf src" "dst \<noteq> None"
  shows "gm_get m k = (case gm_get src k of Some v \<Rightarrow> Some v | None \<Rightarrow> gm_get dst k) \<and> m \<noteq> None"
proof (cases "gm_len src > 0")
  case True
  with assms have "m = gm_copy dst src" by (auto simp: mergeIfAny_def mergeMaps_def)
  with gm_get_copy[OF assms(3,2)] show ?thesis by simp
next
  case False
  then have "gm_get src k = None" by (metis gm_len_zero not_gr_zero)
  with False assms show ?thesis by (simp add: mergeIfAny_def)
qed

lemma mergeIfAny_made_Inr:
  assumes "mergeIfAny msg (gm_make d) src = Inr m" "gm_wf src"
  shows "gm_get m k = (case gm_get src k of Some v \<Rightarrow> Some v | None \<Rightarrow> gm_get d k) \<and> m \<noteq> None"
  using mergeIfAny_Inr[OF assms] by (simp split: option.split)

lemma mergeIfAny_made: "mergeIfAny msg (gm_make m) src \<noteq> Inl e"
  by (simp add: mergeIfAny_def mergeMaps_def)


section \<open>The merge\<close>

text \<open>
  What a map must look like afterwards: the wanted entries, and of the others those that were not
  recorded as the operator's own.
\<close>

definition merged :: "gomap \<Rightarrow> gomap \<Rightarrow> gomap \<Rightarrow> string \<Rightarrow> string option" where
  "merged eff current m k = (case gm_get eff k of
     Some v \<Rightarrow> Some v | None \<Rightarrow> if gm_get current k = None then gm_get m k else None)"

definition spec_maps_wf :: "MCPServer \<Rightarrow> bool" where
  "spec_maps_wf ms \<longleftrightarrow> gm_wf (spExtraLabels (msSpec ms)) \<and> gm_wf (spExtraAnnotations (msSpec ms))"

lemma effective_wf: "spec_maps_wf ms \<Longrightarrow> gm_wf (effectiveLabels ms)" "spec_maps_wf ms \<Longrightarrow> gm_wf (effectiveAnnotations ms)"
  by (simp_all add: spec_maps_wf_def filter_wf)

lemma merged_equal: "gm_get eff = gm_get current \<Longrightarrow> (case gm_get eff k of Some v \<Rightarrow> Some v | None \<Rightarrow> gm_get m k) = merged eff current m k"
  by (simp add: merged_def split: option.split)

lemma effectiveAnnotations_unreserved:
  "hasPrefix k reservedAnnotationPrefix \<Longrightarrow> gm_get (effectiveAnnotations ms) k = None"
  by (auto simp: filterReservedAnnotationKeys_def gm_len_def gm_get_def gm_list_def[of "Some _"] map_of_eq_None_iff)

lemma effectiveLabels_unreserved: "reservedLabelKeys k \<Longrightarrow> gm_get (effectiveLabels ms) k = None"
  by (auto simp: filterReservedKeys_def gm_len_def gm_get_def gm_list_def[of "Some _"] map_of_eq_None_iff)

lemma managed_reserved: "hasPrefix managedExtraLabels reservedAnnotationPrefix" "hasPrefix managedExtraAnnotations reservedAnnotationPrefix"
  by (simp_all add: hasPrefix_def)

text \<open>
  The object after the deletions: the entries to keep, before the wanted ones are added. \<open>cleaned\<close> is
  the common step of labels and annotations.
\<close>

definition cleaned :: "gomap \<Rightarrow> gomap \<Rightarrow> gomap \<Rightarrow> gomap" where
  "cleaned eff current m = (if gm_equal eff current then m else gm_delete_keys current m)"

lemma cleaned_merge:
  assumes "gm_wf eff" "gm_wf current"
  shows "(case gm_get eff k of Some v \<Rightarrow> Some v | None \<Rightarrow> gm_get (cleaned eff current m) k) = merged eff current m k"
  using merged_equal[of eff current, where k = k and m = m] assms
  by (auto simp: cleaned_def gm_equal_iff merged_def gm_get_delete_keys split: option.splits)

lemma readManaged_delete: "key \<noteq> key' \<Longrightarrow> readManaged key (gm_delete key' a) = readManaged key a"
  by (simp add: readManaged_def gm_get_delete)

lemma readManaged_cong: "gm_get a key = gm_get b key \<Longrightarrow> readManaged key a = readManaged key b"
  by (simp add: readManaged_def)

text \<open>The record holds the wanted entries: freshly written, removed, or kept when it was right.\<close>

lemma record_reads:
  assumes "gm_wf eff" "gm_get a key = (if eff \<noteq> None then Some (json_marshal eff) else r)"
    and "r = None \<or> r = gm_get b key \<and> readManaged key b = Some cur \<and> gm_get cur = gm_get eff"
  shows "\<exists>m. readManaged key a = Some m \<and> gm_get m = gm_get eff"
proof (cases eff)
  case (Some xs)
  then show ?thesis using read_recorded[OF assms(1), of a key] assms(2) by auto
next
  case None
  then have g: "gm_get a key = r" using assms(2) by simp
  show ?thesis
  proof (cases r)
    case None
    with g show ?thesis using \<open>eff = None\<close> by (auto simp: readManaged_def)
  next
    case (Some v)
    with assms(3) g readManaged_cong[of a key b] show ?thesis by auto
  qed
qed

lemma applyCustomObjectMetadata_Inr:
  assumes app: "applyCustomObjectMetadata K ms obj = Inr obj'" and wf: "spec_maps_wf ms"
  obtains current currentA where
    "readManaged managedExtraLabels (omAnnotations obj) = Some current"
    "readManaged managedExtraAnnotations (omAnnotations obj) = Some currentA"
    "\<And>k. gm_get (omLabels obj') k = merged (effectiveLabels ms) current (omLabels obj) k"
    "\<And>k. k \<noteq> managedExtraLabels \<Longrightarrow> k \<noteq> managedExtraAnnotations \<Longrightarrow>
       gm_get (omAnnotations obj') k = merged (effectiveAnnotations ms) currentA (omAnnotations obj) k"
    "\<exists>m. readManaged managedExtraLabels (omAnnotations obj') = Some m \<and> gm_get m = gm_get (effectiveLabels ms)"
    "\<exists>m. readManaged managedExtraAnnotations (omAnnotations obj') = Some m \<and> gm_get m = gm_get (effectiveAnnotations ms)"
proof -
  let ?L = "effectiveLabels ms" and ?A = "effectiveAnnotations ms" and ?a = "omAnnotations obj"
  from app obtain cur where cur: "readManaged managedExtraLabels ?a = Some cur"
    by (auto simp: applyCustomObjectMetadata_def Let_def split: option.splits)
  define ann1 where "ann1 = (if gm_equal ?L cur then ?a else gm_delete managedExtraLabels ?a)"
  have r1: "readManaged managedExtraAnnotations ann1 = readManaged managedExtraAnnotations ?a"
    by (simp add: ann1_def readManaged_delete)
  note unfolded = app[unfolded applyCustomObjectMetadata_def Let_def cur option.case, folded ann1_def, unfolded r1]
  obtain curA where curA: "readManaged managedExtraAnnotations ?a = Some curA"
    using unfolded by (cases "readManaged managedExtraAnnotations ?a") simp_all
  note W = effective_wf[OF wf] readManaged_wf[OF cur] readManaged_wf[OF curA]
  define ann2 where "ann2 = (if gm_equal ?A curA then ann1 else gm_delete managedExtraAnnotations (gm_delete_keys curA ann1))"
  define lab1 where "lab1 = cleaned ?L cur (omLabels obj)"
  have a2: "(case gm_get ?A k of Some v \<Rightarrow> Some v | None \<Rightarrow> gm_get ann2 k) = merged ?A curA ?a k"
    if "k \<noteq> managedExtraLabels" "k \<noteq> managedExtraAnnotations" for k
    using cleaned_merge[OF W(2,4), where k = k and m = ?a] that
    by (cases "gm_equal ?A curA") (auto simp: ann2_def ann1_def cleaned_def gm_get_delete gm_get_delete_keys split: option.splits)
  have l1: "(case gm_get ?L k of Some v \<Rightarrow> Some v | None \<Rightarrow> gm_get lab1 k) = merged ?L cur (omLabels obj) k" for k
    unfolding lab1_def by (rule cleaned_merge[OF W(1,3)])
  have step: "(if gm_len ?L = 0 \<and> gm_len ?A = 0 \<and> gm_len cur = 0 \<and> gm_len curA = 0
      then Inr (obj\<lparr>omLabels := lab1, omAnnotations := ann2\<rparr>)
      else (case mergeIfAny ''appending labels failed; '' (gm_make lab1) ?L of
              Inl e \<Rightarrow> Inl e
            | Inr l3 \<Rightarrow> (case mergeIfAny ''appending annotations failed; '' (gm_make ann2) ?A of
                Inl e \<Rightarrow> Inl e
              | Inr a3 \<Rightarrow> Inr (obj\<lparr>omLabels := l3, omAnnotations := recordManaged managedExtraAnnotations ?A
                   (recordManaged managedExtraLabels ?L a3)\<rparr>)))) = Inr obj'"
    using unfolded unfolding curA option.case ann2_def lab1_def cleaned_def .
  show ?thesis
  proof (cases "gm_len ?L = 0 \<and> gm_len ?A = 0 \<and> gm_len cur = 0 \<and> gm_len curA = 0")
    case True
    with step have "obj' = obj\<lparr>omLabels := lab1, omAnnotations := ann2\<rparr>" by simp
    moreover from True have none: "gm_get ?L k = None" "gm_get ?A k = None" "gm_get cur k = None" "gm_get curA k = None" for k
      by (metis gm_len_zero)+
    moreover from none have "ann2 = ?a" by (simp add: ann2_def ann1_def gm_equal_iff[OF W(1,3)] gm_equal_iff[OF W(2,4)] fun_eq_iff)
    ultimately show ?thesis using l1 a2 cur curA by (intro that[OF cur curA]) (simp_all add: fun_eq_iff)
  next
    case False
    obtain l3 where l3: "mergeIfAny ''appending labels failed; '' (gm_make lab1) ?L = Inr l3"
      using mergeIfAny_made by (metis sum.exhaust)
    obtain a3 where a3: "mergeIfAny ''appending annotations failed; '' (gm_make ann2) ?A = Inr a3"
      using mergeIfAny_made by (metis sum.exhaust)
    from step False have obj': "obj' = obj\<lparr>omLabels := l3, omAnnotations := recordManaged managedExtraAnnotations ?A
         (recordManaged managedExtraLabels ?L a3)\<rparr>"
      by (simp only: l3 a3 if_False sum.case sum.inject)
    have a3': "a3 \<noteq> None" using mergeIfAny_Inr[OF a3 W(2)] by simp
    note l3' = mergeIfAny_made_Inr[OF l3 W(1)] and a3'' = mergeIfAny_made_Inr[OF a3 W(2)]
    show ?thesis
    proof (rule that[OF cur curA])
      show "gm_get (omLabels obj') k = merged ?L cur (omLabels obj) k" for k
        using l3' l1 by (simp add: obj')
      show "gm_get (omAnnotations obj') k = merged ?A curA ?a k"
        if "k \<noteq> managedExtraLabels" "k \<noteq> managedExtraAnnotations" for k
        using a3'' a3' a2 that by (simp add: obj' gm_get_record del: not_None_eq)
      show "\<exists>m. readManaged managedExtraLabels (omAnnotations obj') = Some m \<and> gm_get m = gm_get ?L"
      proof (rule record_reads[OF W(1), where r = "gm_get ann2 managedExtraLabels" and b = ?a and cur = cur])
        show "gm_get (omAnnotations obj') managedExtraLabels = (if ?L \<noteq> None then Some (json_marshal ?L) else gm_get ann2 managedExtraLabels)"
          using a3'' a3' effectiveAnnotations_unreserved[OF managed_reserved(1)]
          by (simp add: obj' gm_get_record del: not_None_eq)
        show "gm_get ann2 managedExtraLabels = None \<or> gm_get ann2 managedExtraLabels = gm_get ?a managedExtraLabels
           \<and> readManaged managedExtraLabels ?a = Some cur \<and> gm_get cur = gm_get ?L"
          using gm_equal_iff[OF W(1,3)] cur
          by (cases "gm_equal ?L cur"; cases "gm_equal ?A curA") (auto simp: ann2_def ann1_def gm_get_delete gm_get_delete_keys)
      qed
      show "\<exists>m. readManaged managedExtraAnnotations (omAnnotations obj') = Some m \<and> gm_get m = gm_get ?A"
      proof (rule record_reads[OF W(2), where r = "gm_get ann2 managedExtraAnnotations" and b = ?a and cur = curA])
        show "gm_get (omAnnotations obj') managedExtraAnnotations = (if ?A \<noteq> None then Some (json_marshal ?A) else gm_get ann2 managedExtraAnnotations)"
          using a3'' a3' effectiveAnnotations_unreserved[OF managed_reserved(2)]
          by (simp add: obj' gm_get_record del: not_None_eq)
        show "gm_get ann2 managedExtraAnnotations = None \<or> gm_get ann2 managedExtraAnnotations = gm_get ?a managedExtraAnnotations
           \<and> readManaged managedExtraAnnotations ?a = Some curA \<and> gm_get curA = gm_get ?A"
          using gm_equal_iff[OF W(2,4)] curA
          by (cases "gm_equal ?L cur"; cases "gm_equal ?A curA") (auto simp: ann2_def ann1_def gm_get_delete gm_get_delete_keys)
      qed
    qed
  qed
qed

text \<open>A server and an object with a record of earlier labels, for concrete instances.\<close>

definition labelled_server :: MCPServer where
  "labelled_server = zero_server\<lparr>msSpec := zero_spec\<lparr>spExtraLabels := Some [(''team'', ''a''), (''app'', ''x'')]\<rparr>\<rparr>"

definition labelled_object :: ObjectMeta where
  "labelled_object = zero_meta\<lparr>omName := ''o'', omLabels := Some [(''app'', ''mcp-server''), (''old'', ''v''), (''other'', ''w'')],
     omAnnotations := Some [(managedExtraLabels, [CHR ''{'', CHR 0x22] @ ''old'' @ [CHR 0x22, CHR '':'', CHR 0x22, CHR ''v'', CHR 0x22, CHR ''}''])]\<rparr>"

lemma labelled_reads:
  "readManaged managedExtraLabels (omAnnotations labelled_object) = Some (Some [(''old'', ''v'')])"
  "readManaged managedExtraAnnotations (omAnnotations labelled_object) = Some None"
  "spec_maps_wf labelled_server"
  by code_simp+

text \<open>
  C21: merging the user's labels and annotations into an object is a three-way merge. Afterwards the
  object has exactly the wanted entries of the specification (those under keys the operator
  reserves are ignored), and of its other entries those the operator had not recorded as its own: what
  the user has dropped from the specification is removed, what others have added stays.
\<close>

theorem custom_metadata_merge:
  assumes "spec_maps_wf ms" "applyCustomObjectMetadata K ms obj = Inr obj'"
    and "readManaged managedExtraLabels (omAnnotations obj) = Some current"
    and "readManaged managedExtraAnnotations (omAnnotations obj) = Some currentA"
    and "k' \<noteq> managedExtraLabels" "k' \<noteq> managedExtraAnnotations"
  shows "gm_get (omLabels obj') k = merged (effectiveLabels ms) current (omLabels obj) k
    \<and> gm_get (omAnnotations obj') k' = merged (effectiveAnnotations ms) currentA (omAnnotations obj) k'"
  using applyCustomObjectMetadata_Inr[OF assms(2,1)] assms(3-6) by (metis option.inject)

theorem custom_metadata_merge_witness:
  "\<exists>obj'. applyCustomObjectMetadata sample_lib labelled_server labelled_object = Inr obj'
     \<and> gm_get (omLabels obj') ''team'' = Some ''a'' \<and> gm_get (omLabels obj') ''old'' = None
     \<and> gm_get (omLabels obj') ''other'' = Some ''w'' \<and> gm_get (omLabels obj') ''app'' = Some ''mcp-server''"
proof -
  have "\<exists>obj'. applyCustomObjectMetadata sample_lib labelled_server labelled_object = Inr obj'"
    by (simp add: applyCustomObjectMetadata_def labelled_reads readManaged_delete mergeIfAny_def mergeMaps_def Let_def)
  then obtain obj' where o: "applyCustomObjectMetadata sample_lib labelled_server labelled_object = Inr obj'" ..
  have k: "gm_get (omLabels obj') k = merged (effectiveLabels labelled_server) (Some [(''old'', ''v'')]) (omLabels labelled_object) k" for k
    using custom_metadata_merge[OF labelled_reads(3) o labelled_reads(1,2), of "[]"] by simp
  have "merged (effectiveLabels labelled_server) (Some [(''old'', ''v'')]) (omLabels labelled_object) ''team'' = Some ''a''"
    "merged (effectiveLabels labelled_server) (Some [(''old'', ''v'')]) (omLabels labelled_object) ''old'' = None"
    "merged (effectiveLabels labelled_server) (Some [(''old'', ''v'')]) (omLabels labelled_object) ''other'' = Some ''w''"
    "merged (effectiveLabels labelled_server) (Some [(''old'', ''v'')]) (omLabels labelled_object) ''app'' = Some ''mcp-server''"
    by code_simp+
  with o k show ?thesis by simp
qed

lemma managedChanged_settled:
  assumes "readManaged key a = Some m" "gm_get m = gm_get eff" "gm_wf eff"
    and "\<And>k h. gm_get eff k \<noteq> None \<Longrightarrow> h \<in> set holders \<Longrightarrow> gm_get h k \<noteq> None"
  shows "\<not> managedChanged key eff a holders"
proof -
  have "gm_equal m eff" using gm_equal_iff[OF readManaged_wf[OF assms(1)] assms(3)] assms(2) by simp
  moreover have "gm_len m = gm_len eff" using calculation by (simp add: gm_equal_def)
  moreover have "gm_get eff k \<noteq> None" if "(k, v) \<in> set (gm_list m)" for k v
    using that assms(2) by (metis gm_get_def map_of_eq_None_iff image_eqI fst_conv)
  ultimately show ?thesis using assms(1,4) by (simp add: managedChanged_def list_ex_iff case_prod_beta del: not_None_eq) fastforce
qed

lemma deployment_template:
  assumes "applyCustomDeploymentMetadata K ms d = Inr d'" "spec_maps_wf ms"
  shows "applyCustomObjectMetadata K ms (depMeta d) = Inr (depMeta d')"
    and "gm_get (effectiveLabels ms) k \<noteq> None \<Longrightarrow> gm_get (depTemplateLabels d') k \<noteq> None"
    and "gm_get (effectiveAnnotations ms) k \<noteq> None \<Longrightarrow> gm_get (depTemplateAnnotations d') k \<noteq> None"
proof -
  have upd: "gm_get m' k \<noteq> None" if u: "updateTemplateMap msg eff old m = Inr m'" and w: "gm_wf eff" and e: "gm_get eff k \<noteq> None"
    for msg eff old m m'
  proof -
    have "gm_len eff > 0" using e by (metis gm_len_zero not_gr_zero)
    with u have "mergeIfAny msg (gm_make (if gm_equal eff old then m else gm_delete_keys old m)) eff = Inr m'"
      by (simp add: updateTemplateMap_def Let_def)
    with mergeIfAny_made_Inr[OF this w, of k] e show ?thesis by auto
  qed
  from assms(1) obtain meta where m: "applyCustomObjectMetadata K ms (depMeta d) = Inr meta"
    unfolding applyCustomDeploymentMetadata_def Let_def by (auto split: sum.splits)
  with assms(1) obtain old oldA tlab tann where
      t: "updateTemplateMap ''appending pod template labels failed; '' (effectiveLabels ms) old (depTemplateLabels d) = Inr tlab"
         "updateTemplateMap ''appending pod template annotations failed; '' (effectiveAnnotations ms) oldA (depTemplateAnnotations d) = Inr tann"
      and d': "d' = d\<lparr>depMeta := meta, depTemplateLabels := tlab, depTemplateAnnotations := tann\<rparr>"
    unfolding applyCustomDeploymentMetadata_def Let_def by (simp split: sum.splits)
  show "applyCustomObjectMetadata K ms (depMeta d) = Inr (depMeta d')" using m d' by simp
  show "gm_get (effectiveLabels ms) k \<noteq> None \<Longrightarrow> gm_get (depTemplateLabels d') k \<noteq> None"
    using upd[OF t(1) effective_wf(1)[OF assms(2)]] d' by simp
  show "gm_get (effectiveAnnotations ms) k \<noteq> None \<Longrightarrow> gm_get (depTemplateAnnotations d') k \<noteq> None"
    using upd[OF t(2) effective_wf(2)[OF assms(2)]] d' by simp
qed

lemma object_settles:
  assumes "spec_maps_wf ms" "applyCustomObjectMetadata K ms obj = Inr obj'"
    and "\<And>k h. gm_get (effectiveLabels ms) k \<noteq> None \<Longrightarrow> h \<in> set hl \<Longrightarrow> gm_get h k \<noteq> None"
    and "\<And>k h. gm_get (effectiveAnnotations ms) k \<noteq> None \<Longrightarrow> h \<in> set ha \<Longrightarrow> gm_get h k \<noteq> None"
  shows "\<not> objectLabelsChanged ms obj' hl \<and> \<not> objectAnnotationsChanged ms obj' ha"
proof -
  obtain current currentA mL mA where
    l: "\<And>k. gm_get (omLabels obj') k = merged (effectiveLabels ms) current (omLabels obj) k"
    and a: "\<And>k. k \<noteq> managedExtraLabels \<Longrightarrow> k \<noteq> managedExtraAnnotations \<Longrightarrow>
       gm_get (omAnnotations obj') k = merged (effectiveAnnotations ms) currentA (omAnnotations obj) k"
    and rL: "readManaged managedExtraLabels (omAnnotations obj') = Some mL" "gm_get mL = gm_get (effectiveLabels ms)"
    and rA: "readManaged managedExtraAnnotations (omAnnotations obj') = Some mA" "gm_get mA = gm_get (effectiveAnnotations ms)"
    by (rule applyCustomObjectMetadata_Inr[OF assms(2,1)]) blast
  note W = effective_wf[OF assms(1)]
  have "gm_get (omLabels obj') k \<noteq> None" if "gm_get (effectiveLabels ms) k \<noteq> None" for k
    using that by (auto simp: l merged_def)
  moreover have "gm_get (omAnnotations obj') k \<noteq> None" if "gm_get (effectiveAnnotations ms) k \<noteq> None" for k
  proof -
    have "k \<noteq> managedExtraLabels" "k \<noteq> managedExtraAnnotations"
      using that effectiveAnnotations_unreserved[OF managed_reserved(1), of ms]
        effectiveAnnotations_unreserved[OF managed_reserved(2), of ms] by metis+
    from a[OF this] that show ?thesis by (auto simp: merged_def)
  qed
  ultimately show ?thesis
    unfolding objectLabelsChanged_def objectAnnotationsChanged_def
    using managedChanged_settled[OF rL W(1), of "omLabels obj' # hl"] managedChanged_settled[OF rA W(2), of "omAnnotations obj' # ha"]
      assms(3,4) by (metis set_ConsD)
qed

lemma deployment_settles:
  assumes "spec_maps_wf ms" "applyCustomDeploymentMetadata K ms d = Inr d'"
  shows "\<not> objectLabelsChanged ms (depMeta d') [] \<and> \<not> objectAnnotationsChanged ms (depMeta d') []
    \<and> \<not> deploymentLabelsChanged ms d' \<and> \<not> deploymentAnnotationsChanged ms d'"
  using deployment_template[OF assms(2,1)] object_settles[OF assms(1), of K "depMeta d" "depMeta d'" "[]" "[]"]
    object_settles[OF assms(1), of K "depMeta d" "depMeta d'" "[depTemplateLabels d']" "[depTemplateAnnotations d']"]
  by (simp add: deploymentLabelsChanged_def deploymentAnnotationsChanged_def)

text \<open>
  after the merge the change detectors report that nothing has changed, for a Deployment on its pod
  template too: an object that holds what was written does not look changed.
\<close>

lemma custom_metadata_settles:
  assumes "spec_maps_wf ms" "applyCustomDeploymentMetadata K ms d = Inr d'"
  shows "\<not> objectLabelsChanged ms (depMeta d') [] \<and> \<not> objectAnnotationsChanged ms (depMeta d') []
    \<and> \<not> deploymentLabelsChanged ms d' \<and> \<not> deploymentAnnotationsChanged ms d'"
  by (rule deployment_settles[OF assms])

definition labelled_deployment :: Deployment where
  "labelled_deployment = \<lparr>depMeta = labelled_object, depReplicas = None, depSelector = None, depTemplateLabels = None,
     depTemplateAnnotations = None,
     depPodSpec = \<lparr>psContainers = [], psImagePullSecrets = [], psVolumes = [], psServiceAccountName = [], psSecurityContext = None, psOther = []\<rparr>,
     depStatus = \<lparr>dsConditions = [], dsReadyReplicas = 0, dsObservedGeneration = 0\<rparr>\<rparr>"

lemma custom_metadata_settles_witness:
  "\<exists>d'. applyCustomDeploymentMetadata sample_lib labelled_server labelled_deployment = Inr d'
     \<and> \<not> deploymentLabelsChanged labelled_server d'"
proof -
  have "\<exists>m. applyCustomObjectMetadata sample_lib labelled_server labelled_object = Inr m"
    by (simp add: applyCustomObjectMetadata_def labelled_reads readManaged_delete mergeIfAny_def mergeMaps_def Let_def)
  then have "\<exists>d'. applyCustomDeploymentMetadata sample_lib labelled_server labelled_deployment = Inr d'"
    by (auto simp: applyCustomDeploymentMetadata_def labelled_deployment_def updateTemplateMap_def mergeIfAny_def mergeMaps_def Let_def)
  then show ?thesis using custom_metadata_settles[OF labelled_reads(3)] by blast
qed

text \<open>
  The merge fails only on a record it cannot read, and it never touches the operator's own labels unless the
  record claims them: the labels that selectors depend on survive any \<open>spec.extraLabels\<close>.
\<close>

lemma custom_metadata_keeps_reserved_labels:
  assumes "spec_maps_wf ms" "reservedLabelKeys k"
    and "readManaged managedExtraLabels (omAnnotations obj) = Some current" "gm_get current k = None"
    and "readManaged managedExtraAnnotations (omAnnotations obj) = Some currentA"
  shows "\<exists>obj'. applyCustomObjectMetadata K ms obj = Inr obj' \<and> gm_get (omLabels obj') k = gm_get (omLabels obj) k"
proof -
  have r: "readManaged managedExtraAnnotations (if b then omAnnotations obj else gm_delete managedExtraLabels (omAnnotations obj))
      = Some currentA" for b
    using assms(5) by (simp add: readManaged_delete)
  have "\<exists>obj'. applyCustomObjectMetadata K ms obj = Inr obj'"
    unfolding applyCustomObjectMetadata_def Let_def assms(3) option.case r
    using mergeIfAny_made by (auto split: sum.splits)
  then obtain obj' where o: "applyCustomObjectMetadata K ms obj = Inr obj'" ..
  then have "gm_get (omLabels obj') k = merged (effectiveLabels ms) current (omLabels obj) k"
    using applyCustomObjectMetadata_Inr[OF o assms(1)] assms(3) by (metis option.inject)
  with o assms(2,4) show ?thesis by (auto simp: merged_def effectiveLabels_unreserved)
qed

lemma custom_metadata_keeps_reserved_labels_witness:
  "\<exists>obj'. applyCustomObjectMetadata sample_lib labelled_server labelled_object = Inr obj'
     \<and> gm_get (omLabels obj') ''app'' = gm_get (omLabels labelled_object) ''app''"
  by (rule custom_metadata_keeps_reserved_labels[OF labelled_reads(3) _ labelled_reads(1) _ labelled_reads(2)])
     (simp_all add: reservedLabelKeys_def gm_get_def gm_list_def)

text \<open>
  The detectors look at the keys of the recorded labels and not at their values: an object on which
  somebody has overwritten the value of a label of the specification is reported as unchanged.
\<close>

lemma label_value_drift_unnoticed:
  "\<exists>obj. gm_get (effectiveLabels labelled_server) ''team'' = Some ''a'' \<and> gm_get (omLabels obj) ''team'' = Some ''b''
     \<and> \<not> objectLabelsChanged labelled_server obj [] \<and> \<not> objectAnnotationsChanged labelled_server obj []"
proof -
  let ?o = "zero_meta\<lparr>omLabels := Some [(''team'', ''b'')],
     omAnnotations := Some [(managedExtraLabels, [CHR ''{'', CHR 0x22] @ ''team'' @ [CHR 0x22, CHR '':'', CHR 0x22, CHR ''a'', CHR 0x22, CHR ''}''])]\<rparr>"
  have "gm_get (effectiveLabels labelled_server) ''team'' = Some ''a''" "gm_get (omLabels ?o) ''team'' = Some ''b''"
    "\<not> objectLabelsChanged labelled_server ?o []" "\<not> objectAnnotationsChanged labelled_server ?o []"
    by code_simp+
  then show ?thesis by blast
qed

end
