(* ===== verification/Telemetry.thy ===== *)
theory Telemetry
  imports Env
begin

text \<open>
  What the operator reports about itself (\<open>internal/controller/audit.go\<close>, \<open>metrics.go\<close>): audit records,
  counters and gauges, as effects of the trace. A histogram observation is recorded without its
  value.
\<close>

definition auditFields :: "MCPServer \<Rightarrow> (string \<times> string) list" where
  "auditFields ms = [(''mcpserver'', srvName ms), (''namespace'', srvNamespace ms),
     (''generation'', itoa (srvGeneration ms)), (''resourceVersion'', omResourceVersion (msMeta ms))]"

definition audit :: "MCPServer \<Rightarrow> string \<Rightarrow> (string \<times> string) list \<Rightarrow> ('w, unit) M" where
  "audit ms op fs = emit (EAudit op (auditFields ms @ fs))"

definition auditHandshakeAttempt :: "MCPServer \<Rightarrow> string \<Rightarrow> ('w, unit) M" where
  "auditHandshakeAttempt ms url = audit ms ''HandshakeAttempt'' [(''url'', url)]"

definition auditHandshakeSuccess :: "MCPServer \<Rightarrow> string \<Rightarrow> MCPServerInfo option \<Rightarrow> nat \<Rightarrow> ('w, unit) M" where
  "auditHandshakeSuccess ms url info durationMs = audit ms ''HandshakeSuccess''
     ([(''url'', url), (''durationMs'', itoa (int durationMs))] @
      (case info of None \<Rightarrow> [] | Some i \<Rightarrow> [(''protocolVersion'', siProtocolVersion i), (''serverName'', siName i),
         (''serverVersion'', siVersion i)]))"

definition auditHandshakeFailed :: "MCPServer \<Rightarrow> string \<Rightarrow> go_error \<Rightarrow> nat \<Rightarrow> ('w, unit) M" where
  "auditHandshakeFailed ms url err durationMs = audit ms ''HandshakeFailed''
     [(''url'', url), (''error'', errText err), (''durationMs'', itoa (int durationMs))]"

definition auditHandshakeAuthSkip :: "MCPServer \<Rightarrow> string \<Rightarrow> go_error \<Rightarrow> ('w, unit) M" where
  "auditHandshakeAuthSkip ms url err = audit ms ''HandshakeAuthSkip'' [(''url'', url), (''error'', errText err)]"

definition auditHandshakeRetriesExhausted :: "MCPServer \<Rightarrow> int \<Rightarrow> int \<Rightarrow> ('w, unit) M" where
  "auditHandshakeRetriesExhausted ms retries maximum = audit ms ''HandshakeRetriesExhausted''
     [(''retries'', itoa retries), (''max'', itoa maximum)]"

definition auditCapabilityChange :: "MCPServer \<Rightarrow> string \<Rightarrow> ('w, unit) M" where
  "auditCapabilityChange ms diff = audit ms ''CapabilityChange'' [(''diff'', diff)]"

definition auditNetworkPolicyCreated :: "MCPServer \<Rightarrow> string \<Rightarrow> bool \<Rightarrow> bool \<Rightarrow> ('w, unit) M" where
  "auditNetworkPolicyCreated ms name ingress egress = audit ms ''NetworkPolicyCreated''
     [(''networkPolicy'', name), (''hasIngressRestriction'', btoa ingress), (''hasEgressRestriction'', btoa egress)]"

definition auditNetworkPolicyUpdated :: "MCPServer \<Rightarrow> string \<Rightarrow> ('w, unit) M" where
  "auditNetworkPolicyUpdated ms name = audit ms ''NetworkPolicyUpdated'' [(''networkPolicy'', name)]"

definition auditConfigurationRejected :: "MCPServer \<Rightarrow> string \<Rightarrow> string \<Rightarrow> ('w, unit) M" where
  "auditConfigurationRejected ms reason message = audit ms ''ConfigurationRejected''
     [(''reason'', reason), (''message'', message)]"

definition auditOwnershipViolation :: "MCPServer \<Rightarrow> string \<Rightarrow> string \<Rightarrow> string \<Rightarrow> ('w, unit) M" where
  "auditOwnershipViolation ms resource kind existingOwner = audit ms ''OwnershipViolation''
     [(''resource'', resource), (''resourceKind'', kind), (''existingOwner'', existingOwner)]"

lemmas audit_defs = audit_def auditHandshakeAttempt_def auditHandshakeSuccess_def auditHandshakeFailed_def
  auditHandshakeAuthSkip_def auditHandshakeRetriesExhausted_def auditCapabilityChange_def auditNetworkPolicyCreated_def
  auditNetworkPolicyUpdated_def auditConfigurationRejected_def auditOwnershipViolation_def

text \<open>\<open>recordCondition\<close> replaces the gauge of a condition type; \<open>countFailure\<close> is the increment of a failure counter.\<close>

definition recordCondition :: "string \<Rightarrow> string \<Rightarrow> string \<Rightarrow> string \<Rightarrow> string \<Rightarrow> ('w, unit) M" where
  "recordCondition name namespace condType status reason = do {
     emit (EMetric ''condition_info/delete'' [(''name'', name), (''namespace'', namespace), (''type'', condType)]);
     emit (EMetric ''condition_info'' [(''name'', name), (''namespace'', namespace), (''type'', condType),
       (''status'', status), (''reason'', reason)])
   }"

definition countFailure :: "string \<Rightarrow> MCPServer \<Rightarrow> string \<Rightarrow> ('w, unit) M" where
  "countFailure metric ms reason = emit (EMetric metric [(''name'', srvName ms), (''namespace'', srvNamespace ms), (''reason'', reason)])"

definition observePhase :: "string \<Rightarrow> ('w, unit) M" where
  "observePhase phase = emit (EMetric ''reconcile_phase_duration_seconds'' [(''phase'', phase)])"

fun emit_all :: "effect list \<Rightarrow> ('w, unit) M" where
  "emit_all [] = State_Monad.return ()"
| "emit_all (e # es) = do { emit e; emit_all es }"

definition cleanupMetrics :: "string \<Rightarrow> string \<Rightarrow> ('w, unit) M" where
  "cleanupMetrics name namespace = emit_all (map (\<lambda>m. EMetric (m @ ''/delete'') [(''name'', name), (''namespace'', namespace)])
     [''condition_info'', ''validation_failures_total'', ''deployment_failures_total'', ''service_failures_total'',
      ''networkpolicy_failures_total'', ''handshake_total'', ''handshake_duration_seconds'', ''capability_changes_total'',
      ''gateway_binding_failures_total''])"

text \<open>The effects that only report, and those that are events for the user.\<close>

fun is_report :: "effect \<Rightarrow> bool" where
  "is_report (EAudit _ _) = True"
| "is_report (EMetric _ _) = True"
| "is_report _ = False"

lemma emits_emit_all: "(\<And>e. e \<in> set es \<Longrightarrow> P e) \<Longrightarrow> emits P (emit_all es)"
  by (induction es) (auto intro!: emits_rules)

text \<open>Everything in this theory only reports.\<close>

lemma emits_report:
  assumes "\<And>e. is_report e \<Longrightarrow> P e"
  shows "emits P (audit ms op fs)" "emits P (recordCondition n ns t st r)"
    "emits P (countFailure metric ms reason)" "emits P (observePhase ph)"
    "emits P (cleanupMetrics n ns)"
  unfolding audit_def recordCondition_def countFailure_def observePhase_def cleanupMetrics_def
  by (auto intro!: emits_rules emits_emit_all assms)

lemma emits_audit:
  assumes "\<And>e. is_report e \<Longrightarrow> P e"
  shows "emits P (auditHandshakeAttempt ms url)" "emits P (auditHandshakeSuccess ms url info d)" "emits P (auditHandshakeFailed ms url err d)"
    "emits P (auditHandshakeAuthSkip ms url err)" "emits P (auditHandshakeRetriesExhausted ms n m)" "emits P (auditCapabilityChange ms diff)"
    "emits P (auditNetworkPolicyCreated ms name i e)" "emits P (auditNetworkPolicyUpdated ms name)"
    "emits P (auditConfigurationRejected ms reason message)" "emits P (auditOwnershipViolation ms name kind owner)"
  using emits_report(1)[OF assms]
  by (simp_all add: auditHandshakeAttempt_def auditHandshakeSuccess_def auditHandshakeFailed_def auditHandshakeAuthSkip_def
      auditHandshakeRetriesExhausted_def auditCapabilityChange_def auditNetworkPolicyCreated_def auditNetworkPolicyUpdated_def
      auditConfigurationRejected_def auditOwnershipViolation_def)

end
