(* ===== verification/Ownership.thy ===== *)
theory Ownership
  imports Telemetry Metadata
begin

text \<open>
  Who may touch an object that already exists
  (\<open>internal/controller/mcpserver_controller_ownership.go\<close>): only the server that controls it, or a
  recreated server of the same name.
\<close>

definition isSameGroupKind :: "K8sLib \<Rightarrow> OwnerReference \<Rightarrow> string \<Rightarrow> string \<Rightarrow> bool" where
  "isSameGroupKind K ref expectedGroup expectedKind =
     (if orKind ref \<noteq> expectedKind then False
      else case parseGroupVersion K (orAPIVersion ref) of
        None \<Rightarrow> False
      | Some (grp, version) \<Rightarrow> grp = expectedGroup)"

definition gvkKind :: "K8sLib \<Rightarrow> string \<Rightarrow> string" where
  "gvkKind K goType = (case objectKinds K goType of [] \<Rightarrow> ''<unknown>'' | k # _ \<Rightarrow> k)"

definition validateOwnership :: "K8sLib \<Rightarrow> string \<Rightarrow> ObjectMeta \<Rightarrow> MCPServer \<Rightarrow> ('w, go_error + unit) M" where
  "validateOwnership K goType obj ms =
     (case getControllerOf K obj of
        None \<Rightarrow> do {
          auditOwnershipViolation ms (omName obj) (gvkKind K goType) ''<none>'';
          State_Monad.return (Inl (OwnershipConflictError (''resource '' @ omNamespace obj @ ''/'' @ omName obj @
            '' exists but has no controller owner; delete the resource first or choose a different name for the MCPServer'')))
        }
      | Some owner \<Rightarrow>
          if orUID owner = srvUID ms then State_Monad.return (Inr ())
          else if isSameGroupKind K owner MCPGroup MCPServerKind \<and> orName owner = srvName ms
                  \<and> omNamespace obj = srvNamespace ms
          then State_Monad.return (Inr ())
          else do {
            auditOwnershipViolation ms (omName obj) (orKind owner) (orName owner);
            State_Monad.return (Inl (OwnershipConflictError (''resource '' @ omNamespace obj @ ''/'' @ omName obj @ '' is owned by '' @
              orKind owner @ ''/'' @ orName owner @ '' (UID: '' @ orUID owner @ ''), cannot be managed by MCPServer '' @
              srvNamespace ms @ ''/'' @ srvName ms @ '' (UID: '' @ srvUID ms @ '')'')))
          })"

text \<open>What the check decides.\<close>

definition ours :: "K8sLib \<Rightarrow> ObjectMeta \<Rightarrow> MCPServer \<Rightarrow> bool" where
  "ours K obj ms = (case getControllerOf K obj of
     None \<Rightarrow> False
   | Some owner \<Rightarrow> orUID owner = srvUID ms \<or>
       (isSameGroupKind K owner MCPGroup MCPServerKind \<and> orName owner = srvName ms \<and> omNamespace obj = srvNamespace ms))"

lemma validateOwnership_run:
  "(ours K obj ms \<and> run_state (validateOwnership K ty obj ms) s = (Inr (), s)) \<or>
   (\<not> ours K obj ms \<and> (\<exists>msg fs. run_state (validateOwnership K ty obj ms) s =
      (Inl (OwnershipConflictError msg), s\<lparr>trace := trace s @ [EAudit ''OwnershipViolation'' fs]\<rparr>)))"
  by (auto simp: validateOwnership_def ours_def audit_defs run_ops split: option.splits)

lemma validateOwnership_valid: "valid (\<lambda>_. True) (validateOwnership K ty obj ms) (\<lambda>r s. r = Inr () \<longrightarrow> ours K obj ms)"
proof (rule validI, rule impI)
  fix s r s' assume "run_state (validateOwnership K ty obj ms) s = (r, s')" "r = Inr ()"
  then show "ours K obj ms" using validateOwnership_run[of K obj ms ty s] by auto
qed

lemma validateOwnership_emits: "(\<And>e. is_report e \<Longrightarrow> P e) \<Longrightarrow> emits P (validateOwnership K ty obj ms)"
  by (auto simp: validateOwnership_def intro!: emits_rules emits_audit split: option.split)

text \<open>
  an object may be managed exactly when its controller is this server or, in the
  server's namespace, an \<open>MCPServer\<close> of the operator's API group (in any version) with the same name. The check
  changes nothing, and every refusal is an ownership conflict and leaves one audit record.
\<close>

lemma validateOwnership_iff:
  "case run_state (validateOwnership K ty obj ms) s of (r, s') \<Rightarrow>
     (r = Inr () \<longleftrightarrow> ours K obj ms)
   \<and> (case r of Inl e \<Rightarrow> isOwnershipConflict e | Inr _ \<Rightarrow> s' = s)
   \<and> world s' = world s \<and> (\<exists>es. trace s' = trace s @ es \<and> list_all is_report es \<and> length es = (if ours K obj ms then 0 else 1))"
  using validateOwnership_run[of K obj ms ty s] by auto

text \<open>What follows an ownership check runs only on objects of this server.\<close>

lemma emits_if_ours:
  assumes "\<And>e. is_report e \<Longrightarrow> P e" "\<And>e. emits P (no e)" "ours K obj ms \<Longrightarrow> emits P yes"
  shows "emits P (validateOwnership K ty obj ms \<bind> (\<lambda>o'. case o' of Inl e \<Rightarrow> no e | Inr _ \<Rightarrow> yes))"
  by (rule emits_bind_value[OF validateOwnership_emits[OF assms(1)] validateOwnership_valid])
     (auto intro: assms split: sum.split)

section \<open>What was there before\<close>

text \<open>
  The answers that allow a write: that there is no object of the server's name yet, for a creation, and, for an update with the metadata \<open>m\<close>,
  an object of the server's name that is already the server's, with the same identity as what is written. \<open>get\<close> is the read of the API.
\<close>

definition absent_before :: "K8sLib \<Rightarrow> (string \<Rightarrow> string \<Rightarrow> 'w \<Rightarrow> (go_error + 'a) \<times> 'w) \<Rightarrow> MCPServer \<Rightarrow> bool" where
  "absent_before K get ms \<longleftrightarrow> (\<exists>err w w'. get (srvName ms) (srvNamespace ms) w = (Inl err, w') \<and> isNotFound K err)"

definition ours_before ::
    "K8sLib \<Rightarrow> (string \<Rightarrow> string \<Rightarrow> 'w \<Rightarrow> (go_error + 'a) \<times> 'w) \<Rightarrow> ('a \<Rightarrow> ObjectMeta) \<Rightarrow> MCPServer \<Rightarrow> ObjectMeta \<Rightarrow> bool" where
  "ours_before K get meta ms m \<longleftrightarrow> (\<exists>existing w w'. get (srvName ms) (srvNamespace ms) w = (Inr existing, w') \<and> ours K (meta existing) ms
     \<and> omUID m = omUID (meta existing) \<and> omName m = omName (meta existing) \<and> omNamespace m = omNamespace (meta existing))"

lemma absent_beforeI: "get (srvName ms) (srvNamespace ms) w = (Inl err, w') \<Longrightarrow> isNotFound K err \<Longrightarrow> absent_before K get ms"
  unfolding absent_before_def by blast

lemma ours_beforeI: "get (srvName ms) (srvNamespace ms) w = (Inr x, w') \<Longrightarrow> ours K (meta x) ms \<Longrightarrow> ours_before K get meta ms (meta x)"
  unfolding ours_before_def by blast

lemma ours_before_same:
  "ours_before K get meta ms m \<Longrightarrow> omUID m' = omUID m \<Longrightarrow> omName m' = omName m \<Longrightarrow> omNamespace m' = omNamespace m \<Longrightarrow>
   ours_before K get meta ms m'"
  by (simp add: ours_before_def)

text \<open>A handler that reads the object of the server's name and then creates it, or checks its owner and updates it.\<close>

lemma emits_read_check_write:
  assumes "\<And>e. is_report e \<Longrightarrow> P e" "\<And>e. emits P (fail e)" "absent_before K get ms \<Longrightarrow> emits P create"
    and "\<And>x w w'. get (srvName ms) (srvNamespace ms) w = (Inr x, w') \<Longrightarrow> ours K (meta x) ms \<Longrightarrow> emits P (update x)"
  shows "emits P (call (get (srvName ms) (srvNamespace ms)) \<bind> (\<lambda>r. case r of
      Inl err \<Rightarrow> if isNotFound K err then create else fail err
    | Inr x \<Rightarrow> validateOwnership K ty (meta x) ms \<bind> (\<lambda>o'. case o' of Inl e \<Rightarrow> fail e | Inr _ \<Rightarrow> update x)))"
  by (rule emits_bind_value[OF emits_call call_value])
     (auto intro!: emits_if_ours assms(1,2) intro: assms(3,4) absent_beforeI split: sum.split)

section \<open>Becoming the owner\<close>

text \<open>The owner's UID, or the empty string.\<close>

definition ownerUID :: "K8sLib \<Rightarrow> ObjectMeta \<Rightarrow> string" where
  "ownerUID K m = (case getControllerOf K m of None \<Rightarrow> [] | Some o' \<Rightarrow> orUID o')"

definition ownershipChanged :: "K8sLib \<Rightarrow> ObjectMeta \<Rightarrow> ObjectMeta \<Rightarrow> bool" where
  "ownershipChanged K old new = (case getControllerOf K new of None \<Rightarrow> False | Some o' \<Rightarrow> ownerUID K old \<noteq> orUID o')"

abbreviation owner_laws :: "K8sLib \<Rightarrow> bool" where
  "owner_laws K \<equiv> controller_law K \<and> set_controller_law K"

lemma custom_keeps_identity:
  "applyCustomObjectMetadata K ms m = Inr m' \<Longrightarrow>
   omName m' = omName m \<and> omNamespace m' = omNamespace m \<and> omOwnerReferences m' = omOwnerReferences m \<and> omUID m' = omUID m"
  by (auto simp: applyCustomObjectMetadata_def Let_def split: option.splits if_splits sum.splits)

lemma set_controller_keeps:
  "set_controller_law K \<Longrightarrow> setControllerReference K ms m = Inr m' \<Longrightarrow>
   omName m' = omName m \<and> omNamespace m' = omNamespace m \<and> omLabels m' = omLabels m \<and> omAnnotations m' = omAnnotations m \<and> omUID m' = omUID m
   \<and> ownerUID K m' = srvUID ms"
  unfolding set_controller_law_def ownerUID_def by (cases m; cases m') fastforce

lemma custom_keeps_owner:
  "controller_law K \<Longrightarrow> applyCustomObjectMetadata K ms m = Inr m' \<Longrightarrow>
   omName m' = omName m \<and> omNamespace m' = omNamespace m \<and> ownerUID K m' = ownerUID K m"
  using custom_keeps_identity[of K ms m m'] by (simp add: controller_law_def ownerUID_def)

lemma custom_keeps:
  "controller_law K \<Longrightarrow> applyCustomObjectMetadata K ms m = Inr m' \<Longrightarrow>
   omName m' = omName m \<and> omNamespace m' = omNamespace m \<and> omUID m' = omUID m \<and> ownerUID K m' = ownerUID K m"
  using custom_keeps_owner[of K ms m m'] custom_keeps_identity[of K ms m m'] by simp

lemma ownerUID_labels [simp]: "controller_law K \<Longrightarrow> ownerUID K (m\<lparr>omLabels := l\<rparr>) = ownerUID K m"
  by (simp add: controller_law_def ownerUID_def)

end
