(* ===== verification/Conditions.thy ===== *)
theory Conditions
  imports Env
begin

text \<open>
  Status conditions and workload diagnostics
  (\<open>internal/controller/mcpserver_controller_conditions.go\<close>): how the operator builds a condition,
  how it derives \<open>Available\<close> from a Deployment, and how it turns pod container states into a
  message and into the fingerprint that the pod watch compares.
\<close>

section \<open>Condition types and reasons\<close>

abbreviation ConditionTypeAccepted :: string where "ConditionTypeAccepted \<equiv> ''Accepted''"
abbreviation ConditionTypeAvailable :: string where "ConditionTypeAvailable \<equiv> ''Available''"
abbreviation ConditionTypeVerified :: string where "ConditionTypeVerified \<equiv> ''Verified''"
abbreviation ConditionTypePolicyEnforced :: string where "ConditionTypePolicyEnforced \<equiv> ''PolicyEnforced''"
abbreviation ConditionTypeGatewayRegistered :: string where "ConditionTypeGatewayRegistered \<equiv> ''GatewayRegistered''"
abbreviation ConditionTypeRegistered :: string where "ConditionTypeRegistered \<equiv> ''Registered''"
abbreviation ConditionTypeNetworkPolicyRestricted :: string where
  "ConditionTypeNetworkPolicyRestricted \<equiv> ''NetworkPolicyRestricted''"

abbreviation ReasonValid :: string where "ReasonValid \<equiv> ''Valid''"
abbreviation ReasonInvalid :: string where "ReasonInvalid \<equiv> ''Invalid''"
abbreviation ReasonAvailable :: string where "ReasonAvailable \<equiv> ''Available''"
abbreviation ReasonConfigurationInvalid :: string where "ReasonConfigurationInvalid \<equiv> ''ConfigurationInvalid''"
abbreviation ReasonWorkloadUnavailable :: string where "ReasonWorkloadUnavailable \<equiv> ''WorkloadUnavailable''"
abbreviation ReasonServiceUnavailable :: string where "ReasonServiceUnavailable \<equiv> ''ServiceUnavailable''"
abbreviation ReasonNetworkPolicyUnavailable :: string where "ReasonNetworkPolicyUnavailable \<equiv> ''NetworkPolicyUnavailable''"
abbreviation ReasonScaledToZero :: string where "ReasonScaledToZero \<equiv> ''ScaledToZero''"
abbreviation ReasonInitializing :: string where "ReasonInitializing \<equiv> ''Initializing''"
abbreviation ReasonVerified :: string where "ReasonVerified \<equiv> ''Verified''"
abbreviation ReasonNotVerified :: string where "ReasonNotVerified \<equiv> ''NotVerified''"
abbreviation ReasonEndpointUnavailable :: string where "ReasonEndpointUnavailable \<equiv> ''EndpointUnavailable''"
abbreviation ReasonAuthSkipped :: string where "ReasonAuthSkipped \<equiv> ''AuthSkipped''"
abbreviation ReasonGatewayRegistered :: string where "ReasonGatewayRegistered \<equiv> ''GatewayRegistered''"
abbreviation ReasonGatewayNotRegistered :: string where "ReasonGatewayNotRegistered \<equiv> ''GatewayNotRegistered''"
abbreviation ReasonGatewayBindingNotFound :: string where "ReasonGatewayBindingNotFound \<equiv> ''BindingNotFound''"

section \<open>Building conditions\<close>

definition newCondition :: "'w Api \<Rightarrow> string \<Rightarrow> ConditionStatus \<Rightarrow> string \<Rightarrow> string \<Rightarrow> int \<Rightarrow> ('w, Condition) M" where
  "newCondition A condType status reason message observedGeneration = do {
     t \<leftarrow> call (nowApi A);
     State_Monad.return \<lparr>cType = condType, cStatus = status, cReason = reason, cMessage = message,
       cObservedGeneration = observedGeneration, cLastTransitionTime = t\<rparr>
   }"

definition preserveLastTransitionTime :: "K8sLib \<Rightarrow> Condition \<Rightarrow> Condition list \<Rightarrow> Condition" where
  "preserveLastTransitionTime K c existing =
     (case findStatusCondition K existing (cType c) of
        Some e \<Rightarrow> if cStatus e = cStatus c then c\<lparr>cLastTransitionTime := cLastTransitionTime e\<rparr> else c
      | None \<Rightarrow> c)"

text \<open>The idiom of the controller: build a condition, then keep the old transition time.\<close>

definition newConditionPreserving ::
    "K8sLib \<Rightarrow> 'w Api \<Rightarrow> string \<Rightarrow> ConditionStatus \<Rightarrow> string \<Rightarrow> string \<Rightarrow> int \<Rightarrow> Condition list \<Rightarrow> ('w, Condition) M" where
  "newConditionPreserving K A condType status reason message generation existing = do {
     c \<leftarrow> newCondition A condType status reason message generation;
     State_Monad.return (preserveLastTransitionTime K c existing)
   }"

definition newAvailableCondition ::
    "K8sLib \<Rightarrow> 'w Api \<Rightarrow> ConditionStatus \<Rightarrow> string \<Rightarrow> string \<Rightarrow> int \<Rightarrow> Condition list \<Rightarrow> ('w, Condition) M" where
  "newAvailableCondition K A status reason message generation existing =
     newConditionPreserving K A ConditionTypeAvailable status reason message generation existing"

definition newNotVerifiedCondition :: "K8sLib \<Rightarrow> 'w Api \<Rightarrow> int \<Rightarrow> Condition list \<Rightarrow> ('w, Condition) M" where
  "newNotVerifiedCondition K A generation existing =
     newConditionPreserving K A ConditionTypeVerified ConditionUnknown ReasonNotVerified
       ''Handshake has not been attempted'' generation existing"

definition policyEnforcedCondition ::
    "K8sLib \<Rightarrow> 'w Api \<Rightarrow> Reconciler \<Rightarrow> int \<Rightarrow> Condition list \<Rightarrow> ('w, Condition) M" where
  "policyEnforcedCondition K A R generation existing =
     (if \<not> rWebhookEnabled R
      then newConditionPreserving K A ConditionTypePolicyEnforced ConditionFalse ''WebhookDisabled''
        (''Validating admission webhook is disabled; image allowlist, digest '' @
         ''pinning, storage-mount and securityContext admission policies are NOT '' @
         ''enforced. Enable it (--enable-webhook) in production to validate MCPServer specs.'') generation existing
      else if \<not> rAdmissionPolicyActive R
      then newConditionPreserving K A ConditionTypePolicyEnforced ConditionFalse ''NoPolicyConfigured''
        (''Validating admission webhook is enabled but no admission rules are '' @
         ''configured; MCPServer specs are still admitted without validation. Configure '' @
         ''an image allowlist, digest pinning, storage-mount or securityContext policy.'') generation existing
      else newConditionPreserving K A ConditionTypePolicyEnforced ConditionTrue ''WebhookEnabled''
        (''Validating admission webhook is enabled; configured admission '' @
         ''policies are enforced on MCPServer specs.'') generation existing)"

definition conditionToAC :: "Condition \<Rightarrow> Condition" where
  "conditionToAC c = \<lparr>cType = cType c, cStatus = cStatus c, cReason = cReason c, cMessage = cMessage c,
     cObservedGeneration = cObservedGeneration c, cLastTransitionTime = cLastTransitionTime c\<rparr>"

section \<open>Predicates over stored conditions\<close>

definition acceptedConditionIsTrue :: "K8sLib \<Rightarrow> Condition list \<Rightarrow> bool" where
  "acceptedConditionIsTrue K cs = (case findStatusCondition K cs ConditionTypeAccepted of
     None \<Rightarrow> False | Some c \<Rightarrow> cStatus c = ConditionTrue)"

definition serverIsFullyReady :: "K8sLib \<Rightarrow> Condition list \<Rightarrow> bool" where
  "serverIsFullyReady K cs =
     ((case findStatusCondition K cs ConditionTypeAvailable of None \<Rightarrow> False | Some c \<Rightarrow> cStatus c = ConditionTrue)
      \<and> (case findStatusCondition K cs ConditionTypeVerified of None \<Rightarrow> False | Some c \<Rightarrow> cStatus c = ConditionTrue))"

text \<open>The five \<open>duplicate...\<close> predicates are one test with a condition type and a reason.\<close>

definition duplicateUnavailable :: "string \<Rightarrow> string \<Rightarrow> K8sLib \<Rightarrow> Condition list \<Rightarrow> string \<Rightarrow> bool" where
  "duplicateUnavailable ty reason K cs message = (case findStatusCondition K cs ty of
     None \<Rightarrow> False
   | Some prev \<Rightarrow> cStatus prev = ConditionFalse \<and> cReason prev = reason \<and> cMessage prev = message)"

definition duplicateHandshakeUnavailable :: "K8sLib \<Rightarrow> Condition list \<Rightarrow> string \<Rightarrow> bool" where
  "duplicateHandshakeUnavailable = duplicateUnavailable ConditionTypeVerified ReasonEndpointUnavailable"

definition duplicateWorkloadUnavailable :: "K8sLib \<Rightarrow> Condition list \<Rightarrow> string \<Rightarrow> bool" where
  "duplicateWorkloadUnavailable = duplicateUnavailable ConditionTypeAvailable ReasonWorkloadUnavailable"

definition duplicateServiceUnavailable :: "K8sLib \<Rightarrow> Condition list \<Rightarrow> string \<Rightarrow> bool" where
  "duplicateServiceUnavailable = duplicateUnavailable ConditionTypeAvailable ReasonServiceUnavailable"

definition duplicateNetworkPolicyUnavailable :: "K8sLib \<Rightarrow> Condition list \<Rightarrow> string \<Rightarrow> bool" where
  "duplicateNetworkPolicyUnavailable = duplicateUnavailable ConditionTypeAvailable ReasonNetworkPolicyUnavailable"

definition duplicateGatewayBindingUnavailable :: "K8sLib \<Rightarrow> Condition list \<Rightarrow> string \<Rightarrow> bool" where
  "duplicateGatewayBindingUnavailable = duplicateUnavailable ConditionTypeAvailable ReasonGatewayNotRegistered"

section \<open>Deployment state\<close>

record deploymentState =
  dstAvailable :: bool
  dstProgressing :: bool
  dstReplicaFailure :: bool
  dstMessage :: string

text \<open>
  One pass of the loop of \<open>extractDeploymentState\<close>: the state so far, the message of a
  \<open>Progressing=False\<close> and that of an \<open>Available=False\<close> condition.
\<close>

definition deploymentStateStep ::
    "DeploymentCondition \<Rightarrow> deploymentState \<times> string \<times> string \<Rightarrow> deploymentState \<times> string \<times> string" where
  "deploymentStateStep c acc = (case acc of (st, pm, am) \<Rightarrow>
     if dcType c = ''Available''
     then (st\<lparr>dstAvailable := (dcStatus c = ConditionTrue)\<rparr>, pm,
           if dcStatus c = ConditionFalse then dcMessage c else am)
     else if dcType c = ''Progressing''
     then (st\<lparr>dstProgressing := (dcStatus c = ConditionTrue)\<rparr>,
           if dcStatus c = ConditionFalse then dcMessage c else pm, am)
     else if dcType c = ''ReplicaFailure'' \<and> dcStatus c = ConditionTrue
     then (st\<lparr>dstReplicaFailure := True,
              dstMessage := (if dcMessage c \<noteq> [] then dcMessage c else dstMessage st)\<rparr>, pm, am)
     else acc)"

definition extractDeploymentState :: "Deployment \<Rightarrow> deploymentState" where
  "extractDeploymentState d =
     (case fold deploymentStateStep (dsConditions (depStatus d))
        (\<lparr>dstAvailable = False, dstProgressing = False, dstReplicaFailure = False, dstMessage = []\<rparr>, [], []) of
      (st, progressingMessage, availableMessage) \<Rightarrow>
        let m1 = (if dstMessage st = [] then progressingMessage else dstMessage st);
            m2 = (if m1 = [] then availableMessage else m1)
        in st\<lparr>dstMessage := m2\<rparr>)"

section \<open>Container failures\<close>

record containerFailure =
  cfKind :: string
  cfPod :: string
  cfContainer :: string
  cfInit :: bool
  cfImage :: string
  cfDetail :: string
  cfExitCode :: "int option"
  cfRestarts :: int

definition classifyContainer :: "ContainerStatus \<Rightarrow> string \<Rightarrow> bool \<Rightarrow> containerFailure option" where
  "classifyContainer cs podName init =
     (let f = \<lparr>cfKind = [], cfPod = podName, cfContainer = cnsName cs, cfInit = init, cfImage = cnsImage cs,
               cfDetail = [], cfExitCode = None, cfRestarts = cnsRestartCount cs\<rparr>;
          reason = (case csWaiting (cnsState cs) of None \<Rightarrow> [] | Some w \<Rightarrow> cswReason w);
          wmsg = (case csWaiting (cnsState cs) of None \<Rightarrow> [] | Some w \<Rightarrow> cswMessage w)
      in if reason = ''ImagePullBackOff'' \<or> reason = ''ErrImagePull''
         then Some (f\<lparr>cfKind := ''ImagePull'', cfDetail := wmsg\<rparr>)
         else if reason = ''CrashLoopBackOff''
         then Some (f\<lparr>cfKind := ''CrashLoop'',
                cfExitCode := map_option cstExitCode (csTerminated (cnsLastTerminationState cs))\<rparr>)
         else if reason = ''CreateContainerConfigError''
         then Some (f\<lparr>cfKind := ''ConfigError'', cfDetail := wmsg\<rparr>)
         else if (case csTerminated (cnsState cs) of None \<Rightarrow> False | Some t \<Rightarrow> cstReason t = ''OOMKilled'')
         then Some (f\<lparr>cfKind := ''OOMKilled'', cfExitCode := map_option cstExitCode (csTerminated (cnsState cs))\<rparr>)
         else if csRunning (cnsState cs) \<and> \<not> cnsReady cs \<and> cnsRestartCount cs > 0
         then Some (f\<lparr>cfKind := ''NotReady''\<rparr>)
         else None)"

definition failureMessage :: "containerFailure \<Rightarrow> string" where
  "failureMessage f =
     (if cfKind f = ''ImagePull''
      then ''Image pull failed for '' @ goquote (cfImage f) @ '': '' @ cfDetail f @ '' (pod: '' @ cfPod f @ '')''
      else if cfKind f = ''CrashLoop''
      then (case cfExitCode f of
              Some ec \<Rightarrow> ''Container crashing: exit code '' @ itoa ec @ '', restarts: '' @ itoa (cfRestarts f)
                @ '' (pod: '' @ cfPod f @ '')''
            | None \<Rightarrow> ''Container crashing: restarts: '' @ itoa (cfRestarts f) @ '' (pod: '' @ cfPod f @ '')'')
      else if cfKind f = ''ConfigError''
      then ''Container config error: '' @ cfDetail f @ '' (pod: '' @ cfPod f @ '')''
      else if cfKind f = ''OOMKilled''
      then ''Container OOMKilled: exit code '' @ itoa (case cfExitCode f of None \<Rightarrow> 0 | Some ec \<Rightarrow> ec)
        @ '', restarts: '' @ itoa (cfRestarts f) @ '' (pod: '' @ cfPod f @ '')''
      else if cfKind f = ''NotReady''
      then ''Container not passing health checks: restarts: '' @ itoa (cfRestarts f) @ '' (pod: '' @ cfPod f @ '')''
      else [])"

definition failureSignature :: "containerFailure \<Rightarrow> string" where
  "failureSignature f =
     (let exit = (case cfExitCode f of None \<Rightarrow> ''none'' | Some ec \<Rightarrow> itoa ec)
      in cfKind f @ ''|'' @ cfContainer f @ ''|'' @ btoa (cfInit f) @ ''|'' @ cfImage f @ ''|'' @ cfDetail f @ ''|'' @ exit)"

fun firstClassified :: "string \<Rightarrow> bool \<Rightarrow> ContainerStatus list \<Rightarrow> containerFailure option" where
  "firstClassified podName init [] = None"
| "firstClassified podName init (cs # css) = (case classifyContainer cs podName init of
     Some f \<Rightarrow> Some f | None \<Rightarrow> firstClassified podName init css)"

definition firstFailure :: "Pod \<Rightarrow> containerFailure option" where
  "firstFailure pod = (case firstClassified (omName (podMeta pod)) True (podInitContainerStatuses pod) of
     Some f \<Rightarrow> Some f
   | None \<Rightarrow> firstClassified (omName (podMeta pod)) False (podContainerStatuses pod))"

fun analyzePodFailures :: "Pod list \<Rightarrow> string" where
  "analyzePodFailures [] = []"
| "analyzePodFailures (p # ps) = (case firstFailure p of
     Some f \<Rightarrow> failureMessage f | None \<Rightarrow> analyzePodFailures ps)"

definition podFailureSignature :: "Pod \<Rightarrow> string" where
  "podFailureSignature pod = (case firstFailure pod of None \<Rightarrow> [] | Some f \<Rightarrow> failureSignature f)"

text \<open>The events of the pod watch; \<open>None\<close> is an object that is not a Pod.\<close>

datatype podEvent =
    PodCreate "Pod option"
  | PodUpdate "Pod option" "Pod option"
  | PodDelete bool "Pod option"
  | PodGeneric

fun podDiagnosticsChangedPredicate :: "podEvent \<Rightarrow> bool" where
  "podDiagnosticsChangedPredicate (PodCreate p) = (case p of
     None \<Rightarrow> False | Some pod \<Rightarrow> podFailureSignature pod \<noteq> [])"
| "podDiagnosticsChangedPredicate (PodUpdate old new) = (case (old, new) of
     (Some oldPod, Some newPod) \<Rightarrow> podFailureSignature oldPod \<noteq> podFailureSignature newPod | _ \<Rightarrow> False)"
| "podDiagnosticsChangedPredicate (PodDelete stateUnknown p) =
     (if stateUnknown then True
      else case p of None \<Rightarrow> False | Some pod \<Rightarrow> podFailureSignature pod \<noteq> [])"
| "podDiagnosticsChangedPredicate PodGeneric = False"

section \<open>The Available condition of a Deployment\<close>

definition getPodFailureMessage :: "K8sLib \<Rightarrow> 'w Api \<Rightarrow> Deployment \<Rightarrow> ('w, string) M" where
  "getPodFailureMessage K A d = (case depSelector d of
     None \<Rightarrow> State_Monad.return []
   | Some sel \<Rightarrow>
      (case labelSelectorAsSelector K sel of
         Some err \<Rightarrow> State_Monad.return []
       | None \<Rightarrow> do {
           r \<leftarrow> call (listPods A (omNamespace (depMeta d)) sel);
           (case r of
              Inl err \<Rightarrow> State_Monad.return []
            | Inr pods \<Rightarrow> State_Monad.return (analyzePodFailures pods))
         }))"

definition reconcileAvailableCondition ::
    "K8sLib \<Rightarrow> 'w Api \<Rightarrow> Deployment \<Rightarrow> Condition \<Rightarrow> int \<Rightarrow> Condition list \<Rightarrow> ('w, Condition) M" where
  "reconcileAvailableCondition K A d accepted generation existing =
     (let ready = dsReadyReplicas (depStatus d);
          observed = dsObservedGeneration (depStatus d);
          state = extractDeploymentState d
      in if cStatus accepted = ConditionFalse
         then newAvailableCondition K A ConditionFalse ReasonConfigurationInvalid
           ''Configuration must be fixed before server can start'' generation existing
         else if depReplicas d = Some 0
         then newAvailableCondition K A ConditionTrue ReasonScaledToZero
           ''Server is ready (scaled to 0 replicas)'' generation existing
         else if dsConditions (depStatus d) = [] \<and> ready = 0
         then newAvailableCondition K A ConditionUnknown ReasonInitializing
           ''Waiting for Deployment to report status'' generation existing
         else if observed > 0 \<and> observed < omGeneration (depMeta d)
         then newAvailableCondition K A ConditionFalse ReasonWorkloadUnavailable
           ''Deployment is processing spec update'' generation existing
         else if dstAvailable state \<and> ready > 0
         then newAvailableCondition K A ConditionTrue ReasonAvailable
           (''MCP server is ready ('' @ itoa ready @ '' of '' @
            itoa (case depReplicas d of None \<Rightarrow> 1 | Some n \<Rightarrow> n) @ '' instances healthy)'') generation existing
         else do {
           podMessage \<leftarrow> getPodFailureMessage K A d;
           (if dstReplicaFailure state
               \<or> (\<not> dstProgressing state \<and> \<not> dstAvailable state)
               \<or> (dstProgressing state \<and> ready = 0 \<and> podMessage \<noteq> [])
            then newAvailableCondition K A ConditionFalse ReasonWorkloadUnavailable
              (if podMessage = []
               then ''No healthy instances (pod details unavailable)''
                    @ (if dstMessage state \<noteq> [] then '': '' @ dstMessage state else [])
               else podMessage) generation existing
            else newAvailableCondition K A ConditionFalse ReasonWorkloadUnavailable
              ''Waiting for instances to become healthy'' generation existing)
         })"

section \<open>The fingerprint of a pod\<close>

text \<open>What a failure says, without the pod it was seen in and the restart count.\<close>

definition diagnosis :: "containerFailure \<Rightarrow> string \<times> string \<times> bool \<times> string \<times> string \<times> int option" where
  "diagnosis f = (cfKind f, cfContainer f, cfInit f, cfImage f, cfDetail f, cfExitCode f)"

definition plain_failure :: "containerFailure \<Rightarrow> bool" where
  "plain_failure f \<longleftrightarrow> CHR ''|'' \<notin> set (cfKind f) \<and> CHR ''|'' \<notin> set (cfContainer f) \<and> CHR ''|'' \<notin> set (cfImage f)"

lemma failureSignature_inject:
  assumes "plain_failure f" "plain_failure g"
  shows "failureSignature f = failureSignature g \<longleftrightarrow> diagnosis f = diagnosis g"
proof -
  define ex :: "containerFailure \<Rightarrow> string" where "ex = (\<lambda>h. case cfExitCode h of None \<Rightarrow> ''none'' | Some ec \<Rightarrow> itoa ec)"
  have sig: "failureSignature h = cfKind h @ CHR ''|'' # cfContainer h @ CHR ''|'' # btoa (cfInit h) @ CHR ''|''
      # cfImage h @ CHR ''|'' # cfDetail h @ CHR ''|'' # ex h" for h
    by (simp add: failureSignature_def ex_def)
  have ex: "CHR ''|'' \<notin> set (ex h)" for h
    by (simp add: ex_def itoa_no_bar split: option.split)
  have ex_inj: "ex f = ex g \<longleftrightarrow> cfExitCode f = cfExitCode g"
    by (auto simp: ex_def itoa_inject itoa_no_bar itoa_no_bar(2)[symmetric] split: option.splits)
  have bt: "CHR ''|'' \<notin> set (btoa b)" for b by (simp add: btoa_def)
  show ?thesis
    using assms unfolding sig plain_failure_def
    by (simp add: cut_first cut_last bt ex ex_inj btoa_inject diagnosis_def)
qed


lemma failureSignature_nonempty: "failureSignature f \<noteq> []"
  by (simp add: failureSignature_def)

definition plain_status :: "ContainerStatus \<Rightarrow> bool" where
  "plain_status cs \<longleftrightarrow> CHR ''|'' \<notin> set (cnsName cs) \<and> CHR ''|'' \<notin> set (cnsImage cs)"

text \<open>Container names are DNS labels and image references have no vertical bar.\<close>

definition plain_pod :: "Pod \<Rightarrow> bool" where
  "plain_pod p \<longleftrightarrow> (\<forall>cs \<in> set (podInitContainerStatuses p) \<union> set (podContainerStatuses p). plain_status cs)"

lemma classify_plain: "plain_status cs \<Longrightarrow> classifyContainer cs n i = Some f \<Longrightarrow> plain_failure f"
  by (auto simp: classifyContainer_def plain_status_def plain_failure_def Let_def split: if_splits)

lemma firstClassified_plain:
  "firstClassified n i css = Some f \<Longrightarrow> \<forall>cs \<in> set css. plain_status cs \<Longrightarrow> plain_failure f"
  by (induction n i css rule: firstClassified.induct) (auto dest: classify_plain split: option.splits)

lemma firstFailure_plain: "plain_pod p \<Longrightarrow> firstFailure p = Some f \<Longrightarrow> plain_failure f"
  by (auto simp: firstFailure_def plain_pod_def intro: firstClassified_plain split: option.splits)

lemma podFailureSignature_eq_iff:
  assumes "plain_pod p" "plain_pod q"
  shows "podFailureSignature p = podFailureSignature q \<longleftrightarrow>
           map_option diagnosis (firstFailure p) = map_option diagnosis (firstFailure q)"
  using assms
  by (auto simp: podFailureSignature_def failureSignature_inject failureSignature_nonempty failureSignature_nonempty[symmetric]
      firstFailure_plain split: option.splits)

text \<open>
  C32: the pod watch reconciles the server on an update of a pod exactly when what is wrong
  with the pod changed (the failing container, its image, the kind of failure, its detail
  or its exit code): the textual fingerprint the watch compares loses nothing, for pods whose container names
  and image references have no vertical bar.
\<close>

theorem pod_watch_sees_every_diagnosis_change:
  assumes "plain_pod p" "plain_pod q"
  shows "podDiagnosticsChangedPredicate (PodUpdate (Some p) (Some q)) \<longleftrightarrow>
           map_option diagnosis (firstFailure p) \<noteq> map_option diagnosis (firstFailure q)"
  using podFailureSignature_eq_iff[OF assms] by simp

definition crashing_pod :: "int \<Rightarrow> Pod" where
  "crashing_pod n = \<lparr>podMeta = zero_meta\<lparr>omName := ''p''\<rparr>, podInitContainerStatuses = [],
     podContainerStatuses = [\<lparr>cnsName = ''mcp-server'', cnsImage = ''i'', cnsReady = False, cnsRestartCount = n,
       cnsState = \<lparr>csWaiting = Some \<lparr>cswReason = ''CrashLoopBackOff'', cswMessage = ''back-off''\<rparr>, csRunning = False, csTerminated = None\<rparr>,
       cnsLastTerminationState = \<lparr>csWaiting = None, csRunning = False,
         csTerminated = Some \<lparr>cstReason = ''Error'', cstExitCode = n\<rparr>\<rparr>\<rparr>]\<rparr>"

theorem pod_watch_sees_every_diagnosis_change_witness:
  "podDiagnosticsChangedPredicate (PodUpdate (Some (crashing_pod 1)) (Some (crashing_pod 2))) \<longleftrightarrow> True"
proof -
  have p: "plain_pod (crashing_pod n)" for n by (simp add: plain_pod_def plain_status_def crashing_pod_def)
  show ?thesis
    using pod_watch_sees_every_diagnosis_change[OF p[of 1] p[of 2]]
    by (simp add: crashing_pod_def firstFailure_def classifyContainer_def diagnosis_def)
qed

text \<open>Status updates that only move restart counts.\<close>

definition same_but_restarts :: "ContainerStatus \<Rightarrow> ContainerStatus \<Rightarrow> bool" where
  "same_but_restarts a b \<longleftrightarrow> a\<lparr>cnsRestartCount := 0\<rparr> = b\<lparr>cnsRestartCount := 0\<rparr>
     \<and> (cnsRestartCount a > 0 \<longleftrightarrow> cnsRestartCount b > 0)"

lemma classify_restarts:
  "same_but_restarts a b \<Longrightarrow>
   map_option diagnosis (classifyContainer a n i) = map_option diagnosis (classifyContainer b m i)"
  by (cases a; cases b) (simp add: same_but_restarts_def classifyContainer_def diagnosis_def Let_def)

lemma firstClassified_restarts:
  "list_all2 same_but_restarts as bs \<Longrightarrow>
   map_option diagnosis (firstClassified n i as) = map_option diagnosis (firstClassified m i bs)"
proof (induction rule: list_all2_induct)
  case (Cons a as b bs)
  from classify_restarts[OF Cons(1), of n i m] Cons(3) show ?case
    by (cases "classifyContainer a n i"; cases "classifyContainer b m i") auto
qed simp

lemma firstFailure_restarts:
  assumes "list_all2 same_but_restarts (podInitContainerStatuses p) (podInitContainerStatuses q)"
    and "list_all2 same_but_restarts (podContainerStatuses p) (podContainerStatuses q)"
  shows "map_option diagnosis (firstFailure p) = map_option diagnosis (firstFailure q)"
  unfolding firstFailure_def
  using firstClassified_restarts[OF assms(1), of "omName (podMeta p)" True "omName (podMeta q)"]
    firstClassified_restarts[OF assms(2), of "omName (podMeta p)" False "omName (podMeta q)"]
  by (cases "firstClassified (omName (podMeta p)) True (podInitContainerStatuses p)";
      cases "firstClassified (omName (podMeta q)) True (podInitContainerStatuses q)") auto

lemma failureSignature_diagnosis: "diagnosis f = diagnosis g \<Longrightarrow> failureSignature f = failureSignature g"
  by (simp add: diagnosis_def failureSignature_def)

text \<open>
  A status update of a pod that only moves restart counts, none of them from or to zero, never
  reconciles the server, so a crash loop does not turn into a reconcile loop.
\<close>

lemma restarts_do_not_requeue:
  assumes "list_all2 same_but_restarts (podInitContainerStatuses p) (podInitContainerStatuses q)"
    and "list_all2 same_but_restarts (podContainerStatuses p) (podContainerStatuses q)"
  shows "\<not> podDiagnosticsChangedPredicate (PodUpdate (Some p) (Some q))"
  using firstFailure_restarts[OF assms]
  by (auto simp: podFailureSignature_def intro: failureSignature_diagnosis split: option.splits)

lemma restarts_do_not_requeue_witness:
  "\<not> podDiagnosticsChangedPredicate (PodUpdate (Some (crashing_pod 1))
      (Some ((crashing_pod 1)\<lparr>podContainerStatuses := map (\<lambda>c. c\<lparr>cnsRestartCount := 7\<rparr>) (podContainerStatuses (crashing_pod 1))\<rparr>)))"
  by (rule restarts_do_not_requeue) (simp_all add: crashing_pod_def same_but_restarts_def)

section \<open>Available\<close>

lemma newAvailable_run:
  "run_state (newAvailableCondition K A st r m g ex) s = (c, s') \<Longrightarrow>
   cType c = ConditionTypeAvailable \<and> cStatus c = st \<and> cReason c = r \<and> cMessage c = m \<and> cObservedGeneration c = g"
  by (auto simp: newAvailableCondition_def newConditionPreserving_def newCondition_def preserveLastTransitionTime_def
      run_ops Let_def split: prod.splits option.splits if_splits)

definition deployment_available :: "Deployment \<Rightarrow> bool" where
  "deployment_available d \<longleftrightarrow> (case List.find (\<lambda>c. dcType c = ''Available'') (rev (dsConditions (depStatus d))) of
     None \<Rightarrow> False | Some c \<Rightarrow> dcStatus c = ConditionTrue)"

lemma fold_step_available:
  "dstAvailable (fst (fold deploymentStateStep cs acc)) =
     (case List.find (\<lambda>c. dcType c = ''Available'') (rev cs) of
        None \<Rightarrow> dstAvailable (fst acc) | Some c \<Rightarrow> dcStatus c = ConditionTrue)"
proof (induction cs arbitrary: acc)
  case (Cons c cs)
  have "dstAvailable (fst (deploymentStateStep c acc)) =
      (if dcType c = ''Available'' then dcStatus c = ConditionTrue else dstAvailable (fst acc))"
    by (auto simp: deploymentStateStep_def split: prod.splits)
  with Cons show ?case by (auto simp: find_append split: option.splits)
qed simp

lemma extract_available: "dstAvailable (extractDeploymentState d) = deployment_available d"
proof -
  let ?z = "(\<lparr>dstAvailable = False, dstProgressing = False, dstReplicaFailure = False, dstMessage = []\<rparr>, [], [])"
  have "dstAvailable (extractDeploymentState d) = dstAvailable (fst (fold deploymentStateStep (dsConditions (depStatus d)) ?z))"
    by (simp add: extractDeploymentState_def Let_def split: prod.split)
  then show ?thesis by (simp add: fold_step_available deployment_available_def split: option.split)
qed

lemma available_status:
  "cStatus (fst (run_state (reconcileAvailableCondition K A d accepted g ex) s)) = ConditionTrue \<longleftrightarrow>
     cStatus accepted \<noteq> ConditionFalse \<and>
     (depReplicas d = Some 0 \<or>
      deployment_available d \<and> dsReadyReplicas (depStatus d) > 0
      \<and> \<not> (0 < dsObservedGeneration (depStatus d) \<and> dsObservedGeneration (depStatus d) < omGeneration (depMeta d)))"
proof -
  obtain c s' where r: "run_state (reconcileAvailableCondition K A d accepted g ex) s = (c, s')" by fastforce
  then show ?thesis
    by (auto simp: reconcileAvailableCondition_def Let_def extract_available split: if_splits prod.splits
        dest!: newAvailable_run)
qed

text \<open>
  the \<open>Available\<close> condition computed from a Deployment is \<open>True\<close> exactly when the configuration
  was accepted and either the Deployment is scaled to zero or it is available with a ready
  replica and its status is not that of an older generation; the reason tells the two apart, and
  the condition always carries the server's generation.
\<close>

lemma available_true_iff:
  "let c = fst (run_state (reconcileAvailableCondition K A d accepted g ex) s);
       st = depStatus d;
       serving = (deployment_available d \<and> dsReadyReplicas st > 0
          \<and> \<not> (0 < dsObservedGeneration st \<and> dsObservedGeneration st < omGeneration (depMeta d)))
   in cType c = ConditionTypeAvailable \<and> cObservedGeneration c = g \<and>
      (cStatus c = ConditionTrue \<longleftrightarrow> cStatus accepted \<noteq> ConditionFalse \<and> (depReplicas d = Some 0 \<or> serving)) \<and>
      (cReason c = ReasonAvailable \<longleftrightarrow> cStatus accepted \<noteq> ConditionFalse \<and> depReplicas d \<noteq> Some 0 \<and> serving)"
proof -
  obtain c s' where r: "run_state (reconcileAvailableCondition K A d accepted g ex) s = (c, s')" by fastforce
  then show ?thesis
    by (auto simp: reconcileAvailableCondition_def Let_def extract_available split: if_splits prod.splits
        dest!: newAvailable_run)
qed

end
