(* ===== verification/NetworkPolicy.thy ===== *)
theory NetworkPolicy
  imports NetCIDR Metadata Ownership Conditions
begin

text \<open>
  The NetworkPolicy of a server (\<open>mcpserver_controller_networkpolicy.go\<close>, \<open>networkpolicy_defaults.go\<close>,
  \<open>networkpolicy_operator_peer.go\<close>, \<open>networkpolicy_gateway_peer.go\<close>): the ingress and egress rules the
  operator derives from the specification and its default posture, the posture condition it reports,
  and the handler that creates or updates the object. What a policy admits is given by the
  documented meaning of the Kubernetes resource (section ``What a policy admits''), against which
  the rules are proved.
\<close>

section \<open>Default posture\<close>

abbreviation PostureOpen :: string where "PostureOpen \<equiv> ''open''"
abbreviation PostureRestricted :: string where "PostureRestricted \<equiv> ''restricted''"

definition ParseDefaultPosture :: "string \<Rightarrow> go_error + string" where
  "ParseDefaultPosture value =
     (let v = toLower (trimSpace value)
      in if v = [] \<or> v = PostureOpen then Inr PostureOpen
         else if v = PostureRestricted then Inr PostureRestricted
         else Inl (ErrorString (''invalid network policy default posture '' @ goquote value @ '': must be '' @
                goquote PostureOpen @ '' or '' @ goquote PostureRestricted)))"

definition ingressPorts :: "MCPServer \<Rightarrow> NetworkPolicyPort list" where
  "ingressPorts ms = [\<lparr>nptProtocol = Some ''TCP'', nptPort = Some (IntVal (cfgPort (spConfig (msSpec ms)))), nptEndPort = None\<rparr>]"

text \<open>\<open>spec.network\<close> declares an ingress source.\<close>

definition declaresIngress :: "MCPServer \<Rightarrow> bool" where
  "declaresIngress ms = (case spNetwork (msSpec ms) of None \<Rightarrow> False | Some n \<Rightarrow> netIngressFrom n \<noteq> [])"

definition declaredIngress :: "MCPServer \<Rightarrow> NetworkPolicyPeer list" where
  "declaredIngress ms = (case spNetwork (msSpec ms) of None \<Rightarrow> [] | Some n \<Rightarrow> netIngressFrom n)"

definition defaultIngressRules :: "MCPServer \<Rightarrow> string \<Rightarrow> NetworkPolicyPeer list \<Rightarrow> NetworkPolicyIngressRule list" where
  "defaultIngressRules ms posture derivedPeers =
     (if declaresIngress ms then [\<lparr>inPorts = ingressPorts ms, inFrom = declaredIngress ms\<rparr>]
      else if posture = PostureRestricted
      then (if derivedPeers \<noteq> [] then [\<lparr>inPorts = ingressPorts ms, inFrom = derivedPeers\<rparr>] else [])
      else [\<lparr>inPorts = ingressPorts ms, inFrom = []\<rparr>])"

section \<open>Derived peers\<close>

abbreviation namespaceNameLabel :: string where "namespaceNameLabel \<equiv> ''kubernetes.io/metadata.name''"

definition namespaceNamePeer :: "string \<Rightarrow> NetworkPolicyPeer" where
  "namespaceNamePeer namespace = \<lparr>nppPodSelector = None,
     nppNamespaceSelector = Some \<lparr>lsMatchLabels = [(namespaceNameLabel, namespace)], lsMatchExpressions = []\<rparr>,
     nppIPBlock = None\<rparr>"

definition operatorIngressPeers :: "Reconciler \<Rightarrow> MCPServer \<Rightarrow> NetworkPolicyPeer list" where
  "operatorIngressPeers R ms =
     (if rPosture R \<noteq> PostureRestricted then []
      else if declaresIngress ms then []
      else if rOperatorNamespace R = [] \<or> rOperatorPodLabels R = [] then []
      else [(namespaceNamePeer (rOperatorNamespace R))\<lparr>nppPodSelector :=
              Some \<lparr>lsMatchLabels = rOperatorPodLabels R, lsMatchExpressions = []\<rparr>\<rparr>])"

definition resolveGatewaySourceNamespace ::
    "K8sLib \<Rightarrow> 'w Api \<Rightarrow> MCPServer \<Rightarrow> GatewaySpec \<Rightarrow> string \<Rightarrow> ('w, go_error + string) M" where
  "resolveGatewaySourceNamespace K A ms gw dataKey =
     (if gwConfigRef gw = [] then State_Monad.return (Inr [])
      else do {
        r \<leftarrow> call (readConfigMap A (gwConfigRef gw) (srvNamespace ms));
        State_Monad.return (case r of
            Inl err \<Rightarrow> if isNotFound K err then Inr [] else Inl err
          | Inr cm \<Rightarrow> Inr (case map_of (cmData cm) dataKey of None \<Rightarrow> [] | Some v \<Rightarrow> trimSpace v))
      })"

definition gatewayIngressPeers :: "K8sLib \<Rightarrow> 'w Api \<Rightarrow> Reconciler \<Rightarrow> MCPServer \<Rightarrow> ('w, go_error + NetworkPolicyPeer list) M" where
  "gatewayIngressPeers K A R ms =
     (if rPosture R \<noteq> PostureRestricted then State_Monad.return (Inr [])
      else case spGateway (msSpec ms) of
        None \<Rightarrow> State_Monad.return (Inr [])
      | Some gw \<Rightarrow>
          if declaresIngress ms then State_Monad.return (Inr [])
          else if gwProvider gw \<noteq> ''httproute'' \<and> gwProvider gw \<noteq> ''kuadrant'' then State_Monad.return (Inr [])
          else do {
            r \<leftarrow> resolveGatewaySourceNamespace K A ms gw
                  (if gwProvider gw = ''httproute'' then ''gateway-namespace'' else ''extension-namespace'');
            State_Monad.return (case r of
                Inl err \<Rightarrow> Inl (Wrap (''resolving gateway namespace for MCPServer '' @ goquote (srvName ms) @ '': '') err)
              | Inr namespace \<Rightarrow> Inr (if namespace = [] then [] else [namespaceNamePeer namespace]))
          })"

section \<open>The desired policy\<close>

definition buildEgressRules :: "MCPServer \<Rightarrow> NetworkPolicyEgressRule list" where
  "buildEgressRules ms =
     (case spNetwork (msSpec ms) of
        None \<Rightarrow> [\<lparr>egPorts = [], egTo = []\<rparr>]
      | Some n \<Rightarrow>
          if netEgressTo n = [] \<and> netEgressPorts n = [] then [\<lparr>egPorts = [], egTo = []\<rparr>]
          else [\<lparr>egPorts = [\<lparr>nptProtocol = Some ''UDP'', nptPort = Some (IntVal 53), nptEndPort = None\<rparr>,
                           \<lparr>nptProtocol = Some ''TCP'', nptPort = Some (IntVal 53), nptEndPort = None\<rparr>],
                 egTo = (case netDNSEgressPeer n of None \<Rightarrow> [] | Some p \<Rightarrow> [p])\<rparr>,
                \<lparr>egPorts = netEgressPorts n, egTo = netEgressTo n\<rparr>])"

definition createNetworkPolicy :: "Reconciler \<Rightarrow> MCPServer \<Rightarrow> NetworkPolicyPeer list \<Rightarrow> NetworkPolicy" where
  "createNetworkPolicy R ms derivedPeers = \<lparr>
     npMeta = zero_meta\<lparr>omName := srvName ms, omNamespace := srvNamespace ms, omLabels := managedWorkloadLabels (srvName ms)\<rparr>,
     npSpec = \<lparr>npsPodSelector = \<lparr>lsMatchLabels = managedWorkloadSelector (srvName ms), lsMatchExpressions = []\<rparr>,
       npsPolicyTypes = [''Ingress'', ''Egress''],
       npsIngress = defaultIngressRules ms (rPosture R) derivedPeers,
       npsEgress = buildEgressRules ms\<rparr>\<rparr>"

section \<open>The reported posture\<close>

definition isEmptyLabelSelector :: "LabelSelector option \<Rightarrow> bool" where
  "isEmptyLabelSelector sel = (case sel of None \<Rightarrow> False | Some s \<Rightarrow> lsMatchLabels s = [] \<and> lsMatchExpressions s = [])"

definition isUniversalCIDR :: "string \<Rightarrow> bool" where
  "isUniversalCIDR cidr = (case parseCIDR cidr of None \<Rightarrow> False | Some n \<Rightarrow> fst (maskSize (netMask n)) = 0)"

definition peerRestrictsSource :: "NetworkPolicyPeer \<Rightarrow> bool" where
  "peerRestrictsSource peer = (case nppIPBlock peer of
     Some b \<Rightarrow> ipbExcept b \<noteq> [] \<or> \<not> isUniversalCIDR (ipbCIDR b)
   | None \<Rightarrow>
       if nppPodSelector peer \<noteq> None \<and> \<not> isEmptyLabelSelector (nppPodSelector peer) then True
       else if nppNamespaceSelector peer \<noteq> None \<and> \<not> isEmptyLabelSelector (nppNamespaceSelector peer) then True
       else nppPodSelector peer \<noteq> None \<and> nppNamespaceSelector peer = None)"

definition peerAdmitsAllSources :: "NetworkPolicyPeer \<Rightarrow> bool" where
  "peerAdmitsAllSources peer = (\<not> peerRestrictsSource peer)"

definition hasIngressSourceRestriction :: "NetworkPolicy \<Rightarrow> bool" where
  "hasIngressSourceRestriction np =
     (if npsIngress (npSpec np) = [] \<and> ''Ingress'' \<in> set (npsPolicyTypes (npSpec np)) then True
      else list_ex (\<lambda>rule. inPorts rule \<noteq> [] \<and> inFrom rule \<noteq> [] \<and> \<not> list_ex peerAdmitsAllSources (inFrom rule))
             (npsIngress (npSpec np)))"

definition hasEgressDestinationRestriction :: "NetworkPolicy \<Rightarrow> bool" where
  "hasEgressDestinationRestriction np = list_ex (\<lambda>rule. egTo rule \<noteq> [] \<or> egPorts rule \<noteq> []) (npsEgress (npSpec np))"

definition egressDestinationsRestricted :: "MCPServer \<Rightarrow> bool" where
  "egressDestinationsRestricted ms = (case spNetwork (msSpec ms) of None \<Rightarrow> False | Some n \<Rightarrow> netEgressTo n \<noteq> [])"

definition networkPolicyPostureConditionFor ::
    "K8sLib \<Rightarrow> 'w Api \<Rightarrow> MCPServer \<Rightarrow> int \<Rightarrow> Condition list \<Rightarrow> NetworkPolicy \<Rightarrow> ('w, Condition) M" where
  "networkPolicyPostureConditionFor K A ms generation existing np =
     (let ingress = hasIngressSourceRestriction np; egress = hasEgressDestinationRestriction np
      in if ingress \<and> egress
         then newConditionPreserving K A ConditionTypeNetworkPolicyRestricted ConditionTrue ''Restricted''
           (if egressDestinationsRestricted ms
            then ''NetworkPolicy restricts both ingress sources and egress destinations''
            else ''NetworkPolicy restricts ingress sources and limits egress to specific ports'') generation existing
         else if ingress
         then newConditionPreserving K A ConditionTypeNetworkPolicyRestricted ConditionFalse ''EgressUnrestricted''
           ''NetworkPolicy allows egress to any destination'' generation existing
         else if egress
         then newConditionPreserving K A ConditionTypeNetworkPolicyRestricted ConditionFalse ''IngressUnrestricted''
           ''NetworkPolicy allows ingress from any source'' generation existing
         else newConditionPreserving K A ConditionTypeNetworkPolicyRestricted ConditionFalse ''Unrestricted''
           ''NetworkPolicy allows ingress from any source and egress to any destination'' generation existing)"

definition networkPolicyPostureCondition ::
    "K8sLib \<Rightarrow> 'w Api \<Rightarrow> Reconciler \<Rightarrow> MCPServer \<Rightarrow> int \<Rightarrow> Condition list \<Rightarrow> ('w, Condition) M" where
  "networkPolicyPostureCondition K A R ms generation existing =
     networkPolicyPostureConditionFor K A ms generation existing (createNetworkPolicy R ms [])"

section \<open>The handler\<close>

definition createNewNetworkPolicy :: "K8sLib \<Rightarrow> 'w Api \<Rightarrow> MCPServer \<Rightarrow> NetworkPolicy \<Rightarrow> ('w, go_error + NetworkPolicy) M" where
  "createNewNetworkPolicy K A ms netpol =
     (case applyCustomObjectMetadata K ms (npMeta netpol) of
        Inl e \<Rightarrow> State_Monad.return (Inl (Wrap ''applying custom metadata failed; '' e))
      | Inr meta \<Rightarrow> do {
          let np = netpol\<lparr>npMeta := meta\<rparr>;
          r \<leftarrow> request (ECreateNetworkPolicy np) (createNetworkPolicyApi A np);
          (case r of
             Inl e \<Rightarrow> State_Monad.return (Inl e)
           | Inr created \<Rightarrow> do {
               auditNetworkPolicyCreated ms (omName (npMeta created)) (hasIngressSourceRestriction created)
                 (hasEgressDestinationRestriction created);
               State_Monad.return (Inr created)
             })
        })"

definition updateNetworkPolicy ::
    "K8sLib \<Rightarrow> 'w Api \<Rightarrow> MCPServer \<Rightarrow> NetworkPolicy \<Rightarrow> NetworkPolicy \<Rightarrow> ('w, go_error + NetworkPolicy) M" where
  "updateNetworkPolicy K A ms netpol existing =
     (case setControllerReference K ms (npMeta existing) of
        Inl e \<Rightarrow> State_Monad.return (Inl e)
      | Inr meta \<Rightarrow>
          if \<not> semanticDeepEqual K (INetworkPolicySpec (npSpec netpol)) (INetworkPolicySpec (npSpec existing))
             \<or> objectLabelsChanged ms meta [] \<or> objectAnnotationsChanged ms meta []
             \<or> ownershipChanged K (npMeta existing) meta
          then (case applyCustomObjectMetadata K ms
                       (meta\<lparr>omLabels := gm_copy (gm_make (omLabels meta)) (omLabels (npMeta netpol))\<rparr>) of
                  Inl e \<Rightarrow> State_Monad.return (Inl (Wrap ''applying custom networkpolicy metadata; '' e))
                | Inr meta' \<Rightarrow> do {
                    let np = existing\<lparr>npMeta := meta', npSpec := npSpec netpol\<rparr>;
                    r \<leftarrow> request (EUpdateNetworkPolicy np) (updateNetworkPolicyApi A np);
                    (case r of
                       Inl e \<Rightarrow> State_Monad.return (Inl e)
                     | Inr _ \<Rightarrow> do {
                         auditNetworkPolicyUpdated ms (omName meta');
                         State_Monad.return (Inr netpol)
                       })
                  })
          else State_Monad.return (Inr netpol))"

text \<open>The handler from the desired policy on.\<close>

definition submitNetworkPolicy :: "K8sLib \<Rightarrow> 'w Api \<Rightarrow> MCPServer \<Rightarrow> NetworkPolicy \<Rightarrow> ('w, go_error + NetworkPolicy) M" where
  "submitNetworkPolicy K A ms desired =
     (case setControllerReference K ms (npMeta desired) of
        Inl e \<Rightarrow> State_Monad.return (Inl e)
      | Inr meta \<Rightarrow> do {
          let netpol = desired\<lparr>npMeta := meta\<rparr>;
          r \<leftarrow> call (getNetworkPolicy A (omName meta) (omNamespace meta));
          (case r of
             Inl err \<Rightarrow> if isNotFound K err then createNewNetworkPolicy K A ms netpol else State_Monad.return (Inl err)
           | Inr existing \<Rightarrow> do {
               o' \<leftarrow> validateOwnership K ''NetworkPolicy'' (npMeta existing) ms;
               (case o' of
                  Inl e \<Rightarrow> State_Monad.return (Inl e)
                | Inr _ \<Rightarrow> updateNetworkPolicy K A ms netpol existing)
             })
        })"

definition ensureNetworkPolicy :: "K8sLib \<Rightarrow> 'w Api \<Rightarrow> Reconciler \<Rightarrow> MCPServer \<Rightarrow> ('w, go_error + NetworkPolicy) M" where
  "ensureNetworkPolicy K A R ms = do {
     gatewayPeers \<leftarrow> gatewayIngressPeers K A R ms;
     (case gatewayPeers of
        Inl gwErr \<Rightarrow> State_Monad.return (Inl gwErr)
      | Inr gw \<Rightarrow> submitNetworkPolicy K A ms (createNetworkPolicy R ms (operatorIngressPeers R ms @ gw)))
   }"

definition reconcileNetworkPolicy :: "K8sLib \<Rightarrow> 'w Api \<Rightarrow> Reconciler \<Rightarrow> MCPServer \<Rightarrow> ('w, go_error option) M" where
  "reconcileNetworkPolicy K A R ms = do {
     r \<leftarrow> ensureNetworkPolicy K A R ms;
     State_Monad.return (case r of Inl e \<Rightarrow> Some e | Inr _ \<Rightarrow> None)
   }"

section \<open>What a policy admits\<close>

text \<open>
  The documented meaning of an ingress policy. A source is a pod (its namespace and the labels of both) with
  its address; \<open>E\<close> decides match expressions, which the operator never looks into. The rules of a
  policy are alternatives, and so are the peers and the ports of a rule; an empty list of peers or ports
  stands for all of them.
\<close>

record source =
  sNamespace :: string
  sNamespaceLabels :: "(string \<times> string) list"
  sPodLabels :: "(string \<times> string) list"
  sAddress :: "8 word list"

definition selects :: "(string \<Rightarrow> (string \<times> string) list \<Rightarrow> bool) \<Rightarrow> LabelSelector \<Rightarrow> (string \<times> string) list \<Rightarrow> bool" where
  "selects E sel labels \<longleftrightarrow> (\<forall>(k, v) \<in> set (lsMatchLabels sel). map_of labels k = Some v)
     \<and> (\<forall>e \<in> set (lsMatchExpressions sel). E e labels)"

definition in_ipblock :: "IPBlock \<Rightarrow> 8 word list \<Rightarrow> bool" where
  "in_ipblock b a \<longleftrightarrow> (case parseCIDR (ipbCIDR b) of None \<Rightarrow> False | Some n \<Rightarrow> a \<in> block n)
     \<and> (\<forall>t \<in> set (ipbExcept b). case parseCIDR t of None \<Rightarrow> True | Some n \<Rightarrow> a \<notin> block n)"

definition peer_admits :: "(string \<Rightarrow> (string \<times> string) list \<Rightarrow> bool) \<Rightarrow> string \<Rightarrow> NetworkPolicyPeer \<Rightarrow> source \<Rightarrow> bool" where
  "peer_admits E policyNamespace peer src = (case nppIPBlock peer of
     Some b \<Rightarrow> in_ipblock b (sAddress src)
   | None \<Rightarrow>
       (case nppNamespaceSelector peer of
          Some sel \<Rightarrow> selects E sel (sNamespaceLabels src)
        | None \<Rightarrow> nppPodSelector peer \<noteq> None \<and> sNamespace src = policyNamespace)
       \<and> (case nppPodSelector peer of Some sel \<Rightarrow> selects E sel (sPodLabels src) | None \<Rightarrow> True))"

definition port_admits :: "NetworkPolicyPort \<Rightarrow> string \<Rightarrow> int \<Rightarrow> bool" where
  "port_admits p proto port \<longleftrightarrow> proto = (case nptProtocol p of None \<Rightarrow> ''TCP'' | Some x \<Rightarrow> x)
     \<and> (case nptPort p of
          None \<Rightarrow> True
        | Some (IntVal n) \<Rightarrow> n \<le> port \<and> port \<le> (case nptEndPort p of None \<Rightarrow> n | Some m \<Rightarrow> m)
        | Some (StrVal _) \<Rightarrow> False)"

definition ingress_admits ::
    "(string \<Rightarrow> (string \<times> string) list \<Rightarrow> bool) \<Rightarrow> NetworkPolicy \<Rightarrow> source \<Rightarrow> string \<Rightarrow> int \<Rightarrow> bool" where
  "ingress_admits E np src proto port \<longleftrightarrow> ''Ingress'' \<notin> set (npsPolicyTypes (npSpec np)) \<or>
     (\<exists>rule \<in> set (npsIngress (npSpec np)).
        (inPorts rule = [] \<or> (\<exists>p \<in> set (inPorts rule). port_admits p proto port))
        \<and> (inFrom rule = [] \<or> (\<exists>peer \<in> set (inFrom rule). peer_admits E (omNamespace (npMeta np)) peer src)))"

definition egress_admits_dns :: "NetworkPolicy \<Rightarrow> bool" where
  "egress_admits_dns np \<longleftrightarrow> (\<forall>proto \<in> {''UDP'', ''TCP''}. \<exists>rule \<in> set (npsEgress (npSpec np)).
     egPorts rule = [] \<or> (\<exists>p \<in> set (egPorts rule). port_admits p proto 53))"

lemmas admission_defs = ingress_admits_def peer_admits_def port_admits_def selects_def

lemma ingressPorts_admit:
  "(\<exists>p \<in> set (ingressPorts ms). port_admits p proto port) \<longleftrightarrow> proto = ''TCP'' \<and> port = cfgPort (spConfig (msSpec ms))"
  "ingressPorts ms \<noteq> []"
  by (auto simp: ingressPorts_def port_admits_def)

text \<open>Which peers the ingress of the desired policy is made of; \<open>None\<close> stands for every source.\<close>

definition ingressPeers :: "Reconciler \<Rightarrow> MCPServer \<Rightarrow> NetworkPolicyPeer list \<Rightarrow> NetworkPolicyPeer list option" where
  "ingressPeers R ms derived =
     (if declaresIngress ms then Some (declaredIngress ms)
      else if rPosture R = PostureRestricted then Some derived else None)"

lemma declared_nonempty: "declaresIngress ms \<longleftrightarrow> declaredIngress ms \<noteq> []"
  by (simp add: declaresIngress_def declaredIngress_def split: option.split)

lemma created_admits:
  "ingress_admits E (createNetworkPolicy R ms derived) src proto port \<longleftrightarrow>
     proto = ''TCP'' \<and> port = cfgPort (spConfig (msSpec ms))
     \<and> (case ingressPeers R ms derived of None \<Rightarrow> True
        | Some peers \<Rightarrow> \<exists>peer \<in> set peers. peer_admits E (srvNamespace ms) peer src)"
  using ingressPorts_admit(1)[of ms proto port] ingressPorts_admit(2)[of ms] declared_nonempty[of ms]
  by (auto simp: ingress_admits_def createNetworkPolicy_def defaultIngressRules_def ingressPeers_def)

lemma namespaceNamePeer_admits:
  "peer_admits E ns (namespaceNamePeer n) src \<longleftrightarrow> map_of (sNamespaceLabels src) namespaceNameLabel = Some n"
  by (simp add: peer_admits_def namespaceNamePeer_def selects_def)

lemma operatorPeers_admit:
  assumes "rPosture R = PostureRestricted" "\<not> declaresIngress ms"
  shows "(\<exists>peer \<in> set (operatorIngressPeers R ms). peer_admits E ns peer src) \<longleftrightarrow>
     rOperatorNamespace R \<noteq> [] \<and> rOperatorPodLabels R \<noteq> []
     \<and> map_of (sNamespaceLabels src) namespaceNameLabel = Some (rOperatorNamespace R)
     \<and> (\<forall>(k, v) \<in> set (rOperatorPodLabels R). map_of (sPodLabels src) k = Some v)"
  using assms by (simp add: operatorIngressPeers_def peer_admits_def namespaceNamePeer_def selects_def)

text \<open>
  C35: under the restricted posture, the policy of a server that declares no ingress source and has no gateway
  admits exactly the operator's own pods, on the server's TCP port, and nobody when the operator does not know its
  own namespace or labels.
\<close>

theorem restricted_posture_admits_only_operator:
  assumes "rPosture R = PostureRestricted" "\<not> declaresIngress ms"
  shows "ingress_admits E (createNetworkPolicy R ms (operatorIngressPeers R ms)) src proto port \<longleftrightarrow>
     proto = ''TCP'' \<and> port = cfgPort (spConfig (msSpec ms))
     \<and> rOperatorNamespace R \<noteq> [] \<and> rOperatorPodLabels R \<noteq> []
     \<and> map_of (sNamespaceLabels src) namespaceNameLabel = Some (rOperatorNamespace R)
     \<and> (\<forall>(k, v) \<in> set (rOperatorPodLabels R). map_of (sPodLabels src) k = Some v)"
  using operatorPeers_admit[OF assms, of E "srvNamespace ms" src] assms by (simp add: created_admits ingressPeers_def)

theorem restricted_posture_admits_only_operator_witness:
  "\<not> ingress_admits (\<lambda>_ _. True) (createNetworkPolicy sample_reconciler zero_server (operatorIngressPeers sample_reconciler zero_server))
       \<lparr>sNamespace = ''other'', sNamespaceLabels = [(namespaceNameLabel, ''other'')], sPodLabels = [(''control-plane'', ''manager'')],
        sAddress = [10, 0, 0, 1]\<rparr> ''TCP'' 0"
  by (subst restricted_posture_admits_only_operator) (simp_all add: sample_reconciler_def declaresIngress_def zero_defs)

text \<open>
  The operator's policy always lets the server resolve names: whatever egress is configured, port 53 is open for both
  protocols.
\<close>

lemma dns_always_allowed: "egress_admits_dns (createNetworkPolicy R ms derived)"
  by (auto simp: egress_admits_dns_def createNetworkPolicy_def buildEgressRules_def port_admits_def split: option.split)

text \<open>
  An IP block is universal for the operator exactly when, without exceptions, it admits every address
  of its family, whatever the spelling of the CIDR.
\<close>

lemma isUniversalCIDR_iff:
  "isUniversalCIDR c \<longleftrightarrow> (\<exists>n. parseCIDR c = Some n \<and>
     {a. in_ipblock \<lparr>ipbCIDR = c, ipbExcept = []\<rparr> a} = {a. length a = length (netIP n)})"
  by (auto simp: isUniversalCIDR_def in_ipblock_def go_net.universal split: option.split)

section \<open>The posture verdict\<close>

lemma namespaceNamePeer_restricts: "\<not> peerAdmitsAllSources (namespaceNamePeer n)"
  by (simp add: peerAdmitsAllSources_def peerRestrictsSource_def namespaceNamePeer_def isEmptyLabelSelector_def)

text \<open>The peers the operator derives: by namespace, perhaps narrowed to pods.\<close>

definition derived_peer :: "NetworkPolicyPeer \<Rightarrow> bool" where
  "derived_peer p \<longleftrightarrow> (\<exists>n ps. p = (namespaceNamePeer n)\<lparr>nppPodSelector := ps\<rparr>)"

lemma derived_peer_restricts: "derived_peer p \<Longrightarrow> \<not> peerAdmitsAllSources p"
  by (auto simp: derived_peer_def peerAdmitsAllSources_def peerRestrictsSource_def namespaceNamePeer_def isEmptyLabelSelector_def)

lemma operatorIngressPeers_derived: "p \<in> set (operatorIngressPeers R ms) \<Longrightarrow> derived_peer p"
  by (auto simp: operatorIngressPeers_def derived_peer_def split: if_splits)

lemma gatewayIngressPeers_derived:
  "valid P (gatewayIngressPeers K A R ms) (\<lambda>r s. \<forall>gw. r = Inr gw \<longrightarrow> (\<forall>p \<in> set gw. derived_peer p))"
proof -
  have "derived_peer (namespaceNamePeer n)" for n
    unfolding derived_peer_def by (rule exI[of _ n], rule exI[of _ None]) (simp add: namespaceNamePeer_def)
  then show ?thesis
    by (auto simp: valid_def gatewayIngressPeers_def split: option.splits if_splits prod.splits sum.splits)
qed

text \<open>
  The posture reported when the policy could not be applied (computed without any derived peer) is the
  one of the applied policy: adding derived peers never changes the verdict.
\<close>

lemma posture_ignores_derived_peers:
  assumes "\<forall>p \<in> set derived. derived_peer p"
  shows "networkPolicyPostureConditionFor K A ms g ex (createNetworkPolicy R ms derived)
       = networkPolicyPostureCondition K A R ms g ex"
proof -
  have "\<not> list_ex peerAdmitsAllSources derived"
    using assms derived_peer_restricts by (auto simp: list_ex_iff)
  then have "hasIngressSourceRestriction (createNetworkPolicy R ms derived) = hasIngressSourceRestriction (createNetworkPolicy R ms [])"
    using ingressPorts_admit(2)[of ms]
    by (simp add: hasIngressSourceRestriction_def createNetworkPolicy_def defaultIngressRules_def)
  moreover have "hasEgressDestinationRestriction (createNetworkPolicy R ms derived) = hasEgressDestinationRestriction (createNetworkPolicy R ms [])"
    by (simp add: hasEgressDestinationRestriction_def createNetworkPolicy_def)
  ultimately show ?thesis by (simp add: networkPolicyPostureConditionFor_def networkPolicyPostureCondition_def)
qed

lemma posture_ignores_derived_peers_witness:
  "networkPolicyPostureConditionFor sample_lib sample_api zero_server 1 []
       (createNetworkPolicy sample_reconciler zero_server [namespaceNamePeer ''gw''])
     = networkPolicyPostureCondition sample_lib sample_api sample_reconciler zero_server 1 []"
  by (rule posture_ignores_derived_peers)
     (simp, simp add: derived_peer_def, rule exI[of _ "''gw''"], rule exI[of _ None], simp add: namespaceNamePeer_def)

section \<open>What the handler sends\<close>

text \<open>
  The namespace of the gateway of a server, as the ConfigMap that the gateway configuration refers to names it, under the key of the provider.
\<close>

definition gateway_namespace :: "'w Api \<Rightarrow> MCPServer \<Rightarrow> string \<Rightarrow> bool" where
  "gateway_namespace A ms n \<longleftrightarrow> n \<noteq> [] \<and> (\<exists>gw key cm v w w'. spGateway (msSpec ms) = Some gw
     \<and> (gwProvider gw, key) \<in> {(''httproute'', ''gateway-namespace''), (''kuadrant'', ''extension-namespace'')}
     \<and> readConfigMap A (gwConfigRef gw) (srvNamespace ms) w = (Inr cm, w') \<and> map_of (cmData cm) key = Some v \<and> n = trimSpace v)"

lemma resolveGatewaySourceNamespace_value:
  "valid (\<lambda>_. True) (resolveGatewaySourceNamespace K A ms gw key) (\<lambda>r _. \<forall>n. r = Inr n \<longrightarrow> n = [] \<or>
     (\<exists>cm v w w'. readConfigMap A (gwConfigRef gw) (srvNamespace ms) w = (Inr cm, w') \<and> map_of (cmData cm) key = Some v \<and> n = trimSpace v))"
proof (rule validI, intro allI impI)
  fix s r s' n assume run: "run_state (resolveGatewaySourceNamespace K A ms gw key) s = (r, s')" "r = Inr n"
  obtain a w' where a: "readConfigMap A (gwConfigRef gw) (srvNamespace ms) (world s) = (a, w')" by fastforce
  show "n = [] \<or> (\<exists>cm v w w'. readConfigMap A (gwConfigRef gw) (srvNamespace ms) w = (Inr cm, w') \<and> map_of (cmData cm) key = Some v \<and> n = trimSpace v)"
  proof (cases a)
    case (Inl e)
    with run a show ?thesis by (simp add: resolveGatewaySourceNamespace_def run_ops split: if_splits)
  next
    case (Inr cm)
    with run a have "n = [] \<or> (\<exists>v. map_of (cmData cm) key = Some v \<and> n = trimSpace v)"
      by (simp add: resolveGatewaySourceNamespace_def run_ops split: if_splits option.splits)
    with a Inr show ?thesis by blast
  qed
qed

lemma gatewayIngressPeers_value:
  "valid (\<lambda>_. True) (gatewayIngressPeers K A R ms) (\<lambda>r _. \<forall>gw. r = Inr gw \<longrightarrow> (\<exists>ns. gw = map namespaceNamePeer ns \<and> list_all (gateway_namespace A ms) ns))"
proof (rule validI, intro allI impI)
  fix s r s' peers assume run: "run_state (gatewayIngressPeers K A R ms) s = (r, s')" "r = Inr peers"
  show "\<exists>ns. peers = map namespaceNamePeer ns \<and> list_all (gateway_namespace A ms) ns"
  proof (cases "peers = []")
    case False
    with run obtain gw where gw: "spGateway (msSpec ms) = Some gw" "gwProvider gw = ''httproute'' \<or> gwProvider gw = ''kuadrant''"
      by (auto simp: gatewayIngressPeers_def split: option.splits if_splits)
    define key where "key = (if gwProvider gw = ''httproute'' then ''gateway-namespace'' else ''extension-namespace'')"
    obtain a s1 where a: "run_state (resolveGatewaySourceNamespace K A ms gw key) s = (a, s1)" by fastforce
    with False run gw obtain n where n: "a = Inr n" "n \<noteq> []" "peers = [namespaceNamePeer n]"
      by (cases a) (auto simp: gatewayIngressPeers_def key_def[symmetric] split: if_splits)
    have "\<exists>cm v w w'. readConfigMap A (gwConfigRef gw) (srvNamespace ms) w = (Inr cm, w') \<and> map_of (cmData cm) key = Some v \<and> n = trimSpace v"
      using validD[OF resolveGatewaySourceNamespace_value _ a] n(1,2) by blast
    moreover have "(gwProvider gw, key) \<in> {(''httproute'', ''gateway-namespace''), (''kuadrant'', ''extension-namespace'')}"
      using gw(2) by (auto simp: key_def)
    ultimately have "gateway_namespace A ms n" unfolding gateway_namespace_def using n(2) gw(1) by blast
    with n(3) show ?thesis by (intro exI[of _ "[n]"]) simp
  qed (intro exI[of _ "[]"], simp)
qed

text \<open>
  A policy the operator may send for a server: the desired policy, in which the derived peers are the operator's own and the ones for the
  namespace of the gateway.
\<close>

definition sound_policy :: "'w Api \<Rightarrow> Reconciler \<Rightarrow> MCPServer \<Rightarrow> NetworkPolicySpec \<Rightarrow> bool" where
  "sound_policy A R ms sp \<longleftrightarrow> (\<exists>ns. list_all (gateway_namespace A ms) ns
     \<and> sp = npSpec (createNetworkPolicy R ms (operatorIngressPeers R ms @ map namespaceNamePeer ns)))"

fun network_policy_guard :: "K8sLib \<Rightarrow> 'w Api \<Rightarrow> Reconciler \<Rightarrow> MCPServer \<Rightarrow> effect \<Rightarrow> bool" where
  "network_policy_guard K A R ms (ECreateNetworkPolicy np) \<longleftrightarrow> sound_policy A R ms (npSpec np)
     \<and> omName (npMeta np) = srvName ms \<and> omNamespace (npMeta np) = srvNamespace ms \<and> ownerUID K (npMeta np) = srvUID ms
     \<and> absent_before K (getNetworkPolicy A) ms"
| "network_policy_guard K A R ms (EUpdateNetworkPolicy np) \<longleftrightarrow> sound_policy A R ms (npSpec np) \<and> ownerUID K (npMeta np) = srvUID ms
     \<and> ours_before K (getNetworkPolicy A) npMeta ms (npMeta np)"
| "network_policy_guard K A R ms e \<longleftrightarrow> is_report e"

lemma network_policy_guard_report: "is_report e \<Longrightarrow> network_policy_guard K A R ms e"
  by (cases e) auto

lemma createNew_emits:
  assumes "controller_law K" "sound_policy A R ms (npSpec np)"
    "omName (npMeta np) = srvName ms" "omNamespace (npMeta np) = srvNamespace ms" "ownerUID K (npMeta np) = srvUID ms"
    "absent_before K (getNetworkPolicy A) ms"
  shows "emits (network_policy_guard K A R ms) (createNewNetworkPolicy K A ms np)"
  using assms unfolding createNewNetworkPolicy_def Let_def
  by (auto dest!: custom_keeps_owner[OF assms(1)]
      intro!: emits_rules emits_audit[OF network_policy_guard_report] split: sum.split)

lemma update_emits:
  assumes "controller_law K" "set_controller_law K" "sound_policy A R ms (npSpec np)" "ours_before K (getNetworkPolicy A) npMeta ms (npMeta existing)"
  shows "emits (network_policy_guard K A R ms) (updateNetworkPolicy K A ms np existing)"
  using assms unfolding updateNetworkPolicy_def Let_def
  by (auto dest!: custom_keeps[OF assms(1)] set_controller_keeps[OF assms(2)]
      intro!: emits_rules emits_audit[OF network_policy_guard_report] ours_before_same[OF assms(4)] split: sum.split)

lemma gatewayIngressPeers_emits: "emits G (gatewayIngressPeers K A R ms)"
  unfolding gatewayIngressPeers_def resolveGatewaySourceNamespace_def
  by (auto intro!: emits_rules split: option.split)

lemma submitNetworkPolicy_emits:
  assumes "controller_law K" "set_controller_law K" "sound_policy A R ms (npSpec desired)"
    "omName (npMeta desired) = srvName ms" "omNamespace (npMeta desired) = srvNamespace ms"
  shows "emits (network_policy_guard K A R ms) (submitNetworkPolicy K A ms desired)"
  using assms unfolding submitNetworkPolicy_def Let_def
  by (auto dest!: set_controller_keeps[OF assms(2)] intro: ours_beforeI
      intro!: emits_case(1) emits_return emits_read_check_write[where get = "getNetworkPolicy A"] createNew_emits update_emits network_policy_guard_report)

lemma ensureNetworkPolicy_emits:
  assumes "controller_law K" "set_controller_law K"
  shows "emits (network_policy_guard K A R ms) (ensureNetworkPolicy K A R ms)"
  unfolding ensureNetworkPolicy_def
proof (rule emits_bind_value[OF gatewayIngressPeers_emits gatewayIngressPeers_value])
  fix r :: "go_error + NetworkPolicyPeer list"
  assume r: "\<forall>gw. r = Inr gw \<longrightarrow> (\<exists>ns. gw = map namespaceNamePeer ns \<and> list_all (gateway_namespace A ms) ns)"
  have "sound_policy A R ms (npSpec (createNetworkPolicy R ms (operatorIngressPeers R ms @ gw)))" if "r = Inr gw" for gw
    using r that unfolding sound_policy_def by blast
  then show "emits (network_policy_guard K A R ms) (case r of Inl gwErr \<Rightarrow> State_Monad.return (Inl gwErr)
      | Inr gw \<Rightarrow> submitNetworkPolicy K A ms (createNetworkPolicy R ms (operatorIngressPeers R ms @ gw)))"
    by (auto intro!: emits_rules submitNetworkPolicy_emits assms simp: createNetworkPolicy_def[of R ms, THEN arg_cong[where f = npMeta]]
        split: sum.split)
qed

interpretation network_policy: guarded_handler "owner_laws K" "ensureNetworkPolicy K A R ms" "network_policy_guard K A R ms"
  for K A R ms
  by unfold_locales (auto intro: ensureNetworkPolicy_emits)

text \<open>Who is an operator pod: in the operator's namespace, with the operator's labels. Both must be known.\<close>

definition operator_source :: "Reconciler \<Rightarrow> source \<Rightarrow> bool" where
  "operator_source R src \<longleftrightarrow> rOperatorNamespace R \<noteq> [] \<and> rOperatorPodLabels R \<noteq> []
     \<and> map_of (sNamespaceLabels src) namespaceNameLabel = Some (rOperatorNamespace R)
     \<and> (\<forall>(k, v) \<in> set (rOperatorPodLabels R). map_of (sPodLabels src) k = Some v)"

lemma sound_policy_admits:
  assumes "sound_policy A R ms (npSpec np)" "ingress_admits E np src proto port"
  shows "proto = ''TCP'' \<and> port = cfgPort (spConfig (msSpec ms))
    \<and> (if declaresIngress ms then \<exists>p \<in> set (declaredIngress ms). peer_admits E (omNamespace (npMeta np)) p src
       else rPosture R = PostureRestricted \<longrightarrow> operator_source R src
         \<or> (\<exists>n. gateway_namespace A ms n \<and> map_of (sNamespaceLabels src) namespaceNameLabel = Some n))"
proof -
  obtain ns where ns: "list_all (gateway_namespace A ms) ns"
    and sp: "npSpec np = npSpec (createNetworkPolicy R ms (operatorIngressPeers R ms @ map namespaceNamePeer ns))"
    using assms(1) unfolding sound_policy_def by blast
  have "proto = ''TCP'' \<and> port = cfgPort (spConfig (msSpec ms))
      \<and> (case ingressPeers R ms (operatorIngressPeers R ms @ map namespaceNamePeer ns) of None \<Rightarrow> True
         | Some peers \<Rightarrow> \<exists>peer \<in> set peers. peer_admits E (omNamespace (npMeta np)) peer src)"
    using assms(2) ingressPorts_admit(1)[of ms proto port] ingressPorts_admit(2)[of ms] declared_nonempty[of ms]
    by (auto simp: ingress_admits_def sp createNetworkPolicy_def defaultIngressRules_def ingressPeers_def split: if_splits)
  then show ?thesis
    using operatorPeers_admit[of R ms E "omNamespace (npMeta np)" src] ns
    by (auto simp: ingressPeers_def bex_Un namespaceNamePeer_admits operator_source_def list_all_iff split: if_splits)
qed

text \<open>
  C3: whatever the API server answers, every NetworkPolicy that reconciling the policy of a server creates or updates is controlled by this
  server, selects exactly its pods, restricts both directions, and has the egress rules of the specification. What it admits, it admits on the server's TCP
  port only: from the declared sources if the server declares any; and otherwise, under the restricted posture, only from the operator's own pods
  and from the namespace that the gateway's ConfigMap names. A policy is created only after the answer that there is none, and only one that was
  already the server's is updated.
\<close>

theorem network_policy_sends_only_sound_policies:
  assumes "owner_laws K" "trace s = []" "run_state (ensureNetworkPolicy K A R ms) s = (r, s')"
    and "e \<in> set (trace s')" and "e = ECreateNetworkPolicy np \<or> e = EUpdateNetworkPolicy np"
  shows "ownerUID K (npMeta np) = srvUID ms
    \<and> (if e = ECreateNetworkPolicy np then absent_before K (getNetworkPolicy A) ms else ours_before K (getNetworkPolicy A) npMeta ms (npMeta np))
    \<and> npsPodSelector (npSpec np) = \<lparr>lsMatchLabels = [(''mcp-server'', srvName ms)], lsMatchExpressions = []\<rparr>
    \<and> npsPolicyTypes (npSpec np) = [''Ingress'', ''Egress''] \<and> npsEgress (npSpec np) = buildEgressRules ms
    \<and> (ingress_admits E np src proto port \<longrightarrow> proto = ''TCP'' \<and> port = cfgPort (spConfig (msSpec ms))
        \<and> (if declaresIngress ms then \<exists>p \<in> set (declaredIngress ms). peer_admits E (omNamespace (npMeta np)) p src
           else rPosture R = PostureRestricted \<longrightarrow> operator_source R src
             \<or> (\<exists>n. gateway_namespace A ms n \<and> map_of (sNamespaceLabels src) namespaceNameLabel = Some n)))"
proof -
  have "network_policy_guard K A R ms e" by (rule network_policy.run_from_empty[OF assms(1,3,2,4)])
  with assms(5) have sound: "sound_policy A R ms (npSpec np)" and own: "ownerUID K (npMeta np) = srvUID ms"
      "if e = ECreateNetworkPolicy np then absent_before K (getNetworkPolicy A) ms else ours_before K (getNetworkPolicy A) npMeta ms (npMeta np)"
    by auto
  have "npsPodSelector (npSpec np) = \<lparr>lsMatchLabels = [(''mcp-server'', srvName ms)], lsMatchExpressions = []\<rparr>"
    "npsPolicyTypes (npSpec np) = [''Ingress'', ''Egress'']" "npsEgress (npSpec np) = buildEgressRules ms"
    using sound by (auto simp: sound_policy_def createNetworkPolicy_def managedWorkloadSelector_def)
  with own show ?thesis using sound_policy_admits[OF sound, of E src proto port] by blast
qed

text \<open>A run on an empty cluster, for a concrete instance.\<close>


lemma createNetworkPolicy_meta:
  "omName (npMeta (createNetworkPolicy R ms d)) = srvName ms" "omNamespace (npMeta (createNetworkPolicy R ms d)) = srvNamespace ms"
  by (simp_all add: createNetworkPolicy_def)

fun is_create_policy :: "effect \<Rightarrow> bool" where
  "is_create_policy (ECreateNetworkPolicy np) = True"
| "is_create_policy _ = False"

text \<open>A server behind a Kuadrant gateway, whose ConfigMap names the namespace of the extension, and a pod somewhere else.\<close>

definition peered_server :: MCPServer where
  "peered_server = zero_server\<lparr>msSpec := zero_spec\<lparr>spGateway := Some \<lparr>gwProvider = ''kuadrant'', gwConfigRef = ''cfg''\<rparr>\<rparr>\<rparr>"

definition peered_api :: "nat Api" where
  "peered_api = sample_api\<lparr>readConfigMap := \<lambda>n ns w. (Inr \<lparr>cmMeta = zero_meta, cmData = [(''extension-namespace'', '' kuadrant '')], cmBinaryData = []\<rparr>, w)\<rparr>"

definition stranger :: source where
  "stranger = \<lparr>sNamespace = ''other'', sNamespaceLabels = [(namespaceNameLabel, ''other'')], sPodLabels = [], sAddress = [10, 0, 0, 1]\<rparr>"

lemma gateway_namespace_sample: "gateway_namespace peered_api peered_server n \<longleftrightarrow> n = ''kuadrant''"
proof -
  have "trimSpace '' kuadrant '' = ''kuadrant''" by code_simp
  then show ?thesis by (auto simp: gateway_namespace_def peered_api_def peered_server_def)
qed

theorem network_policy_sends_only_sound_policies_witness:
  "case run_state (ensureNetworkPolicy sample_lib peered_api sample_reconciler peered_server) start_state of
     (r, s') \<Rightarrow> \<exists>np. ECreateNetworkPolicy np \<in> set (trace s') \<and> ownerUID sample_lib (npMeta np) = srvUID peered_server
       \<and> \<not> ingress_admits (\<lambda>_ _. True) np stranger ''TCP'' 0"
proof -
  obtain r s' where run: "run_state (ensureNetworkPolicy sample_lib peered_api sample_reconciler peered_server) start_state = (r, s')"
    by fastforce
  have "list_ex is_create_policy (trace (snd (run_state (ensureNetworkPolicy sample_lib peered_api sample_reconciler peered_server) start_state)))"
    by code_simp
  with run obtain np where np: "ECreateNetworkPolicy np \<in> set (trace s')"
    by (auto simp: list_ex_iff elim!: is_create_policy.elims)
  have "\<not> declaresIngress peered_server" "rPosture sample_reconciler = PostureRestricted" "\<not> operator_source sample_reconciler stranger"
    "map_of (sNamespaceLabels stranger) namespaceNameLabel = Some ''other''"
    by (simp_all add: declaresIngress_def peered_server_def zero_defs sample_reconciler_def operator_source_def stranger_def)
  then show ?thesis
    using network_policy_sends_only_sound_policies[OF _ _ run np, of np "\<lambda>_ _. True" stranger "''TCP''" 0] sample_lib_laws np
    by (auto simp: run gateway_namespace_sample)
qed

text \<open>
  A NetworkPolicy of the server's name that is controlled by somebody else, or by nobody, is never written: the
  handler only leaves audit records, whatever the rest of the cluster looks like.
\<close>

lemma foreign_network_policy_untouched:
  assumes "set_controller_law K"
    and "\<And>w a w'. getNetworkPolicy A (srvName ms) (srvNamespace ms) w = (a, w') \<Longrightarrow>
       (case a of Inl e \<Rightarrow> \<not> isNotFound K e | Inr np \<Rightarrow> \<not> ours K (npMeta np) ms)"
  shows "emits is_report (ensureNetworkPolicy K A R ms)"
proof -
  have "emits is_report (submitNetworkPolicy K A ms desired)"
    if d: "omName (npMeta desired) = srvName ms" "omNamespace (npMeta desired) = srvNamespace ms" for desired
  proof (cases "setControllerReference K ms (npMeta desired)")
    case (Inr meta)
    then have m: "omName meta = srvName ms" "omNamespace meta = srvNamespace ms"
      using set_controller_keeps[OF assms(1)] d by auto
    have own: "emits is_report (validateOwnership K ''NetworkPolicy'' (npMeta np) ms \<bind>
        (\<lambda>o'. case o' of Inl e \<Rightarrow> State_Monad.return (Inl e) | Inr _ \<Rightarrow> updateNetworkPolicy K A ms netpol np))"
      if "\<not> ours K (npMeta np) ms" for np netpol
      by (rule emits_bind_value[OF validateOwnership_emits validateOwnership_valid])
        (use that in \<open>auto intro!: emits_rules split: sum.split\<close>)
    show ?thesis
      unfolding submitNetworkPolicy_def Inr sum.case Let_def m
      by (rule emits_bind_value[OF emits_call call_value])
         (use assms(2) own in \<open>fastforce intro!: emits_return split: sum.split\<close>)
  qed (simp add: submitNetworkPolicy_def emits_return)
  then show ?thesis
    unfolding ensureNetworkPolicy_def
    by (auto intro!: emits_bind gatewayIngressPeers_emits emits_return simp: createNetworkPolicy_meta split: sum.split)
qed

definition foreign_policy :: NetworkPolicy where
  "foreign_policy = (createNetworkPolicy sample_reconciler zero_server [])\<lparr>npMeta := zero_meta\<lparr>omOwnerReferences :=
     [\<lparr>orAPIVersion = ''apps/v1'', orKind = ''Deployment'', orName = ''d'', orUID = ''u'', orController = Some True\<rparr>]\<rparr>\<rparr>"

lemma foreign_network_policy_untouched_witness:
  "emits is_report (ensureNetworkPolicy sample_lib (sample_api\<lparr>getNetworkPolicy := \<lambda>n ns w. (Inr foreign_policy, w)\<rparr>)
     sample_reconciler zero_server)"
  by (rule foreign_network_policy_untouched[OF sample_lib_laws(4)])
     (auto simp: ours_def foreign_policy_def sample_lib_def isSameGroupKind_def zero_defs)

text \<open>
  When the ConfigMap that names the gateway's namespace cannot be read (other than because it does not exist), the
  handler fails before it asks for the policy and sends nothing, so an existing policy that admits the gateway stays.
\<close>

lemma gateway_read_error_keeps_policy:
  assumes "rPosture R = PostureRestricted" "\<not> declaresIngress ms" "spGateway (msSpec ms) = Some gw" "gwConfigRef gw \<noteq> []"
    and "gwProvider gw = ''httproute'' \<or> gwProvider gw = ''kuadrant''"
    and "readConfigMap A (gwConfigRef gw) (srvNamespace ms) (world s) = (Inl err, w')" "\<not> isNotFound K err"
  shows "\<exists>e. run_state (ensureNetworkPolicy K A R ms) s = (Inl e, s\<lparr>world := w'\<rparr>)"
  using assms
  by (auto simp: ensureNetworkPolicy_def gatewayIngressPeers_def resolveGatewaySourceNamespace_def run_ops)

lemma gateway_read_error_keeps_policy_witness:
  "\<exists>e. run_state (ensureNetworkPolicy sample_lib
          (sample_api\<lparr>readConfigMap := \<lambda>n ns w. (Inl (ApiError ''Timeout'' ''timeout''), w)\<rparr>) sample_reconciler
          (zero_server\<lparr>msSpec := zero_spec\<lparr>spGateway := Some \<lparr>gwProvider = ''kuadrant'', gwConfigRef = ''cfg''\<rparr>\<rparr>\<rparr>)) start_state
     = (Inl e, start_state)"
  using gateway_read_error_keeps_policy[of sample_reconciler
      "zero_server\<lparr>msSpec := zero_spec\<lparr>spGateway := Some \<lparr>gwProvider = ''kuadrant'', gwConfigRef = ''cfg''\<rparr>\<rparr>\<rparr>"
      "\<lparr>gwProvider = ''kuadrant'', gwConfigRef = ''cfg''\<rparr>"
      "sample_api\<lparr>readConfigMap := \<lambda>n ns w. (Inl (ApiError ''Timeout'' ''timeout''), w)\<rparr>" start_state
      "ApiError ''Timeout'' ''timeout''" 0 sample_lib]
  by (simp add: sample_reconciler_def declaresIngress_def zero_defs sample_lib_def)

end
