(* ===== verification/Workload.thy ===== *)
theory Workload
  imports Conditions Telemetry
begin

text \<open>
  Workloads that the user brings (\<open>internal/controller/mcpserver_controller_byo.go\<close>): reading the
  referenced object and deriving the server's \<open>Available\<close> condition from it, per kind.
\<close>

datatype Workload = WDeployment Deployment | WDaemonSet DaemonSet | WStatefulSet StatefulSet

record workloadObservation =
  woSelector :: "LabelSelector option"
  woReplicas :: int
  woReadyReplicas :: int
  woAvailability :: Condition

definition getWorkload :: "'w Api \<Rightarrow> string \<Rightarrow> WorkloadKind \<Rightarrow> string \<Rightarrow> ('w, go_error + Workload) M" where
  "getWorkload A name kind namespace =
     (let failed = (\<lambda>err. Inl (Wrap (''getting referenced '' @ kind @ '' '' @ goquote name @ '': '') err))
      in if kind = WorkloadKindDeployment
         then do { r \<leftarrow> call (readDeployment A name namespace);
                   State_Monad.return (case r of Inl e \<Rightarrow> failed e | Inr d \<Rightarrow> Inr (WDeployment d)) }
         else if kind = WorkloadKindDaemonSet
         then do { r \<leftarrow> call (readDaemonSet A name namespace);
                   State_Monad.return (case r of Inl e \<Rightarrow> failed e | Inr d \<Rightarrow> Inr (WDaemonSet d)) }
         else if kind = WorkloadKindStatefulSet
         then do { r \<leftarrow> call (readStatefulSet A name namespace);
                   State_Monad.return (case r of Inl e \<Rightarrow> failed e | Inr d \<Rightarrow> Inr (WStatefulSet d)) }
         else State_Monad.return (Inl (ValidationError ReasonInvalid (''unsupported workloadRef kind: '' @ kind))))"

fun workloadSelector :: "Workload option \<Rightarrow> LabelSelector option" where
  "workloadSelector (Some (WDeployment d)) = depSelector d"
| "workloadSelector (Some (WDaemonSet d)) = dmnSelector d"
| "workloadSelector (Some (WStatefulSet d)) = stsSelector d"
| "workloadSelector None = None"

text \<open>\<open>Some\<close> condition while the status of the workload is missing or stale.\<close>

definition workloadProgressCondition ::
    "K8sLib \<Rightarrow> 'w Api \<Rightarrow> MCPServer \<Rightarrow> string \<Rightarrow> int \<Rightarrow> int \<Rightarrow> ('w, Condition option) M" where
  "workloadProgressCondition K A server kind generation observedGeneration =
     (if observedGeneration = 0
      then do { c \<leftarrow> newAvailableCondition K A ConditionUnknown ReasonInitializing
                      (''Waiting for BYO '' @ kind @ '' to report status'') (srvGeneration server) (srvConditions server);
                State_Monad.return (Some c) }
      else if observedGeneration < generation
      then do { c \<leftarrow> newAvailableCondition K A ConditionFalse ReasonWorkloadUnavailable
                      (''BYO '' @ kind @ '' is processing spec update'') (srvGeneration server) (srvConditions server);
                State_Monad.return (Some c) }
      else State_Monad.return None)"

definition daemonSetAvailability :: "K8sLib \<Rightarrow> 'w Api \<Rightarrow> MCPServer \<Rightarrow> DaemonSet \<Rightarrow> ('w, Condition) M" where
  "daemonSetAvailability K A server ds = do {
     pending \<leftarrow> workloadProgressCondition K A server ''DaemonSet'' (omGeneration (dmnMeta ds)) (dmnObservedGeneration ds);
     (case pending of
        Some c \<Rightarrow> State_Monad.return c
      | None \<Rightarrow>
         if dmnDesiredNumberScheduled ds = 0
         then newAvailableCondition K A ConditionFalse ReasonWorkloadUnavailable
           (''DaemonSet '' @ omName (dmnMeta ds) @ '' has no nodes matching its scheduling constraints'')
           (srvGeneration server) (srvConditions server)
         else (let message = ''BYO DaemonSet: '' @ itoa (dmnNumberAvailable ds) @ '' of '' @ itoa (dmnDesiredNumberScheduled ds)
                 @ '' instances available ('' @ itoa (dmnNumberReady ds) @ '' ready); '' @ itoa (dmnNumberUnavailable ds)
                 @ '' unavailable; '' @ itoa (dmnCurrentNumberScheduled ds) @ '' of '' @ itoa (dmnDesiredNumberScheduled ds)
                 @ '' instances scheduled''
               in if dmnNumberAvailable ds > 0
                  then newAvailableCondition K A ConditionTrue ReasonAvailable message (srvGeneration server) (srvConditions server)
                  else newAvailableCondition K A ConditionFalse ReasonWorkloadUnavailable message
                         (srvGeneration server) (srvConditions server)))
   }"

definition deref1 :: "int option \<Rightarrow> int" where
  "deref1 n = (case n of None \<Rightarrow> 1 | Some x \<Rightarrow> x)"

definition statefulSetAvailability :: "K8sLib \<Rightarrow> 'w Api \<Rightarrow> MCPServer \<Rightarrow> StatefulSet \<Rightarrow> ('w, Condition) M" where
  "statefulSetAvailability K A server sts =
     (let desired = deref1 (stsReplicas sts)
      in if desired = 0
         then newAvailableCondition K A ConditionTrue ReasonScaledToZero ''BYO StatefulSet is scaled to zero''
           (srvGeneration server) (srvConditions server)
         else do {
           pending \<leftarrow> workloadProgressCondition K A server ''StatefulSet'' (omGeneration (stsMeta sts)) (stsObservedGeneration sts);
           (case pending of
              Some c \<Rightarrow> State_Monad.return c
            | None \<Rightarrow>
               (let message = ''BYO StatefulSet: '' @ itoa (stsAvailableReplicas sts) @ '' of '' @ itoa desired
                      @ '' instances available ('' @ itoa (stsReadyReplicas sts) @ '' ready)''
                      @ (if stsUpdatedReplicas sts < desired then ''; rolling update in progress'' else [])
                in if stsAvailableReplicas sts > 0
                   then newAvailableCondition K A ConditionTrue ReasonAvailable message (srvGeneration server) (srvConditions server)
                   else newAvailableCondition K A ConditionFalse ReasonWorkloadUnavailable message
                          (srvGeneration server) (srvConditions server)))
         })"

definition observeWorkload ::
    "K8sLib \<Rightarrow> 'w Api \<Rightarrow> MCPServer \<Rightarrow> Workload option \<Rightarrow> Condition \<Rightarrow> ('w, go_error + workloadObservation) M" where
  "observeWorkload K A server obj accepted = (case obj of
     None \<Rightarrow> State_Monad.return (Inl (ErrorString ''unsupported workload type: <nil>''))
   | Some (WDeployment d) \<Rightarrow> do {
       c \<leftarrow> reconcileAvailableCondition K A d accepted (srvGeneration server) (srvConditions server);
       State_Monad.return (Inr \<lparr>woSelector = workloadSelector obj, woReplicas = deref1 (depReplicas d),
         woReadyReplicas = dsReadyReplicas (depStatus d), woAvailability = c\<rparr>)
     }
   | Some (WDaemonSet d) \<Rightarrow> do {
       c \<leftarrow> daemonSetAvailability K A server d;
       State_Monad.return (Inr \<lparr>woSelector = workloadSelector obj, woReplicas = dmnDesiredNumberScheduled d,
         woReadyReplicas = dmnNumberReady d, woAvailability = c\<rparr>)
     }
   | Some (WStatefulSet d) \<Rightarrow> do {
       c \<leftarrow> statefulSetAvailability K A server d;
       State_Monad.return (Inr \<lparr>woSelector = workloadSelector obj, woReplicas = deref1 (stsReplicas d),
         woReadyReplicas = stsReadyReplicas d, woAvailability = c\<rparr>)
     })"

section \<open>When a workload counts as available\<close>

text \<open>
  The specification, per kind: a current status with an instance that is available, or an intended
  scale to zero where the kind has one.
\<close>

fun workload_serves :: "Condition \<Rightarrow> Workload \<Rightarrow> bool" where
  "workload_serves accepted (WDeployment d) \<longleftrightarrow>
     cStatus accepted \<noteq> ConditionFalse \<and>
     (depReplicas d = Some 0 \<or> deployment_available d \<and> dsReadyReplicas (depStatus d) > 0
       \<and> \<not> (0 < dsObservedGeneration (depStatus d) \<and> dsObservedGeneration (depStatus d) < omGeneration (depMeta d)))"
| "workload_serves accepted (WDaemonSet d) \<longleftrightarrow>
     dmnObservedGeneration d \<noteq> 0 \<and> dmnObservedGeneration d \<ge> omGeneration (dmnMeta d)
     \<and> dmnDesiredNumberScheduled d \<noteq> 0 \<and> dmnNumberAvailable d > 0"
| "workload_serves accepted (WStatefulSet d) \<longleftrightarrow>
     stsReplicas d = Some 0 \<or>
     stsObservedGeneration d \<noteq> 0 \<and> stsObservedGeneration d \<ge> omGeneration (stsMeta d) \<and> stsAvailableReplicas d > 0"

lemma newAvailable_fst:
  "cStatus (fst (run_state (newAvailableCondition K A st r m g ex) s)) = st"
  "cReason (fst (run_state (newAvailableCondition K A st r m g ex) s)) = r"
  "cType (fst (run_state (newAvailableCondition K A st r m g ex) s)) = ConditionTypeAvailable"
  "cObservedGeneration (fst (run_state (newAvailableCondition K A st r m g ex) s)) = g"
  by (cases "run_state (newAvailableCondition K A st r m g ex) s"; auto dest!: newAvailable_run)+

lemma daemonSet_status:
  "cStatus (fst (run_state (daemonSetAvailability K A server d) s)) = ConditionTrue \<longleftrightarrow> workload_serves accepted (WDaemonSet d)"
  by (auto simp: daemonSetAvailability_def workloadProgressCondition_def newAvailable_fst Let_def case_prod_beta)

lemma statefulSet_status:
  "cStatus (fst (run_state (statefulSetAvailability K A server d) s)) = ConditionTrue \<longleftrightarrow> workload_serves accepted (WStatefulSet d)"
  by (auto simp: statefulSetAvailability_def workloadProgressCondition_def newAvailable_fst Let_def case_prod_beta deref1_def
      split: option.splits)

text \<open>
  C23: for each of the three kinds of workload a user may bring, the server is reported available exactly
  when the workload serves: its status is current and it has an available instance, or it is intentionally scaled to zero.
\<close>

theorem observed_available_iff_serves:
  "\<exists>obs. fst (run_state (observeWorkload K A server (Some w) accepted) s) = Inr obs
     \<and> (cStatus (woAvailability obs) = ConditionTrue \<longleftrightarrow> workload_serves accepted w)
     \<and> woSelector obs = workloadSelector (Some w)"
proof (cases w)
  case (WDeployment d)
  then show ?thesis
    using available_status[of K A d accepted "srvGeneration server" "srvConditions server" s]
    by (simp add: observeWorkload_def case_prod_beta)
next
  case (WDaemonSet d)
  then show ?thesis using daemonSet_status[of K A server d s accepted]
    by (simp add: observeWorkload_def case_prod_beta del: workload_serves.simps)
next
  case (WStatefulSet d)
  then show ?thesis using statefulSet_status[of K A server d s accepted]
    by (simp add: observeWorkload_def case_prod_beta del: workload_serves.simps)
qed

end
