(* ===== verification/Validation.thy ===== *)
theory Validation
  imports NetworkPolicy Workload
begin

text \<open>
  Validation of a server's configuration (\<open>internal/controller/mcpserver_controller_validation.go\<close>): the
  checks of references, network rules and TLS settings, and the resolution of a user's workload. A
  validator returns \<open>None\<close> or an error; errors that are \<open>ValidationError\<close>s are permanent, all
  others are retried.
\<close>

section \<open>Sequencing\<close>

text \<open>\<open>if err := m; err != nil { return err }\<close> and a loop over such checks with the index.\<close>

definition and_then :: "('w, go_error option) M \<Rightarrow> ('w, go_error option) M \<Rightarrow> ('w, go_error option) M" where
  "and_then m n = do { r \<leftarrow> m; (case r of Some e \<Rightarrow> State_Monad.return (Some e) | None \<Rightarrow> n) }"

fun each_ok :: "(nat \<Rightarrow> 'x \<Rightarrow> ('w, go_error option) M) \<Rightarrow> nat \<Rightarrow> 'x list \<Rightarrow> ('w, go_error option) M" where
  "each_ok f i [] = State_Monad.return None"
| "each_ok f i (x # xs) = and_then (f i x) (each_ok f (Suc i) xs)"

abbreviation invalid :: "string \<Rightarrow> go_error" where "invalid message \<equiv> ValidationError ReasonInvalid message"

section \<open>References\<close>

definition classifyAPIError :: "K8sLib \<Rightarrow> string \<Rightarrow> string \<Rightarrow> go_error \<Rightarrow> go_error" where
  "classifyAPIError K resourceDesc namespace err =
     (if isNotFound K err then invalid (resourceDesc @ '' not found in namespace '' @ [CHR 0x27] @ namespace @ [CHR 0x27])
      else if isBadRequest K err then invalid (''Invalid '' @ resourceDesc @ '' reference: '' @ errText err)
      else Wrap (''transient error validating '' @ resourceDesc @ '': '') err)"

definition validateReferencedConfigMap :: "K8sLib \<Rightarrow> 'w Api \<Rightarrow> string \<Rightarrow> string \<Rightarrow> string \<Rightarrow> ('w, go_error option) M" where
  "validateReferencedConfigMap K A namespace name resourceDesc = do {
     r \<leftarrow> call (readConfigMap A name namespace);
     State_Monad.return (case r of Inl err \<Rightarrow> Some (classifyAPIError K resourceDesc namespace err) | Inr _ \<Rightarrow> None)
   }"

definition validateReferencedSecret :: "K8sLib \<Rightarrow> 'w Api \<Rightarrow> string \<Rightarrow> string \<Rightarrow> string \<Rightarrow> ('w, go_error option) M" where
  "validateReferencedSecret K A namespace name resourceDesc = do {
     r \<leftarrow> call (readSecret A name namespace);
     State_Monad.return (case r of Inl err \<Rightarrow> Some (classifyAPIError K resourceDesc namespace err) | Inr _ \<Rightarrow> None)
   }"

abbreviation caBundleKey :: string where "caBundleKey \<equiv> ''ca.crt''"

definition validateCABundleSecret :: "K8sLib \<Rightarrow> 'w Api \<Rightarrow> string \<Rightarrow> string \<Rightarrow> ('w, go_error option) M" where
  "validateCABundleSecret K A namespace name = do {
     r \<leftarrow> call (readSecret A name namespace);
     State_Monad.return (case r of
        Inl err \<Rightarrow> Some (classifyAPIError K ''TLS CA bundle Secret'' namespace err)
      | Inr secret \<Rightarrow> (case map_of (secData secret) caBundleKey of
          None \<Rightarrow> Some (invalid (''TLS CA bundle Secret '' @ goquote name @ '' does not contain key '' @ goquote caBundleKey))
        | Some caPEM \<Rightarrow> if \<not> appendCertsFromPEM K caPEM
            then Some (invalid (''TLS CA bundle Secret '' @ goquote name @ '' key '' @ goquote caBundleKey @
                   '' contains no valid PEM certificates'')) else None))
   }"

definition single :: "string \<Rightarrow> string" where
  "single s = [CHR 0x27] @ s @ [CHR 0x27]"

abbreviation optional :: "bool option \<Rightarrow> bool" where "optional b \<equiv> b = Some True"

definition validateStorageMount :: "K8sLib \<Rightarrow> 'w Api \<Rightarrow> MCPServer \<Rightarrow> nat \<Rightarrow> StorageMount \<Rightarrow> ('w, go_error option) M" where
  "validateStorageMount K A ms index storage =
     (let src = smSource storage; idx = itoa (int index)
      in if ssType src = StorageTypeConfigMap
         then (case ssConfigMap src of
             None \<Rightarrow> State_Monad.return (Some (invalid (''ConfigMap must be set for storage mount at index '' @ idx)))
           | Some cm \<Rightarrow>
               if cmvName cm = [] then State_Monad.return (Some (invalid (''ConfigMap name must not be empty for storage mount at index '' @ idx)))
               else if optional (cmvOptional cm) then State_Monad.return None
               else validateReferencedConfigMap K A (srvNamespace ms) (cmvName cm) (''ConfigMap '' @ single (cmvName cm)))
         else if ssType src = StorageTypeSecret
         then (case ssSecret src of
             None \<Rightarrow> State_Monad.return (Some (invalid (''Secret must be set for storage mount at index '' @ idx)))
           | Some sec \<Rightarrow>
               if svSecretName sec = [] then State_Monad.return (Some (invalid (''Secret name must not be empty for storage mount at index '' @ idx)))
               else if optional (svOptional sec) then State_Monad.return None
               else validateReferencedSecret K A (srvNamespace ms) (svSecretName sec) (''Secret '' @ single (svSecretName sec)))
         else if ssType src = StorageTypeEmptyDir
         then State_Monad.return (if ssEmptyDir src = None then Some (invalid (''EmptyDir must be set for storage mount at index '' @ idx)) else None)
         else State_Monad.return (Some (invalid (''Unsupported storage type '' @ single (ssType src) @ '' at index '' @ idx))))"

definition validateEnvFrom :: "K8sLib \<Rightarrow> 'w Api \<Rightarrow> MCPServer \<Rightarrow> nat \<Rightarrow> EnvFromSource \<Rightarrow> ('w, go_error option) M" where
  "validateEnvFrom K A ms index envFrom =
     (let suffix = '' (envFrom index '' @ itoa (int index) @ '')''
      in and_then
        (case efConfigMapRef envFrom of
           Some ref \<Rightarrow> if optional (esOptional ref) then State_Monad.return None
             else validateReferencedConfigMap K A (srvNamespace ms) (esName ref) (''ConfigMap '' @ single (esName ref) @ suffix)
         | None \<Rightarrow> State_Monad.return None)
        (case efSecretRef envFrom of
           Some ref \<Rightarrow> if optional (esOptional ref) then State_Monad.return None
             else validateReferencedSecret K A (srvNamespace ms) (esName ref) (''Secret '' @ single (esName ref) @ suffix)
         | None \<Rightarrow> State_Monad.return None))"

definition validateEnvValueFrom :: "K8sLib \<Rightarrow> 'w Api \<Rightarrow> MCPServer \<Rightarrow> nat \<Rightarrow> EnvVar \<Rightarrow> ('w, go_error option) M" where
  "validateEnvValueFrom K A ms index env =
     (case evValueFrom env of
        None \<Rightarrow> State_Monad.return None
      | Some vf \<Rightarrow>
         (let suffix = '' referenced by env var '' @ single (evName env) @ '' (env index '' @ itoa (int index) @ '')''
          in and_then
            (case evsConfigMapKeyRef vf of
               Some ref \<Rightarrow> if optional (ksOptional ref) then State_Monad.return None
                 else validateReferencedConfigMap K A (srvNamespace ms) (ksName ref) (''ConfigMap '' @ single (ksName ref) @ suffix)
             | None \<Rightarrow> State_Monad.return None)
            (case evsSecretKeyRef vf of
               Some ref \<Rightarrow> if optional (ksOptional ref) then State_Monad.return None
                 else validateReferencedSecret K A (srvNamespace ms) (ksName ref) (''Secret '' @ single (ksName ref) @ suffix)
             | None \<Rightarrow> State_Monad.return None)))"

definition validateWorkloadRef :: "K8sLib \<Rightarrow> 'w Api \<Rightarrow> MCPServer \<Rightarrow> WorkloadReference \<Rightarrow> ('w, go_error + Workload) M" where
  "validateWorkloadRef K A ms ref =
     (let desc = ''referenced '' @ wrKind ref @ '' '' @ goquote (wrName ref)
      in do {
        r \<leftarrow> getWorkload A (wrName ref) (wrKind ref) (srvNamespace ms);
        State_Monad.return (case r of
            Inl err \<Rightarrow> (case asValidationError err of
                Some (reason, message) \<Rightarrow> Inl (ValidationError reason message)
              | None \<Rightarrow> Inl (classifyAPIError K desc (srvNamespace ms) err))
          | Inr workload \<Rightarrow>
              if spServiceRef (msSpec ms) = None
              then (case workloadSelector (Some workload) of
                  None \<Rightarrow> Inl (invalid (desc @ '' has no matchLabels in its selector; set serviceRef to provide a Service with a suitable selector''))
                | Some selector \<Rightarrow>
                    if lsMatchLabels selector = []
                    then Inl (invalid (desc @ '' has no matchLabels in its selector; set serviceRef to provide a Service with a suitable selector''))
                    else if lsMatchExpressions selector \<noteq> []
                    then Inl (invalid (desc @ '' uses matchExpressions in its selector; set serviceRef to avoid routing traffic to pods outside the workload''))
                    else Inr workload)
              else Inr workload)
      })"

definition validateServiceRef :: "K8sLib \<Rightarrow> 'w Api \<Rightarrow> MCPServer \<Rightarrow> ServiceReference \<Rightarrow> ('w, go_error option) M" where
  "validateServiceRef K A ms ref = do {
     r \<leftarrow> call (readService A (srName ref) (srvNamespace ms));
     State_Monad.return (case r of
        Inl err \<Rightarrow> Some (classifyAPIError K (''referenced Service '' @ goquote (srName ref)) (srvNamespace ms) err)
      | Inr _ \<Rightarrow> None)
   }"

section \<open>Network rules\<close>

definition intOrStringText :: "IntOrString \<Rightarrow> string" where
  "intOrStringText v = (case v of IntVal n \<Rightarrow> itoa n | StrVal s \<Rightarrow> s)"

text \<open>The three stages of \<open>validateNetworkPolicyPort\<close>, each with its own error.\<close>

definition protocolProblem :: "string \<Rightarrow> NetworkPolicyPort \<Rightarrow> go_error option" where
  "protocolProblem at port = (case nptProtocol port of
     None \<Rightarrow> None
   | Some p \<Rightarrow> if p = ''TCP'' \<or> p = ''UDP'' \<or> p = ''SCTP'' then None
       else Some (invalid (at @ '': unsupported protocol '' @ goquote p)))"

definition portProblem :: "K8sLib \<Rightarrow> string \<Rightarrow> NetworkPolicyPort \<Rightarrow> go_error option" where
  "portProblem K at port = (case nptPort port of
     None \<Rightarrow> None
   | Some (IntVal p) \<Rightarrow> if p < 1 \<or> p > 65535 then Some (invalid (at @ '': port '' @ itoa p @ '' out of range 1-65535'')) else None
   | Some (StrVal n) \<Rightarrow> (case isValidPortName K n of
       [] \<Rightarrow> None
     | err # _ \<Rightarrow> Some (invalid (at @ '': invalid port name '' @ goquote n @ '': '' @ err))))"

definition endPortProblem :: "string \<Rightarrow> NetworkPolicyPort \<Rightarrow> go_error option" where
  "endPortProblem at port = (case nptEndPort port of
     None \<Rightarrow> None
   | Some e \<Rightarrow> (case nptPort port of
       None \<Rightarrow> Some (invalid (at @ '': endPort requires port to be set''))
     | Some (StrVal n) \<Rightarrow> Some (invalid (at @ '': endPort requires a numeric port, not '' @ goquote n))
     | Some (IntVal p) \<Rightarrow>
         if e < p then Some (invalid (at @ '': endPort '' @ itoa e @ '' must be >= port '' @ itoa p))
         else if e < 1 \<or> e > 65535 then Some (invalid (at @ '': endPort '' @ itoa e @ '' out of range 1-65535''))
         else None))"

definition validateNetworkPolicyPort :: "K8sLib \<Rightarrow> NetworkPolicyPort \<Rightarrow> string \<Rightarrow> nat \<Rightarrow> go_error option" where
  "validateNetworkPolicyPort K port fieldPath index =
     (let at = fieldPath @ ''['' @ itoa (int index) @ '']''
      in case protocolProblem at port of
         Some e \<Rightarrow> Some e
       | None \<Rightarrow> (case portProblem K at port of
           Some e \<Rightarrow> Some e
         | None \<Rightarrow> endPortProblem at port))"

text \<open>The loop over the exceptions of an IP block.\<close>

fun exceptProblem :: "string \<Rightarrow> string \<Rightarrow> IPNet \<Rightarrow> nat \<Rightarrow> string list \<Rightarrow> go_error option" where
  "exceptProblem path cidr cidrNet j [] = None"
| "exceptProblem path cidr cidrNet j (ex # exs) = (case parseCIDR ex of
     None \<Rightarrow> Some (invalid (path @ '': invalid ipBlock.except['' @ itoa (int j) @ ''] '' @ goquote ex @ '': invalid CIDR address: '' @ ex))
   | Some exNet \<Rightarrow>
       if snd (maskSize (netMask cidrNet)) \<noteq> snd (maskSize (netMask exNet))
          \<or> fst (maskSize (netMask cidrNet)) > fst (maskSize (netMask exNet)) \<or> \<not> netContains cidrNet (netIP exNet)
       then Some (invalid (path @ '': ipBlock.except['' @ itoa (int j) @ ''] '' @ goquote ex @ '' is not within cidr '' @ goquote cidr))
       else exceptProblem path cidr cidrNet (Suc j) exs)"

definition validateNetworkPolicyPeerAtPath :: "NetworkPolicyPeer \<Rightarrow> string \<Rightarrow> go_error option" where
  "validateNetworkPolicyPeerAtPath peer path =
     (if nppPodSelector peer = None \<and> nppNamespaceSelector peer = None \<and> nppIPBlock peer = None
      then Some (invalid (path @ '': must specify at least one of podSelector, namespaceSelector, or ipBlock''))
      else case nppIPBlock peer of
        None \<Rightarrow> None
      | Some b \<Rightarrow>
          if nppPodSelector peer \<noteq> None \<or> nppNamespaceSelector peer \<noteq> None
          then Some (invalid (path @ '': ipBlock cannot be combined with podSelector or namespaceSelector''))
          else if ipbCIDR b = [] then Some (invalid (path @ '': ipBlock.cidr must not be empty''))
          else (case parseCIDR (ipbCIDR b) of
              None \<Rightarrow> Some (invalid (path @ '': invalid ipBlock.cidr '' @ goquote (ipbCIDR b) @ '': invalid CIDR address: '' @ ipbCIDR b))
            | Some cidrNet \<Rightarrow> exceptProblem path (ipbCIDR b) cidrNet 0 (ipbExcept b)))"

definition validateNetworkPolicyPeer :: "NetworkPolicyPeer \<Rightarrow> string \<Rightarrow> nat \<Rightarrow> go_error option" where
  "validateNetworkPolicyPeer peer fieldPath index =
     validateNetworkPolicyPeerAtPath peer (fieldPath @ ''['' @ itoa (int index) @ '']'')"

definition validateNetwork :: "K8sLib \<Rightarrow> NetworkConfig \<Rightarrow> ('w, go_error option) M" where
  "validateNetwork K n =
     and_then (each_ok (\<lambda>i p. State_Monad.return (validateNetworkPolicyPeer p ''network.ingressFrom'' i)) 0 (netIngressFrom n))
    (and_then (each_ok (\<lambda>i p. State_Monad.return (validateNetworkPolicyPeer p ''network.egressTo'' i)) 0 (netEgressTo n))
    (and_then (each_ok (\<lambda>i p. State_Monad.return (validateNetworkPolicyPort K p ''network.egressPorts'' i)) 0 (netEgressPorts n))
     (State_Monad.return (case netDNSEgressPeer n of None \<Rightarrow> None
        | Some p \<Rightarrow> validateNetworkPolicyPeerAtPath p ''network.dnsEgressPeer''))))"

section \<open>TLS and the whole configuration\<close>

text \<open>The TLS client configuration in force: \<open>spec.transport.tls\<close> when it is enabled.\<close>

definition enabledTLS :: "MCPServer \<Rightarrow> TLSClientConfig option" where
  "enabledTLS ms = (case spTransport (msSpec ms) of
     None \<Rightarrow> None
   | Some t \<Rightarrow> (case trTLS t of None \<Rightarrow> None | Some c \<Rightarrow> if tlsEnabled c then Some c else None))"

definition validateTLS :: "K8sLib \<Rightarrow> 'w Api \<Rightarrow> MCPServer \<Rightarrow> ('w, go_error option) M" where
  "validateTLS K A ms = (case enabledTLS ms of
     None \<Rightarrow> State_Monad.return None
   | Some c \<Rightarrow>
       (case tlsCABundleSecret c of
          None \<Rightarrow> State_Monad.return None
        | Some sec \<Rightarrow>
            if tlsInsecureSkipVerify c
            then State_Monad.return (Some (invalid ''insecureSkipVerify and caBundleSecret are mutually exclusive''))
            else validateCABundleSecret K A (srvNamespace ms) (secrefName sec)))"

text \<open>Storage, \<open>envFrom\<close> and \<open>env\<close> of a server whose workload the operator manages.\<close>

definition validateManagedConfig :: "K8sLib \<Rightarrow> 'w Api \<Rightarrow> MCPServer \<Rightarrow> ('w, go_error option) M" where
  "validateManagedConfig K A ms =
     (if spWorkloadRef (msSpec ms) = None
      then and_then (each_ok (validateStorageMount K A ms) 0 (cfgStorage (spConfig (msSpec ms))))
          (and_then (each_ok (validateEnvFrom K A ms) 0 (cfgEnvFrom (spConfig (msSpec ms))))
                    (each_ok (validateEnvValueFrom K A ms) 0 (cfgEnv (spConfig (msSpec ms)))))
      else State_Monad.return None)"

text \<open>Everything that is checked after the workload reference.\<close>

definition validateSpecParts :: "K8sLib \<Rightarrow> 'w Api \<Rightarrow> MCPServer \<Rightarrow> ('w, go_error option) M" where
  "validateSpecParts K A ms =
     and_then (case spServiceRef (msSpec ms) of None \<Rightarrow> State_Monad.return None | Some ref \<Rightarrow> validateServiceRef K A ms ref)
    (and_then (validateManagedConfig K A ms)
    (and_then (case spNetwork (msSpec ms) of None \<Rightarrow> State_Monad.return None | Some n \<Rightarrow> validateNetwork K n)
              (validateTLS K A ms)))"

definition validateConfigAndResolveWorkload :: "K8sLib \<Rightarrow> 'w Api \<Rightarrow> MCPServer \<Rightarrow> ('w, go_error + Workload option) M" where
  "validateConfigAndResolveWorkload K A ms = do {
     w \<leftarrow> (case spWorkloadRef (msSpec ms) of
            None \<Rightarrow> State_Monad.return (Inr None)
          | Some ref \<Rightarrow> do {
              r \<leftarrow> validateWorkloadRef K A ms ref;
              State_Monad.return (case r of Inl e \<Rightarrow> Inl e | Inr x \<Rightarrow> Inr (Some x))
            });
     (case w of
        Inl e \<Rightarrow> State_Monad.return (Inl e)
      | Inr workload \<Rightarrow> do {
          r \<leftarrow> validateSpecParts K A ms;
          State_Monad.return (case r of Some e \<Rightarrow> Inl e | None \<Rightarrow> Inr workload)
        })
   }"

section \<open>Accepted network rules\<close>

lemma exceptProblem_None:
  "exceptProblem path c n j exs = None \<Longrightarrow>
   \<forall>t \<in> set exs. \<exists>e. parseCIDR t = Some e \<and> snd (maskSize (netMask n)) = snd (maskSize (netMask e))
      \<and> fst (maskSize (netMask n)) \<le> fst (maskSize (netMask e)) \<and> netContains n (netIP e)"
  by (induction path c n j exs rule: exceptProblem.induct) (auto split: option.splits if_splits)

text \<open>
  an accepted peer with an IP block stands alone, its CIDR parses, and it admits exactly the addresses of that
  network less its exceptions, each of which is a non-empty part of the network.
\<close>

lemma accepted_ip_block:
  assumes "validateNetworkPolicyPeerAtPath peer path = None" "nppIPBlock peer = Some b"
  shows "nppPodSelector peer = None \<and> nppNamespaceSelector peer = None \<and>
    (\<exists>n. parseCIDR (ipbCIDR b) = Some n \<and>
       {a. in_ipblock b a} = block n - (\<Union>t \<in> set (ipbExcept b). {a. \<exists>e. parseCIDR t = Some e \<and> a \<in> block e}) \<and>
       (\<forall>t \<in> set (ipbExcept b). \<exists>e. parseCIDR t = Some e \<and> netIP e \<in> block e \<and> block e \<subseteq> block n))"
proof -
  from assms obtain n where n: "parseCIDR (ipbCIDR b) = Some n" and ex: "exceptProblem path (ipbCIDR b) n 0 (ipbExcept b) = None"
    and sel: "nppPodSelector peer = None" "nppNamespaceSelector peer = None"
    by (auto simp: validateNetworkPolicyPeerAtPath_def split: if_splits option.splits)
  have "\<forall>t \<in> set (ipbExcept b). \<exists>e. parseCIDR t = Some e \<and> netIP e \<in> block e \<and> block e \<subseteq> block n"
    by (rule go_net.excepts_within[OF n exceptProblem_None[OF ex]])
  moreover have "{a. in_ipblock b a} = block n - (\<Union>t \<in> set (ipbExcept b). {a. \<exists>e. parseCIDR t = Some e \<and> a \<in> block e})"
    by (auto simp: in_ipblock_def n split: option.splits)
  ultimately show ?thesis using n sel by blast
qed

lemma accepted_ip_block_witness:
  "\<exists>n. parseCIDR ''10.0.0.0/8'' = Some n
     \<and> (\<forall>t \<in> {''10.1.0.0/16''}. \<exists>e. parseCIDR t = Some e \<and> netIP e \<in> block e \<and> block e \<subseteq> block n)"
proof -
  let ?b = "\<lparr>ipbCIDR = ''10.0.0.0/8'', ipbExcept = [''10.1.0.0/16'']\<rparr>"
  let ?p = "\<lparr>nppPodSelector = None, nppNamespaceSelector = None, nppIPBlock = Some ?b\<rparr>"
  have "validateNetworkPolicyPeerAtPath ?p [] = None" by code_simp
  from accepted_ip_block[OF this, of ?b] show ?thesis by auto
qed

text \<open>
  An accepted port entry admits only ports between 1 and 65535 of a protocol that Kubernetes knows, and, when it names a port by
  number, at least that port.
\<close>

lemma accepted_port:
  assumes "validateNetworkPolicyPort K port path i = None" "nptPort port = Some (IntVal p)"
  shows "(\<forall>proto q. port_admits port proto q \<longrightarrow> proto \<in> {''TCP'', ''UDP'', ''SCTP''} \<and> 1 \<le> q \<and> q \<le> 65535)
     \<and> (\<exists>proto. port_admits port proto p)"
  using assms
  by (auto simp: validateNetworkPolicyPort_def Let_def protocolProblem_def portProblem_def endPortProblem_def port_admits_def
      split: option.splits if_splits IntOrString.splits)

lemma accepted_port_witness:
  "\<not> port_admits \<lparr>nptProtocol = None, nptPort = Some (IntVal 8080), nptEndPort = Some 8090\<rparr> ''TCP'' 65536 \<and>
   (\<exists>proto. port_admits \<lparr>nptProtocol = None, nptPort = Some (IntVal 8080), nptEndPort = Some 8090\<rparr> proto 8080)"
proof -
  let ?p = "\<lparr>nptProtocol = None, nptPort = Some (IntVal 8080), nptEndPort = Some 8090\<rparr>"
  have "validateNetworkPolicyPort sample_lib ?p [] 0 = None"
    by (simp add: validateNetworkPolicyPort_def protocolProblem_def portProblem_def endPortProblem_def)
  from accepted_port[OF this, of 8080] show ?thesis by fastforce
qed

section \<open>Validation only reads, and classifies its errors\<close>

text \<open>A permanent error, or a transient one wrapped for retry.\<close>

definition classified :: "K8sLib \<Rightarrow> go_error \<Rightarrow> bool" where
  "classified K e \<longleftrightarrow> asValidationError e \<noteq> None \<or>
     (\<exists>d err. e = Wrap (''transient error validating '' @ d @ '': '') err \<and> \<not> isNotFound K err \<and> \<not> isBadRequest K err)"

lemma classified_invalid [simp]: "classified K (invalid m)"
  by (simp add: classified_def)

lemma classified_api [simp]: "classified K (classifyAPIError K d ns err)"
  by (auto simp: classifyAPIError_def classified_def)

text \<open>A check that sends nothing and whose errors are classified.\<close>

definition check :: "K8sLib \<Rightarrow> ('w, go_error option) M \<Rightarrow> bool" where
  "check K m \<longleftrightarrow> emits (\<lambda>_. False) m \<and> valid (\<lambda>_. True) m (\<lambda>r _. \<forall>e. r = Some e \<longrightarrow> classified K e)"

lemma check_return: "(\<And>e. r = Some e \<Longrightarrow> classified K e) \<Longrightarrow> check K (State_Monad.return r)"
  by (simp add: check_def emits_return valid_def)

lemma check_read:
  "(\<And>a e. f a = Some e \<Longrightarrow> classified K e) \<Longrightarrow> check K (do { r \<leftarrow> call g; State_Monad.return (f r) })"
  by (auto simp: check_def valid_def run_ops intro!: emits_rules split: prod.split)

lemma check_and_then: "check K m \<Longrightarrow> check K n \<Longrightarrow> check K (and_then m n)"
  unfolding check_def and_then_def
  by (intro conjI emits_bind valid_bind[where R = "\<lambda>r _. \<forall>e. r = Some e \<longrightarrow> classified K e"])
     (auto intro: emits_return simp: valid_def split: option.split)

lemma check_each: "(\<And>i x. check K (f i x)) \<Longrightarrow> check K (each_ok f i xs)"
  by (induction xs arbitrary: i) (auto intro!: check_return check_and_then)

lemmas check_rules = check_return check_read check_and_then check_each

lemma exceptProblem_classified: "exceptProblem path c n j exs = Some e \<Longrightarrow> classified K e"
  by (induction path c n j exs rule: exceptProblem.induct) (auto split: option.splits if_splits)

lemma peer_classified: "validateNetworkPolicyPeerAtPath p path = Some e \<Longrightarrow> classified K e"
  by (auto simp: validateNetworkPolicyPeerAtPath_def dest: exceptProblem_classified split: option.splits if_splits)

lemma port_classified: "validateNetworkPolicyPort K' p path i = Some e \<Longrightarrow> classified K e"
  by (auto simp: validateNetworkPolicyPort_def Let_def protocolProblem_def portProblem_def endPortProblem_def
      split: option.splits if_splits IntOrString.splits list.splits)

lemma check_refs:
  "check K (validateReferencedConfigMap K A ns n d)" "check K (validateReferencedSecret K A ns n d)"
  "check K (validateCABundleSecret K A ns n)" "check K (validateServiceRef K A ms ref)"
  unfolding validateReferencedConfigMap_def validateReferencedSecret_def validateCABundleSecret_def validateServiceRef_def
  by (auto intro!: check_read split: sum.splits option.splits if_splits)

lemma check_items:
  "check K (validateStorageMount K A ms i sm)" "check K (validateEnvFrom K A ms i ef)" "check K (validateEnvValueFrom K A ms i ev)"
  unfolding validateStorageMount_def validateEnvFrom_def validateEnvValueFrom_def Let_def
  by (auto intro!: check_rules check_refs split: option.splits if_splits)

lemma check_network: "check K (validateNetwork K' n)"
  unfolding validateNetwork_def validateNetworkPolicyPeer_def
  by (auto intro!: check_rules dest: peer_classified port_classified split: option.splits)

lemma check_tls: "check K (validateTLS K A ms)"
  unfolding validateTLS_def by (auto intro!: check_rules check_refs split: option.splits)

lemma check_managed: "check K (validateManagedConfig K A ms)"
  unfolding validateManagedConfig_def by (auto intro!: check_rules check_items)

lemma workload_ref_check:
  "emits (\<lambda>_. False) (validateWorkloadRef K A ms ref)
   \<and> valid (\<lambda>_. True) (validateWorkloadRef K A ms ref) (\<lambda>r _. (\<forall>e. r = Inl e \<longrightarrow> classified K e) \<and>
       (\<forall>w. r = Inr w \<and> spServiceRef (msSpec ms) = None \<longrightarrow>
          (\<exists>sel. workloadSelector (Some w) = Some sel \<and> lsMatchLabels sel \<noteq> [] \<and> lsMatchExpressions sel = [])))"
proof -
  have "classified K (ValidationError a b)" for a b by (simp add: classified_def)
  then have "valid (\<lambda>_. True) (validateWorkloadRef K A ms ref) (\<lambda>r _. (\<forall>e. r = Inl e \<longrightarrow> classified K e) \<and>
       (\<forall>w. r = Inr w \<and> spServiceRef (msSpec ms) = None \<longrightarrow>
          (\<exists>sel. workloadSelector (Some w) = Some sel \<and> lsMatchLabels sel \<noteq> [] \<and> lsMatchExpressions sel = [])))"
    by (auto simp: valid_def validateWorkloadRef_def Let_def split: sum.splits option.splits if_splits prod.splits)
  moreover have "emits (\<lambda>_. False) (validateWorkloadRef K A ms ref)"
    unfolding validateWorkloadRef_def getWorkload_def Let_def by (auto intro!: emits_rules)
  ultimately show ?thesis by blast
qed

section \<open>What a valid configuration guarantees\<close>

lemma and_then_None:
  "run_state (and_then m n) s = (None, s') \<Longrightarrow> \<exists>s1. run_state m s = (None, s1) \<and> run_state n s1 = (None, s')"
  by (auto simp: and_then_def split: prod.splits option.splits)

lemma each_pure_None:
  "run_state (each_ok (\<lambda>i x. State_Monad.return (f i x)) i xs) s = (None, s') \<Longrightarrow> \<forall>x \<in> set xs. \<exists>j. f j x = None"
  by (induction xs arbitrary: i s) (auto dest!: and_then_None)

text \<open>The network rules of a specification, all of them accepted.\<close>

definition network_valid :: "K8sLib \<Rightarrow> NetworkConfig \<Rightarrow> bool" where
  "network_valid K n \<longleftrightarrow>
     (\<forall>p \<in> set (netIngressFrom n) \<union> set (netEgressTo n) \<union> set_option (netDNSEgressPeer n).
        \<exists>path. validateNetworkPolicyPeerAtPath p path = None)
   \<and> (\<forall>p \<in> set (netEgressPorts n). \<exists>path i. validateNetworkPolicyPort K p path i = None)"

lemma validateNetwork_None: "run_state (validateNetwork K n) s = (None, s') \<Longrightarrow> network_valid K n"
  unfolding validateNetwork_def network_valid_def validateNetworkPolicyPeer_def
  by (elim conjE exE and_then_None [elim_format] each_pure_None [elim_format]) (fastforce split: option.splits)

lemma validateTLS_None:
  "run_state (validateTLS K A ms) s = (None, s') \<Longrightarrow> enabledTLS ms = Some c \<Longrightarrow> \<not> (tlsInsecureSkipVerify c \<and> tlsCABundleSecret c \<noteq> None)"
  by (auto simp: validateTLS_def split: option.splits if_splits)

definition config_valid :: "K8sLib \<Rightarrow> MCPServer \<Rightarrow> Workload option \<Rightarrow> bool" where
  "config_valid K ms w \<longleftrightarrow>
     (w = None \<longleftrightarrow> spWorkloadRef (msSpec ms) = None)
   \<and> (w \<noteq> None \<and> spServiceRef (msSpec ms) = None \<longrightarrow>
        (\<exists>sel. workloadSelector w = Some sel \<and> lsMatchLabels sel \<noteq> [] \<and> lsMatchExpressions sel = []))
   \<and> (\<forall>n. spNetwork (msSpec ms) = Some n \<longrightarrow> network_valid K n)
   \<and> (\<forall>c. enabledTLS ms = Some c \<longrightarrow> \<not> (tlsInsecureSkipVerify c \<and> tlsCABundleSecret c \<noteq> None))"

lemma resolve_workload:
  "valid (\<lambda>_. True) (case spWorkloadRef (msSpec ms) of
        None \<Rightarrow> State_Monad.return (Inr None)
      | Some ref \<Rightarrow> do { r \<leftarrow> validateWorkloadRef K A ms ref; State_Monad.return (case r of Inl e \<Rightarrow> Inl e | Inr x \<Rightarrow> Inr (Some x)) })
     (\<lambda>r _. (\<forall>e. r = Inl e \<longrightarrow> classified K e) \<and> (\<forall>w. r = Inr w \<longrightarrow> (w = None \<longleftrightarrow> spWorkloadRef (msSpec ms) = None)
        \<and> (w \<noteq> None \<and> spServiceRef (msSpec ms) = None \<longrightarrow>
            (\<exists>sel. workloadSelector w = Some sel \<and> lsMatchLabels sel \<noteq> [] \<and> lsMatchExpressions sel = []))))"
proof (cases "spWorkloadRef (msSpec ms)")
  case (Some ref)
  show ?thesis
    unfolding Some option.case
    by (rule valid_bind[OF _ conjunct2[OF workload_ref_check[of K A ms ref]]])
       (auto simp: valid_def split: sum.split)
qed (simp add: valid_def)

lemma check_parts: "check K (validateSpecParts K A ms)"
  unfolding validateSpecParts_def
  by (intro check_and_then check_managed check_tls)
     (auto intro!: check_return check_refs check_network split: option.split)

lemma parts_None:
  "run_state (validateSpecParts K A ms) s = (None, s') \<Longrightarrow>
   (\<forall>n. spNetwork (msSpec ms) = Some n \<longrightarrow> network_valid K n)
   \<and> (\<forall>c. enabledTLS ms = Some c \<longrightarrow> \<not> (tlsInsecureSkipVerify c \<and> tlsCABundleSecret c \<noteq> None))"
  unfolding validateSpecParts_def
  by (fastforce dest!: and_then_None dest: validateNetwork_None validateTLS_None)

lemma validation_silent: "emits (\<lambda>_. False) (validateConfigAndResolveWorkload K A ms)"
  unfolding validateConfigAndResolveWorkload_def
  using check_parts[of K A ms, unfolded check_def] workload_ref_check[of K A ms]
  by (auto intro!: emits_bind emits_return split: option.split sum.split)

lemma validation_value:
  "valid (\<lambda>_. True) (validateConfigAndResolveWorkload K A ms) (\<lambda>r _. case r of Inl e \<Rightarrow> classified K e | Inr w \<Rightarrow> config_valid K ms w)"
  unfolding validateConfigAndResolveWorkload_def
proof (rule valid_bind[OF _ resolve_workload], goal_cases)
  case (1 w)
  show ?case
  proof (rule validI, goal_cases)
    case (1 s0 r s')
    then show ?case
      using validD[OF conjunct2[OF check_parts[of K A ms, unfolded check_def]]]
      by (auto simp: config_valid_def split: sum.splits prod.splits option.splits dest!: parts_None)
  qed
qed

text \<open>
  C22: validation only reads; when it accepts a configuration, a workload was resolved exactly when one is
  referenced, a managed Service for it will have a non-empty selector that represents the whole workload, every
  network peer and port is accepted, and a CA bundle is never combined with disabled verification. Every
  error it returns is permanent, or wraps an API error that is neither "not found" nor "bad request".
\<close>

theorem validation_sound:
  "case run_state (validateConfigAndResolveWorkload K A ms) s of (r, s') \<Rightarrow>
     trace s' = trace s \<and> (case r of Inl e \<Rightarrow> classified K e | Inr w \<Rightarrow> config_valid K ms w)"
  using emits_nothing[OF validation_silent, of K A ms s] validation_value[of K A ms] by (auto simp: valid_def case_prod_beta)

end
