(* ===== verification/Handshake.thy ===== *)
theory Handshake
  imports Conditions Telemetry
begin

text \<open>
  The MCP handshake (\<open>internal/controller/mcpserver_controller_handshake.go\<close>), the TLS transport it uses
  (\<open>mcpserver_controller_tls.go\<close>) and the events of \<open>mcpserver_controller.go\<close>: when the operator dials the endpoint
  of a server, what it concludes from the answer, and how it retries.
\<close>

section \<open>Events\<close>

definition recordEvent :: "Reconciler \<Rightarrow> string \<Rightarrow> string \<Rightarrow> string \<Rightarrow> string \<Rightarrow> ('w, unit) M" where
  "recordEvent R eventType reason action note =
     (if \<not> rHasRecorder R then State_Monad.return () else emit (EEvent eventType reason action note))"

abbreviation EventTypeNormal :: string where "EventTypeNormal \<equiv> ''Normal''"
abbreviation EventTypeWarning :: string where "EventTypeWarning \<equiv> ''Warning''"

definition emitConfigurationInvalid :: "Reconciler \<Rightarrow> MCPServer \<Rightarrow> string \<Rightarrow> string \<Rightarrow> ('w, unit) M" where
  "emitConfigurationInvalid R ms reason message = recordEvent R EventTypeWarning reason ''ConfigurationValidation''
     (''MCPServer '' @ srvName ms @ '': '' @ message)"

definition emitConfigurationAccepted :: "Reconciler \<Rightarrow> MCPServer \<Rightarrow> ('w, unit) M" where
  "emitConfigurationAccepted R ms = recordEvent R EventTypeNormal ReasonValid ''ConfigurationAccepted''
     (''MCPServer '' @ srvName ms @ '' configuration is valid; Accepted=True'')"

definition emitServerReady :: "Reconciler \<Rightarrow> MCPServer \<Rightarrow> ('w, unit) M" where
  "emitServerReady R ms = recordEvent R EventTypeNormal ReasonAvailable ''ServerReady''
     (''MCPServer '' @ srvName ms @ '' is ready; Available=True, Verified=True'')"

definition emitInsecureTLSWarning :: "Reconciler \<Rightarrow> MCPServer \<Rightarrow> ('w, unit) M" where
  "emitInsecureTLSWarning R ms = recordEvent R EventTypeWarning ''InsecureTLSConfigured'' ''InsecureTLSConfigured''
     (''MCPServer '' @ srvName ms @ '': spec.transport.tls.insecureSkipVerify is enabled; TLS certificate verification is '' @
      ''disabled for MCP handshakes, exposing connections to man-in-the-middle attacks'')"

definition emitHandshakeAuthSkip :: "Reconciler \<Rightarrow> MCPServer \<Rightarrow> string \<Rightarrow> ('w, unit) M" where
  "emitHandshakeAuthSkip R ms mcpURL = recordEvent R EventTypeWarning ReasonAuthSkipped ''HandshakeAuthSkipped''
     (''MCPServer '' @ srvName ms @ '': endpoint '' @ mcpURL @ '' is reachable but the MCP protocol was NOT verified because '' @
      ''it requires authentication; it is treated as reachable and its address is published'')"

definition emitWorkloadUnavailable :: "Reconciler \<Rightarrow> MCPServer \<Rightarrow> string \<Rightarrow> ('w, unit) M" where
  "emitWorkloadUnavailable R ms message = recordEvent R EventTypeWarning ReasonWorkloadUnavailable ''DeploymentReconcileFailed''
     (''MCPServer '' @ srvName ms @ '': '' @ message)"

definition emitServiceReconcileFailed :: "Reconciler \<Rightarrow> MCPServer \<Rightarrow> string \<Rightarrow> ('w, unit) M" where
  "emitServiceReconcileFailed R ms message = recordEvent R EventTypeWarning ReasonServiceUnavailable ''ServiceReconcileFailed''
     (''MCPServer '' @ srvName ms @ '': '' @ message)"

definition emitNetworkPolicyReconcileFailed :: "Reconciler \<Rightarrow> MCPServer \<Rightarrow> string \<Rightarrow> ('w, unit) M" where
  "emitNetworkPolicyReconcileFailed R ms message = recordEvent R EventTypeWarning ReasonNetworkPolicyUnavailable
     ''NetworkPolicyReconcileFailed'' (''MCPServer '' @ srvName ms @ '': '' @ message)"

definition emitGatewayBindingReconcileFailed :: "Reconciler \<Rightarrow> MCPServer \<Rightarrow> string \<Rightarrow> ('w, unit) M" where
  "emitGatewayBindingReconcileFailed R ms message = recordEvent R EventTypeWarning ReasonGatewayNotRegistered
     ''GatewayBindingReconcileFailed'' (''MCPServer '' @ srvName ms @ '': '' @ message)"

definition emitMCPHandshakeFailed :: "Reconciler \<Rightarrow> MCPServer \<Rightarrow> string \<Rightarrow> ('w, unit) M" where
  "emitMCPHandshakeFailed R ms message = recordEvent R EventTypeWarning ReasonEndpointUnavailable ''MCPHandshakeFailed''
     (''MCP handshake failed for MCPServer '' @ srvName ms @ '': '' @ message)"

definition emitMCPHandshakeRetriesExhausted :: "Reconciler \<Rightarrow> MCPServer \<Rightarrow> 32 word \<Rightarrow> ('w, unit) M" where
  "emitMCPHandshakeRetriesExhausted R ms retryCount = recordEvent R EventTypeWarning ReasonEndpointUnavailable
     ''MCPHandshakeRetriesExhausted'' (''MCP handshake retries exhausted for MCPServer '' @ srvName ms @ '' after '' @
       itoa (sint retryCount) @ '' attempts; fix the MCP endpoint or update spec to retry'')"

definition emitCapabilityChangeDetected :: "Reconciler \<Rightarrow> MCPServer \<Rightarrow> string \<Rightarrow> ('w, unit) M" where
  "emitCapabilityChangeDetected R ms diff = recordEvent R EventTypeWarning ''CapabilityChanged'' ''CapabilityChangeDetected''
     (''MCP server capabilities changed: '' @ diff)"

lemmas event_defs = emitConfigurationInvalid_def emitConfigurationAccepted_def emitServerReady_def emitInsecureTLSWarning_def
  emitHandshakeAuthSkip_def emitWorkloadUnavailable_def emitServiceReconcileFailed_def emitNetworkPolicyReconcileFailed_def
  emitGatewayBindingReconcileFailed_def emitMCPHandshakeFailed_def emitMCPHandshakeRetriesExhausted_def
  emitCapabilityChangeDetected_def

text \<open>An effect that only informs: an event, an audit record or a metric.\<close>

fun is_notice :: "effect \<Rightarrow> bool" where
  "is_notice (EEvent _ _ _ _) = True"
| "is_notice e = is_report e"

lemma is_notice_report: "is_report e \<Longrightarrow> is_notice e"
  by (cases e) simp_all

lemma emits_events:
  assumes "\<And>e. is_notice e \<Longrightarrow> P e"
  shows "emits P (recordEvent R t r a n)" "emits P (emitConfigurationInvalid R ms r n)" "emits P (emitConfigurationAccepted R ms)" "emits P (emitServerReady R ms)"
    "emits P (emitInsecureTLSWarning R ms)" "emits P (emitHandshakeAuthSkip R ms n)" "emits P (emitWorkloadUnavailable R ms n)"
    "emits P (emitServiceReconcileFailed R ms n)" "emits P (emitNetworkPolicyReconcileFailed R ms n)"
    "emits P (emitGatewayBindingReconcileFailed R ms n)" "emits P (emitMCPHandshakeFailed R ms n)"
    "emits P (emitMCPHandshakeRetriesExhausted R ms c)" "emits P (emitCapabilityChangeDetected R ms n)"
  by (auto simp: event_defs recordEvent_def intro!: emits_rules assms)

section \<open>TLS\<close>

abbreviation VersionTLS12 :: nat where "VersionTLS12 \<equiv> 771"
abbreviation VersionTLS13 :: nat where "VersionTLS13 \<equiv> 772"
abbreviation caBundleKey :: string where "caBundleKey \<equiv> ''ca.crt''"

text \<open>\<open>spec.transport.tls\<close>, or nil.\<close>

definition transportTLS :: "MCPServer \<Rightarrow> TLSClientConfig option" where
  "transportTLS ms = (case spTransport (msSpec ms) of None \<Rightarrow> None | Some t \<Rightarrow> trTLS t)"

definition urlScheme :: "MCPServer \<Rightarrow> string" where
  "urlScheme ms = (case transportTLS ms of None \<Rightarrow> ''http'' | Some t \<Rightarrow> if tlsEnabled t then ''https'' else ''http'')"

text \<open>The client configuration of a cloned default transport after its \<open>TLSClientConfig\<close> is replaced.\<close>

definition tlsTransport :: "bool \<Rightarrow> string option \<Rightarrow> TLSTransport" where
  "tlsTransport insecure roots = \<lparr>ttMinVersion = VersionTLS12, ttInsecureSkipVerify = insecure, ttRootCAs = roots,
     ttCipherSuites = [], ttCurvePreferences = []\<rparr>"

definition buildTLSTransport ::
    "K8sLib \<Rightarrow> 'w Api \<Rightarrow> string \<Rightarrow> TLSClientConfig option \<Rightarrow> ('w, go_error + TLSTransport option) M" where
  "buildTLSTransport K A namespace tlsConfig = (case tlsConfig of
     None \<Rightarrow> State_Monad.return (Inr None)
   | Some cfg \<Rightarrow>
      if \<not> tlsEnabled cfg then State_Monad.return (Inr None)
      else if tlsInsecureSkipVerify cfg then State_Monad.return (Inr (Some (tlsTransport True None)))
      else (case tlsCABundleSecret cfg of
        None \<Rightarrow> State_Monad.return (Inr (Some (tlsTransport False None)))
      | Some ref \<Rightarrow> do {
          r \<leftarrow> call (readSecret A (secrefName ref) namespace);
          State_Monad.return (case r of
             Inl err \<Rightarrow> Inl (Wrap (''fetching CA bundle Secret '' @ goquote (secrefName ref) @ '': '') err)
           | Inr secret \<Rightarrow> (case map_of (secData secret) caBundleKey of
               None \<Rightarrow> Inl (ErrorString (''secret '' @ goquote (secrefName ref) @ '' does not contain key '' @ goquote caBundleKey))
             | Some caPEM \<Rightarrow>
                 if \<not> appendCertsFromPEM K caPEM
                 then Inl (ErrorString (''secret '' @ goquote (secrefName ref) @ '' key '' @ goquote caBundleKey @
                        '' contains no valid PEM certificates''))
                 else Inr (Some (tlsTransport False (Some caPEM)))))
        }))"

definition applyTLSProfileWithFloor :: "TLSTransport \<Rightarrow> (TLSTransport \<Rightarrow> TLSTransport) \<Rightarrow> TLSTransport" where
  "applyTLSProfileWithFloor cfg profile =
     (let floor' = ttMinVersion cfg; cfg' = profile cfg
      in if ttMinVersion cfg' < floor' then cfg'\<lparr>ttMinVersion := floor'\<rparr> else cfg')"

abbreviation serverKey :: "MCPServer \<Rightarrow> string" where
  "serverKey ms \<equiv> srvNamespace ms @ ''/'' @ srvName ms"

definition updateTLSCABundleHash :: "MCPServer \<Rightarrow> string \<Rightarrow> Condition \<Rightarrow> ('w, unit) M" where
  "updateTLSCABundleHash ms hash verifiedCondition =
     (if hash = [] then storeHash (serverKey ms) None
      else if cStatus verifiedCondition = ConditionTrue then storeHash (serverKey ms) (Some hash)
      else State_Monad.return ())"

definition computeTLSCABundleHash :: "K8sLib \<Rightarrow> 'w Api \<Rightarrow> string \<Rightarrow> TLSClientConfig option \<Rightarrow> ('w, string) M" where
  "computeTLSCABundleHash K A namespace tlsConfig = (case tlsConfig of
     None \<Rightarrow> State_Monad.return []
   | Some cfg \<Rightarrow>
      if \<not> tlsEnabled cfg \<or> tlsInsecureSkipVerify cfg then State_Monad.return []
      else (case tlsCABundleSecret cfg of
        None \<Rightarrow> State_Monad.return []
      | Some ref \<Rightarrow> do {
          r \<leftarrow> call (readSecret A (secrefName ref) namespace);
          State_Monad.return (case r of
             Inl err \<Rightarrow> []
           | Inr secret \<Rightarrow> (case map_of (secData secret) caBundleKey of
               None \<Rightarrow> [] | Some caPEM \<Rightarrow> sha256hex K caPEM))
        }))"

section \<open>The handshake\<close>

definition withResult :: "(string \<times> string) list \<Rightarrow> string \<Rightarrow> (string \<times> string) list" where
  "withResult labels result = filter (\<lambda>(k, v). k \<noteq> ''result'') labels @ [(''result'', result)]"

definition metricLabels :: "MCPServer \<Rightarrow> (string \<times> string) list" where
  "metricLabels ms = [(''name'', srvName ms), (''namespace'', srvNamespace ms)]"

definition countHandshake :: "MCPServer \<Rightarrow> string \<Rightarrow> ('w, unit) M" where
  "countHandshake ms result = emit (EMetric ''handshake_total'' (withResult (metricLabels ms) result))"

definition extractServerInfo :: "InitializeResult option \<Rightarrow> MCPServerInfo option" where
  "extractServerInfo res = map_option (\<lambda>r.
     \<lparr>siName = (case irServerInfo r of None \<Rightarrow> [] | Some (n, v) \<Rightarrow> n),
      siVersion = (case irServerInfo r of None \<Rightarrow> [] | Some (n, v) \<Rightarrow> v),
      siProtocolVersion = irProtocolVersion r,
      siInstructions = irInstructions r,
      siCapabilities = map_option (\<lambda>c. \<lparr>capTools = (sdkTools c \<noteq> None), capResources = (sdkResources c \<noteq> None),
        capPrompts = (sdkPrompts c \<noteq> None), capLogging = (sdkLogging c \<noteq> None),
        capCompletions = (sdkCompletions c \<noteq> None)\<rparr>) (irCapabilities r)\<rparr>) res"

text \<open>Connecting is one request to the endpoint; the session is closed again whatever its outcome.\<close>

definition verifyMCPEndpoint :: "'w Api \<Rightarrow> string \<Rightarrow> TLSTransport option \<Rightarrow> ('w, go_error + MCPServerInfo option) M" where
  "verifyMCPEndpoint A url httpTransport = do {
     session \<leftarrow> request (EDial url httpTransport) (dialMCP A url httpTransport);
     State_Monad.return (case session of Inl err \<Rightarrow> Inl err | Inr result \<Rightarrow> Inr (extractServerInfo result))
   }"

definition isHTTPAuthError :: "go_error option \<Rightarrow> bool" where
  "isHTTPAuthError err = (case err of
     None \<Rightarrow> False
   | Some e \<Rightarrow> hasSuffix (errText e) '': Unauthorized'' \<or> hasSuffix (errText e) '': Forbidden'')"

definition zero_serverInfo :: MCPServerInfo where
  "zero_serverInfo = \<lparr>siName = [], siVersion = [], siProtocolVersion = [], siInstructions = [], siCapabilities = None\<rparr>"

abbreviation verifiedPreserving ::
    "K8sLib \<Rightarrow> 'w Api \<Rightarrow> MCPServer \<Rightarrow> ConditionStatus \<Rightarrow> string \<Rightarrow> string \<Rightarrow> ('w, Condition) M" where
  "verifiedPreserving K A ms status reason message \<equiv>
     newConditionPreserving K A ConditionTypeVerified status reason message (srvGeneration ms) (srvConditions ms)"

definition alreadyVerified :: "K8sLib \<Rightarrow> MCPServer \<Rightarrow> string \<Rightarrow> string \<Rightarrow> bool" where
  "alreadyVerified K ms previousHash tlsCABundleHash =
     ((case findStatusCondition K (srvConditions ms) ConditionTypeVerified of
         None \<Rightarrow> False | Some c \<Rightarrow> cStatus c = ConditionTrue)
      \<and> stObservedGeneration (msStatus ms) = srvGeneration ms
      \<and> stServerInfo (msStatus ms) \<noteq> None
      \<and> previousHash = tlsCABundleHash)"

text \<open>The attempt itself: dial, then report what came back.\<close>

definition attemptHandshake ::
    "K8sLib \<Rightarrow> 'w Api \<Rightarrow> Reconciler \<Rightarrow> MCPServer \<Rightarrow> string \<Rightarrow> TLSTransport option
     \<Rightarrow> ('w, Condition \<times> MCPServerInfo option) M" where
  "attemptHandshake K A R ms mcpURL transport = do {
     auditHandshakeAttempt ms mcpURL;
     begun \<leftarrow> call (nowApi A);
     answer \<leftarrow> verifyMCPEndpoint A mcpURL transport;
     ended \<leftarrow> call (nowApi A);
     emit (EMetric ''handshake_duration_seconds'' (metricLabels ms));
     (case answer of
        Inl err \<Rightarrow>
          if isHTTPAuthError (Some err)
          then do {
            countHandshake ms ''auth_skip'';
            auditHandshakeAuthSkip ms mcpURL err;
            emitHandshakeAuthSkip R ms mcpURL;
            c \<leftarrow> verifiedPreserving K A ms ConditionTrue ReasonAuthSkipped
                  ''Endpoint reachable but MCP protocol not verified: requires authentication'';
            State_Monad.return (c, Some zero_serverInfo)
          }
          else do {
            countHandshake ms ''failure'';
            auditHandshakeFailed ms mcpURL err (ended - begun);
            c \<leftarrow> newCondition A ConditionTypeVerified ConditionFalse ReasonEndpointUnavailable
                  (''MCP endpoint is not serving a valid MCP protocol: '' @ errText err) (srvGeneration ms);
            State_Monad.return
              (if (case findStatusCondition K (srvConditions ms) ConditionTypeVerified of
                     None \<Rightarrow> True | Some old \<Rightarrow> cStatus old \<noteq> ConditionTrue)
               then preserveLastTransitionTime K c (srvConditions ms) else c, None)
          }
      | Inr info \<Rightarrow> do {
          countHandshake ms ''success'';
          auditHandshakeSuccess ms mcpURL info (ended - begun);
          c \<leftarrow> verifiedPreserving K A ms ConditionTrue ReasonVerified ''MCP handshake succeeded'';
          State_Monad.return (c, info)
        })
   }"

definition handshakeTransport ::
    "K8sLib \<Rightarrow> 'w Api \<Rightarrow> Reconciler \<Rightarrow> MCPServer \<Rightarrow> ('w, go_error + TLSTransport option) M" where
  "handshakeTransport K A R ms = (case transportTLS ms of
     None \<Rightarrow> State_Monad.return (Inr None)
   | Some tls \<Rightarrow> do {
       (if tlsEnabled tls \<and> tlsInsecureSkipVerify tls then emitInsecureTLSWarning R ms else State_Monad.return ());
       r \<leftarrow> buildTLSTransport K A (srvNamespace ms) (Some tls);
       State_Monad.return (case r of
          Inl err \<Rightarrow> Inl err
        | Inr None \<Rightarrow> Inr None
        | Inr (Some t) \<Rightarrow> Inr (Some (case rTLSProfile R of None \<Rightarrow> t | Some p \<Rightarrow> applyTLSProfileWithFloor t p)))
     })"

definition reconcileHandshake ::
    "K8sLib \<Rightarrow> 'w Api \<Rightarrow> Reconciler \<Rightarrow> MCPServer \<Rightarrow> string \<Rightarrow> Condition \<Rightarrow> string
     \<Rightarrow> ('w, Condition \<times> MCPServerInfo option) M" where
  "reconcileHandshake K A R ms mcpURL availableCondition tlsCABundleHash = do {
     h \<leftarrow> loadHash (serverKey ms);
     (if cStatus availableCondition \<noteq> ConditionTrue \<or> cReason availableCondition \<noteq> ReasonAvailable
      then do {
        c \<leftarrow> newNotVerifiedCondition K A (srvGeneration ms) (srvConditions ms);
        State_Monad.return (c, None)
      }
      else if alreadyVerified K ms (case h of None \<Rightarrow> [] | Some v \<Rightarrow> v) tlsCABundleHash
      then do {
        countHandshake ms ''skip'';
        State_Monad.return (the (findStatusCondition K (srvConditions ms) ConditionTypeVerified), stServerInfo (msStatus ms))
      }
      else do {
        transport \<leftarrow> handshakeTransport K A R ms;
        (case transport of
           Inl tlsErr \<Rightarrow> do {
             countHandshake ms ''failure'';
             c \<leftarrow> verifiedPreserving K A ms ConditionFalse ReasonEndpointUnavailable
                   (''TLS configuration error: '' @ errText tlsErr);
             State_Monad.return (c, None)
           }
         | Inr t \<Rightarrow> attemptHandshake K A R ms mcpURL t)
      })
   }"

section \<open>Retries\<close>

text \<open>\<open>ctrl.Result\<close>; a duration is in nanoseconds, zero is no requeue.\<close>

record Result =
  requeueAfter :: int

abbreviation noRequeue :: Result where "noRequeue \<equiv> \<lparr>requeueAfter = 0\<rparr>"

definition second :: int where "second = 1000000000"
definition requeueDelayConflict :: int where "requeueDelayConflict = 1 * second"
definition requeueDelayMCPHandshake :: int where "requeueDelayMCPHandshake = 10 * second"
definition maxRequeueDelayMCPHandshake :: int where "maxRequeueDelayMCPHandshake = 2 * 60 * second"
definition maxMCPHandshakeRetries :: int where "maxMCPHandshakeRetries = 10"

fun backoffLoop :: "nat \<Rightarrow> int \<Rightarrow> int" where
  "backoffLoop 0 delay = delay"
| "backoffLoop (Suc n) delay =
     (if delay * 2 > maxRequeueDelayMCPHandshake then maxRequeueDelayMCPHandshake else backoffLoop n (delay * 2))"

definition mcpHandshakeBackoff :: "int \<Rightarrow> int" where
  "mcpHandshakeBackoff retryCount = backoffLoop (nat retryCount) requeueDelayMCPHandshake"

definition handshakeRequeue :: "MCPServer \<Rightarrow> Condition \<Rightarrow> int \<Rightarrow> ('w, Result \<times> bool) M" where
  "handshakeRequeue ms verifiedCondition retryCount =
     (if cStatus verifiedCondition \<noteq> ConditionFalse \<or> cReason verifiedCondition \<noteq> ReasonEndpointUnavailable
      then State_Monad.return (noRequeue, False)
      else if retryCount \<ge> maxMCPHandshakeRetries
      then do {
        auditHandshakeRetriesExhausted ms retryCount maxMCPHandshakeRetries;
        State_Monad.return (noRequeue, True)
      }
      else State_Monad.return (\<lparr>requeueAfter = mcpHandshakeBackoff (retryCount - 1)\<rparr>, True))"

definition exhaustedMessage :: "string \<Rightarrow> string" where
  "exhaustedMessage baseMessage = baseMessage @ '' Automatic retries exhausted after '' @ itoa maxMCPHandshakeRetries @
     '' attempts; not retrying until the spec or CA bundle changes.''"

text \<open>The condition is passed by pointer: the possibly changed condition is returned with the count.\<close>

definition reconcileHandshakeEventsAndRetryCount ::
    "K8sLib \<Rightarrow> Reconciler \<Rightarrow> MCPServer \<Rightarrow> Condition \<Rightarrow> ('w, 32 word \<times> Condition) M" where
  "reconcileHandshakeEventsAndRetryCount K R ms verifiedCondition =
     (if cReason verifiedCondition \<noteq> ReasonEndpointUnavailable
      then do {
        storeRetry (serverKey ms) None;
        State_Monad.return (0, verifiedCondition)
      }
      else do {
        v \<leftarrow> loadRetry (serverKey ms);
        let loaded = (case v of None \<Rightarrow> \<lparr>hrsGeneration = 0, hrsCount = 0\<rparr> | Some st \<Rightarrow> st);
        let prev = (if hrsGeneration loaded \<noteq> srvGeneration ms
                    then \<lparr>hrsGeneration = srvGeneration ms, hrsCount = 0\<rparr> else loaded);
        let next = \<lparr>hrsGeneration = srvGeneration ms, hrsCount = hrsCount prev + 1\<rparr>;
        storeRetry (serverKey ms) (Some next);
        let message = (if sint (hrsCount next) \<ge> maxMCPHandshakeRetries
                       then exhaustedMessage (cMessage verifiedCondition) else cMessage verifiedCondition);
        (if \<not> duplicateHandshakeUnavailable K (srvConditions ms) message
         then emitMCPHandshakeFailed R ms (cMessage verifiedCondition) else State_Monad.return ());
        (if sint (hrsCount next) \<ge> maxMCPHandshakeRetries \<and> sint (hrsCount prev) < maxMCPHandshakeRetries
         then emitMCPHandshakeRetriesExhausted R ms (hrsCount next) else State_Monad.return ());
        State_Monad.return (hrsCount next, verifiedCondition\<lparr>cMessage := message\<rparr>)
      })"

section \<open>Capabilities\<close>

definition capsOf :: "MCPServerCapabilities option \<Rightarrow> MCPServerCapabilities" where
  "capsOf c = (case c of None \<Rightarrow> \<lparr>capTools = False, capResources = False, capPrompts = False, capLogging = False, capCompletions = False\<rparr>
     | Some x \<Rightarrow> x)"

definition capDiff :: "string \<Rightarrow> bool \<Rightarrow> bool \<Rightarrow> string list" where
  "capDiff name old new = (if old \<noteq> new then [name @ '': '' @ btoa old @ ''->'' @ btoa new] else [])"

definition capabilityDiffMessage :: "MCPServerCapabilities option \<Rightarrow> MCPServerCapabilities option \<Rightarrow> string" where
  "capabilityDiffMessage old new =
     (let oldCaps = capsOf old; newCaps = capsOf new
      in joinWith '', '' (capDiff ''tools'' (capTools oldCaps) (capTools newCaps)
           @ capDiff ''resources'' (capResources oldCaps) (capResources newCaps)
           @ capDiff ''prompts'' (capPrompts oldCaps) (capPrompts newCaps)
           @ capDiff ''logging'' (capLogging oldCaps) (capLogging newCaps)
           @ capDiff ''completions'' (capCompletions oldCaps) (capCompletions newCaps)))"

definition capabilityChangeMessage :: "MCPServer \<Rightarrow> MCPServerInfo option \<Rightarrow> string" where
  "capabilityChangeMessage ms serverInfo = (case (serverInfo, stServerInfo (msStatus ms)) of
     (Some new, Some old) \<Rightarrow>
       if siCapabilities new = None \<and> siCapabilities old = None then []
       else capabilityDiffMessage (siCapabilities old) (siCapabilities new)
   | _ \<Rightarrow> [])"


section \<open>Backoff\<close>

lemma backoffLoop_closed:
  "0 < d \<Longrightarrow> d \<le> maxRequeueDelayMCPHandshake \<Longrightarrow> backoffLoop n d = min (d * 2 ^ n) maxRequeueDelayMCPHandshake"
proof (induction n arbitrary: d)
  case (Suc n)
  show ?case
  proof (cases "d * 2 > maxRequeueDelayMCPHandshake")
    case True
    have "d * 2 \<le> d * 2 ^ Suc n" using Suc(2) by simp
    with True show ?thesis by simp
  next
    case False
    with Suc(1)[of "d * 2"] Suc(2) show ?thesis by (simp add: mult.assoc)
  qed
qed simp

lemmas delay_defs = second_def requeueDelayMCPHandshake_def maxRequeueDelayMCPHandshake_def

text \<open>
  The delay before retry \<open>n\<close> of a failed handshake doubles from ten seconds and is capped at two minutes; it is at
  least ten seconds and fits a 64-bit duration.
\<close>

lemma handshake_backoff_closed:
  "mcpHandshakeBackoff n = min (10 * second * 2 ^ nat n) (120 * second)
   \<and> 10 * second \<le> mcpHandshakeBackoff n \<and> mcpHandshakeBackoff n < 2 ^ 63"
proof -
  have eq: "mcpHandshakeBackoff n = min (10 * second * 2 ^ nat n) (120 * second)"
    by (simp add: mcpHandshakeBackoff_def backoffLoop_closed delay_defs)
  have "(1::int) \<le> 2 ^ nat n" by simp
  then have "10 * second \<le> 10 * second * 2 ^ nat n" by (simp add: second_def)
  with eq show ?thesis by (simp add: second_def)
qed

section \<open>The retry machine\<close>

text \<open>The failures counted so far for the current generation.\<close>

definition attempts :: "MCPServer \<Rightarrow> 'w rstate \<Rightarrow> 32 word" where
  "attempts ms s = (case handshakeRetries s (serverKey ms) of
     None \<Rightarrow> 0 | Some st \<Rightarrow> if hrsGeneration st = srvGeneration ms then hrsCount st else 0)"

definition is_exhausted :: "effect \<Rightarrow> bool" where
  "is_exhausted e = (case e of EEvent t r action n \<Rightarrow> action = ''MCPHandshakeRetriesExhausted'' | _ \<Rightarrow> False)"

lemma is_exhausted_simps [simp]:
  "is_exhausted (EEvent t r a n) = (a = ''MCPHandshakeRetriesExhausted'')" "\<not> is_exhausted (EAudit op fs)"
  by (simp_all add: is_exhausted_def)

lemma recordEvent_run:
  "run_state (recordEvent R t r a n) s = ((), s\<lparr>trace := trace s @ (if rHasRecorder R then [EEvent t r a n] else [])\<rparr>)"
  by (simp add: recordEvent_def run_ops)

definition failedNotes :: "K8sLib \<Rightarrow> Reconciler \<Rightarrow> MCPServer \<Rightarrow> string \<Rightarrow> string \<Rightarrow> effect list" where
  "failedNotes K R ms message base = (if \<not> duplicateHandshakeUnavailable K (srvConditions ms) message \<and> rHasRecorder R
     then [EEvent EventTypeWarning ReasonEndpointUnavailable ''MCPHandshakeFailed''
             (''MCP handshake failed for MCPServer '' @ srvName ms @ '': '' @ base)] else [])"

definition exhaustedNotes :: "Reconciler \<Rightarrow> MCPServer \<Rightarrow> 32 word \<Rightarrow> 32 word \<Rightarrow> effect list" where
  "exhaustedNotes R ms old new = (if sint new \<ge> maxMCPHandshakeRetries \<and> sint old < maxMCPHandshakeRetries \<and> rHasRecorder R
     then [EEvent EventTypeWarning ReasonEndpointUnavailable ''MCPHandshakeRetriesExhausted''
            (''MCP handshake retries exhausted for MCPServer '' @ srvName ms @ '' after '' @
             itoa (sint new) @ '' attempts; fix the MCP endpoint or update spec to retry'')] else [])"

lemma notes_exhausted:
  "filter is_exhausted (failedNotes K R ms m b) = []"
  "length (filter is_exhausted (exhaustedNotes R ms old new)) =
     (if rHasRecorder R \<and> sint new \<ge> maxMCPHandshakeRetries \<and> sint old < maxMCPHandshakeRetries then 1 else 0)"
  "\<not> sint new \<ge> maxMCPHandshakeRetries \<or> \<not> sint old < maxMCPHandshakeRetries \<Longrightarrow> exhaustedNotes R ms old new = []"
  by (auto simp: failedNotes_def exhaustedNotes_def is_exhausted_def)

lemma notes_run:
  "run_state (if \<not> duplicateHandshakeUnavailable K (srvConditions ms) m then emitMCPHandshakeFailed R ms b else State_Monad.return ()) s
     = ((), s\<lparr>trace := trace s @ failedNotes K R ms m b\<rparr>)"
  "run_state (if sint new \<ge> maxMCPHandshakeRetries \<and> sint old < maxMCPHandshakeRetries
       then emitMCPHandshakeRetriesExhausted R ms new else State_Monad.return ()) s
     = ((), s\<lparr>trace := trace s @ exhaustedNotes R ms old new\<rparr>)"
  by (simp_all add: failedNotes_def exhaustedNotes_def emitMCPHandshakeFailed_def emitMCPHandshakeRetriesExhausted_def recordEvent_run)

lemma prev_count:
  "(let loaded = (case v of None \<Rightarrow> \<lparr>hrsGeneration = 0, hrsCount = 0\<rparr> | Some st \<Rightarrow> st)
    in if hrsGeneration loaded \<noteq> g then \<lparr>hrsGeneration = g, hrsCount = 0\<rparr> else loaded)
   = \<lparr>hrsGeneration = g, hrsCount = (case v of None \<Rightarrow> 0 | Some st \<Rightarrow> if hrsGeneration st = g then hrsCount st else 0)\<rparr>"
  by (auto simp: Let_def split: option.split)

lemma failed_round:
  assumes "cReason c = ReasonEndpointUnavailable"
    and n: "n = attempts ms s + 1"
    and m: "m = (if sint n \<ge> maxMCPHandshakeRetries then exhaustedMessage (cMessage c) else cMessage c)"
  shows "run_state (reconcileHandshakeEventsAndRetryCount K R ms c) s =
     ((n, c\<lparr>cMessage := m\<rparr>),
      s\<lparr>handshakeRetries := (handshakeRetries s)(serverKey ms \<mapsto> \<lparr>hrsGeneration = srvGeneration ms, hrsCount = n\<rparr>),
        trace := trace s @ failedNotes K R ms m (cMessage c) @ exhaustedNotes R ms (attempts ms s) n\<rparr>)"
  using assms(1) prev_count[of "handshakeRetries s (serverKey ms)" "srvGeneration ms"]
  unfolding reconcileHandshakeEventsAndRetryCount_def n m attempts_def
  by (simp add: run_retry_hash notes_run Let_def)
     (simp add: exhaustedNotes_def emitMCPHandshakeRetriesExhausted_def recordEvent_run)

text \<open>A reconcile that ends in a failed handshake: count it, then decide on the requeue.\<close>

definition failedReconcile :: "K8sLib \<Rightarrow> Reconciler \<Rightarrow> MCPServer \<times> Condition \<Rightarrow> ('w, Result) M" where
  "failedReconcile K R mc = do {
     (count, c) \<leftarrow> reconcileHandshakeEventsAndRetryCount K R (fst mc) (snd mc);
     (result, requeue) \<leftarrow> handshakeRequeue (fst mc) c (sint count);
     State_Monad.return result
   }"

fun failedReconciles :: "K8sLib \<Rightarrow> Reconciler \<Rightarrow> (MCPServer \<times> Condition) list \<Rightarrow> ('w, Result list) M" where
  "failedReconciles K R [] = State_Monad.return []"
| "failedReconciles K R (mc # mcs) = do {
     r \<leftarrow> failedReconcile K R mc;
     rs \<leftarrow> failedReconciles K R mcs;
     State_Monad.return (r # rs)
   }"

definition failing :: "string \<Rightarrow> int \<Rightarrow> MCPServer \<times> Condition \<Rightarrow> bool" where
  "failing key generation mc \<longleftrightarrow> serverKey (fst mc) = key \<and> srvGeneration (fst mc) = generation
     \<and> cStatus (snd mc) = ConditionFalse \<and> cReason (snd mc) = ReasonEndpointUnavailable"

text \<open>What the operator does after failure \<open>n\<close>: wait, or from the tenth on, stop.\<close>

definition retryResult :: "nat \<Rightarrow> Result" where
  "retryResult n = \<lparr>requeueAfter = if n \<ge> 10 then 0 else min (10 * second * 2 ^ (n - 1)) (120 * second)\<rparr>"

definition attemptsAt :: "string \<Rightarrow> int \<Rightarrow> 'w rstate \<Rightarrow> 32 word" where
  "attemptsAt key generation s = (case handshakeRetries s key of
     None \<Rightarrow> 0 | Some st \<Rightarrow> if hrsGeneration st = generation then hrsCount st else 0)"

lemma attempts_at: "failing key g (ms, c) \<Longrightarrow> attempts ms s = attemptsAt key g s"
  by (auto simp: attempts_def attemptsAt_def failing_def)

lemma sint_small: "n < 2 ^ 31 \<Longrightarrow> sint (of_nat n :: 32 word) = int n"
  by (simp add: signed_of_nat signed_take_bit_int_eq_self)

lemma failedReconcile_run:
  assumes f: "failing key g mc" and n: "attemptsAt key g s = of_nat n" "Suc n < 2 ^ 31"
  shows "\<exists>es s'. run_state (failedReconcile K R mc) s = (retryResult (Suc n), s')
     \<and> attemptsAt key g s' = of_nat (Suc n) \<and> trace s' = trace s @ es
     \<and> length (filter is_exhausted es) = (if rHasRecorder R \<and> n = 9 then 1 else 0)"
proof -
  obtain ms c where mc: "mc = (ms, c)" by fastforce
  have a: "attempts ms s = of_nat n" using attempts_at[of key g ms c s] f n(1) by (simp add: mc)
  have i: "sint (word_of_nat n + 1 :: 32 word) = 1 + int n" "sint (word_of_nat n :: 32 word) = int n"
    using sint_small[of "Suc n"] sint_small[of n] n(2) by (simp_all add: add.commute)
  have b: "mcpHandshakeBackoff (int n) = min (10 * second * 2 ^ n) (120 * second)"
    by (simp add: mcpHandshakeBackoff_def backoffLoop_closed delay_defs)
  have r: "cReason c = ReasonEndpointUnavailable" "cStatus c = ConditionFalse" and k: "key = serverKey ms" "g = srvGeneration ms"
    using f by (simp_all add: mc failing_def)
  show ?thesis
    by (cases "n \<ge> 9")
       (simp_all add: mc failedReconcile_def handshakeRequeue_def failed_round[OF r(1) refl refl] r k a i b retryResult_def attemptsAt_def
          maxMCPHandshakeRetries_def audit_defs run_ops notes_exhausted)
qed

lemma failedReconciles_run:
  assumes "list_all (failing key g) mcs" "attemptsAt key g s = of_nat n" "n + length mcs < 2 ^ 31"
  shows "\<exists>es s'. run_state (failedReconciles K R mcs) s = (map retryResult [Suc n ..< Suc (n + length mcs)], s')
     \<and> trace s' = trace s @ es
     \<and> length (filter is_exhausted es) = (if rHasRecorder R \<and> n < 10 \<and> 10 \<le> n + length mcs then 1 else 0)"
  using assms
proof (induction mcs arbitrary: n s)
  case (Cons mc mcs)
  from Cons.prems failedReconcile_run[of key g mc s n K R] obtain es s1 where
    1: "run_state (failedReconcile K R mc) s = (retryResult (Suc n), s1)" "attemptsAt key g s1 = of_nat (Suc n)"
      "trace s1 = trace s @ es" "length (filter is_exhausted es) = (if rHasRecorder R \<and> n = 9 then 1 else 0)"
    by auto
  from Cons.prems Cons.IH[OF _ 1(2)] obtain fs s2 where
    2: "run_state (failedReconciles K R mcs) s1 = (map retryResult [Suc (Suc n) ..< Suc (Suc n + length mcs)], s2)"
      "trace s2 = trace s1 @ fs"
      "length (filter is_exhausted fs) = (if rHasRecorder R \<and> Suc n < 10 \<and> 10 \<le> Suc n + length mcs then 1 else 0)"
    by auto
  have "[Suc n ..< Suc (n + length (mc # mcs))] = Suc n # [Suc (Suc n) ..< Suc (Suc n + length mcs)]"
    by (simp add: upt_conv_Cons del: upt_Suc)
  with 1 2 show ?case by (intro exI[of _ "es @ fs"]) (auto simp del: upt_Suc)
qed simp

text \<open>
  C9: automatic retries end. Over any number of failed handshakes of one generation of a server (below the range of the
  32-bit counter), the operator waits 10, 20, 40, 80 and then 120 seconds before each retry and stops requeuing from the tenth
  failure on; the event that says so is sent exactly once, at the tenth failure.
\<close>

theorem handshake_retries_end:
  assumes "list_all (failing key generation) mcs" "attemptsAt key generation s = 0" "length mcs < 2 ^ 31" "rHasRecorder R"
  shows "\<exists>es s'. run_state (failedReconciles K R mcs) s = (map retryResult [1 ..< Suc (length mcs)], s')
     \<and> trace s' = trace s @ es
     \<and> length (filter is_exhausted es) = (if 10 \<le> length mcs then 1 else 0)"
  using failedReconciles_run[of key generation mcs s 0 K R] assms by simp


definition failed_condition :: Condition where
  "failed_condition = \<lparr>cType = ConditionTypeVerified, cStatus = ConditionFalse, cReason = ReasonEndpointUnavailable, cMessage = ''x'',
     cObservedGeneration = 0, cLastTransitionTime = 0\<rparr>"

theorem handshake_retries_end_witness:
  "\<exists>es s'. run_state (failedReconciles sample_lib sample_reconciler (replicate 12 (zero_server, failed_condition))) start_state
       = (map retryResult [1 ..< 13], s')
     \<and> trace s' = es \<and> length (filter is_exhausted es) = 1 \<and> requeueAfter (retryResult 12) = 0"
  using handshake_retries_end[of "''/''" 0 "replicate 12 (zero_server, failed_condition)" start_state sample_reconciler sample_lib]
  by (simp add: list_all_length failing_def zero_defs failed_condition_def attemptsAt_def sample_reconciler_def retryResult_def del: upt_Suc)

section \<open>What a verdict rests on\<close>

lemma condition_run:
  "run_state (newCondition A ty st r m g) s = (c, s') \<Longrightarrow>
   cType c = ty \<and> cStatus c = st \<and> cReason c = r \<and> cMessage c = m \<and> cObservedGeneration c = g \<and> (\<exists>w. s' = s\<lparr>world := w\<rparr>)"
  "run_state (newConditionPreserving K A ty st r m g ex) s = (c, s') \<Longrightarrow>
   cType c = ty \<and> cStatus c = st \<and> cReason c = r \<and> cMessage c = m \<and> cObservedGeneration c = g \<and> (\<exists>w. s' = s\<lparr>world := w\<rparr>)"
  by (auto simp: newConditionPreserving_def newCondition_def preserveLastTransitionTime_def run_ops Let_def
      split: prod.splits option.splits if_splits)

lemma preserve_same:
  "cType (preserveLastTransitionTime K c ex) = cType c" "cStatus (preserveLastTransitionTime K c ex) = cStatus c"
  "cReason (preserveLastTransitionTime K c ex) = cReason c" "cObservedGeneration (preserveLastTransitionTime K c ex) = cObservedGeneration c"
  "cMessage (preserveLastTransitionTime K c ex) = cMessage c"
  by (simp_all add: preserveLastTransitionTime_def split: option.split)

text \<open>Status and reason that an answer of the endpoint stands for.\<close>

definition verdict :: "go_error + 'a \<Rightarrow> ConditionStatus \<times> string" where
  "verdict answer = (case answer of
     Inr _ \<Rightarrow> (ConditionTrue, ReasonVerified)
   | Inl e \<Rightarrow> if isHTTPAuthError (Some e) then (ConditionTrue, ReasonAuthSkipped) else (ConditionFalse, ReasonEndpointUnavailable))"

lemma audit_run: "run_state (audit ms op fs) s = ((), s\<lparr>trace := trace s @ [EAudit op (auditFields ms @ fs)]\<rparr>)"
  by (simp add: audit_def run_ops)

lemma attempt_run:
  assumes "run_state (attemptHandshake K A R ms url t) s = ((c, info), s')"
  shows "\<exists>answer w w'. dialMCP A url t w = (answer, w') \<and> EDial url t \<in> set (trace s')
     \<and> cType c = ConditionTypeVerified \<and> (cStatus c, cReason c) = verdict answer \<and> cObservedGeneration c = srvGeneration ms
     \<and> (case answer of Inr r \<Rightarrow> info = extractServerInfo r | Inl e \<Rightarrow> info = (if isHTTPAuthError (Some e) then Some zero_serverInfo else None))"
proof -
  obtain t0 w0 where now: "nowApi A (world s) = (t0, w0)" by fastforce
  obtain answer w1 where dial: "dialMCP A url t w0 = (answer, w1)" by fastforce
  have "EDial url t \<in> set (trace s') \<and> cType c = ConditionTypeVerified \<and> (cStatus c, cReason c) = verdict answer \<and> cObservedGeneration c = srvGeneration ms
     \<and> (case answer of Inr r \<Rightarrow> info = extractServerInfo r | Inl e \<Rightarrow> info = (if isHTTPAuthError (Some e) then Some zero_serverInfo else None))"
    using assms
    by (cases answer)
       (auto simp: attemptHandshake_def verifyMCPEndpoint_def request_def run_call run_emit now dial audit_run verdict_def
          auditHandshakeAttempt_def auditHandshakeSuccess_def auditHandshakeFailed_def auditHandshakeAuthSkip_def countHandshake_def
          emitHandshakeAuthSkip_def recordEvent_run preserve_same split: prod.splits if_splits dest!: condition_run)
  with dial show ?thesis by blast
qed

text \<open>
  C5: a server is reported verified only on evidence. If the handshake step returns \<open>Verified=True\<close>, the workload is
  available (and not scaled to zero), and either this generation was verified before with the same CA bundle and nothing is dialled, or the
  operator dialled the server's URL in this very run and the endpoint completed the handshake or asked for
  authentication, which the reason tells apart.
\<close>

theorem verified_needs_evidence:
  assumes "find_law K" "run_state (reconcileHandshake K A R ms url available hash) s = ((c, info), s')"
    and "cStatus c = ConditionTrue"
  shows "cStatus available = ConditionTrue \<and> cReason available = ReasonAvailable \<and> cType c = ConditionTypeVerified
     \<and> (c \<in> set (srvConditions ms) \<and> stObservedGeneration (msStatus ms) = srvGeneration ms
          \<and> hash = (case tlsCABundleHashes s (serverKey ms) of None \<Rightarrow> [] | Some h \<Rightarrow> h)
        \<or> (\<exists>t answer w w'. EDial url t \<in> set (trace s') \<and> dialMCP A url t w = (answer, w')
             \<and> cObservedGeneration c = srvGeneration ms
             \<and> (case answer of Inr _ \<Rightarrow> cReason c = ReasonVerified
                | Inl e \<Rightarrow> cReason c = ReasonAuthSkipped \<and> isHTTPAuthError (Some e))))"
proof -
  let ?prev = "case tlsCABundleHashes s (serverKey ms) of None \<Rightarrow> [] | Some h \<Rightarrow> h"
  have av: "\<not> (cStatus available \<noteq> ConditionTrue \<or> cReason available \<noteq> ReasonAvailable)"
  proof
    assume "cStatus available \<noteq> ConditionTrue \<or> cReason available \<noteq> ReasonAvailable"
    with assms(2,3) show False
      by (simp only: reconcileHandshake_def if_True) (auto simp: run_retry_hash newNotVerifiedCondition_def split: prod.splits if_splits dest!: condition_run)
  qed
  show ?thesis
  proof (cases "alreadyVerified K ms ?prev hash")
    case True
    then obtain old where old: "List.find (\<lambda>c. cType c = ConditionTypeVerified) (srvConditions ms) = Some old"
      using assms(1) by (auto simp: alreadyVerified_def find_law_def split: option.splits)
    moreover have "c = old" "stObservedGeneration (msStatus ms) = srvGeneration ms" "hash = ?prev"
      using True assms(1,2) av old
      by (auto simp: reconcileHandshake_def run_retry_hash countHandshake_def run_emit find_law_def alreadyVerified_def)
    ultimately show ?thesis using av by (auto simp: find_Some_iff)
  next
    case False
    obtain r s1 where tr: "run_state (handshakeTransport K A R ms) s = (r, s1)" by fastforce
    show ?thesis
    proof (cases r)
      case (Inl e)
      then show ?thesis using assms(2,3) av False
        by (auto simp: reconcileHandshake_def run_retry_hash tr countHandshake_def run_emit split: prod.splits dest!: condition_run)
    next
      case (Inr t)
      then have "run_state (attemptHandshake K A R ms url t) s1 = ((c, info), s')"
        using assms(2) av False by (simp add: reconcileHandshake_def run_retry_hash tr)
      from attempt_run[OF this] assms(3) av show ?thesis by (fastforce simp: verdict_def split: sum.splits if_splits)
    qed
  qed
qed


definition available_condition :: Condition where
  "available_condition = \<lparr>cType = ConditionTypeAvailable, cStatus = ConditionTrue, cReason = ReasonAvailable, cMessage = [],
     cObservedGeneration = 0, cLastTransitionTime = 0\<rparr>"

theorem verified_needs_evidence_witness:
  "case run_state (reconcileHandshake sample_lib sample_api sample_reconciler zero_server ''http://s'' available_condition []) start_state of
     ((c, info), s') \<Rightarrow> cStatus c = ConditionTrue \<and> (\<exists>t. EDial ''http://s'' t \<in> set (trace s'))"
proof -
  obtain c info s' where run: "run_state (reconcileHandshake sample_lib sample_api sample_reconciler zero_server ''http://s''
      available_condition []) start_state = ((c, info), s')" by (metis prod.exhaust)
  have "cStatus (fst (fst (run_state (reconcileHandshake sample_lib sample_api sample_reconciler zero_server ''http://s''
      available_condition []) start_state))) = ConditionTrue" by code_simp
  then have "cStatus c = ConditionTrue" by (simp add: run)
  with verified_needs_evidence[OF sample_lib_laws(1) run this] show ?thesis unfolding run by (auto simp: zero_defs)
qed

section \<open>What the operator dials\<close>

text \<open>
  The interface of the operator-wide TLS profile: it may choose versions, cipher suites and groups, never whether and against
  which roots a certificate is verified. The operator puts its own floor under the version.
\<close>

locale tls_profile =
  fixes profile :: "(TLSTransport \<Rightarrow> TLSTransport) option"
  assumes keeps_verification: "profile = Some p \<Longrightarrow>
    ttInsecureSkipVerify (p t) = ttInsecureSkipVerify t \<and> ttRootCAs (p t) = ttRootCAs t"
begin

lemma floored:
  assumes "profile = Some p"
  shows "ttMinVersion t \<le> ttMinVersion (applyTLSProfileWithFloor t p)
    \<and> ttInsecureSkipVerify (applyTLSProfileWithFloor t p) = ttInsecureSkipVerify t
    \<and> ttRootCAs (applyTLSProfileWithFloor t p) = ttRootCAs t"
  using keeps_verification[OF assms, of t] by (simp add: applyTLSProfileWithFloor_def Let_def)

end

text \<open>The transport that a server's TLS settings call for.\<close>

definition dial_ok :: "TLSClientConfig option \<Rightarrow> TLSTransport option \<Rightarrow> bool" where
  "dial_ok tls transport = (case tls of
     None \<Rightarrow> transport = None
   | Some cfg \<Rightarrow>
       if \<not> tlsEnabled cfg then transport = None
       else (case transport of None \<Rightarrow> False
         | Some t \<Rightarrow> ttMinVersion t \<ge> VersionTLS12 \<and> ttInsecureSkipVerify t = tlsInsecureSkipVerify cfg
             \<and> ((ttRootCAs t \<noteq> None) = (\<not> tlsInsecureSkipVerify cfg \<and> tlsCABundleSecret cfg \<noteq> None))))"

fun handshake_guard :: "MCPServer \<Rightarrow> string \<Rightarrow> effect \<Rightarrow> bool" where
  "handshake_guard ms url (EDial u t) = (u = url \<and> dial_ok (transportTLS ms) t)"
| "handshake_guard ms url e = is_notice e"

lemma handshake_guard_notice: "is_notice e \<Longrightarrow> handshake_guard ms url e"
  by (cases e) auto

lemma handshake_guard_report: "is_report e \<Longrightarrow> handshake_guard ms url e"
  by (rule handshake_guard_notice[OF is_notice_report])

lemma buildTLSTransport_value:
  "valid (\<lambda>_. True) (buildTLSTransport K A ns (Some cfg)) (\<lambda>r _. \<forall>t. r = Inr t \<longrightarrow> dial_ok (Some cfg) t)"
  unfolding buildTLSTransport_def option.case
  by (cases "tlsEnabled cfg"; cases "tlsInsecureSkipVerify cfg"; cases "tlsCABundleSecret cfg")
     (auto simp: valid_def dial_ok_def tlsTransport_def run_ops split: prod.splits option.splits sum.splits if_splits)

lemma handshakeTransport_value:
  assumes "tls_profile (rTLSProfile R)"
  shows "valid (\<lambda>_. True) (handshakeTransport K A R ms) (\<lambda>r _. \<forall>t. r = Inr t \<longrightarrow> dial_ok (transportTLS ms) t)"
proof (cases "transportTLS ms")
  case (Some cfg)
  have prof: "dial_ok (Some cfg) (Some (applyTLSProfileWithFloor t p))" if "rTLSProfile R = Some p" "dial_ok (Some cfg) (Some t)" for t p
    using tls_profile.floored[OF assms that(1), of t] that(2) by (auto simp: dial_ok_def split: if_splits)
  show ?thesis
    unfolding handshakeTransport_def Some option.case
    by (rule valid_bind[where R = "\<lambda>_ _. True"], rule valid_bind[OF _ buildTLSTransport_value])
       (auto simp: valid_def prof split: sum.splits option.splits prod.splits)
qed (simp add: handshakeTransport_def dial_ok_def valid_def)

lemma handshakeTransport_emits: "(\<And>e. is_notice e \<Longrightarrow> P e) \<Longrightarrow> emits P (handshakeTransport K A R ms)"
  unfolding handshakeTransport_def buildTLSTransport_def
  by (auto intro!: emits_rules emits_events split: option.split)

lemma newCondition_emits: "emits P (newCondition A ty st r m g)" "emits P (newConditionPreserving K A ty st r m g ex)"
    "emits P (newNotVerifiedCondition K A g ex)" "emits P (newAvailableCondition K A st r m g ex)"
    "emits P (policyEnforcedCondition K A R g ex)"
  by (auto simp: newConditionPreserving_def newCondition_def newNotVerifiedCondition_def newAvailableCondition_def policyEnforcedCondition_def
      intro!: emits_rules)

lemma attemptHandshake_emits:
  "dial_ok (transportTLS ms) t \<Longrightarrow> emits (handshake_guard ms url) (attemptHandshake K A R ms url t)"
  unfolding attemptHandshake_def verifyMCPEndpoint_def countHandshake_def
  by (auto intro!: emits_rules newCondition_emits emits_events[OF handshake_guard_notice] emits_audit[OF handshake_guard_report] split: sum.split)

lemma reconcileHandshake_emits:
  assumes "tls_profile (rTLSProfile R)"
  shows "emits (handshake_guard ms url) (reconcileHandshake K A R ms url available hash)"
proof -
  have dialled: "emits (handshake_guard ms url) (handshakeTransport K A R ms \<bind> (\<lambda>transport. case transport of
           Inl tlsErr \<Rightarrow> do {
             countHandshake ms ''failure'';
             c \<leftarrow> verifiedPreserving K A ms ConditionFalse ReasonEndpointUnavailable (''TLS configuration error: '' @ errText tlsErr);
             State_Monad.return (c, None)
           }
         | Inr t \<Rightarrow> attemptHandshake K A R ms url t))"
    by (rule emits_bind_value[OF handshakeTransport_emits handshakeTransport_value[OF assms]])
       (auto intro!: handshake_guard_notice attemptHandshake_emits emits_rules newCondition_emits simp: countHandshake_def split: sum.split)
  show ?thesis
    unfolding reconcileHandshake_def countHandshake_def
    by (rule emits_bind[OF emits_maps(1)], intro emits_if dialled[unfolded countHandshake_def])
       (auto intro!: emits_rules newCondition_emits)
qed

interpretation handshake: guarded_handler "tls_profile (rTLSProfile R)" "reconcileHandshake K A R ms url available hash" "handshake_guard ms url"
  for K A R ms url available hash
  by unfold_locales (rule reconcileHandshake_emits)

text \<open>
  Whatever the secrets of the cluster hold, the handshake only dials the server's own URL, and with the transport the specification calls
  for: in clear text exactly when TLS is not enabled; otherwise with TLS 1.2 at least, whatever version the operator-wide profile
  sets, with certificate verification unless the specification turns it off, and against the given CA bundle when there is one.
\<close>

lemma handshake_dials_as_specified:
  assumes "tls_profile (rTLSProfile R)" "trace s = []"
    and "run_state (reconcileHandshake K A R ms url available hash) s = (r, s')" "EDial u t \<in> set (trace s')"
  shows "u = url \<and> (case transportTLS ms of
      None \<Rightarrow> t = None
    | Some cfg \<Rightarrow> (case t of
        None \<Rightarrow> \<not> tlsEnabled cfg
      | Some tr \<Rightarrow> tlsEnabled cfg \<and> VersionTLS12 \<le> ttMinVersion tr \<and> ttInsecureSkipVerify tr = tlsInsecureSkipVerify cfg
          \<and> ((ttRootCAs tr \<noteq> None) = (\<not> tlsInsecureSkipVerify cfg \<and> tlsCABundleSecret cfg \<noteq> None))))"
  using handshake.run_from_empty[OF assms(1,3,2,4)] by (auto simp: dial_ok_def split: option.splits if_splits)

definition tls_server :: MCPServer where
  "tls_server = zero_server\<lparr>msSpec := zero_spec\<lparr>spTransport := Some \<lparr>trTLS = Some
     \<lparr>tlsEnabled = True, tlsCABundleSecret = None, tlsInsecureSkipVerify = False\<rparr>\<rparr>\<rparr>\<rparr>"

definition weak_reconciler :: Reconciler where
  "weak_reconciler = sample_reconciler\<lparr>rTLSProfile := Some (\<lambda>t. t\<lparr>ttMinVersion := 769\<rparr>)\<rparr>"

fun is_dial :: "effect \<Rightarrow> bool" where
  "is_dial (EDial u t) = True"
| "is_dial _ = False"

lemma handshake_dials_as_specified_witness:
  "case run_state (reconcileHandshake sample_lib sample_api weak_reconciler tls_server ''https://s'' available_condition []) start_state of
     (r, s') \<Rightarrow> \<exists>tr. EDial ''https://s'' (Some tr) \<in> set (trace s') \<and> VersionTLS12 \<le> ttMinVersion tr \<and> \<not> ttInsecureSkipVerify tr"
proof -
  obtain r s' where run: "run_state (reconcileHandshake sample_lib sample_api weak_reconciler tls_server ''https://s'' available_condition [])
      start_state = (r, s')" by fastforce
  have "list_ex is_dial (trace (snd (run_state (reconcileHandshake sample_lib sample_api weak_reconciler tls_server ''https://s'' available_condition [])
      start_state)))" by code_simp
  with run obtain u t where d: "EDial u t \<in> set (trace s')" by (auto simp: list_ex_iff elim!: is_dial.elims)
  have "tls_profile (rTLSProfile weak_reconciler)" by unfold_locales (auto simp: weak_reconciler_def)
  from handshake_dials_as_specified[OF this _ run d] d show ?thesis
    unfolding run by (cases t) (auto simp: transportTLS_def tls_server_def)
qed

section \<open>Capability changes\<close>

lemma capDiff_empty: "capDiff n a b = [] \<longleftrightarrow> a = b" "[] \<notin> set (capDiff n a b)"
  by (simp_all add: capDiff_def btoa_def)

text \<open>
  A change of capabilities is reported exactly when the server offers another set of capabilities than the
  status recorded, a missing set being the empty one; a first handshake reports none.
\<close>

lemma capability_change_iff:
  "capabilityChangeMessage ms info \<noteq> [] \<longleftrightarrow>
     (\<exists>new old. info = Some new \<and> stServerInfo (msStatus ms) = Some old
        \<and> capsOf (siCapabilities new) \<noteq> capsOf (siCapabilities old))"
proof -
  have "capabilityDiffMessage a b = [] \<longleftrightarrow> capsOf a = capsOf b" for a b
    unfolding capabilityDiffMessage_def Let_def
    by (subst joinWith_empty) (auto simp: capDiff_empty)
  then show ?thesis by (auto simp: capabilityChangeMessage_def split: option.splits)
qed

end
