(* ===== verification/ManagedService.thy ===== *)
theory ManagedService
  imports Ownership Workload
begin

text \<open>
  The Service in front of a server (\<open>internal/controller/mcpserver_controller_service.go\<close>): the managed Service,
  the resolution of the endpoint when the user brings a Service, and the deletion of the managed Service that such a reference makes obsolete.
\<close>

section \<open>The managed Service\<close>

abbreviation mcpPortName :: string where "mcpPortName \<equiv> ''mcp''"

definition createService :: "MCPServer \<Rightarrow> gomap \<Rightarrow> Service" where
  "createService ms selector =
     \<lparr>svcMeta = zero_meta\<lparr>omName := srvName ms, omNamespace := srvNamespace ms, omLabels := managedWorkloadLabels (srvName ms)\<rparr>,
      svcType = ''ClusterIP'',
      svcSelector = selector,
      svcPorts = [\<lparr>spName = mcpPortName, spPort = cfgPort (spConfig (msSpec ms)),
        spTargetPort = (if spWorkloadRef (msSpec ms) \<noteq> None then IntVal (cfgPort (spConfig (msSpec ms))) else StrVal mcpPortName),
        spProtocol = ''TCP''\<rparr>],
      svcSessionAffinity = (if mcpStateless (spMCP (msSpec ms)) = Some True then ''None'' else ''ClientIP''),
      svcOther = []\<rparr>"

definition createNewService :: "K8sLib \<Rightarrow> 'w Api \<Rightarrow> MCPServer \<Rightarrow> Service \<Rightarrow> ('w, go_error option) M" where
  "createNewService K A ms service =
     (case applyCustomObjectMetadata K ms (svcMeta service) of
        Inl e \<Rightarrow> State_Monad.return (Some (Wrap ''applying custom metadata failed; '' e))
      | Inr meta \<Rightarrow> do {
          let svc = service\<lparr>svcMeta := meta\<rparr>;
          r \<leftarrow> request (ECreateService svc) (createServiceApi A svc);
          State_Monad.return (case r of Inl e \<Rightarrow> Some e | Inr _ \<Rightarrow> None)
        })"

definition serviceNeedsUpdate :: "K8sLib \<Rightarrow> MCPServer \<Rightarrow> Service \<Rightarrow> Service \<Rightarrow> ObjectMeta \<Rightarrow> bool" where
  "serviceNeedsUpdate K ms service existing meta =
     (\<not> semanticDeepEqual K (IServicePorts (svcPorts service)) (IServicePorts (svcPorts existing))
      \<or> \<not> semanticDeepEqual K (IStringMap (svcSelector service)) (IStringMap (svcSelector existing))
      \<or> svcSessionAffinity existing \<noteq> svcSessionAffinity service
      \<or> objectLabelsChanged ms meta [] \<or> objectAnnotationsChanged ms meta []
      \<or> ownershipChanged K (svcMeta existing) meta)"

definition updateService :: "K8sLib \<Rightarrow> 'w Api \<Rightarrow> MCPServer \<Rightarrow> Service \<Rightarrow> Service \<Rightarrow> ('w, go_error option) M" where
  "updateService K A ms service existing =
     (case setControllerReference K ms (svcMeta existing) of
        Inl e \<Rightarrow> State_Monad.return (Some e)
      | Inr meta \<Rightarrow>
          if serviceNeedsUpdate K ms service existing meta
          then (case applyCustomObjectMetadata K ms meta of
                  Inl e \<Rightarrow> State_Monad.return (Some (Wrap ''applying custom service metadata; '' e))
                | Inr meta' \<Rightarrow> do {
                    let svc = existing\<lparr>svcMeta := meta', svcPorts := svcPorts service, svcSelector := svcSelector service,
                                      svcSessionAffinity := svcSessionAffinity service\<rparr>;
                    r \<leftarrow> request (EUpdateService svc) (updateServiceApi A svc);
                    State_Monad.return (case r of Inl e \<Rightarrow> Some e | Inr _ \<Rightarrow> None)
                  })
          else State_Monad.return None)"

definition reconcileService :: "K8sLib \<Rightarrow> 'w Api \<Rightarrow> MCPServer \<Rightarrow> gomap \<Rightarrow> ('w, go_error option) M" where
  "reconcileService K A ms selector =
     (case setControllerReference K ms (svcMeta (createService ms selector)) of
        Inl e \<Rightarrow> State_Monad.return (Some e)
      | Inr meta \<Rightarrow> do {
          let service = (createService ms selector)\<lparr>svcMeta := meta\<rparr>;
          r \<leftarrow> call (getService A (omName meta) (omNamespace meta));
          (case r of
             Inl err \<Rightarrow> if isNotFound K err then createNewService K A ms service else State_Monad.return (Some err)
           | Inr existing \<Rightarrow> do {
               o' \<leftarrow> validateOwnership K ''Service'' (svcMeta existing) ms;
               (case o' of Inl e \<Rightarrow> State_Monad.return (Some e) | Inr _ \<Rightarrow> updateService K A ms service existing)
             })
        })"

section \<open>The endpoint\<close>

record ServiceEndpoint =
  epName :: string
  epPort :: int

definition zero_endpoint :: ServiceEndpoint where
  "zero_endpoint = \<lparr>epName = [], epPort = 0\<rparr>"

definition resolveServicePort :: "K8sLib \<Rightarrow> 'w Api \<Rightarrow> string \<Rightarrow> string \<Rightarrow> int \<Rightarrow> ('w, go_error + int) M" where
  "resolveServicePort K A serviceName namespace configPort =
     (if configPort > 0 then State_Monad.return (Inr configPort)
      else do {
        r \<leftarrow> call (readService A serviceName namespace);
        State_Monad.return (case r of
           Inl err \<Rightarrow> if isNotFound K err then Inl (ErrorString (''referenced Service '' @ serviceName @ '' not found'')) else Inl err
         | Inr svc \<Rightarrow> (case svcPorts svc of
             [] \<Rightarrow> Inl (ErrorString (''referenced Service '' @ serviceName @ '' has no ports''))
           | p # ps \<Rightarrow> (case List.find (\<lambda>q. spName q = mcpPortName) (p # ps) of
               Some q \<Rightarrow> Inr (spPort q) | None \<Rightarrow> Inr (spPort p))))
      })"

definition serviceNameFor :: "MCPServer \<Rightarrow> string" where
  "serviceNameFor ms = (case spServiceRef (msSpec ms) of Some ref \<Rightarrow> srName ref | None \<Rightarrow> srvName ms)"

text \<open>The endpoint is returned with the error: its name is kept when the port cannot be resolved.\<close>

definition ResolveServiceEndpoint :: "K8sLib \<Rightarrow> 'w Api \<Rightarrow> MCPServer \<Rightarrow> ('w, ServiceEndpoint \<times> go_error option) M" where
  "ResolveServiceEndpoint K A ms =
     (if spServiceRef (msSpec ms) = None
      then State_Monad.return (\<lparr>epName = serviceNameFor ms, epPort = cfgPort (spConfig (msSpec ms))\<rparr>, None)
      else do {
        let name = serviceNameFor ms;
        let configPort = (if spWorkloadRef (msSpec ms) = None then 0 else cfgPort (spConfig (msSpec ms)));
        port \<leftarrow> resolveServicePort K A name (srvNamespace ms) configPort;
        State_Monad.return (case port of
           Inl err \<Rightarrow> (\<lparr>epName = name, epPort = 0\<rparr>, Some err)
         | Inr p \<Rightarrow> (\<lparr>epName = name, epPort = p\<rparr>, None))
      })"

section \<open>Cleaning up behind a Service reference\<close>

definition deleteManagedService :: "K8sLib \<Rightarrow> 'w Api \<Rightarrow> MCPServer \<Rightarrow> Service \<Rightarrow> ('w, go_error option) M" where
  "deleteManagedService K A ms managedSvc =
     (if (case getControllerOf K (svcMeta managedSvc) of None \<Rightarrow> True | Some owner \<Rightarrow> orUID owner \<noteq> srvUID ms)
      then State_Monad.return None
      else do {
        let externalName = serviceNameFor ms;
        ext \<leftarrow> call (readService A externalName (srvNamespace ms));
        (case ext of
           Inl err \<Rightarrow> State_Monad.return (Some (if isNotFound K err
               then ErrorString (''referenced Service '' @ externalName @ '' not found'') else err))
         | Inr _ \<Rightarrow> do {
             let uid = Some (omUID (svcMeta managedSvc));
             let rv = Some (omResourceVersion (svcMeta managedSvc));
             r \<leftarrow> request (EDeleteService managedSvc uid rv) (deleteServiceApi A managedSvc uid rv);
             State_Monad.return (case r of
                Inl err \<Rightarrow> if isNotFound K err \<or> isConflict K err then None else Some err
              | Inr _ \<Rightarrow> None)
           })
      })"

definition cleanupManagedServiceForBYO :: "K8sLib \<Rightarrow> 'w Api \<Rightarrow> MCPServer \<Rightarrow> ('w, go_error option) M" where
  "cleanupManagedServiceForBYO K A ms =
     (if (case spServiceRef (msSpec ms) of None \<Rightarrow> False | Some ref \<Rightarrow> srName ref = srvName ms)
      then State_Monad.return None
      else do {
        r \<leftarrow> call (getService A (srvName ms) (srvNamespace ms));
        (case r of
           Inl err \<Rightarrow> State_Monad.return (if isNotFound K err then None else Some err)
         | Inr managedSvc \<Rightarrow> deleteManagedService K A ms managedSvc)
      })"

definition reconcileServiceOrBYO :: "K8sLib \<Rightarrow> 'w Api \<Rightarrow> MCPServer \<Rightarrow> gomap \<Rightarrow> ('w, ServiceEndpoint \<times> go_error option) M" where
  "reconcileServiceOrBYO K A ms selector =
     (if spServiceRef (msSpec ms) \<noteq> None
      then do {
        (endpoint, err) \<leftarrow> ResolveServiceEndpoint K A ms;
        (case err of
           Some e \<Rightarrow> State_Monad.return (endpoint, Some e)
         | None \<Rightarrow> do {
             c \<leftarrow> cleanupManagedServiceForBYO K A ms;
             State_Monad.return (endpoint, c)
           })
      }
      else do {
        e \<leftarrow> reconcileService K A ms selector;
        observePhase ''service'';
        State_Monad.return (case e of
           Some err \<Rightarrow> (zero_endpoint, Some err)
         | None \<Rightarrow> (\<lparr>epName = serviceNameFor ms, epPort = cfgPort (spConfig (msSpec ms))\<rparr>, None))
      })"

section \<open>What the handler sends\<close>

fun service_guard :: "K8sLib \<Rightarrow> 'w Api \<Rightarrow> MCPServer \<Rightarrow> gomap \<Rightarrow> effect \<Rightarrow> bool" where
  "service_guard K A ms sel (ECreateService svc) \<longleftrightarrow> ownerUID K (svcMeta svc) = srvUID ms
     \<and> svcPorts svc = svcPorts (createService ms sel) \<and> svcSelector svc = sel \<and> svcType svc = ''ClusterIP''
     \<and> svcSessionAffinity svc = svcSessionAffinity (createService ms sel)
     \<and> omName (svcMeta svc) = srvName ms \<and> omNamespace (svcMeta svc) = srvNamespace ms \<and> spServiceRef (msSpec ms) = None
     \<and> absent_before K (getService A) ms"
| "service_guard K A ms sel (EUpdateService svc) \<longleftrightarrow> ownerUID K (svcMeta svc) = srvUID ms
     \<and> svcPorts svc = svcPorts (createService ms sel) \<and> svcSelector svc = sel
     \<and> svcSessionAffinity svc = svcSessionAffinity (createService ms sel) \<and> spServiceRef (msSpec ms) = None
     \<and> ours_before K (getService A) svcMeta ms (svcMeta svc)"
| "service_guard K A ms sel (EDeleteService svc uid rv) \<longleftrightarrow> (\<exists>o'. getControllerOf K (svcMeta svc) = Some o' \<and> orUID o' = srvUID ms)
     \<and> uid = Some (omUID (svcMeta svc)) \<and> rv = Some (omResourceVersion (svcMeta svc))
     \<and> serviceNameFor ms \<noteq> srvName ms \<and> (\<exists>w w'. getService A (srvName ms) (srvNamespace ms) w = (Inr svc, w'))"
| "service_guard K A ms sel e \<longleftrightarrow> is_report e"

lemma service_guard_report: "is_report e \<Longrightarrow> service_guard K A ms sel e"
  by (cases e) auto

lemma createService_meta:
  "omName (svcMeta (createService ms sel)) = srvName ms" "omNamespace (svcMeta (createService ms sel)) = srvNamespace ms"
  "svcSelector (createService ms sel) = sel" "svcType (createService ms sel) = ''ClusterIP''"
  by (simp_all add: createService_def)

lemma createNewService_emits:
  assumes "controller_law K" "spServiceRef (msSpec ms) = None" "ownerUID K m = srvUID ms" "omName m = srvName ms" "omNamespace m = srvNamespace ms"
    "absent_before K (getService A) ms"
  shows "emits (service_guard K A ms sel) (createNewService K A ms ((createService ms sel)\<lparr>svcMeta := m\<rparr>))"
  using assms unfolding createNewService_def Let_def
  by (auto dest!: custom_keeps_owner[OF assms(1)] simp: createService_meta intro!: emits_case emits_rules)

lemma updateService_emits:
  assumes "controller_law K" "set_controller_law K" "spServiceRef (msSpec ms) = None" "ours_before K (getService A) svcMeta ms (svcMeta existing)"
  shows "emits (service_guard K A ms sel) (updateService K A ms ((createService ms sel)\<lparr>svcMeta := m\<rparr>) existing)"
  using assms unfolding updateService_def Let_def
  by (auto dest!: custom_keeps[OF assms(1)] set_controller_keeps[OF assms(2)] simp: createService_meta
      intro!: emits_case emits_rules ours_before_same[OF assms(4)])

lemma reconcileService_emits:
  assumes "controller_law K" "set_controller_law K" "spServiceRef (msSpec ms) = None"
  shows "emits (service_guard K A ms sel) (reconcileService K A ms sel)"
  using assms unfolding reconcileService_def Let_def
  by (auto dest!: set_controller_keeps[OF assms(2)] simp: createService_meta
      intro: ours_beforeI intro!: emits_case(1) emits_return emits_read_check_write[where get = "getService A"] createNewService_emits updateService_emits service_guard_report)

lemma deleteManagedService_emits:
  assumes "serviceNameFor ms \<noteq> srvName ms" "\<exists>w w'. getService A (srvName ms) (srvNamespace ms) w = (Inr svc, w')"
  shows "emits (service_guard K A ms sel) (deleteManagedService K A ms svc)"
  unfolding deleteManagedService_def Let_def
  by (intro emits_if emits_case emits_rules) (auto simp: assms split: option.splits)

lemma cleanup_emits:
  assumes "spServiceRef (msSpec ms) \<noteq> None"
  shows "emits (service_guard K A ms sel) (cleanupManagedServiceForBYO K A ms)"
  unfolding cleanupManagedServiceForBYO_def
proof (rule emits_if[OF emits_return])
  assume "\<not> (case spServiceRef (msSpec ms) of None \<Rightarrow> False | Some ref \<Rightarrow> srName ref = srvName ms)"
  then have n: "serviceNameFor ms \<noteq> srvName ms" using assms by (auto simp: serviceNameFor_def split: option.splits)
  show "emits (service_guard K A ms sel) (call (getService A (srvName ms) (srvNamespace ms)) \<bind> (\<lambda>r. case r of
      Inl err \<Rightarrow> State_Monad.return (if isNotFound K err then None else Some err)
    | Inr managedSvc \<Rightarrow> deleteManagedService K A ms managedSvc))"
    by (rule emits_bind_value[OF emits_call call_value]) (intro emits_case emits_return deleteManagedService_emits[OF n]; simp)
qed

lemma resolve_emits: "emits P (ResolveServiceEndpoint K A ms)"
  unfolding ResolveServiceEndpoint_def resolveServicePort_def Let_def
  by (auto intro!: emits_rules)

lemma reconcileServiceOrBYO_emits:
  assumes "controller_law K" "set_controller_law K"
  shows "emits (service_guard K A ms sel) (reconcileServiceOrBYO K A ms sel)"
  unfolding reconcileServiceOrBYO_def
  by (intro emits_if emits_bind resolve_emits emits_case emits_return cleanup_emits reconcileService_emits assms emits_report(4)[OF service_guard_report])
     simp_all

interpretation managed_service: guarded_handler "owner_laws K" "reconcileServiceOrBYO K A ms sel" "service_guard K A ms sel"
  for K A ms sel
  by unfold_locales (auto intro: reconcileServiceOrBYO_emits)

text \<open>
  Whatever the API server answers, the Service step only creates or updates a Service that this server controls, with the port, selector and
  session affinity of the specification, and only when no Service is referenced; and it only deletes a Service whose
  controller is this very server (by UID), that is not the referenced one, on condition that it is still the object that was read.
\<close>

lemma service_step_guarded:
  assumes "owner_laws K" "trace s = []" "run_state (reconcileServiceOrBYO K A ms sel) s = (r, s')" "e \<in> set (trace s')"
  shows "case e of
      ECreateService svc \<Rightarrow> ownerUID K (svcMeta svc) = srvUID ms \<and> spServiceRef (msSpec ms) = None
        \<and> omName (svcMeta svc) = srvName ms \<and> svcSelector svc = sel \<and> map spPort (svcPorts svc) = [cfgPort (spConfig (msSpec ms))]
    | EUpdateService svc \<Rightarrow> ownerUID K (svcMeta svc) = srvUID ms \<and> spServiceRef (msSpec ms) = None
        \<and> svcSelector svc = sel \<and> map spPort (svcPorts svc) = [cfgPort (spConfig (msSpec ms))]
    | EDeleteService svc uid rv \<Rightarrow> ownerUID K (svcMeta svc) = srvUID ms \<and> serviceNameFor ms \<noteq> srvName ms
        \<and> uid = Some (omUID (svcMeta svc)) \<and> rv = Some (omResourceVersion (svcMeta svc))
    | _ \<Rightarrow> is_report e"
  using managed_service.run_from_empty[OF assms(1,3,2,4)]
  by (cases e) (auto simp: createService_def ownerUID_def)

text \<open>A cluster in which the managed Service exists beside the referenced one.\<close>

definition byo_server :: MCPServer where
  "byo_server = zero_server\<lparr>msMeta := zero_meta\<lparr>omName := ''s'', omUID := ''u''\<rparr>, msSpec := zero_spec\<lparr>spServiceRef := Some \<lparr>srName = ''ext''\<rparr>\<rparr>\<rparr>"

definition old_service :: Service where
  "old_service = (createService byo_server None)\<lparr>svcMeta := zero_meta\<lparr>omName := ''s'', omUID := ''v'', omResourceVersion := ''7'',
     omOwnerReferences := [\<lparr>orAPIVersion = ''mcp.x-k8s.io/v1beta1'', orKind = MCPServerKind, orName = ''s'', orUID = ''u'', orController = Some True\<rparr>]\<rparr>\<rparr>"

definition byo_api :: "nat Api" where
  "byo_api = sample_api\<lparr>getService := \<lambda>n ns w. (Inr old_service, w), readService := \<lambda>n ns w. (Inr old_service, w)\<rparr>"

fun is_delete_service :: "effect \<Rightarrow> bool" where
  "is_delete_service (EDeleteService s u r) = True"
| "is_delete_service _ = False"

lemma service_step_guarded_witness:
  "case run_state (reconcileServiceOrBYO sample_lib byo_api byo_server None) start_state of (r, s') \<Rightarrow>
     \<exists>svc uid rv. EDeleteService svc uid rv \<in> set (trace s') \<and> uid = Some (omUID (svcMeta svc)) \<and> ownerUID sample_lib (svcMeta svc) = ''u''"
proof -
  obtain r s' where run: "run_state (reconcileServiceOrBYO sample_lib byo_api byo_server None) start_state = (r, s')" by fastforce
  have "list_ex is_delete_service (trace (snd (run_state (reconcileServiceOrBYO sample_lib byo_api byo_server None) start_state)))"
    by code_simp
  with run obtain svc uid rv where d: "EDeleteService svc uid rv \<in> set (trace s')" by (auto simp: list_ex_iff elim!: is_delete_service.elims)
  from service_step_guarded[OF _ _ run d] sample_lib_laws d show ?thesis unfolding run by (auto simp: byo_server_def)
qed

text \<open>
  as long as the referenced Service cannot be read, the managed Service stays: the step fails or does
  nothing, and writes nothing.
\<close>

lemma missing_external_service_keeps_managed:
  assumes "spServiceRef (msSpec ms) = Some ref"
    and "\<And>w a w'. readService A (srName ref) (srvNamespace ms) w = (a, w') \<Longrightarrow> isl a"
  shows "emits is_report (reconcileServiceOrBYO K A ms sel)"
proof -
  have n: "serviceNameFor ms = srName ref" using assms(1) by (simp add: serviceNameFor_def)
  have "emits is_report (deleteManagedService K A ms svc)" for svc
    unfolding deleteManagedService_def Let_def n
    by (intro emits_if emits_return emits_bind_value[OF emits_call call_value]) (use assms(2) in \<open>fastforce intro!: emits_return split: sum.split\<close>)
  then show ?thesis
    unfolding reconcileServiceOrBYO_def cleanupManagedServiceForBYO_def
    by (auto simp: assms(1) intro!: resolve_emits emits_case emits_rules)
qed

lemma missing_external_service_keeps_managed_witness:
  "emits is_report (reconcileServiceOrBYO sample_lib (byo_api\<lparr>readService := \<lambda>n ns w. (Inl not_found, w)\<rparr>) byo_server None)"
  by (rule missing_external_service_keeps_managed) (auto simp: byo_server_def)

lemma preferred_port:
  "\<exists>q \<in> set (p # ps). (case List.find (\<lambda>q. spName q = mcpPortName) (p # ps) of Some q \<Rightarrow> spPort q | None \<Rightarrow> spPort p) = spPort q
     \<and> list_ex (\<lambda>q. spName q = mcpPortName) (p # ps) = (spName q = mcpPortName)"
proof (cases "List.find (\<lambda>q. spName q = mcpPortName) (p # ps)")
  case None
  then have "\<not> list_ex (\<lambda>q. spName q = mcpPortName) (p # ps)" unfolding find_None_iff list_ex_iff by blast
  with None show ?thesis by (intro bexI[of _ p]) auto
next
  case (Some q)
  then have "q \<in> set (p # ps)" "spName q = mcpPortName" by (auto simp only: find_Some_iff nth_mem)
  with Some show ?thesis by (intro bexI[of _ q]) (auto simp: list_ex_iff)
qed

lemma resolveServicePort_run:
  assumes "run_state (resolveServicePort K A name ns configPort) s = (Inr port, s')"
  shows "if configPort > 0 then port = configPort
    else \<exists>svc w w' p. readService A name ns w = (Inr svc, w') \<and> p \<in> set (svcPorts svc) \<and> port = spPort p
       \<and> (list_ex (\<lambda>q. spName q = mcpPortName) (svcPorts svc) = (spName p = mcpPortName))"
proof (cases "configPort > 0")
  case False
  obtain r w' where r: "readService A name ns (world s) = (r, w')" by fastforce
  with assms False obtain svc p ps where svc: "r = Inr svc" "svcPorts svc = p # ps"
    by (cases r; cases "svcPorts (projr r)") (auto simp: resolveServicePort_def run_ops split: if_splits)
  obtain q where q: "q \<in> set (svcPorts svc)" "list_ex (\<lambda>q. spName q = mcpPortName) (svcPorts svc) = (spName q = mcpPortName)"
    "(case List.find (\<lambda>q. spName q = mcpPortName) (p # ps) of Some q \<Rightarrow> spPort q | None \<Rightarrow> spPort p) = spPort q"
    using preferred_port[of p ps] by (auto simp only: svc)
  have "port = spPort q"
    using assms False q(3) by (simp add: resolveServicePort_def run_ops r svc split: option.splits if_splits)
  with r q(1,2) False show ?thesis unfolding svc(1) by (simp only: if_False) blast
qed (use assms in \<open>simp add: resolveServicePort_def\<close>)

text \<open>
  A resolved endpoint can be reached: without a reference it is the managed Service on the configured port; with one, it is
  the referenced Service on the configured port when a user's workload sets it, and otherwise on a port that the Service
  exposes, the one named \<open>mcp\<close> if there is one.
\<close>

lemma resolved_endpoint:
  assumes "run_state (ResolveServiceEndpoint K A ms) s = ((endpoint, None), s')"
  shows "epName endpoint = serviceNameFor ms \<and>
    (if spServiceRef (msSpec ms) = None \<or> spWorkloadRef (msSpec ms) \<noteq> None \<and> cfgPort (spConfig (msSpec ms)) > 0
     then epPort endpoint = cfgPort (spConfig (msSpec ms))
     else \<exists>svc w w' p. readService A (serviceNameFor ms) (srvNamespace ms) w = (Inr svc, w') \<and> p \<in> set (svcPorts svc)
       \<and> epPort endpoint = spPort p
       \<and> (list_ex (\<lambda>q. spName q = mcpPortName) (svcPorts svc) = (spName p = mcpPortName)))"
proof (cases "spServiceRef (msSpec ms) = None")
  case False
  let ?c = "if spWorkloadRef (msSpec ms) = None then 0 else cfgPort (spConfig (msSpec ms))"
  obtain r s1 where run: "run_state (resolveServicePort K A (serviceNameFor ms) (srvNamespace ms) ?c) s = (r, s1)" by fastforce
  with assms False obtain port where r: "r = Inr port" "endpoint = \<lparr>epName = serviceNameFor ms, epPort = port\<rparr>"
    by (cases r) (auto simp: ResolveServiceEndpoint_def Let_def)
  with resolveServicePort_run[OF run[unfolded r(1)]] False show ?thesis by (auto split: if_splits)
qed (use assms in \<open>auto simp: ResolveServiceEndpoint_def\<close>)

lemma resolved_endpoint_witness:
  "\<exists>endpoint s'. run_state (ResolveServiceEndpoint sample_lib byo_api byo_server) start_state = ((endpoint, None), s') \<and> epName endpoint = ''ext''"
proof -
  have "snd (fst (run_state (ResolveServiceEndpoint sample_lib byo_api byo_server) start_state)) = None" by code_simp
  then obtain endpoint s' where run: "run_state (ResolveServiceEndpoint sample_lib byo_api byo_server) start_state = ((endpoint, None), s')"
    by (metis prod.collapse)
  from resolved_endpoint[OF run] run show ?thesis by (auto simp: serviceNameFor_def byo_server_def)
qed

end
