(* ===== verification/Gateway.thy ===== *)
theory Gateway
  imports Ownership Handshake
begin

text \<open>
  The gateway binding of a server (\<open>internal/controller/mcpserver_controller_gateway.go\<close>): the operator keeps one \<open>MCPGatewayBinding\<close> per server with a gateway,
  reads back whether an integration controller registered it, and folds that into the status.
\<close>

section \<open>The name of the binding\<close>

abbreviation gatewayBindingSuffix :: string where "gatewayBindingSuffix \<equiv> ''-gateway-binding''"

definition gatewayBindingName :: "K8sLib \<Rightarrow> string \<Rightarrow> string" where
  "gatewayBindingName K mcpServerName =
     (let name = mcpServerName @ gatewayBindingSuffix
      in if length name \<le> 253 then name
         else let hash = take 8 (sha256hex K mcpServerName)
              in take (253 - length gatewayBindingSuffix - 1 - length hash) mcpServerName @ ''-'' @ hash @ gatewayBindingSuffix)"

section \<open>The handlers\<close>

definition deleteBinding :: "'w Api \<Rightarrow> MCPGatewayBinding \<Rightarrow> ('w, go_error option) M" where
  "deleteBinding A b = do {
     r \<leftarrow> request (EDeleteBinding b) (deleteBindingApi A b);
     State_Monad.return (case r of Inl e \<Rightarrow> Some e | Inr _ \<Rightarrow> None)
   }"

definition cleanupGatewayBindingIfRemoved :: "K8sLib \<Rightarrow> 'w Api \<Rightarrow> MCPServer \<Rightarrow> ('w, unit) M" where
  "cleanupGatewayBindingIfRemoved K A ms =
     (if spGateway (msSpec ms) \<noteq> None then State_Monad.return ()
      else do {
        r \<leftarrow> call (getBinding A (gatewayBindingName K (srvName ms)) (srvNamespace ms));
        (case r of
           Inl _ \<Rightarrow> State_Monad.return ()
         | Inr existing \<Rightarrow> do {
             o' \<leftarrow> validateOwnership K ''MCPGatewayBinding'' (gbMeta existing) ms;
             (case o' of
                Inl _ \<Rightarrow> State_Monad.return ()
              | Inr _ \<Rightarrow> do { _ \<leftarrow> deleteBinding A existing; State_Monad.return () })
           })
      })"

definition desiredBinding :: "K8sLib \<Rightarrow> MCPServer \<Rightarrow> GatewaySpec \<Rightarrow> MCPGatewayBinding" where
  "desiredBinding K ms gw =
     \<lparr>gbMeta = zero_meta\<lparr>omName := gatewayBindingName K (srvName ms), omNamespace := srvNamespace ms\<rparr>,
      gbSpec = \<lparr>gbMCPServerRef = srvName ms, gbProvider = gwProvider gw, gbConfigRef = gwConfigRef gw\<rparr>,
      gbStatus = \<lparr>gbURL = [], gbConditions = []\<rparr>\<rparr>"

definition submitBinding :: "K8sLib \<Rightarrow> 'w Api \<Rightarrow> MCPServer \<Rightarrow> MCPGatewayBinding \<Rightarrow> go_error + MCPGatewayBinding \<Rightarrow> ('w, go_error option) M" where
  "submitBinding K A ms desired found =
     (case found of
        Inl err \<Rightarrow>
          if isNotFound K err
          then do {
            r \<leftarrow> request (ECreateBinding desired) (createBindingApi A desired);
            State_Monad.return (case r of Inl e \<Rightarrow> Some e | Inr _ \<Rightarrow> None)
          }
          else State_Monad.return (Some err)
      | Inr existing \<Rightarrow> do {
          o' \<leftarrow> validateOwnership K ''MCPGatewayBinding'' (gbMeta existing) ms;
          (case o' of
             Inl e \<Rightarrow> State_Monad.return (Some e)
           | Inr _ \<Rightarrow>
              if gbProvider (gbSpec existing) \<noteq> gbProvider (gbSpec desired)
              then do {
                e \<leftarrow> deleteBinding A existing;
                State_Monad.return (map_option (Wrap ''deleting MCPGatewayBinding for provider change: '') e)
              }
              else if \<not> semanticDeepEqual K (IBindingSpec (gbSpec existing)) (IBindingSpec (gbSpec desired))
              then do {
                let b = existing\<lparr>gbSpec := gbSpec desired\<rparr>;
                r \<leftarrow> request (EUpdateBinding b) (updateBindingApi A b);
                State_Monad.return (case r of Inl e \<Rightarrow> Some e | Inr _ \<Rightarrow> None)
              }
              else State_Monad.return None)
        })"

definition reconcileGatewayBinding :: "K8sLib \<Rightarrow> 'w Api \<Rightarrow> MCPServer \<Rightarrow> ('w, go_error option) M" where
  "reconcileGatewayBinding K A ms = do {
     found \<leftarrow> call (getBinding A (gatewayBindingName K (srvName ms)) (srvNamespace ms));
     (case spGateway (msSpec ms) of
        None \<Rightarrow>
          (case found of
             Inr existing \<Rightarrow> do {
               o' \<leftarrow> validateOwnership K ''MCPGatewayBinding'' (gbMeta existing) ms;
               (case o' of Inl e \<Rightarrow> State_Monad.return (Some e) | Inr _ \<Rightarrow> deleteBinding A existing)
             }
           | Inl err \<Rightarrow> State_Monad.return (if isNotFound K err then None else Some err))
      | Some gw \<Rightarrow>
          (case setControllerReference K ms (gbMeta (desiredBinding K ms gw)) of
             Inl e \<Rightarrow> State_Monad.return (Some (Wrap ''setting controller reference on MCPGatewayBinding: '' e))
           | Inr meta \<Rightarrow> submitBinding K A ms ((desiredBinding K ms gw)\<lparr>gbMeta := meta\<rparr>) found))
   }"

section \<open>Gateway status\<close>

record gatewayStatus =
  gsCondition :: Condition
  gsBindingStatus :: "GatewayBindingStatus option"
  gsGatewayAddress :: string
  gsErr :: "go_error option"

definition notRegistered :: "Condition \<Rightarrow> gatewayStatus" where
  "notRegistered c = \<lparr>gsCondition = c, gsBindingStatus = None, gsGatewayAddress = [], gsErr = None\<rparr>"

definition gatewayCondition :: "'w Api \<Rightarrow> MCPServer \<Rightarrow> ConditionStatus \<Rightarrow> string \<Rightarrow> string \<Rightarrow> ('w, Condition) M" where
  "gatewayCondition A ms status reason message =
     newCondition A ConditionTypeGatewayRegistered status reason message (srvGeneration ms)"

definition bindingRegistered :: "K8sLib \<Rightarrow> MCPGatewayBinding \<Rightarrow> bool" where
  "bindingRegistered K b = (case findStatusCondition K (gbConditions (gbStatus b)) ConditionTypeRegistered of
     None \<Rightarrow> False
   | Some c \<Rightarrow> \<not> (cStatus c \<noteq> ConditionTrue \<or> cObservedGeneration c < omGeneration (gbMeta b)))"

definition reconcileGatewayCondition :: "K8sLib \<Rightarrow> 'w Api \<Rightarrow> MCPServer \<Rightarrow> ('w, gatewayStatus option) M" where
  "reconcileGatewayCondition K A ms =
     (if spGateway (msSpec ms) = None then State_Monad.return None
      else do {
        r \<leftarrow> call (getBinding A (gatewayBindingName K (srvName ms)) (srvNamespace ms));
        (case r of
           Inl err \<Rightarrow>
             if isNotFound K err
             then do {
               c \<leftarrow> gatewayCondition A ms ConditionFalse ReasonGatewayBindingNotFound ''MCPGatewayBinding not found'';
               State_Monad.return (Some (notRegistered c))
             }
             else do {
               c \<leftarrow> gatewayCondition A ms ConditionFalse ReasonGatewayNotRegistered (''Failed to check MCPGatewayBinding: '' @ errText err);
               State_Monad.return (Some ((notRegistered c)\<lparr>gsErr := Some err\<rparr>))
             }
         | Inr binding \<Rightarrow>
             (let bs = \<lparr>gbsName = omName (gbMeta binding), gbsProvider = gbProvider (gbSpec binding)\<rparr>
              in if \<not> bindingRegistered K binding
                 then do {
                   c \<leftarrow> gatewayCondition A ms ConditionFalse ReasonGatewayNotRegistered
                     (case findStatusCondition K (gbConditions (gbStatus binding)) ConditionTypeRegistered of
                        Some registered \<Rightarrow> cMessage registered
                      | None \<Rightarrow> ''Waiting for gateway integration controller to register binding; '' @
                          ''if this persists, verify that a controller for provider '' @ goquote (gbProvider (gbSpec binding)) @ '' is running'');
                   State_Monad.return (Some ((notRegistered c)\<lparr>gsBindingStatus := Some bs\<rparr>))
                 }
                 else do {
                   c \<leftarrow> gatewayCondition A ms ConditionTrue ReasonGatewayRegistered ''Gateway integration is active'';
                   State_Monad.return (Some \<lparr>gsCondition = c, gsBindingStatus = Some bs, gsGatewayAddress = gbURL (gbStatus binding), gsErr = None\<rparr>)
                 }))
      })"

text \<open>The gateway status is passed by pointer: its condition keeps the old transition time from here on.\<close>

definition applyGatewayStatus ::
    "K8sLib \<Rightarrow> 'w Api \<Rightarrow> MCPServer \<Rightarrow> gatewayStatus \<Rightarrow> Condition \<Rightarrow> string \<Rightarrow> ('w, gatewayStatus \<times> Condition \<times> string) M" where
  "applyGatewayStatus K A ms gw availableCondition mcpURL = do {
     let gw' = gw\<lparr>gsCondition := preserveLastTransitionTime K (gsCondition gw) (srvConditions ms)\<rparr>;
     let c = gsCondition gw';
     recordCondition (srvName ms) (srvNamespace ms) (cType c) (cStatus c) (cReason c);
     available \<leftarrow> (if cStatus c \<noteq> ConditionTrue \<and> cStatus availableCondition \<noteq> ConditionFalse
       then do {
         a \<leftarrow> newAvailableCondition K A ConditionFalse ReasonGatewayNotRegistered (cMessage c) (srvGeneration ms) (srvConditions ms);
         recordCondition (srvName ms) (srvNamespace ms) (cType a) (cStatus a) (cReason a);
         State_Monad.return a
       }
       else State_Monad.return availableCondition);
     State_Monad.return (gw', available, if gsGatewayAddress gw \<noteq> [] then gsGatewayAddress gw else mcpURL)
   }"

text \<open>How \<open>reconcileEndpoint\<close> resolves the gateway: condition, availability and address.\<close>

definition resolveGatewayStatus ::
    "K8sLib \<Rightarrow> 'w Api \<Rightarrow> MCPServer \<Rightarrow> Condition \<Rightarrow> string \<Rightarrow> ('w, gatewayStatus option \<times> Condition \<times> string) M" where
  "resolveGatewayStatus K A ms availableCondition mcpURL = do {
     g \<leftarrow> reconcileGatewayCondition K A ms;
     (case g of
        None \<Rightarrow> State_Monad.return (None, availableCondition, mcpURL)
      | Some gw \<Rightarrow> do {
          (gw', available, url) \<leftarrow> applyGatewayStatus K A ms gw availableCondition mcpURL;
          State_Monad.return (Some gw', available, url)
        })
   }"

definition applyGatewayStatusToAC :: "StatusAC \<Rightarrow> gatewayStatus option \<Rightarrow> Condition \<Rightarrow> Condition \<Rightarrow> Condition \<Rightarrow> StatusAC" where
  "applyGatewayStatusToAC status gw accepted available verified =
     (let basic = [conditionToAC accepted, conditionToAC available, conditionToAC verified]
      in case gw of
           None \<Rightarrow> status\<lparr>acConditions := acConditions status @ basic\<rparr>
         | Some g \<Rightarrow>
             (let st = status\<lparr>acConditions := acConditions status @ basic @ [conditionToAC (gsCondition g)]\<rparr>
              in case gsBindingStatus g of None \<Rightarrow> st | Some b \<Rightarrow> st\<lparr>acGatewayBinding := Some b\<rparr>))"

section \<open>Names\<close>

text \<open>
  The name of a binding never exceeds the 253 characters of a Kubernetes name, however long the name of the server.
\<close>

lemma binding_name_bounded: "length (gatewayBindingName K name) \<le> 253"
proof (cases "length (name @ gatewayBindingSuffix) \<le> 253")
  case False
  define h where "h = take 8 (sha256hex K name)"
  have "length h \<le> 8" by (simp add: h_def)
  moreover have "gatewayBindingName K name = take (253 - length gatewayBindingSuffix - 1 - length h) name @ ''-'' @ h @ gatewayBindingSuffix"
    using False unfolding gatewayBindingName_def Let_def h_def by (simp only: if_False)
  ultimately show ?thesis by simp
qed (simp add: gatewayBindingName_def Let_def)

section \<open>What the handlers send\<close>

fun binding_guard :: "K8sLib \<Rightarrow> MCPServer \<Rightarrow> effect \<Rightarrow> bool" where
  "binding_guard K ms (ECreateBinding b) \<longleftrightarrow> ownerUID K (gbMeta b) = srvUID ms \<and> gbMCPServerRef (gbSpec b) = srvName ms
     \<and> omName (gbMeta b) = gatewayBindingName K (srvName ms)
     \<and> (\<exists>gw. spGateway (msSpec ms) = Some gw \<and> gbProvider (gbSpec b) = gwProvider gw \<and> gbConfigRef (gbSpec b) = gwConfigRef gw)"
| "binding_guard K ms (EUpdateBinding b) \<longleftrightarrow> ours K (gbMeta b) ms \<and> gbMCPServerRef (gbSpec b) = srvName ms
     \<and> (\<exists>gw. spGateway (msSpec ms) = Some gw \<and> gbProvider (gbSpec b) = gwProvider gw \<and> gbConfigRef (gbSpec b) = gwConfigRef gw)"
| "binding_guard K ms (EDeleteBinding b) \<longleftrightarrow> ours K (gbMeta b) ms
     \<and> (case spGateway (msSpec ms) of None \<Rightarrow> True | Some gw \<Rightarrow> gbProvider (gbSpec b) \<noteq> gwProvider gw)"
| "binding_guard K ms e \<longleftrightarrow> is_report e"

lemma binding_guard_report: "is_report e \<Longrightarrow> binding_guard K ms e"
  by (cases e) auto

lemma deleteBinding_emits: "binding_guard K ms (EDeleteBinding b) \<Longrightarrow> emits (binding_guard K ms) (deleteBinding A b)"
  unfolding deleteBinding_def by (intro emits_rules)

lemma submitBinding_emits:
  assumes "spGateway (msSpec ms) = Some gw" "ownerUID K m = srvUID ms" "omName m = gatewayBindingName K (srvName ms)"
  shows "emits (binding_guard K ms) (submitBinding K A ms ((desiredBinding K ms gw)\<lparr>gbMeta := m\<rparr>) found)"
  unfolding submitBinding_def Let_def
  by (intro emits_case emits_if emits_return emits_if_ours[OF binding_guard_report] emits_bind[OF emits_request] emits_bind[OF deleteBinding_emits])
     (simp_all add: assms desiredBinding_def)

lemma reconcileGatewayBinding_emits:
  assumes "set_controller_law K"
  shows "emits (binding_guard K ms) (reconcileGatewayBinding K A ms)"
  unfolding reconcileGatewayBinding_def
  by (intro emits_bind[OF emits_call] emits_case emits_return emits_if_ours[OF binding_guard_report] deleteBinding_emits submitBinding_emits)
     (auto dest!: set_controller_keeps[OF assms] simp: desiredBinding_def)

lemma cleanupGatewayBinding_emits: "emits (binding_guard K ms) (cleanupGatewayBindingIfRemoved K A ms)"
  unfolding cleanupGatewayBindingIfRemoved_def
  by (intro emits_if emits_bind[OF emits_call] emits_case emits_return emits_if_ours[OF binding_guard_report] emits_bind[OF deleteBinding_emits]) simp_all

interpretation gateway_binding: guarded_handler "set_controller_law K" "reconcileGatewayBinding K A ms" "binding_guard K ms"
  for K A ms
  by unfold_locales (rule reconcileGatewayBinding_emits)

text \<open>
  Whatever the API server answers, the gateway step creates only the server's own binding, as its specification says,
  changes only bindings it owns, and deletes one only if it owns it and the specification no longer has this gateway
  provider; so a registered binding of the current provider is never deleted.
\<close>

lemma gateway_step_guarded:
  assumes "set_controller_law K" "trace s = []" "run_state (reconcileGatewayBinding K A ms) s = (r, s')" "e \<in> set (trace s')"
  shows "case e of
      ECreateBinding b \<Rightarrow> ownerUID K (gbMeta b) = srvUID ms \<and> omName (gbMeta b) = gatewayBindingName K (srvName ms)
        \<and> map_option gwProvider (spGateway (msSpec ms)) = Some (gbProvider (gbSpec b))
    | EUpdateBinding b \<Rightarrow> ours K (gbMeta b) ms \<and> map_option gwConfigRef (spGateway (msSpec ms)) = Some (gbConfigRef (gbSpec b))
    | EDeleteBinding b \<Rightarrow> ours K (gbMeta b) ms \<and> map_option gwProvider (spGateway (msSpec ms)) \<noteq> Some (gbProvider (gbSpec b))
    | _ \<Rightarrow> is_report e"
  using gateway_binding.run_from_empty[OF assms(1,3,2,4)] by (cases e) (auto split: option.splits)

definition gateway_server :: MCPServer where
  "gateway_server = zero_server\<lparr>msSpec := zero_spec\<lparr>spGateway := Some \<lparr>gwProvider = ''kuadrant'', gwConfigRef = ''cfg''\<rparr>\<rparr>\<rparr>"

fun is_create_binding :: "effect \<Rightarrow> bool" where
  "is_create_binding (ECreateBinding b) = True"
| "is_create_binding _ = False"

lemma gateway_step_guarded_witness:
  "case run_state (reconcileGatewayBinding sample_lib sample_api gateway_server) start_state of (r, s') \<Rightarrow>
     \<exists>b. ECreateBinding b \<in> set (trace s') \<and> gbProvider (gbSpec b) = ''kuadrant''"
proof -
  obtain r s' where run: "run_state (reconcileGatewayBinding sample_lib sample_api gateway_server) start_state = (r, s')" by fastforce
  have "list_ex is_create_binding (trace (snd (run_state (reconcileGatewayBinding sample_lib sample_api gateway_server) start_state)))"
    by code_simp
  with run obtain b where d: "ECreateBinding b \<in> set (trace s')" by (auto simp: list_ex_iff elim!: is_create_binding.elims)
  from gateway_step_guarded[OF sample_lib_laws(4) _ run d] d show ?thesis unfolding run by (auto simp: gateway_server_def)
qed

section \<open>What the gateway adds to the status\<close>

lemma gatewayCondition_emits: "emits P (gatewayCondition A ms st r m)"
  by (simp add: gatewayCondition_def newCondition_emits)

lemma reconcileGatewayCondition_emits: "emits P (reconcileGatewayCondition K A ms)"
  unfolding reconcileGatewayCondition_def Let_def
  by (intro emits_if emits_bind emits_call emits_case emits_return gatewayCondition_emits)

lemma applyGatewayStatus_emits: "(\<And>e. is_report e \<Longrightarrow> P e) \<Longrightarrow> emits P (applyGatewayStatus K A ms gw c u)"
  unfolding applyGatewayStatus_def Let_def
  by (intro emits_if emits_bind emits_return newCondition_emits emits_report)

lemma gatewayCondition_value:
  assumes "spGateway (msSpec ms) \<noteq> None" "run_state (reconcileGatewayCondition K A ms) s = (g, s1)"
    and "getBinding A (gatewayBindingName K (srvName ms)) (srvNamespace ms) (world s) = (answer, w')"
  shows "\<exists>gw. g = Some gw
     \<and> (cStatus (gsCondition gw) = ConditionTrue) = (case answer of Inl _ \<Rightarrow> False | Inr b \<Rightarrow> bindingRegistered K b)
     \<and> gsGatewayAddress gw = (case answer of Inl _ \<Rightarrow> [] | Inr b \<Rightarrow> if bindingRegistered K b then gbURL (gbStatus b) else [])
     \<and> gsErr gw = (case answer of Inl e \<Rightarrow> if isNotFound K e then None else Some e | Inr _ \<Rightarrow> None)"
  using assms(1,2)
  by (cases answer)
     (auto simp: reconcileGatewayCondition_def assms(3) run_call Let_def gatewayCondition_def notRegistered_def
        split: prod.splits if_splits dest!: condition_run(1))

lemma applyGatewayStatus_value:
  assumes "run_state (applyGatewayStatus K A ms gw available url) s = ((gw', available', url'), s')"
  shows "(cStatus available' = ConditionTrue) = (cStatus available = ConditionTrue \<and> cStatus (gsCondition gw) = ConditionTrue)
     \<and> url' = (if gsGatewayAddress gw = [] then url else gsGatewayAddress gw) \<and> gsErr gw' = gsErr gw
     \<and> gsCondition gw' = preserveLastTransitionTime K (gsCondition gw) (srvConditions ms)"
  using assms
  by (auto simp: applyGatewayStatus_def Let_def preserve_same recordCondition_def run_ops newAvailableCondition_def split: prod.splits if_splits
      dest!: condition_run(2))

lemma resolveGatewayStatus_value:
  assumes "spGateway (msSpec ms) \<noteq> None"
    and "run_state (resolveGatewayStatus K A ms available url) s = ((g, available', url'), s')"
  shows "\<exists>answer w w' gw. getBinding A (gatewayBindingName K (srvName ms)) (srvNamespace ms) w = (answer, w') \<and> g = Some gw \<and>
     (case answer of
        Inl e \<Rightarrow> cStatus available' \<noteq> ConditionTrue \<and> url' = url \<and> gsErr gw = (if isNotFound K e then None else Some e)
      | Inr b \<Rightarrow> (cStatus available' = ConditionTrue) = (cStatus available = ConditionTrue \<and> bindingRegistered K b)
          \<and> url' = (if bindingRegistered K b \<and> gbURL (gbStatus b) \<noteq> [] then gbURL (gbStatus b) else url) \<and> gsErr gw = None)"
proof -
  obtain g0 s1 where c: "run_state (reconcileGatewayCondition K A ms) s = (g0, s1)" by fastforce
  obtain answer w' where ans: "getBinding A (gatewayBindingName K (srvName ms)) (srvNamespace ms) (world s) = (answer, w')" by fastforce
  from gatewayCondition_value[OF assms(1) c ans] obtain gw where gw: "g0 = Some gw"
    "(cStatus (gsCondition gw) = ConditionTrue) = (case answer of Inl _ \<Rightarrow> False | Inr b \<Rightarrow> bindingRegistered K b)"
    "gsGatewayAddress gw = (case answer of Inl _ \<Rightarrow> [] | Inr b \<Rightarrow> if bindingRegistered K b then gbURL (gbStatus b) else [])"
    "gsErr gw = (case answer of Inl e \<Rightarrow> if isNotFound K e then None else Some e | Inr _ \<Rightarrow> None)"
    by auto
  obtain gw' where g: "g = Some gw'" and ap: "run_state (applyGatewayStatus K A ms gw available url) s1 = ((gw', available', url'), s')"
    using assms(2) by (auto simp: resolveGatewayStatus_def c gw(1) split: prod.splits)
  from applyGatewayStatus_value[OF ap] gw(2-4) g ans show ?thesis
    by (intro exI[of _ answer] exI[of _ "world s"] exI[of _ w'] exI[of _ gw']) (auto split: sum.splits)
qed

text \<open>
  C29: with a gateway in the specification, the server stays available only while its binding is registered for the
  binding's current generation. The address becomes the URL of the binding when the binding is registered and has one; in every other case (the binding cannot be read, is not registered, or
  has no URL) it stays the internal address of the server. A failed read of the binding is handed on as an error, unless the binding does not exist.
\<close>

theorem gateway_gates_availability:
  assumes "spGateway (msSpec ms) \<noteq> None"
    and "run_state (resolveGatewayStatus K A ms available url) s = ((g, available', url'), s')"
  shows "\<exists>answer w w' gw. getBinding A (gatewayBindingName K (srvName ms)) (srvNamespace ms) w = (answer, w') \<and> g = Some gw \<and>
     (case answer of
        Inl e \<Rightarrow> cStatus available' \<noteq> ConditionTrue \<and> url' = url \<and> gsErr gw = (if isNotFound K e then None else Some e)
      | Inr b \<Rightarrow> (cStatus available' = ConditionTrue) = (cStatus available = ConditionTrue \<and> bindingRegistered K b)
          \<and> url' = (if bindingRegistered K b \<and> gbURL (gbStatus b) \<noteq> [] then gbURL (gbStatus b) else url) \<and> gsErr gw = None)"
  by (rule resolveGatewayStatus_value[OF assms])

theorem gateway_gates_availability_witness:
  "case run_state (resolveGatewayStatus sample_lib sample_api gateway_server available_condition ''http://s'') start_state of
     ((g, available', url'), s') \<Rightarrow> cStatus available' \<noteq> ConditionTrue \<and> url' = ''http://s''"
proof -
  obtain g a u s' where run: "run_state (resolveGatewayStatus sample_lib sample_api gateway_server available_condition ''http://s'') start_state
      = ((g, a, u), s')" by (metis prod.exhaust)
  from gateway_gates_availability[OF _ run] show ?thesis unfolding run by (auto simp: gateway_server_def sample_api_def)
qed

end
