(* ===== verification/ConfigHash.thy ===== *)
theory ConfigHash
  imports Metadata "HOL-Library.List_Lexorder" "HOL-Library.Char_ord"
begin

text \<open>
  Which ConfigMaps and Secrets a server depends on, the hash of their content that rolls its pods, and the watches that map
  their events back to servers (\<open>internal/controller/mcpserver_controller_confighash.go\<close>).
\<close>

section \<open>References\<close>

text \<open>Appending a name that was not seen before; the names seen are those of the list.\<close>

definition addName :: "string \<Rightarrow> string list \<Rightarrow> string list" where
  "addName name names = (if name \<in> set names then names else names @ [name])"

definition storageConfigMaps :: "MCPServer \<Rightarrow> string list" where
  "storageConfigMaps ms = concat (map (\<lambda>st.
     case ssConfigMap (smSource st) of
       Some cm \<Rightarrow> if ssType (smSource st) = StorageTypeConfigMap then [cmvName cm] else []
     | None \<Rightarrow> []) (cfgStorage (spConfig (msSpec ms))))"

definition envFromConfigMaps :: "MCPServer \<Rightarrow> string list" where
  "envFromConfigMaps ms = concat (map (\<lambda>e. case efConfigMapRef e of Some r \<Rightarrow> [esName r] | None \<Rightarrow> [])
     (cfgEnvFrom (spConfig (msSpec ms))))"

definition envConfigMaps :: "MCPServer \<Rightarrow> string list" where
  "envConfigMaps ms = concat (map (\<lambda>e. case evValueFrom e of
      Some v \<Rightarrow> (case evsConfigMapKeyRef v of Some r \<Rightarrow> [ksName r] | None \<Rightarrow> [])
    | None \<Rightarrow> []) (cfgEnv (spConfig (msSpec ms))))"

definition gatewayConfigMaps :: "MCPServer \<Rightarrow> string list" where
  "gatewayConfigMaps ms = (case spGateway (msSpec ms) of
     Some gw \<Rightarrow> if gwConfigRef gw \<noteq> [] then [gwConfigRef gw] else []
   | None \<Rightarrow> [])"

definition extractConfigMapNames :: "MCPServer \<Rightarrow> string list" where
  "extractConfigMapNames ms = fold addName (storageConfigMaps ms @ envFromConfigMaps ms @ envConfigMaps ms @ gatewayConfigMaps ms) []"

definition storageSecrets :: "MCPServer \<Rightarrow> string list" where
  "storageSecrets ms = concat (map (\<lambda>st.
     case ssSecret (smSource st) of
       Some s \<Rightarrow> if ssType (smSource st) = StorageTypeSecret then [svSecretName s] else []
     | None \<Rightarrow> []) (cfgStorage (spConfig (msSpec ms))))"

definition envFromSecrets :: "MCPServer \<Rightarrow> string list" where
  "envFromSecrets ms = concat (map (\<lambda>e. case efSecretRef e of Some r \<Rightarrow> [esName r] | None \<Rightarrow> [])
     (cfgEnvFrom (spConfig (msSpec ms))))"

definition envSecrets :: "MCPServer \<Rightarrow> string list" where
  "envSecrets ms = concat (map (\<lambda>e. case evValueFrom e of
      Some v \<Rightarrow> (case evsSecretKeyRef v of Some r \<Rightarrow> [ksName r] | None \<Rightarrow> [])
    | None \<Rightarrow> []) (cfgEnv (spConfig (msSpec ms))))"

definition extractPodSecretNames :: "MCPServer \<Rightarrow> string list" where
  "extractPodSecretNames ms = fold addName (storageSecrets ms @ envFromSecrets ms @ envSecrets ms) []"

definition caBundleSecrets :: "MCPServer \<Rightarrow> string list" where
  "caBundleSecrets ms = (case spTransport (msSpec ms) of
     Some t \<Rightarrow> (case trTLS t of
        Some tls \<Rightarrow> (case tlsCABundleSecret tls of Some ref \<Rightarrow> [secrefName ref] | None \<Rightarrow> [])
      | None \<Rightarrow> [])
   | None \<Rightarrow> [])"

definition extractSecretNames :: "MCPServer \<Rightarrow> string list" where
  "extractSecretNames ms = fold addName (caBundleSecrets ms) (extractPodSecretNames ms)"

definition extractWorkloadRefNames :: "MCPServer \<Rightarrow> string list" where
  "extractWorkloadRefNames ms = (case spWorkloadRef (msSpec ms) of Some ref \<Rightarrow> [wrName ref] | None \<Rightarrow> [])"

definition extractServiceRefNames :: "MCPServer \<Rightarrow> string list" where
  "extractServiceRefNames ms = (case spServiceRef (msSpec ms) of Some ref \<Rightarrow> [srName ref] | None \<Rightarrow> [])"

section \<open>The hash\<close>

text \<open>
  The bytes written to the hash are one record per key: kind, name and key, then the value, then a zero byte. The keys are sorted as byte strings.
\<close>

definition hashRecord :: "string \<Rightarrow> string \<Rightarrow> string \<times> string \<Rightarrow> string" where
  "hashRecord kind name kv = kind @ ''/'' @ name @ ''/'' @ fst kv @ ''='' @ snd kv @ [CHR 0x00]"

definition configMapValue :: "ConfigMap \<Rightarrow> string \<Rightarrow> string" where
  "configMapValue cm k = (case map_of (cmData cm) k of
     Some v \<Rightarrow> v
   | None \<Rightarrow> (case map_of (cmBinaryData cm) k of Some v \<Rightarrow> v | None \<Rightarrow> []))"

definition configMapEntries :: "ConfigMap \<Rightarrow> (string \<times> string) list" where
  "configMapEntries cm = map (\<lambda>k. (k, configMapValue cm k)) (sort (map fst (cmData cm) @ map fst (cmBinaryData cm)))"

definition secretEntries :: "Secret \<Rightarrow> (string \<times> string) list" where
  "secretEntries sec = map (\<lambda>k. (k, case map_of (secData sec) k of Some v \<Rightarrow> v | None \<Rightarrow> [])) (sort (map fst (secData sec)))"

definition hashText :: "string \<Rightarrow> string \<Rightarrow> (string \<times> string) list \<Rightarrow> string" where
  "hashText kind name entries = concat (map (hashRecord kind name) entries)"

text \<open>The loop over the sorted names: what was written so far, and whether any object was found.\<close>

fun hashObjects ::
    "K8sLib \<Rightarrow> (string \<Rightarrow> ('w, go_error + 'o) M) \<Rightarrow> (string \<Rightarrow> 'o \<Rightarrow> string) \<Rightarrow> string list \<Rightarrow> string \<times> bool
     \<Rightarrow> ('w, go_error + string \<times> bool) M" where
  "hashObjects K get text [] acc = State_Monad.return (Inr acc)"
| "hashObjects K get text (name # names) acc = do {
     r \<leftarrow> get name;
     (case r of
        Inl err \<Rightarrow> if isNotFound K err then hashObjects K get text names acc else State_Monad.return (Inl err)
      | Inr obj \<Rightarrow> hashObjects K get text names (fst acc @ text name obj, True))
   }"

definition computeConfigHash :: "K8sLib \<Rightarrow> 'w Api \<Rightarrow> MCPServer \<Rightarrow> ('w, go_error + string) M" where
  "computeConfigHash K A ms =
     (let configMapNames = extractConfigMapNames ms; secretNames = extractPodSecretNames ms
      in if configMapNames = [] \<and> secretNames = [] then State_Monad.return (Inr [])
         else do {
           r \<leftarrow> hashObjects K (\<lambda>n. call (readConfigMap A n (srvNamespace ms)))
                 (\<lambda>n cm. hashText ''configmap'' n (configMapEntries cm)) (sort configMapNames) ([], False);
           (case r of
              Inl err \<Rightarrow> State_Monad.return (Inl err)
            | Inr acc \<Rightarrow> do {
                r' \<leftarrow> hashObjects K (\<lambda>n. call (readSecret A n (srvNamespace ms)))
                      (\<lambda>n sec. hashText ''secret'' n (secretEntries sec)) (sort secretNames) acc;
                State_Monad.return (case r' of
                   Inl err \<Rightarrow> Inl err
                 | Inr (written, dataWritten) \<Rightarrow> if \<not> dataWritten then Inr [] else Inr (sha256hex K written))
              })
         })"

abbreviation configHashAnnotation :: string where "configHashAnnotation \<equiv> ''mcp.x-k8s.io/config-hash''"

definition applyConfigHash :: "K8sLib \<Rightarrow> 'w Api \<Rightarrow> MCPServer \<Rightarrow> Deployment \<Rightarrow> ('w, go_error + Deployment) M" where
  "applyConfigHash K A ms d = do {
     r \<leftarrow> computeConfigHash K A ms;
     State_Monad.return (case r of
        Inl err \<Rightarrow> Inl err
      | Inr configHash \<Rightarrow> Inr (if configHash \<noteq> []
          then d\<lparr>depTemplateAnnotations := gm_put (gm_make (depTemplateAnnotations d)) configHashAnnotation configHash\<rparr> else d))
   }"

section \<open>Watches\<close>

abbreviation configMapIndexKey :: string where "configMapIndexKey \<equiv> ''spec.configMapRefs''"
abbreviation secretIndexKey :: string where "secretIndexKey \<equiv> ''spec.secretRefs''"
abbreviation workloadRefIndexKey :: string where "workloadRefIndexKey \<equiv> ''spec.workloadRef''"
abbreviation serviceRefIndexKey :: string where "serviceRefIndexKey \<equiv> ''spec.serviceRef''"

text \<open>\<open>reconcile.Request\<close>: a name and a namespace.\<close>

type_synonym Request = "string \<times> string"

definition findMCPServersForResource :: "'w Api \<Rightarrow> string \<Rightarrow> string \<Rightarrow> string \<Rightarrow> ('w, Request list) M" where
  "findMCPServersForResource A resourceName namespace indexKey = do {
     r \<leftarrow> call (listMCPServers A namespace indexKey resourceName);
     State_Monad.return (case r of Inl err \<Rightarrow> [] | Inr items \<Rightarrow> map (\<lambda>m. (srvName m, srvNamespace m)) items)
   }"

definition findMCPServersForConfigMap :: "'w Api \<Rightarrow> ObjectMeta \<Rightarrow> ('w, Request list) M" where
  "findMCPServersForConfigMap A obj = findMCPServersForResource A (omName obj) (omNamespace obj) configMapIndexKey"

definition findMCPServersForSecret :: "'w Api \<Rightarrow> ObjectMeta \<Rightarrow> ('w, Request list) M" where
  "findMCPServersForSecret A obj = findMCPServersForResource A (omName obj) (omNamespace obj) secretIndexKey"

definition findMCPServersForWorkload :: "'w Api \<Rightarrow> ObjectMeta \<Rightarrow> ('w, Request list) M" where
  "findMCPServersForWorkload A obj = findMCPServersForResource A (omName obj) (omNamespace obj) workloadRefIndexKey"

definition findMCPServersForBYOService :: "'w Api \<Rightarrow> ObjectMeta \<Rightarrow> ('w, Request list) M" where
  "findMCPServersForBYOService A obj = findMCPServersForResource A (omName obj) (omNamespace obj) serviceRefIndexKey"

definition findMCPServersForPod :: "ObjectMeta \<Rightarrow> Request list" where
  "findMCPServersForPod pod = (case gm_get (omLabels pod) LabelKeyMCPServer of
     None \<Rightarrow> []
   | Some name \<Rightarrow> if name = [] then [] else [(name, omNamespace pod)])"

text \<open>The extractor that the controller registers for an index key.\<close>

definition indexExtractor :: "string \<Rightarrow> MCPServer \<Rightarrow> string list" where
  "indexExtractor key =
     (if key = configMapIndexKey then extractConfigMapNames
      else if key = secretIndexKey then extractSecretNames
      else if key = workloadRefIndexKey then extractWorkloadRefNames
      else if key = serviceRefIndexKey then extractServiceRefNames else (\<lambda>_. []))"

section \<open>The references are complete\<close>

lemma set_fold_addName: "set (fold addName ns acc) = set acc \<union> set ns"
  by (induction ns arbitrary: acc) (auto simp: addName_def)

lemma distinct_fold_addName: "distinct acc \<Longrightarrow> distinct (fold addName ns acc)"
  by (induction ns arbitrary: acc) (auto simp: addName_def)

text \<open>The objects a server uses, read off its specification.\<close>

definition usesConfigMap :: "MCPServer \<Rightarrow> string \<Rightarrow> bool" where
  "usesConfigMap ms n \<longleftrightarrow>
     (\<exists>st \<in> set (cfgStorage (spConfig (msSpec ms))). \<exists>cm. ssType (smSource st) = StorageTypeConfigMap \<and> ssConfigMap (smSource st) = Some cm \<and> cmvName cm = n)
   \<or> (\<exists>e \<in> set (cfgEnvFrom (spConfig (msSpec ms))). \<exists>r. efConfigMapRef e = Some r \<and> esName r = n)
   \<or> (\<exists>e \<in> set (cfgEnv (spConfig (msSpec ms))). \<exists>v r. evValueFrom e = Some v \<and> evsConfigMapKeyRef v = Some r \<and> ksName r = n)
   \<or> (\<exists>gw. spGateway (msSpec ms) = Some gw \<and> gwConfigRef gw = n \<and> n \<noteq> [])"

definition mountsSecret :: "MCPServer \<Rightarrow> string \<Rightarrow> bool" where
  "mountsSecret ms n \<longleftrightarrow>
     (\<exists>st \<in> set (cfgStorage (spConfig (msSpec ms))). \<exists>s. ssType (smSource st) = StorageTypeSecret \<and> ssSecret (smSource st) = Some s \<and> svSecretName s = n)
   \<or> (\<exists>e \<in> set (cfgEnvFrom (spConfig (msSpec ms))). \<exists>r. efSecretRef e = Some r \<and> esName r = n)
   \<or> (\<exists>e \<in> set (cfgEnv (spConfig (msSpec ms))). \<exists>v r. evValueFrom e = Some v \<and> evsSecretKeyRef v = Some r \<and> ksName r = n)"

definition trustsSecret :: "MCPServer \<Rightarrow> string \<Rightarrow> bool" where
  "trustsSecret ms n \<longleftrightarrow> (\<exists>t tls ref. spTransport (msSpec ms) = Some t \<and> trTLS t = Some tls \<and> tlsCABundleSecret tls = Some ref \<and> secrefName ref = n)"

lemma in_set_case: "n \<in> set (case x of Some y \<Rightarrow> f y | None \<Rightarrow> []) \<longleftrightarrow> (\<exists>y. x = Some y \<and> n \<in> set (f y))"
  by (cases x) auto

lemma in_set_if: "n \<in> set (if b then [m] else []) \<longleftrightarrow> b \<and> m = n"
  by auto

lemma in_set_concat: "n \<in> set (concat (map f xs)) \<longleftrightarrow> (\<exists>x \<in> set xs. n \<in> set (f x))"
  by simp

lemma in_set_single: "n \<in> set [m] \<longleftrightarrow> m = n"
  by auto

lemmas reference_sets = set_append Un_iff in_set_concat in_set_case in_set_if in_set_single

lemma set_extractConfigMapNames: "n \<in> set (extractConfigMapNames ms) \<longleftrightarrow> usesConfigMap ms n"
  unfolding extractConfigMapNames_def set_fold_addName storageConfigMaps_def envFromConfigMaps_def envConfigMaps_def gatewayConfigMaps_def
    usesConfigMap_def reference_sets by auto

lemma set_extractPodSecretNames: "n \<in> set (extractPodSecretNames ms) \<longleftrightarrow> mountsSecret ms n"
  unfolding extractPodSecretNames_def set_fold_addName storageSecrets_def envFromSecrets_def envSecrets_def mountsSecret_def reference_sets
  by auto

lemma set_extractSecretNames: "n \<in> set (extractSecretNames ms) \<longleftrightarrow> mountsSecret ms n \<or> trustsSecret ms n"
  unfolding extractSecretNames_def set_fold_addName caBundleSecrets_def trustsSecret_def reference_sets set_extractPodSecretNames
  by blast

text \<open>
  The documented behaviour of a field index of the cache: listing by an index key returns the servers of the namespace whose
  registered extractor yields the value.
\<close>

definition index_law :: "'w Api \<Rightarrow> MCPServer list \<Rightarrow> bool" where
  "index_law A servers \<longleftrightarrow> (\<forall>ns key v w. \<exists>w'. listMCPServers A ns key v w =
     (Inr (filter (\<lambda>m. srvNamespace m = ns \<and> v \<in> set (indexExtractor key m)) servers), w'))"

lemma find_for_resource:
  assumes "index_law A servers"
  shows "(n, ns) \<in> set (fst (run_state (findMCPServersForResource A v ns' key) s)) \<longleftrightarrow>
     (\<exists>m \<in> set servers. srvName m = n \<and> srvNamespace m = ns \<and> ns = ns' \<and> v \<in> set (indexExtractor key m))"
proof -
  obtain w' where "listMCPServers A ns' key v (world s) = (Inr (filter (\<lambda>m. srvNamespace m = ns' \<and> v \<in> set (indexExtractor key m)) servers), w')"
    using assms unfolding index_law_def by blast
  then show ?thesis by (auto simp: findMCPServersForResource_def run_ops image_iff)
qed

text \<open>
  an event of a ConfigMap or a Secret reconciles exactly the servers of its namespace that use it: through a storage
  mount, the environment, the gateway configuration, or as the CA bundle of the handshake.
\<close>

lemma reference_events_reach_users:
  assumes "index_law A servers"
  shows "((n, ns) \<in> set (fst (run_state (findMCPServersForConfigMap A obj) s)) \<longleftrightarrow>
      (\<exists>m \<in> set servers. srvName m = n \<and> srvNamespace m = ns \<and> ns = omNamespace obj \<and> usesConfigMap m (omName obj)))
    \<and> ((n, ns) \<in> set (fst (run_state (findMCPServersForSecret A obj) s)) \<longleftrightarrow>
      (\<exists>m \<in> set servers. srvName m = n \<and> srvNamespace m = ns \<and> ns = omNamespace obj
         \<and> (mountsSecret m (omName obj) \<or> trustsSecret m (omName obj))))"
  unfolding findMCPServersForConfigMap_def findMCPServersForSecret_def find_for_resource[OF assms]
  by (simp add: indexExtractor_def set_extractConfigMapNames set_extractSecretNames)

definition indexed_server :: MCPServer where
  "indexed_server = zero_server\<lparr>msMeta := zero_meta\<lparr>omName := ''s'', omNamespace := ''ns''\<rparr>,
     msSpec := zero_spec\<lparr>spGateway := Some \<lparr>gwProvider = ''kuadrant'', gwConfigRef = ''cfg''\<rparr>\<rparr>\<rparr>"

definition indexed_api :: "nat Api" where
  "indexed_api = sample_api\<lparr>listMCPServers := \<lambda>ns key v w.
     (Inr (filter (\<lambda>m. srvNamespace m = ns \<and> v \<in> set (indexExtractor key m)) [indexed_server]), w)\<rparr>"

lemma reference_events_reach_users_witness:
  "(''s'', ''ns'') \<in> set (fst (run_state (findMCPServersForConfigMap indexed_api (zero_meta\<lparr>omName := ''cfg'', omNamespace := ''ns''\<rparr>)) start_state))"
proof -
  have l: "index_law indexed_api [indexed_server]" by (auto simp: index_law_def indexed_api_def)
  show ?thesis
    unfolding reference_events_reach_users[OF l, THEN conjunct1] by (simp add: indexed_server_def usesConfigMap_def)
qed

section \<open>The hash sees every change\<close>

lemma hashRecord_split: "hashRecord kind name (k, v) = (kind @ ''/'' @ name @ ''/'' @ k @ ''='' @ v) @ CHR 0x00 # []"
  by (simp add: hashRecord_def)

text \<open>Keys of ConfigMaps and Secrets are names without an equals sign; the values here are text without a zero byte.\<close>

definition plain_entry :: "string \<times> string \<Rightarrow> bool" where
  "plain_entry kv \<longleftrightarrow> CHR ''='' \<notin> set (fst kv) \<and> CHR 0x00 \<notin> set (fst kv) \<and> CHR 0x00 \<notin> set (snd kv)"

lemma hashText_inject:
  assumes "list_all plain_entry xs" "list_all plain_entry ys" "CHR 0x00 \<notin> set kind" "CHR 0x00 \<notin> set name"
  shows "hashText kind name xs = hashText kind name ys \<longleftrightarrow> xs = ys"
  using assms
proof (induction xs arbitrary: ys)
  case Nil
  then show ?case by (cases ys) (auto simp: hashText_def hashRecord_def)
next
  case (Cons x xs)
  show ?case
  proof (cases ys)
    case (Cons y ys')
    obtain k v l w where xy: "x = (k, v)" "y = (l, w)" by fastforce
    let ?p = "\<lambda>k v. kind @ ''/'' @ name @ ''/'' @ k @ ''='' @ v"
    have p: "CHR 0x00 \<notin> set (?p k v)" "CHR 0x00 \<notin> set (?p l w)" "CHR ''='' \<notin> set k" "CHR ''='' \<notin> set l"
      using Cons.prems by (auto simp: xy Cons plain_entry_def)
    have "hashText kind name (x # xs) = hashText kind name ys \<longleftrightarrow> ?p k v = ?p l w \<and> hashText kind name xs = hashText kind name ys'"
      unfolding Cons xy hashText_def by (simp only: list.map concat.simps hashRecord_split append.assoc append_Cons append_Nil)
        (use cut_first[OF p(1,2)] in simp)
    also have "?p k v = ?p l w \<longleftrightarrow> k = l \<and> v = w" using cut_first[OF p(3,4), of v w] by auto
    finally show ?thesis using Cons.IH[of ys'] Cons.prems by (auto simp: Cons xy)
  qed (auto simp: hashText_def hashRecord_def)
qed

lemma sorted_entries_eq:
  fixes xs ys :: "(string \<times> string) list"
  assumes "distinct (map fst xs)" "distinct (map fst ys)"
    and "map (\<lambda>k. (k, case map_of xs k of Some v \<Rightarrow> v | None \<Rightarrow> [])) (sort (map fst xs))
       = map (\<lambda>k. (k, case map_of ys k of Some v \<Rightarrow> v | None \<Rightarrow> [])) (sort (map fst ys))"
  shows "map_of xs = map_of ys"
proof
  fix k
  let ?e = "\<lambda>zs. map (\<lambda>k. (k, case map_of zs k of Some v \<Rightarrow> v | None \<Rightarrow> [])) (sort (map fst zs))"
  have e: "map_of (?e zs) k = map_of zs k" for zs :: "(string \<times> string) list"
  proof (cases "map_of zs k")
    case None
    then have "k \<notin> set (sort (map fst zs))" by (metis map_of_eq_None_iff set_map set_sort)
    then show ?thesis using None by (simp add: map_of_map_restrict restrict_map_def)
  next
    case (Some v)
    then have "k \<in> set (sort (map fst zs))" by (metis domI dom_map_of_conv_image_fst set_map set_sort)
    then show ?thesis using Some by (simp add: map_of_map_restrict restrict_map_def)
  qed
  have "map_of (?e xs) k = map_of (?e ys) k" by (simp only: assms(3))
  then show "map_of xs k = map_of ys k" by (simp only: e)
qed

text \<open>
  the text hashed for a Secret, and with it the annotation that rolls the pods, changes exactly when the data of the
  Secret changes: it does not depend on the order in which the keys are listed, and, for keys without an equals sign and values without a zero byte, no two
  different contents are written alike.
\<close>

lemma secret_hash_text_iff:
  assumes "distinct (map fst (secData a))" "distinct (map fst (secData b))"
    and "list_all plain_entry (secData a)" "list_all plain_entry (secData b)" "CHR 0x00 \<notin> set name"
  shows "hashText ''secret'' name (secretEntries a) = hashText ''secret'' name (secretEntries b) \<longleftrightarrow> map_of (secData a) = map_of (secData b)"
proof -
  have plain: "list_all plain_entry (secretEntries z)" if "list_all plain_entry (secData z)" for z
    unfolding list_all_iff
  proof
    fix x assume "x \<in> set (secretEntries z)"
    then obtain k where k: "k \<in> set (map fst (secData z))" "x = (k, case map_of (secData z) k of Some v \<Rightarrow> v | None \<Rightarrow> [])"
      by (auto simp: secretEntries_def)
    then obtain v where "map_of (secData z) k = Some v" by (cases "map_of (secData z) k") (simp_all add: map_of_eq_None_iff)
    with k that show "plain_entry x" by (auto simp: list_all_iff dest: map_of_SomeD)
  qed
  have keys: "sort (map fst (secData a)) = sort (map fst (secData b))" if "map_of (secData a) = map_of (secData b)"
  proof -
    have "set (map fst (secData a)) = set (map fst (secData b))" using that by (metis dom_map_of_conv_image_fst list.set_map)
    then show ?thesis using assms(1,2) by (intro sorted_distinct_set_unique) simp_all
  qed
  have "secretEntries a = secretEntries b \<longleftrightarrow> map_of (secData a) = map_of (secData b)"
    using sorted_entries_eq[OF assms(1,2)] keys by (auto simp: secretEntries_def)
  then show ?thesis using hashText_inject[OF plain[OF assms(3)] plain[OF assms(4)], of "''secret''" name] assms(5) by simp
qed

lemma secret_hash_text_iff_witness:
  "hashText ''secret'' ''n'' (secretEntries \<lparr>secMeta = zero_meta, secData = [(''a'', ''1''), (''b'', ''2'')]\<rparr>)
     = hashText ''secret'' ''n'' (secretEntries \<lparr>secMeta = zero_meta, secData = [(''b'', ''2''), (''a'', ''1'')]\<rparr>)"
  by (subst secret_hash_text_iff) (auto simp: plain_entry_def fun_eq_iff)

end
