(* ===== verification/ManagedDeployment.thy ===== *)
theory ManagedDeployment
  imports Ownership ConfigHash Workload
begin

text \<open>
  The Deployment of a managed server (\<open>internal/controller/mcpserver_controller_deployment.go\<close>): what it is built of, when an
  existing one is updated, and the handler.
\<close>

section \<open>Defaults\<close>

definition defaultContainerSecurityContext :: SecurityContext where
  "defaultContainerSecurityContext = \<lparr>scPrivileged = None, scAllowPrivilegeEscalation = Some False, scReadOnlyRootFilesystem = Some True,
     scRunAsNonRoot = Some True, scRunAsUser = None, scCapabilities = Some \<lparr>capAdd = [], capDrop = [''ALL'']\<rparr>,
     scSeccompProfile = Some ''RuntimeDefault'', scOther = []\<rparr>"

definition defaultContainerResources :: ResourceRequirements where
  "defaultContainerResources = \<lparr>rrRequests = [(''cpu'', ''50m''), (''memory'', ''64Mi'')],
     rrLimits = [(''cpu'', ''500m''), (''memory'', ''256Mi'')], rrOther = []\<rparr>"

definition withProbeDefaults :: "Probe \<Rightarrow> Probe" where
  "withProbeDefaults p = p\<lparr>
     prFailureThreshold := (if prFailureThreshold p = 0 then 3 else prFailureThreshold p),
     prPeriodSeconds := (if prPeriodSeconds p = 0 then 10 else prPeriodSeconds p),
     prSuccessThreshold := (if prSuccessThreshold p = 0 then 1 else prSuccessThreshold p),
     prTimeoutSeconds := (if prTimeoutSeconds p = 0 then 1 else prTimeoutSeconds p)\<rparr>"

definition defaultMCPReadinessProbe :: "int \<Rightarrow> Probe" where
  "defaultMCPReadinessProbe port = withProbeDefaults \<lparr>prHandler = TCPSocket (IntVal port), prFailureThreshold = 0, prPeriodSeconds = 0,
     prSuccessThreshold = 0, prTimeoutSeconds = 0, prOther = []\<rparr>"

definition defaultImagePullPolicy :: "string \<Rightarrow> string" where
  "defaultImagePullPolicy img =
     (if containsStr img ''@'' then ''IfNotPresent''
      else if lastIndexChar img (CHR '':'') \<le> lastIndexChar img (CHR ''/'') \<or> hasSuffix img '':latest'' then ''Always''
      else ''IfNotPresent'')"

section \<open>The desired Deployment\<close>

definition tlsEnvVarOverridden :: "string \<Rightarrow> EnvVar list \<Rightarrow> bool" where
  "tlsEnvVarOverridden name tlsVars = list_ex (\<lambda>v. evName v = name) tlsVars"

definition storageVolume :: "nat \<Rightarrow> StorageMount \<Rightarrow> Volume" where
  "storageVolume i st =
     (let v = \<lparr>volName = ''vol-'' @ itoa (int i), volConfigMap = None, volSecret = None, volEmptyDir = None\<rparr>; src = smSource st
      in if ssType src = StorageTypeConfigMap then v\<lparr>volConfigMap := ssConfigMap src\<rparr>
         else if ssType src = StorageTypeSecret then v\<lparr>volSecret := ssSecret src\<rparr>
         else if ssType src = StorageTypeEmptyDir then v\<lparr>volEmptyDir := ssEmptyDir src\<rparr>
         else v)"

definition storageVolumeMount :: "nat \<Rightarrow> StorageMount \<Rightarrow> VolumeMount" where
  "storageVolumeMount i st =
     (let m = \<lparr>vmName = ''vol-'' @ itoa (int i), vmMountPath = smPath st, vmReadOnly = False, vmRecursiveReadOnly = None\<rparr>;
          permissions = (if smPermissions st = [] then MountPermissionsReadOnly else smPermissions st)
      in if permissions = MountPermissionsReadOnly then m\<lparr>vmReadOnly := True\<rparr>
         else if permissions = MountPermissionsReadWrite then m\<lparr>vmReadOnly := False\<rparr>
         else if permissions = MountPermissionsRecursiveReadOnly then m\<lparr>vmReadOnly := True, vmRecursiveReadOnly := Some ''Enabled''\<rparr>
         else m)"

definition processStorageMounts :: "MCPServer \<Rightarrow> Volume list \<times> VolumeMount list" where
  "processStorageMounts ms =
     (let mounts = enumerate 0 (cfgStorage (spConfig (msSpec ms)))
      in (map (\<lambda>(i, st). storageVolume i st) mounts, map (\<lambda>(i, st). storageVolumeMount i st) mounts))"

definition containerEnv :: "Reconciler \<Rightarrow> MCPServer \<Rightarrow> EnvVar list" where
  "containerEnv R ms =
     (let env = cfgEnv (spConfig (msSpec ms)); tls = rTLSEnvVars R
      in if tls \<noteq> [] \<or> env \<noteq> [] then filter (\<lambda>e. \<not> tlsEnvVarOverridden (evName e) tls) env @ tls else [])"

definition serverContainer :: "Reconciler \<Rightarrow> MCPServer \<Rightarrow> ContainerImageSource \<Rightarrow> Container" where
  "serverContainer R ms img =
     (let cfg = spConfig (msSpec ms); rt = spRuntime (msSpec ms)
      in \<lparr>ctName = ManagedWorkloadName, ctImage = cisRef img, ctImagePullPolicy = cisPullPolicy img,
          ctPorts = [\<lparr>cpName = ''mcp'', cpContainerPort = cfgPort cfg, cpProtocol = ''TCP''\<rparr>],
          ctArgs = cfgArguments cfg, ctEnv = containerEnv R ms, ctEnvFrom = cfgEnvFrom cfg,
          ctSecurityContext = Some (case secSecurityContext (rtSecurity rt) of Some c \<Rightarrow> c | None \<Rightarrow> defaultContainerSecurityContext),
          ctResources = (case rtResources rt of Some r \<Rightarrow> r | None \<Rightarrow> defaultContainerResources),
          ctLivenessProbe = map_option withProbeDefaults (hcLivenessProbe (rtHealth rt)),
          ctReadinessProbe = Some (case hcReadinessProbe (rtHealth rt) of
              Some p \<Rightarrow> withProbeDefaults p | None \<Rightarrow> defaultMCPReadinessProbe (cfgPort cfg)),
          ctVolumeMounts = snd (processStorageMounts ms), ctOther = []\<rparr>)"

text \<open>
  In the source the Deployment and its pod template share one label map; every later write to one is also made to the
  other, so two equal maps are the same.
\<close>

definition createDeployment :: "Reconciler \<Rightarrow> MCPServer \<Rightarrow> go_error + Deployment" where
  "createDeployment R ms =
     (if srcType (spSource (msSpec ms)) \<noteq> SourceTypeContainerImage
      then Inl (ErrorString (''unsupported source type: '' @ srcType (spSource (msSpec ms))))
      else case srcContainerImage (spSource (msSpec ms)) of
        None \<Rightarrow> Inl (ErrorString ''containerImage must be set when source type is ContainerImage'')
      | Some img \<Rightarrow>
         (let security = rtSecurity (spRuntime (msSpec ms))
          in Inr \<lparr>depMeta = zero_meta\<lparr>omName := srvName ms, omNamespace := srvNamespace ms, omLabels := managedWorkloadLabels (srvName ms)\<rparr>,
               depReplicas = Some (case rtReplicas (spRuntime (msSpec ms)) of Some n \<Rightarrow> n | None \<Rightarrow> 1),
               depSelector = Some \<lparr>lsMatchLabels = managedWorkloadSelector (srvName ms), lsMatchExpressions = []\<rparr>,
               depTemplateLabels = managedWorkloadLabels (srvName ms),
               depTemplateAnnotations = None,
               depPodSpec = \<lparr>psContainers = [serverContainer R ms img], psImagePullSecrets = cisImagePullSecrets img,
                 psVolumes = fst (processStorageMounts ms), psServiceAccountName = secServiceAccountName security,
                 psSecurityContext = Some (case secPodSecurityContext security of
                     Some c \<Rightarrow> c | None \<Rightarrow> \<lparr>pscRunAsNonRoot = None, pscRunAsUser = None, pscOther = []\<rparr>),
                 psOther = []\<rparr>,
               depStatus = \<lparr>dsConditions = [], dsReadyReplicas = 0, dsObservedGeneration = 0\<rparr>\<rparr>))"

section \<open>When an existing Deployment is updated\<close>

definition imagePullPolicyNeedsUpdate :: "Container \<Rightarrow> Container \<Rightarrow> bool" where
  "imagePullPolicyNeedsUpdate existing desired =
     (if ctImagePullPolicy desired \<noteq> [] then ctImagePullPolicy existing \<noteq> ctImagePullPolicy desired
      else if ctImagePullPolicy existing = [] then False
      else ctImagePullPolicy existing \<noteq> defaultImagePullPolicy (ctImage desired))"

definition sameImagePullSecrets :: "K8sLib \<Rightarrow> string list \<Rightarrow> string list \<Rightarrow> bool" where
  "sameImagePullSecrets K existing desired =
     (if existing = [] \<and> desired = [] then True else semanticDeepEqual K (IStrings existing) (IStrings desired))"

definition containerNeedsUpdate :: "K8sLib \<Rightarrow> Container \<Rightarrow> Container \<Rightarrow> bool" where
  "containerNeedsUpdate K old new =
     (\<not> semanticDeepEqual K (IStrings (ctArgs old)) (IStrings (ctArgs new))
      \<or> \<not> semanticDeepEqual K (IEnv (ctEnv old)) (IEnv (ctEnv new))
      \<or> \<not> semanticDeepEqual K (IEnvFrom (ctEnvFrom old)) (IEnvFrom (ctEnvFrom new))
      \<or> \<not> semanticDeepEqual K (IVolumeMounts (ctVolumeMounts old)) (IVolumeMounts (ctVolumeMounts new))
      \<or> \<not> semanticDeepEqual K (IResources (ctResources old)) (IResources (ctResources new))
      \<or> \<not> semanticDeepEqual K (IContainerPorts (ctPorts old)) (IContainerPorts (ctPorts new))
      \<or> \<not> semanticDeepEqual K (ISecurity (ctSecurityContext old)) (ISecurity (ctSecurityContext new))
      \<or> \<not> semanticDeepEqual K (IProbe (ctLivenessProbe old)) (IProbe (ctLivenessProbe new))
      \<or> \<not> semanticDeepEqual K (IProbe (ctReadinessProbe old)) (IProbe (ctReadinessProbe new)))"

definition deploymentNeedsUpdate :: "K8sLib \<Rightarrow> MCPServer \<Rightarrow> Deployment \<Rightarrow> Deployment \<Rightarrow> bool \<Rightarrow> bool" where
  "deploymentNeedsUpdate K ms existing desired adopted =
     (let oldPodSpec = depPodSpec existing; newPodSpec = depPodSpec desired
      in case psContainers oldPodSpec of
           [] \<Rightarrow> True
         | old # _ \<Rightarrow> (case psContainers newPodSpec of
             [] \<Rightarrow> False
           | new # _ \<Rightarrow>
               \<not> semanticDeepDerivative K (IPodSpec newPodSpec) (IPodSpec oldPodSpec)
             \<or> imagePullPolicyNeedsUpdate old new
             \<or> \<not> sameImagePullSecrets K (psImagePullSecrets oldPodSpec) (psImagePullSecrets newPodSpec)
             \<or> containerNeedsUpdate K old new
             \<or> \<not> semanticDeepEqual K (IPodSecurity (psSecurityContext oldPodSpec)) (IPodSecurity (psSecurityContext newPodSpec))
             \<or> \<not> semanticDeepEqual K (IVolumes (psVolumes oldPodSpec)) (IVolumes (psVolumes newPodSpec))
             \<or> psServiceAccountName oldPodSpec \<noteq> psServiceAccountName newPodSpec
             \<or> \<not> semanticDeepEqual K (IInt32Ptr (depReplicas existing)) (IInt32Ptr (depReplicas desired))
             \<or> \<not> semanticDeepEqual K (IStringMap (depTemplateLabels existing)) (IStringMap (depTemplateLabels desired))
             \<or> \<not> semanticDeepEqual K (IStringMap (depTemplateAnnotations existing)) (IStringMap (depTemplateAnnotations desired))
             \<or> deploymentAnnotationsChanged ms existing
             \<or> deploymentLabelsChanged ms existing
             \<or> adopted))"

section \<open>The handler\<close>

definition createNewDeployment :: "K8sLib \<Rightarrow> 'w Api \<Rightarrow> MCPServer \<Rightarrow> Deployment \<Rightarrow> ('w, go_error + Deployment) M" where
  "createNewDeployment K A ms deployment =
     (case applyCustomDeploymentMetadata K ms deployment of
        Inl e \<Rightarrow> State_Monad.return (Inl (Wrap ''applying custom metadata failed; '' e))
      | Inr d \<Rightarrow> request (ECreateDeployment d) (createDeploymentApi A d))"

definition updateDeployment :: "K8sLib \<Rightarrow> 'w Api \<Rightarrow> MCPServer \<Rightarrow> Deployment \<Rightarrow> Deployment \<Rightarrow> ('w, go_error + Deployment) M" where
  "updateDeployment K A ms deployment existing =
     (case setControllerReference K ms (depMeta existing) of
        Inl e \<Rightarrow> State_Monad.return (Inl e)
      | Inr meta \<Rightarrow>
          (let current = existing\<lparr>depMeta := meta\<rparr>
           in if deploymentNeedsUpdate K ms current deployment (ownershipChanged K (depMeta existing) meta)
              then (case applyCustomDeploymentMetadata K ms (current\<lparr>depReplicas := depReplicas deployment,
                          depTemplateLabels := depTemplateLabels deployment,
                          depTemplateAnnotations := depTemplateAnnotations deployment, depPodSpec := depPodSpec deployment\<rparr>) of
                      Inl e \<Rightarrow> State_Monad.return (Inl (Wrap ''applying custom metadata failed; '' e))
                    | Inr d \<Rightarrow> do {
                        r \<leftarrow> request (EUpdateDeployment d) (updateDeploymentApi A d);
                        (case r of
                           Inl e \<Rightarrow> State_Monad.return (Inl e)
                         | Inr updated \<Rightarrow> call (getDeployment A (omName (depMeta updated)) (omNamespace (depMeta updated))))
                      })
              else State_Monad.return (Inr current)))"

definition submitDeployment :: "K8sLib \<Rightarrow> 'w Api \<Rightarrow> MCPServer \<Rightarrow> Deployment \<Rightarrow> ('w, go_error + Deployment) M" where
  "submitDeployment K A ms deployment = do {
     r \<leftarrow> call (getDeployment A (omName (depMeta deployment)) (omNamespace (depMeta deployment)));
     (case r of
        Inl err \<Rightarrow> if isNotFound K err then createNewDeployment K A ms deployment else State_Monad.return (Inl err)
      | Inr existing \<Rightarrow> do {
          o' \<leftarrow> validateOwnership K ''Deployment'' (depMeta existing) ms;
          (case o' of Inl e \<Rightarrow> State_Monad.return (Inl e) | Inr _ \<Rightarrow> updateDeployment K A ms deployment existing)
        })
   }"

definition reconcileDeployment :: "K8sLib \<Rightarrow> 'w Api \<Rightarrow> Reconciler \<Rightarrow> MCPServer \<Rightarrow> ('w, go_error + Deployment) M" where
  "reconcileDeployment K A R ms =
     (case createDeployment R ms of
        Inl e \<Rightarrow> State_Monad.return (Inl e)
      | Inr desired \<Rightarrow>
         (case setControllerReference K ms (depMeta desired) of
            Inl e \<Rightarrow> State_Monad.return (Inl e)
          | Inr meta \<Rightarrow> do {
              h \<leftarrow> applyConfigHash K A ms (desired\<lparr>depMeta := meta\<rparr>);
              (case h of
                 Inl e \<Rightarrow> State_Monad.return (Inl e)
               | Inr deployment \<Rightarrow> submitDeployment K A ms deployment)
            }))"


section \<open>What the handler sends\<close>

lemma template_keeps:
  assumes "updateTemplateMap msg eff old m = Inr m'" "gm_wf eff" "gm_get eff k = None" "gm_get old k = None"
  shows "gm_get m' k = gm_get m k"
proof -
  let ?m = "if gm_equal eff old then m else gm_delete_keys old m"
  have d: "gm_get ?m k = gm_get m k" using assms(4) by (simp add: gm_get_delete_keys)
  show ?thesis
  proof (cases "gm_len eff > 0")
    case True
    then have "mergeIfAny msg (gm_make ?m) eff = Inr m'" using assms(1) by (simp add: updateTemplateMap_def Let_def)
    from mergeIfAny_made_Inr[OF this assms(2), of k] d assms(3) show ?thesis by simp
  next
    case False
    then show ?thesis using assms(1) d by (simp add: updateTemplateMap_def Let_def split: if_splits)
  qed
qed

lemma custom_deployment_keeps:
  assumes "applyCustomDeploymentMetadata K ms d = Inr d'"
  shows "depPodSpec d' = depPodSpec d \<and> depReplicas d' = depReplicas d \<and> depSelector d' = depSelector d
     \<and> applyCustomObjectMetadata K ms (depMeta d) = Inr (depMeta d')"
  using assms by (auto simp: applyCustomDeploymentMetadata_def Let_def split: sum.splits)

lemma custom_deployment_label:
  assumes "applyCustomDeploymentMetadata K ms d = Inr d'" "spec_maps_wf ms" "omAnnotations (depMeta d) = None" "reservedLabelKeys k"
  shows "gm_get (depTemplateLabels d') k = gm_get (depTemplateLabels d) k"
proof -
  have "readManaged managedExtraLabels None = Some None" by (simp add: readManaged_def)
  then obtain tlab where t: "updateTemplateMap ''appending pod template labels failed; '' (effectiveLabels ms) None (depTemplateLabels d) = Inr tlab"
      "depTemplateLabels d' = tlab"
    using assms(1,3) by (auto simp: applyCustomDeploymentMetadata_def Let_def split: sum.splits)
  show ?thesis using template_keeps[OF t(1) effective_wf(1)[OF assms(2)] effectiveLabels_unreserved[OF assms(4)]] t(2) by simp
qed

text \<open>A Deployment that runs the container of the specification.\<close>

definition runs_server :: "Reconciler \<Rightarrow> MCPServer \<Rightarrow> Deployment \<Rightarrow> bool" where
  "runs_server R ms d \<longleftrightarrow> (\<exists>d0. createDeployment R ms = Inr d0 \<and> depPodSpec d = depPodSpec d0 \<and> depReplicas d = depReplicas d0)"

fun deployment_guard :: "K8sLib \<Rightarrow> 'w Api \<Rightarrow> Reconciler \<Rightarrow> MCPServer \<Rightarrow> effect \<Rightarrow> bool" where
  "deployment_guard K A R ms (ECreateDeployment d) \<longleftrightarrow> ownerUID K (depMeta d) = srvUID ms \<and> runs_server R ms d
     \<and> omName (depMeta d) = srvName ms \<and> omNamespace (depMeta d) = srvNamespace ms
     \<and> depSelector d = Some \<lparr>lsMatchLabels = managedWorkloadSelector (srvName ms), lsMatchExpressions = []\<rparr>
     \<and> (spec_maps_wf ms \<longrightarrow> gm_get (depTemplateLabels d) LabelKeyMCPServer = Some (srvName ms))
     \<and> absent_before K (getDeployment A) ms"
| "deployment_guard K A R ms (EUpdateDeployment d) \<longleftrightarrow> ownerUID K (depMeta d) = srvUID ms \<and> runs_server R ms d
     \<and> ours_before K (getDeployment A) depMeta ms (depMeta d)"
| "deployment_guard K A R ms e \<longleftrightarrow> is_report e"

lemma deployment_guard_report: "is_report e \<Longrightarrow> deployment_guard K A R ms e"
  by (cases e) auto

text \<open>What is known of the Deployment that the handler submits.\<close>

definition desired_deployment :: "K8sLib \<Rightarrow> Reconciler \<Rightarrow> MCPServer \<Rightarrow> Deployment \<Rightarrow> bool" where
  "desired_deployment K R ms d \<longleftrightarrow> (\<exists>d0 m a. createDeployment R ms = Inr d0 \<and> setControllerReference K ms (depMeta d0) = Inr m
     \<and> d = d0\<lparr>depMeta := m, depTemplateAnnotations := a\<rparr> \<and> (\<forall>k. gm_get a k \<noteq> None \<longrightarrow> k = configHashAnnotation))"

lemma createDeployment_facts:
  assumes "createDeployment R ms = Inr d0"
  shows "omName (depMeta d0) = srvName ms" "omNamespace (depMeta d0) = srvNamespace ms" "omAnnotations (depMeta d0) = None"
    "depTemplateLabels d0 = managedWorkloadLabels (srvName ms)" "depTemplateAnnotations d0 = None"
    "depSelector d0 = Some \<lparr>lsMatchLabels = managedWorkloadSelector (srvName ms), lsMatchExpressions = []\<rparr>"
    "\<exists>img. srcContainerImage (spSource (msSpec ms)) = Some img \<and> psContainers (depPodSpec d0) = [serverContainer R ms img]"
  using assms by (auto simp: createDeployment_def zero_meta_def Let_def split: if_splits option.splits)

lemma desired_facts:
  assumes "set_controller_law K" "desired_deployment K R ms d"
  shows "runs_server R ms d" "ownerUID K (depMeta d) = srvUID ms" "omName (depMeta d) = srvName ms" "omNamespace (depMeta d) = srvNamespace ms"
    "omAnnotations (depMeta d) = None" "depTemplateLabels d = managedWorkloadLabels (srvName ms)"
    "depSelector d = Some \<lparr>lsMatchLabels = managedWorkloadSelector (srvName ms), lsMatchExpressions = []\<rparr>"
  using assms(2) set_controller_keeps[OF assms(1)]
  by (auto simp: desired_deployment_def runs_server_def createDeployment_facts)

lemma createNewDeployment_emits:
  assumes "controller_law K" "set_controller_law K" "desired_deployment K R ms d" "absent_before K (getDeployment A) ms"
  shows "emits (deployment_guard K A R ms) (createNewDeployment K A ms d)"
proof -
  note f = desired_facts[OF assms(2,3)]
  have "deployment_guard K A R ms (ECreateDeployment d')" if d': "applyCustomDeploymentMetadata K ms d = Inr d'" for d'
    using custom_deployment_keeps[OF d'] custom_keeps_owner[OF assms(1), of ms "depMeta d" "depMeta d'"] f
      custom_deployment_label[OF d' _ f(5), of LabelKeyMCPServer] assms(4)
    by (auto simp: runs_server_def managedWorkloadLabels_def reservedLabelKeys_def gm_get_def gm_list_def)
  then show ?thesis unfolding createNewDeployment_def by (intro emits_case emits_return emits_request)
qed

lemma updateDeployment_emits:
  assumes "controller_law K" "set_controller_law K" "runs_server R ms d" "ours_before K (getDeployment A) depMeta ms (depMeta existing)"
  shows "emits (deployment_guard K A R ms) (updateDeployment K A ms d existing)"
proof -
  have "deployment_guard K A R ms (EUpdateDeployment d')"
    if m: "setControllerReference K ms (depMeta existing) = Inr m"
      and d': "applyCustomDeploymentMetadata K ms (existing\<lparr>depMeta := m, depReplicas := depReplicas d, depTemplateLabels := depTemplateLabels d,
          depTemplateAnnotations := depTemplateAnnotations d, depPodSpec := depPodSpec d\<rparr>) = Inr d'" for m d'
    using custom_deployment_keeps[OF d'] custom_keeps[OF assms(1), of ms m "depMeta d'"] set_controller_keeps[OF assms(2) m] assms(3)
    by (auto simp: runs_server_def intro: ours_before_same[OF assms(4)])
  then show ?thesis
    unfolding updateDeployment_def Let_def
    by (intro emits_case emits_if emits_return emits_call emits_bind[OF emits_request]) simp_all
qed

lemma submitDeployment_emits:
  assumes "controller_law K" "set_controller_law K" "desired_deployment K R ms d"
  shows "emits (deployment_guard K A R ms) (submitDeployment K A ms d)"
  unfolding submitDeployment_def desired_facts(3,4)[OF assms(2,3)]
  by (intro emits_read_check_write[where get = "getDeployment A"] emits_return createNewDeployment_emits updateDeployment_emits ours_beforeI
      assms desired_facts(1)[OF assms(2,3)] deployment_guard_report)

lemma hashObjects_emits: "(\<And>n. emits P (get n)) \<Longrightarrow> emits P (hashObjects K get text ns acc)"
  by (induction ns arbitrary: acc) (auto intro!: emits_rules emits_case)

lemma applyConfigHash_emits: "emits P (applyConfigHash K A ms d)"
  unfolding applyConfigHash_def computeConfigHash_def Let_def
  by (intro emits_bind emits_if emits_return emits_case hashObjects_emits emits_call)

lemma applyConfigHash_value:
  assumes "createDeployment R ms = Inr d0" "setControllerReference K ms (depMeta d0) = Inr m"
  shows "valid (\<lambda>_. True) (applyConfigHash K A ms (d0\<lparr>depMeta := m\<rparr>)) (\<lambda>r _. \<forall>d. r = Inr d \<longrightarrow> desired_deployment K R ms d)"
proof (rule validI, intro allI impI)
  fix s r s' d assume run: "run_state (applyConfigHash K A ms (d0\<lparr>depMeta := m\<rparr>)) s = (r, s')" "r = Inr d"
  obtain c s1 where c: "run_state (computeConfigHash K A ms) s = (c, s1)" by fastforce
  with run obtain h where h: "c = Inr h" by (cases c) (auto simp: applyConfigHash_def)
  have d: "d = (if h \<noteq> [] then d0\<lparr>depMeta := m, depTemplateAnnotations := gm_put (gm_make (depTemplateAnnotations d0)) configHashAnnotation h\<rparr>
      else d0\<lparr>depMeta := m\<rparr>)"
    using run by (auto simp: applyConfigHash_def c h)
  have n: "depTemplateAnnotations d0 = None" "d0\<lparr>depMeta := m\<rparr> = d0\<lparr>depMeta := m, depTemplateAnnotations := None\<rparr>"
    using createDeployment_facts(5)[OF assms(1)] by (cases d0; simp)+
  define ann where "ann = (if h \<noteq> [] then gm_put (gm_make None) configHashAnnotation h else None)"
  have "d = d0\<lparr>depMeta := m, depTemplateAnnotations := ann\<rparr>" using d n by (simp add: ann_def split: if_splits)
  moreover have "\<forall>k. gm_get ann k \<noteq> None \<longrightarrow> k = configHashAnnotation" by (simp add: ann_def gm_get_put)
  ultimately show "desired_deployment K R ms d" unfolding desired_deployment_def using assms by blast
qed

lemma reconcileDeployment_emits:
  assumes "controller_law K" "set_controller_law K"
  shows "emits (deployment_guard K A R ms) (reconcileDeployment K A R ms)"
proof -
  have "emits (deployment_guard K A R ms) (applyConfigHash K A ms (d0\<lparr>depMeta := m\<rparr>) \<bind>
      (\<lambda>h. case h of Inl e \<Rightarrow> State_Monad.return (Inl e) | Inr deployment \<Rightarrow> submitDeployment K A ms deployment))"
    if "createDeployment R ms = Inr d0" "setControllerReference K ms (depMeta d0) = Inr m" for d0 m
    by (rule emits_bind_value[OF applyConfigHash_emits applyConfigHash_value[OF that]])
       (auto intro!: emits_case emits_return submitDeployment_emits assms)
  then show ?thesis unfolding reconcileDeployment_def by (intro emits_case emits_return)
qed

interpretation managed_deployment: guarded_handler "owner_laws K" "reconcileDeployment K A R ms" "deployment_guard K A R ms"
  for K A R ms
  by unfold_locales (auto intro: reconcileDeployment_emits)

lemma containerEnv_tls: "filter (\<lambda>e. tlsEnvVarOverridden (evName e) (rTLSEnvVars R)) (containerEnv R ms) = rTLSEnvVars R"
proof -
  have "filter (\<lambda>e. tlsEnvVarOverridden (evName e) tls) tls = tls" for tls
    by (rule filter_True) (auto simp: tlsEnvVarOverridden_def list_ex_iff)
  then show ?thesis by (auto simp: containerEnv_def Let_def filter_empty_conv)
qed

text \<open>
  Whatever the API server answers, the Deployment step writes only Deployments that this server controls, with exactly one container: the
  image of the specification, in the restricted security context unless the specification has its own, and with the operator's TLS variables,
  which the environment of the specification cannot override.
\<close>

lemma deployment_step_guarded:
  assumes "owner_laws K" "trace s = []" "run_state (reconcileDeployment K A R ms) s = (r, s')"
    and "e \<in> set (trace s')" "e = ECreateDeployment d \<or> e = EUpdateDeployment d"
  shows "ownerUID K (depMeta d) = srvUID ms \<and> (\<exists>c img. psContainers (depPodSpec d) = [c]
     \<and> srcContainerImage (spSource (msSpec ms)) = Some img \<and> ctImage c = cisRef img
     \<and> ctSecurityContext c = Some (case secSecurityContext (rtSecurity (spRuntime (msSpec ms))) of
          None \<Rightarrow> defaultContainerSecurityContext | Some own \<Rightarrow> own)
     \<and> filter (\<lambda>v. evName v \<in> evName ` set (rTLSEnvVars R)) (ctEnv c) = rTLSEnvVars R)"
proof -
  have "deployment_guard K A R ms e" by (rule managed_deployment.run_from_empty[OF assms(1,3,2,4)])
  with assms(5) obtain d0 where o: "ownerUID K (depMeta d) = srvUID ms" and d0: "createDeployment R ms = Inr d0" "depPodSpec d = depPodSpec d0"
    by (auto simp: runs_server_def)
  obtain img where img: "srcContainerImage (spSource (msSpec ms)) = Some img" "psContainers (depPodSpec d0) = [serverContainer R ms img]"
    using createDeployment_facts(7)[OF d0(1)] by blast
  have tls: "tlsEnvVarOverridden n tls \<longleftrightarrow> n \<in> evName ` set tls" for n tls by (auto simp: tlsEnvVarOverridden_def list_ex_iff)
  show ?thesis using o img containerEnv_tls[of R ms] unfolding tls
    by (auto simp: d0(2) serverContainer_def Let_def split: option.split)
qed

definition image_server :: MCPServer where
  "image_server = zero_server\<lparr>msSpec := zero_spec\<lparr>spSource := \<lparr>srcType = SourceTypeContainerImage,
     srcContainerImage = Some \<lparr>cisRef = ''quay.io/x:1'', cisPullPolicy = [], cisImagePullSecrets = []\<rparr>\<rparr>\<rparr>\<rparr>"

fun is_create_deployment :: "effect \<Rightarrow> bool" where
  "is_create_deployment (ECreateDeployment d) = True"
| "is_create_deployment _ = False"

lemma deployment_step_guarded_witness:
  "case run_state (reconcileDeployment sample_lib sample_api sample_reconciler image_server) start_state of (r, s') \<Rightarrow>
     \<exists>d c. ECreateDeployment d \<in> set (trace s') \<and> psContainers (depPodSpec d) = [c] \<and> ctImage c = ''quay.io/x:1''
       \<and> ctSecurityContext c = Some defaultContainerSecurityContext"
proof -
  obtain r s' where run: "run_state (reconcileDeployment sample_lib sample_api sample_reconciler image_server) start_state = (r, s')" by fastforce
  have "list_ex is_create_deployment (trace (snd (run_state (reconcileDeployment sample_lib sample_api sample_reconciler image_server) start_state)))"
    by code_simp
  with run obtain d where d: "ECreateDeployment d \<in> set (trace s')" by (auto simp: list_ex_iff elim!: is_create_deployment.elims)
  from deployment_step_guarded[OF _ _ run d] sample_lib_laws d show ?thesis
    unfolding run by (auto simp: image_server_def zero_defs)
qed


section \<open>When a written Deployment is left alone\<close>

text \<open>\<open>equality.Semantic\<close>: string maps that are deeply equal have the same entries; a value is a derivative of itself.\<close>

definition deep_equal_maps :: "K8sLib \<Rightarrow> bool" where
  "deep_equal_maps K \<longleftrightarrow> (\<forall>a b. semanticDeepEqual K (IStringMap a) (IStringMap b) \<longrightarrow> gm_get a = gm_get b)"

definition derivative_refl :: "K8sLib \<Rightarrow> bool" where
  "derivative_refl K \<longleftrightarrow> (\<forall>a. semanticDeepDerivative K a a)"

abbreviation equality_laws :: "K8sLib \<Rightarrow> bool" where
  "equality_laws K \<equiv> deep_equal_refl K \<and> deep_equal_maps K \<and> derivative_refl K"

lemma sample_lib_equality: "equality_laws sample_lib"
  using sample_lib_laws(3) by (auto simp: deep_equal_maps_def derivative_refl_def sample_lib_def)

lemma nothing_to_update:
  assumes "equality_laws K" "depPodSpec d' = depPodSpec d" "depReplicas d' = depReplicas d"
    "depTemplateLabels d' = depTemplateLabels d" "depTemplateAnnotations d' = depTemplateAnnotations d"
    "\<not> deploymentLabelsChanged ms d'" "\<not> deploymentAnnotationsChanged ms d'" "psContainers (depPodSpec d) = [c]"
  shows "\<not> deploymentNeedsUpdate K ms d' d False"
  using assms
  by (simp add: deploymentNeedsUpdate_def Let_def containerNeedsUpdate_def imagePullPolicyNeedsUpdate_def sameImagePullSecrets_def
      deep_equal_refl_def derivative_refl_def)

lemma template_differs:
  assumes "equality_laws K" "gm_get (depTemplateLabels d') \<noteq> gm_get (depTemplateLabels d) \<or> gm_get (depTemplateAnnotations d') \<noteq> gm_get (depTemplateAnnotations d)"
    "psContainers (depPodSpec d) = [c]"
  shows "deploymentNeedsUpdate K ms d' d adopted"
proof -
  have "\<not> semanticDeepEqual K (IStringMap (depTemplateLabels d')) (IStringMap (depTemplateLabels d))
      \<or> \<not> semanticDeepEqual K (IStringMap (depTemplateAnnotations d')) (IStringMap (depTemplateAnnotations d))"
    using assms(1,2) unfolding deep_equal_maps_def by blast
  then show ?thesis using assms(3) by (auto simp: deploymentNeedsUpdate_def Let_def split: list.split)
qed

lemma custom_deployment_total:
  assumes "applyCustomObjectMetadata K ms (depMeta d) = Inr m"
  shows "\<exists>d'. applyCustomDeploymentMetadata K ms d = Inr d'"
proof -
  have "\<exists>m'. updateTemplateMap msg eff old m = Inr m'" for msg eff old m
    unfolding updateTemplateMap_def Let_def using mergeIfAny_made by (metis sum.exhaust)
  then have "updateTemplateMap msg eff old m \<noteq> Inl e" for msg eff old m e by (metis Inr_Inl_False)
  then show ?thesis using assms by (auto simp: applyCustomDeploymentMetadata_def Let_def split: sum.split)
qed

lemma custom_deployment_plain:
  assumes "applyCustomDeploymentMetadata K ms d = Inr d'" "omAnnotations (depMeta d) = None"
    "gm_len (effectiveLabels ms) = 0" "gm_len (effectiveAnnotations ms) = 0"
  shows "depTemplateLabels d' = depTemplateLabels d \<and> depTemplateAnnotations d' = depTemplateAnnotations d"
  using assms
  by (auto simp: applyCustomDeploymentMetadata_def Let_def updateTemplateMap_def readManaged_def gm_equal_def gm_len_def gm_list_def
      split: sum.splits)

text \<open>
  C28: a Deployment that holds exactly what the operator wrote is written again on the next reconcile if, and only if, the specification
  has extra labels or annotations: the comparison of the pod template does not take these into account, although the detectors of the merge do.
\<close>

theorem rewritten_iff_extra_metadata:
  assumes "equality_laws K" "set_controller_law K" "spec_maps_wf ms" "desired_deployment K R ms d"
    and "applyCustomDeploymentMetadata K ms d = Inr d'"
  shows "deploymentNeedsUpdate K ms d' d False \<longleftrightarrow> gm_len (effectiveLabels ms) > 0 \<or> gm_len (effectiveAnnotations ms) > 0"
proof -
  note f = desired_facts[OF assms(2,4)] and k = custom_deployment_keeps[OF assms(5)] and t = deployment_template[OF assms(5,3)]
  from f(1) obtain img where c: "psContainers (depPodSpec d) = [serverContainer R ms img]"
    using createDeployment_facts(7) by (fastforce simp: runs_server_def)
  show ?thesis
  proof (cases "gm_len (effectiveLabels ms) > 0 \<or> gm_len (effectiveAnnotations ms) > 0")
    case True
    from assms(4) obtain a where a: "depTemplateAnnotations d = a" "\<forall>k. gm_get a k \<noteq> None \<longrightarrow> k = configHashAnnotation"
      by (auto simp: desired_deployment_def)
    have "gm_get (depTemplateLabels d') \<noteq> gm_get (depTemplateLabels d) \<or> gm_get (depTemplateAnnotations d') \<noteq> gm_get (depTemplateAnnotations d)"
    proof (cases "gm_len (effectiveLabels ms) > 0")
      case True
      then obtain l where l: "gm_get (effectiveLabels ms) l \<noteq> None" by (metis gm_len_zero not_gr_zero)
      then have "\<not> reservedLabelKeys l" using effectiveLabels_unreserved by metis
      then have "gm_get (depTemplateLabels d) l = None" by (simp add: f(6) managedWorkloadLabels_def gm_get_def gm_list_def reservedLabelKeys_def)
      with t(2)[OF l] show ?thesis by metis
    next
      case False
      then obtain l where l: "gm_get (effectiveAnnotations ms) l \<noteq> None" using \<open>_ \<or> _\<close> by (metis gm_len_zero not_gr_zero)
      then have "l \<noteq> configHashAnnotation" using effectiveAnnotations_unreserved[of configHashAnnotation ms] by (auto simp: hasPrefix_def)
      then have "gm_get (depTemplateAnnotations d) l = None" using a by metis
      with t(3)[OF l] show ?thesis by metis
    qed
    with template_differs[OF assms(1) _ c] True show ?thesis by blast
  next
    case False
    with custom_deployment_plain[OF assms(5) f(5)] deployment_settles[OF assms(3,5)] k nothing_to_update[OF assms(1) _ _ _ _ _ _ c]
    show ?thesis by simp
  qed
qed

text \<open>A labelled server, whose Deployment is created and then read back.\<close>

definition labelled_image_server :: MCPServer where
  "labelled_image_server = image_server\<lparr>msSpec := (msSpec image_server)\<lparr>spExtraLabels := Some [(''team'', ''a'')]\<rparr>\<rparr>"

theorem rewritten_iff_extra_metadata_witness:
  "\<exists>d d'. applyCustomDeploymentMetadata sample_lib labelled_image_server d = Inr d'
     \<and> deploymentNeedsUpdate sample_lib labelled_image_server d' d False"
proof -
  have "\<not> isl (createDeployment sample_reconciler labelled_image_server)" by code_simp
  then obtain d0 where d0: "createDeployment sample_reconciler labelled_image_server = Inr d0" by (metis sum.collapse(2))
  obtain m where m: "setControllerReference sample_lib labelled_image_server (depMeta d0) = Inr m" by (simp add: sample_lib_def)
  define d where "d = d0\<lparr>depMeta := m, depTemplateAnnotations := None\<rparr>"
  have desired: "desired_deployment sample_lib sample_reconciler labelled_image_server d"
    unfolding desired_deployment_def using d0 m by (auto simp: d_def)
  have wf: "spec_maps_wf labelled_image_server"
    by (simp add: spec_maps_wf_def labelled_image_server_def image_server_def zero_defs gm_wf_def gm_list_def)
  have eff: "gm_len (effectiveLabels labelled_image_server) > 0"
    by (simp add: labelled_image_server_def image_server_def filterReservedKeys_def gm_len_def gm_list_def reservedLabelKeys_def)
  have n: "omAnnotations (depMeta d) = None" by (rule desired_facts(5)[OF sample_lib_laws(4) desired])
  have "\<exists>m'. applyCustomObjectMetadata sample_lib labelled_image_server (depMeta d) = Inr m'"
    using mergeIfAny_made
    by (auto simp: applyCustomObjectMetadata_def n readManaged_def gm_delete_def Let_def split: sum.splits)
  then obtain d' where d': "applyCustomDeploymentMetadata sample_lib labelled_image_server d = Inr d'"
    using custom_deployment_total by blast
  from rewritten_iff_extra_metadata[OF sample_lib_equality sample_lib_laws(4) wf desired d'] eff d' show ?thesis by blast
qed

section \<open>Storage\<close>

text \<open>
  Storage is mounted as declared: one volume and one mount per entry, paired by a name of their own, at the declared path, and writable
  only when the entry asks for it.
\<close>

lemma storage_mounts_paired:
  "case processStorageMounts ms of (volumes, mounts) \<Rightarrow>
     let storage = cfgStorage (spConfig (msSpec ms)) in
     map volName volumes = map vmName mounts \<and> distinct (map volName volumes)
     \<and> map vmMountPath mounts = map smPath storage
     \<and> map vmReadOnly mounts = map (\<lambda>st. smPermissions st \<in> {[], MountPermissionsReadOnly, MountPermissionsRecursiveReadOnly}) storage
     \<and> map volConfigMap volumes = map (\<lambda>st. if ssType (smSource st) = StorageTypeConfigMap then ssConfigMap (smSource st) else None) storage"
proof -
  have names: "map volName (fst (processStorageMounts ms)) = map (\<lambda>i. ''vol-'' @ itoa (int i)) [0..<length (cfgStorage (spConfig (msSpec ms)))]"
    "map vmName (snd (processStorageMounts ms)) = map (\<lambda>i. ''vol-'' @ itoa (int i)) [0..<length (cfgStorage (spConfig (msSpec ms)))]"
    by (rule nth_equalityI; simp add: processStorageMounts_def Let_def storageVolume_def storageVolumeMount_def nth_enumerate_eq)+
  have "inj (\<lambda>i. ''vol-'' @ itoa (int i))" by (rule injI) (simp add: itoa_inject)
  then have "distinct (map (\<lambda>i. ''vol-'' @ itoa (int i)) [0..<n])" for n by (simp add: distinct_map inj_on_def)
  moreover have "map vmMountPath (snd (processStorageMounts ms)) = map smPath (cfgStorage (spConfig (msSpec ms)))"
    "map vmReadOnly (snd (processStorageMounts ms)) = map (\<lambda>st. smPermissions st \<in> {[], MountPermissionsReadOnly, MountPermissionsRecursiveReadOnly})
       (cfgStorage (spConfig (msSpec ms)))"
    "map volConfigMap (fst (processStorageMounts ms)) =
       map (\<lambda>st. if ssType (smSource st) = StorageTypeConfigMap then ssConfigMap (smSource st) else None) (cfgStorage (spConfig (msSpec ms)))"
    by (rule nth_equalityI; simp add: processStorageMounts_def Let_def storageVolume_def storageVolumeMount_def nth_enumerate_eq)+
  ultimately show ?thesis using names by (simp add: case_prod_beta Let_def)
qed

section \<open>The pull policy\<close>

lemma lastIndexFrom_bound: "best < i \<Longrightarrow> 0 \<le> i \<Longrightarrow> lastIndexFrom best i c s < i + int (length s)"
  by (induction best i c s rule: lastIndexFrom.induct) (auto simp: algebra_simps)

lemma lastIndexFrom_absent: "c \<notin> set s \<Longrightarrow> lastIndexFrom best i c s = best"
  by (induction best i c s rule: lastIndexFrom.induct) auto

lemma lastIndexFrom_append: "lastIndexFrom best i c (a @ b) = lastIndexFrom (lastIndexFrom best i c a) (i + int (length a)) c b"
  by (induction best i c a rule: lastIndexFrom.induct) (auto simp: algebra_simps)

lemma hasPrefix_split: "hasPrefix s (p @ [c]) \<Longrightarrow> \<exists>z. s = p @ c # z"
  unfolding hasPrefix_def by (metis append.assoc append_Cons append_Nil append_take_drop_id)

text \<open>
  For an image reference with a tag, the assumed pull policy is the one Kubernetes defaults to: \<open>Always\<close> exactly for the tag \<open>latest\<close>;
  a reference without tag or digest counts as latest, also when its registry has a port, and a digest is never pulled again.
\<close>

lemma default_pull_policy:
  assumes "CHR ''@'' \<notin> set repo" "CHR ''@'' \<notin> set tag" "CHR ''/'' \<notin> set tag" "CHR '':'' \<notin> set tag"
  shows "defaultImagePullPolicy (repo @ '':'' @ tag) = (if tag = ''latest'' then ''Always'' else ''IfNotPresent'')
     \<and> defaultImagePullPolicy (repo @ ''/'' @ tag) = ''Always''
     \<and> defaultImagePullPolicy (repo @ ''@'' @ tag) = ''IfNotPresent''"
proof -
  have suffix: "hasSuffix (repo @ '':'' @ tag) '':latest'' \<longleftrightarrow> tag = ''latest''"
  proof
    assume "hasSuffix (repo @ '':'' @ tag) '':latest''"
    then have "hasPrefix (rev tag @ CHR '':'' # rev repo) (rev ''latest'' @ CHR '':'' # [])" by (simp add: hasSuffix_def)
    then obtain z where z: "rev tag @ CHR '':'' # rev repo = rev ''latest'' @ CHR '':'' # z" using hasPrefix_split by blast
    have "CHR '':'' \<notin> set (rev tag)" "CHR '':'' \<notin> set (rev ''latest'')" using assms(4) by simp_all
    from iffD1[OF cut_first[OF this] z] have "rev tag = rev ''latest''" by (rule conjunct1)
    then show "tag = ''latest''" by (simp only: rev_is_rev_conv)
  qed (simp add: hasSuffix_def hasPrefix_def)
  have colon: "lastIndexChar (repo @ '':'' @ tag) (CHR '':'') = int (length repo)"
    using assms(4) by (simp add: lastIndexChar_def lastIndexFrom_append lastIndexFrom_absent)
  have slash: "lastIndexChar (repo @ '':'' @ tag) (CHR ''/'') < int (length repo)"
    using assms(3) lastIndexFrom_bound[of "-1" 0 "CHR ''/''" repo] by (simp add: lastIndexChar_def lastIndexFrom_append lastIndexFrom_absent)
  have none: "lastIndexChar (repo @ ''/'' @ tag) (CHR '':'') \<le> lastIndexChar (repo @ ''/'' @ tag) (CHR ''/'')"
    using assms(3,4) lastIndexFrom_bound[of "-1" 0 "CHR '':''" repo] by (simp add: lastIndexChar_def lastIndexFrom_append lastIndexFrom_absent)
  show ?thesis
    using assms(1,2) colon slash none suffix by (simp add: defaultImagePullPolicy_def containsStr_char)
qed

lemma default_pull_policy_witness:
  "defaultImagePullPolicy (''localhost:5000/app'' @ '':'' @ ''latest'') = ''Always'' \<and> defaultImagePullPolicy (''localhost:5000'' @ ''/'' @ ''app'') = ''Always''"
  using default_pull_policy[of "''localhost:5000/app''" "''latest''"] default_pull_policy[of "''localhost:5000''" "''app''"] by simp

end
