(* ===== verification/Reconcile.thy ===== *)
theory Reconcile
  imports Validation Handshake ManagedService Gateway ManagedDeployment
begin

text \<open>
  The reconcile loop (\<open>internal/controller/mcpserver_controller.go\<close>, \<open>mcpserver_controller_endpoint.go\<close> and \<open>reconcileBYO\<close> of
  \<open>mcpserver_controller_byo.go\<close>): how the steps are put together, and the status that is published.
\<close>

section \<open>Building the status\<close>

definition empty_ac :: StatusAC where
  "empty_ac = \<lparr>acObservedGeneration = None, acDeploymentName = None, acServiceName = None, acWorkloadName = None,
     acWorkloadSummary = None, acGatewayBinding = None, acAddress = None, acServerInfo = None, acReplicas = None,
     acReadyReplicas = None, acConditions = []\<rparr>"

definition workloadStatusConfiguration :: "MCPServer \<Rightarrow> int \<Rightarrow> int \<Rightarrow> StatusAC" where
  "workloadStatusConfiguration ms replicas readyReplicas =
     (let status = empty_ac\<lparr>acObservedGeneration := Some (srvGeneration ms), acServiceName := Some (serviceNameFor ms),
            acReplicas := Some replicas, acReadyReplicas := Some readyReplicas\<rparr>
      in case spWorkloadRef (msSpec ms) of
           Some ref \<Rightarrow>
             (let name = wrKind ref @ ''/'' @ wrName ref
              in status\<lparr>acWorkloadName := Some name, acWorkloadSummary := Some (''BYO:'' @ name)\<rparr>)
         | None \<Rightarrow>
             (let st = status\<lparr>acDeploymentName := Some (srvName ms)\<rparr>
              in case srcContainerImage (spSource (msSpec ms)) of
                   None \<Rightarrow> st | Some img \<Rightarrow> st\<lparr>acWorkloadSummary := Some (cisRef img)\<rparr>))"

text \<open>A field that is not set is the zero value.\<close>

definition serverInfoToAC :: "MCPServerInfo \<Rightarrow> MCPServerInfo" where
  "serverInfoToAC info =
     \<lparr>siName = siName info, siVersion = siVersion info, siProtocolVersion = siProtocolVersion info, siInstructions = siInstructions info,
      siCapabilities = map_option (\<lambda>c. \<lparr>capTools = capTools c, capResources = capResources c, capPrompts = capPrompts c,
        capLogging = capLogging c, capCompletions = capCompletions c\<rparr>) (siCapabilities info)\<rparr>"

definition withConditions :: "StatusAC \<Rightarrow> Condition list \<Rightarrow> StatusAC" where
  "withConditions status cs = status\<lparr>acConditions := acConditions status @ cs\<rparr>"

definition withAddressWhenVerified :: "StatusAC \<Rightarrow> Condition \<Rightarrow> string \<Rightarrow> StatusAC" where
  "withAddressWhenVerified status verifiedCondition mcpURL =
     (if cStatus verifiedCondition = ConditionTrue then status\<lparr>acAddress := Some \<lparr>addrURL = mcpURL\<rparr>\<rparr> else status)"

text \<open>The failure paths carry the recorded gateway binding forward.\<close>

definition keepGatewayBinding :: "MCPServer \<Rightarrow> StatusAC \<Rightarrow> StatusAC" where
  "keepGatewayBinding ms status = (case stGatewayBinding (msStatus ms) of
     None \<Rightarrow> status
   | Some b \<Rightarrow> status\<lparr>acGatewayBinding := Some \<lparr>gbsName = gbsName b, gbsProvider = gbsProvider b\<rparr>\<rparr>)"

definition appendPersistentConditions ::
    "K8sLib \<Rightarrow> 'w Api \<Rightarrow> Reconciler \<Rightarrow> MCPServer \<Rightarrow> Condition list \<Rightarrow> Condition option \<Rightarrow> ('w, Condition list) M" where
  "appendPersistentConditions K A R ms conditions freshPosture = do {
     enforced \<leftarrow> policyEnforcedCondition K A R (srvGeneration ms) (srvConditions ms);
     let gateway = (case findStatusCondition K (srvConditions ms) ConditionTypeGatewayRegistered of
           None \<Rightarrow> [] | Some c \<Rightarrow> [conditionToAC c]);
     let posture = (case freshPosture of
           Some c \<Rightarrow> [conditionToAC c]
         | None \<Rightarrow> (case findStatusCondition K (srvConditions ms) ConditionTypeNetworkPolicyRestricted of
             None \<Rightarrow> [] | Some c \<Rightarrow> [conditionToAC c]));
     State_Monad.return (conditions @ [conditionToAC enforced] @ gateway @ posture)
   }"

definition applyStatus :: "'w Api \<Rightarrow> MCPServer \<Rightarrow> StatusAC \<Rightarrow> ('w, go_error option) M" where
  "applyStatus A ms status = do {
     r \<leftarrow> request (EApplyStatus (srvName ms) (srvNamespace ms) status) (applyStatusApi A (srvName ms) (srvNamespace ms) status);
     State_Monad.return (case r of Inl e \<Rightarrow> Some e | Inr _ \<Rightarrow> None)
   }"

abbreviation recordConditionOf :: "MCPServer \<Rightarrow> Condition \<Rightarrow> ('w, unit) M" where
  "recordConditionOf ms c \<equiv> recordCondition (srvName ms) (srvNamespace ms) (cType c) (cStatus c) (cReason c)"

abbreviation conditionOf ::
    "K8sLib \<Rightarrow> 'w Api \<Rightarrow> MCPServer \<Rightarrow> string \<Rightarrow> ConditionStatus \<Rightarrow> string \<Rightarrow> string \<Rightarrow> ('w, Condition) M" where
  "conditionOf K A ms ty status reason message \<equiv>
     newConditionPreserving K A ty status reason message (srvGeneration ms) (srvConditions ms)"

section \<open>Skipping\<close>

definition shouldSkipReconciliation :: "K8sLib \<Rightarrow> 'w Api \<Rightarrow> MCPServer \<Rightarrow> string \<Rightarrow> ('w, go_error + bool) M" where
  "shouldSkipReconciliation K A ms namespace =
     (if omDeletionTimestamp (msMeta ms) \<noteq> None then State_Monad.return (Inr True)
      else do {
        r \<leftarrow> call (getNamespace A namespace);
        State_Monad.return (case r of
           Inl err \<Rightarrow> if isNotFound K err then Inr True else Inl err
         | Inr ns \<Rightarrow> Inr (omDeletionTimestamp (nsMeta ns) \<noteq> None))
      })"

section \<open>Failures\<close>

type_synonym outcome = "Result \<times> go_error option"

definition afterFailure :: "go_error option \<Rightarrow> go_error \<Rightarrow> outcome" where
  "afterFailure statusErr reconcileErr = (case statusErr of
     Some e \<Rightarrow> (noRequeue, Some e)
   | None \<Rightarrow> if isOwnershipConflict reconcileErr then (noRequeue, None) else (noRequeue, Some reconcileErr))"

definition handleDeploymentReconcileError ::
    "K8sLib \<Rightarrow> 'w Api \<Rightarrow> Reconciler \<Rightarrow> MCPServer \<Rightarrow> Condition \<Rightarrow> go_error \<Rightarrow> ('w, outcome) M" where
  "handleDeploymentReconcileError K A R ms accepted err =
     (if isConflict K err then State_Monad.return (\<lparr>requeueAfter = requeueDelayConflict\<rparr>, None)
      else do {
        countFailure ''deployment_failures_total'' ms ''ReconcileError'';
        available \<leftarrow> conditionOf K A ms ConditionTypeAvailable ConditionFalse ReasonWorkloadUnavailable
                      (''Failed to reconcile Deployment: '' @ errText err);
        verified \<leftarrow> newNotVerifiedCondition K A (srvGeneration ms) (srvConditions ms);
        recordConditionOf ms available;
        (if \<not> duplicateWorkloadUnavailable K (srvConditions ms) (cMessage available)
         then emitWorkloadUnavailable R ms (cMessage available) else State_Monad.return ());
        conditions \<leftarrow> appendPersistentConditions K A R ms [conditionToAC accepted, conditionToAC available, conditionToAC verified] None;
        let status = keepGatewayBinding ms (withConditions
              (workloadStatusConfiguration ms (stReplicas (msStatus ms)) (stReadyReplicas (msStatus ms))) conditions);
        e \<leftarrow> applyStatus A ms status;
        State_Monad.return (afterFailure e err)
      })"

record 'w resourceFailureParams =
  rfCounter :: string
  rfReason :: string
  rfResource :: string
  rfIsDuplicate :: "K8sLib \<Rightarrow> Condition list \<Rightarrow> string \<Rightarrow> bool"
  rfEmitEvent :: "MCPServer \<Rightarrow> string \<Rightarrow> ('w, unit) M"
  rfNetworkPolicyPosture :: "Condition option"

definition handleResourceFailure ::
    "K8sLib \<Rightarrow> 'w Api \<Rightarrow> Reconciler \<Rightarrow> MCPServer \<Rightarrow> StatusAC \<Rightarrow> Condition \<Rightarrow> go_error \<Rightarrow> 'w resourceFailureParams \<Rightarrow> ('w, outcome) M" where
  "handleResourceFailure K A R ms status accepted err params =
     (if isConflict K err then State_Monad.return (\<lparr>requeueAfter = requeueDelayConflict\<rparr>, None)
      else do {
        countFailure (rfCounter params) ms ''ReconcileError'';
        available \<leftarrow> conditionOf K A ms ConditionTypeAvailable ConditionFalse (rfReason params)
                      (''Failed to reconcile '' @ rfResource params @ '': '' @ errText err);
        verified \<leftarrow> newNotVerifiedCondition K A (srvGeneration ms) (srvConditions ms);
        recordConditionOf ms available;
        (if \<not> rfIsDuplicate params K (srvConditions ms) (cMessage available)
         then rfEmitEvent params ms (cMessage available) else State_Monad.return ());
        conditions \<leftarrow> appendPersistentConditions K A R ms [conditionToAC accepted, conditionToAC available, conditionToAC verified]
                       (rfNetworkPolicyPosture params);
        e \<leftarrow> applyStatus A ms (keepGatewayBinding ms (withConditions status conditions));
        State_Monad.return (afterFailure e err)
      })"

definition reconcilePermanentValidationError ::
    "K8sLib \<Rightarrow> 'w Api \<Rightarrow> Reconciler \<Rightarrow> MCPServer \<Rightarrow> string \<Rightarrow> string \<Rightarrow> ('w, go_error option) M" where
  "reconcilePermanentValidationError K A R ms reason message = do {
     accepted \<leftarrow> conditionOf K A ms ConditionTypeAccepted ConditionFalse reason message;
     recordConditionOf ms accepted;
     countFailure ''validation_failures_total'' ms reason;
     available \<leftarrow> conditionOf K A ms ConditionTypeAvailable ConditionFalse ReasonConfigurationInvalid
                   ''Configuration must be fixed before server can start'';
     verified \<leftarrow> newNotVerifiedCondition K A (srvGeneration ms) (srvConditions ms);
     let prevAccepted = findStatusCondition K (srvConditions ms) ConditionTypeAccepted;
     conditions \<leftarrow> appendPersistentConditions K A R ms [conditionToAC accepted, conditionToAC available, conditionToAC verified] None;
     let status = keepGatewayBinding ms (withConditions
           (workloadStatusConfiguration ms (stReplicas (msStatus ms)) (stReadyReplicas (msStatus ms))) conditions);
     e \<leftarrow> applyStatus A ms status;
     (case e of
        Some err \<Rightarrow> State_Monad.return (Some err)
      | None \<Rightarrow> do {
          (if (case prevAccepted of None \<Rightarrow> False
               | Some prev \<Rightarrow> cStatus prev = ConditionFalse \<and> cReason prev = reason \<and> cMessage prev = message)
           then State_Monad.return () else emitConfigurationInvalid R ms reason message);
          auditConfigurationRejected ms reason message;
          recordConditionOf ms available;
          State_Monad.return None
        })
   }"

section \<open>The endpoint\<close>

definition maybeEmitWorkloadUnavailableEvent :: "K8sLib \<Rightarrow> Reconciler \<Rightarrow> MCPServer \<Rightarrow> Condition \<Rightarrow> ('w, unit) M" where
  "maybeEmitWorkloadUnavailableEvent K R ms available =
     (if cStatus available = ConditionFalse \<and> cReason available = ReasonWorkloadUnavailable
         \<and> \<not> duplicateWorkloadUnavailable K (srvConditions ms) (cMessage available)
      then emitWorkloadUnavailable R ms (cMessage available) else State_Monad.return ())"

abbreviation DefaultMCPPath :: string where "DefaultMCPPath \<equiv> ''/mcp''"

definition serverURL :: "MCPServer \<Rightarrow> ServiceEndpoint \<Rightarrow> string" where
  "serverURL ms endpoint =
     (let path = (if cfgPath (spConfig (msSpec ms)) = [] then DefaultMCPPath else cfgPath (spConfig (msSpec ms)))
      in urlScheme ms @ ''://'' @ epName endpoint @ ''.'' @ srvNamespace ms @ ''.svc.cluster.local:'' @ itoa (epPort endpoint) @ path)"

definition bindingFailure :: "Reconciler \<Rightarrow> Condition option \<Rightarrow> 'w resourceFailureParams" where
  "bindingFailure R posture = \<lparr>rfCounter = ''gateway_binding_failures_total'', rfReason = ReasonGatewayNotRegistered,
     rfResource = ''MCPGatewayBinding'', rfIsDuplicate = duplicateGatewayBindingUnavailable,
     rfEmitEvent = emitGatewayBindingReconcileFailed R, rfNetworkPolicyPosture = posture\<rparr>"

text \<open>The status of a completed pass, from the conditions and what the handshake returned.\<close>

definition completeStatus ::
    "StatusAC \<Rightarrow> gatewayStatus option \<Rightarrow> Condition \<Rightarrow> Condition \<Rightarrow> Condition \<Rightarrow> Condition option \<Rightarrow> Condition \<Rightarrow> string
     \<Rightarrow> MCPServerInfo option \<Rightarrow> StatusAC" where
  "completeStatus status gw accepted available verified posture enforced mcpURL serverInfo =
     (let s1 = applyGatewayStatusToAC status gw accepted available verified;
          s2 = (case posture of None \<Rightarrow> s1 | Some c \<Rightarrow> withConditions s1 [conditionToAC c]);
          s3 = withConditions s2 [conditionToAC enforced];
          s4 = withAddressWhenVerified s3 verified mcpURL
      in case serverInfo of None \<Rightarrow> s4 | Some i \<Rightarrow> s4\<lparr>acServerInfo := Some (serverInfoToAC i)\<rparr>)"

text \<open>What follows once the status is applied.\<close>

definition finishEndpoint ::
    "Reconciler \<Rightarrow> MCPServer \<Rightarrow> string \<Rightarrow> string \<Rightarrow> Condition \<Rightarrow> 32 word \<Rightarrow> gatewayStatus option \<Rightarrow> ('w, outcome) M" where
  "finishEndpoint R ms hash diff verified retryCount gw = do {
     updateTLSCABundleHash ms hash verified;
     (if diff \<noteq> [] then do {
        emit (EMetric ''capability_changes_total'' [(''name'', srvName ms), (''namespace'', srvNamespace ms)]);
        emitCapabilityChangeDetected R ms diff;
        auditCapabilityChange ms diff
      } else State_Monad.return ());
     (result, done) \<leftarrow> handshakeRequeue ms verified (sint retryCount);
     State_Monad.return (if done then (result, None) else (noRequeue, case gw of None \<Rightarrow> None | Some g \<Rightarrow> gsErr g))
   }"

definition publishEndpoint ::
    "K8sLib \<Rightarrow> 'w Api \<Rightarrow> Reconciler \<Rightarrow> MCPServer \<Rightarrow> Condition \<Rightarrow> Condition \<Rightarrow> StatusAC \<Rightarrow> string \<Rightarrow> Condition option \<Rightarrow> ('w, outcome) M" where
  "publishEndpoint K A R ms accepted available status mcpURL posture = do {
     hash \<leftarrow> computeTLSCABundleHash K A (srvNamespace ms) (transportTLS ms);
     (verified0, serverInfo) \<leftarrow> reconcileHandshake K A R ms mcpURL available hash;
     recordConditionOf ms verified0;
     (retryCount, verified) \<leftarrow> reconcileHandshakeEventsAndRetryCount K R ms verified0;
     (gw, available', url) \<leftarrow> resolveGatewayStatus K A ms available mcpURL;
     (if \<not> serverIsFullyReady K (srvConditions ms) \<and> cStatus available' = ConditionTrue \<and> cStatus verified = ConditionTrue
      then emitServerReady R ms else State_Monad.return ());
     enforced \<leftarrow> policyEnforcedCondition K A R (srvGeneration ms) (srvConditions ms);
     let diff = capabilityChangeMessage ms serverInfo;
     e \<leftarrow> applyStatus A ms (completeStatus status gw accepted available' verified posture enforced url serverInfo);
     (case e of
        Some err \<Rightarrow> State_Monad.return (noRequeue, Some err)
      | None \<Rightarrow> finishEndpoint R ms hash diff verified retryCount gw)
   }"

definition reconcileEndpoint ::
    "K8sLib \<Rightarrow> 'w Api \<Rightarrow> Reconciler \<Rightarrow> MCPServer \<Rightarrow> Condition \<Rightarrow> Condition \<Rightarrow> StatusAC \<Rightarrow> ServiceEndpoint \<Rightarrow> Condition option \<Rightarrow> ('w, outcome) M" where
  "reconcileEndpoint K A R ms accepted available status endpoint posture = do {
     e \<leftarrow> reconcileGatewayBinding K A ms;
     observePhase ''gatewaybinding'';
     (case e of
        Some err \<Rightarrow> handleResourceFailure K A R ms status accepted err (bindingFailure R posture)
      | None \<Rightarrow> publishEndpoint K A R ms accepted available status (serverURL ms endpoint) posture)
   }"

section \<open>The loop\<close>

definition serviceFailure :: "Reconciler \<Rightarrow> 'w resourceFailureParams" where
  "serviceFailure R = \<lparr>rfCounter = ''service_failures_total'', rfReason = ReasonServiceUnavailable, rfResource = ''Service'',
     rfIsDuplicate = duplicateServiceUnavailable, rfEmitEvent = emitServiceReconcileFailed R, rfNetworkPolicyPosture = None\<rparr>"

definition networkPolicyFailure :: "Reconciler \<Rightarrow> 'w resourceFailureParams" where
  "networkPolicyFailure R = \<lparr>rfCounter = ''networkpolicy_failures_total'', rfReason = ReasonNetworkPolicyUnavailable,
     rfResource = ''NetworkPolicy'', rfIsDuplicate = duplicateNetworkPolicyUnavailable,
     rfEmitEvent = emitNetworkPolicyReconcileFailed R, rfNetworkPolicyPosture = None\<rparr>"

definition reconcileBYO :: "K8sLib \<Rightarrow> 'w Api \<Rightarrow> Reconciler \<Rightarrow> MCPServer \<Rightarrow> Condition \<Rightarrow> Workload option \<Rightarrow> ('w, outcome) M" where
  "reconcileBYO K A R ms accepted workload = do {
     o' \<leftarrow> observeWorkload K A ms workload accepted;
     (case o' of
        Inl err \<Rightarrow> State_Monad.return (noRequeue, Some err)
      | Inr observation \<Rightarrow> do {
          let available = woAvailability observation;
          recordConditionOf ms available;
          maybeEmitWorkloadUnavailableEvent K R ms available;
          let status = workloadStatusConfiguration ms (woReplicas observation) (woReadyReplicas observation);
          let selector = (case woSelector observation of
                None \<Rightarrow> None | Some sel \<Rightarrow> if lsMatchLabels sel = [] then None else Some (lsMatchLabels sel));
          (endpoint, svcErr) \<leftarrow> reconcileServiceOrBYO K A ms selector;
          (case svcErr of
             Some err \<Rightarrow> handleResourceFailure K A R ms status accepted err (serviceFailure R)
           | None \<Rightarrow> reconcileEndpoint K A R ms accepted available status endpoint None)
        })
   }"

text \<open>The managed path from the Deployment that exists on.\<close>

definition reconcileManagedResources ::
    "K8sLib \<Rightarrow> 'w Api \<Rightarrow> Reconciler \<Rightarrow> MCPServer \<Rightarrow> Condition \<Rightarrow> Deployment \<Rightarrow> ('w, outcome) M" where
  "reconcileManagedResources K A R ms accepted existingDeployment = do {
     let status = workloadStatusConfiguration ms (deref1 (depReplicas existingDeployment)) (dsReadyReplicas (depStatus existingDeployment));
     (endpoint, svcErr) \<leftarrow> reconcileServiceOrBYO K A ms (Some (managedWorkloadSelector (srvName ms)));
     (case svcErr of
        Some err \<Rightarrow> handleResourceFailure K A R ms status accepted err (serviceFailure R)
      | None \<Rightarrow> do {
          np \<leftarrow> ensureNetworkPolicy K A R ms;
          observePhase ''networkpolicy'';
          (case np of
             Inl err \<Rightarrow> handleResourceFailure K A R ms status accepted err (networkPolicyFailure R)
           | Inr netpol \<Rightarrow> do {
               posture \<leftarrow> networkPolicyPostureConditionFor K A ms (srvGeneration ms) (srvConditions ms) netpol;
               recordConditionOf ms posture;
               available \<leftarrow> reconcileAvailableCondition K A existingDeployment accepted (srvGeneration ms) (srvConditions ms);
               recordConditionOf ms available;
               maybeEmitWorkloadUnavailableEvent K R ms available;
               reconcileEndpoint K A R ms accepted available status endpoint (Some posture)
             })
        })
   }"

definition reconcileManaged :: "K8sLib \<Rightarrow> 'w Api \<Rightarrow> Reconciler \<Rightarrow> MCPServer \<Rightarrow> Condition \<Rightarrow> ('w, outcome) M" where
  "reconcileManaged K A R ms accepted = do {
     d \<leftarrow> reconcileDeployment K A R ms;
     observePhase ''deployment'';
     (case d of
        Inl err \<Rightarrow> handleDeploymentReconcileError K A R ms accepted err
      | Inr existingDeployment \<Rightarrow> reconcileManagedResources K A R ms accepted existingDeployment)
   }"

text \<open>The loop from a server that is not to be skipped on.\<close>

definition reconcileServer :: "K8sLib \<Rightarrow> 'w Api \<Rightarrow> Reconciler \<Rightarrow> MCPServer \<Rightarrow> ('w, outcome) M" where
  "reconcileServer K A R ms = do {
     cleanupGatewayBindingIfRemoved K A ms;
     let pendingAcceptedEvent = (\<not> acceptedConditionIsTrue K (srvConditions ms));
     v \<leftarrow> validateConfigAndResolveWorkload K A ms;
     observePhase ''validation'';
     (case v of
        Inl err \<Rightarrow> (case asValidationError err of
            Some (reason, message) \<Rightarrow> do {
              e \<leftarrow> reconcilePermanentValidationError K A R ms reason message;
              State_Monad.return (noRequeue, e)
            }
          | None \<Rightarrow> State_Monad.return (noRequeue, Some err))
      | Inr workload \<Rightarrow> do {
          accepted \<leftarrow> conditionOf K A ms ConditionTypeAccepted ConditionTrue ReasonValid ''Configuration is valid'';
          recordConditionOf ms accepted;
          (if pendingAcceptedEvent then emitConfigurationAccepted R ms else State_Monad.return ());
          (if spWorkloadRef (msSpec ms) \<noteq> None then reconcileBYO K A R ms accepted workload
           else reconcileManaged K A R ms accepted)
        })
   }"

definition Reconcile :: "K8sLib \<Rightarrow> 'w Api \<Rightarrow> Reconciler \<Rightarrow> string \<Rightarrow> string \<Rightarrow> ('w, outcome) M" where
  "Reconcile K A R name namespace = do {
     m \<leftarrow> call (getMCPServer A name namespace);
     (case m of
        Inl err \<Rightarrow>
          if isNotFound K err
          then do {
            storeHash (namespace @ ''/'' @ name) None;
            storeRetry (namespace @ ''/'' @ name) None;
            cleanupMetrics name namespace;
            State_Monad.return (noRequeue, None)
          }
          else State_Monad.return (noRequeue, Some err)
      | Inr ms \<Rightarrow> do {
          skip \<leftarrow> shouldSkipReconciliation K A ms namespace;
          (case skip of
             Inl err \<Rightarrow> State_Monad.return (noRequeue, Some err)
           | Inr True \<Rightarrow> State_Monad.return (noRequeue, None)
           | Inr False \<Rightarrow> reconcileServer K A R ms)
        })
   }"

end
