(* ===== verification/ReconcileSafety.thy ===== *)
theory ReconcileSafety
  imports Reconcile
begin

text \<open>
  What a pass of the reconcile loop may send. The guards of the single handlers (theories NetworkPolicy, ManagedService, ManagedDeployment, Gateway,
  Handshake) are put together along the loop, with a guard of its own for the status.
\<close>

section \<open>What the steps return\<close>

lemma yields_condition:
  "yields (newCondition A ty st r m g) (\<lambda>c. cType c = ty \<and> cStatus c = st \<and> cReason c = r \<and> cMessage c = m \<and> cObservedGeneration c = g)"
  "yields (newConditionPreserving K A ty st r m g ex) (\<lambda>c. cType c = ty \<and> cStatus c = st \<and> cReason c = r \<and> cMessage c = m \<and> cObservedGeneration c = g)"
  by (auto intro!: validI dest!: condition_run)

lemma yields_typed:
  "yields (newConditionPreserving K A ty st r m g ex) (\<lambda>c. cType c = ty)"
  "yields (newNotVerifiedCondition K A g ex) (\<lambda>c. cType c = ConditionTypeVerified \<and> cStatus c = ConditionUnknown)"
  "yields (newAvailableCondition K A st r m g ex) (\<lambda>c. cType c = ConditionTypeAvailable)"
  "yields (policyEnforcedCondition K A R g ex) (\<lambda>c. cType c = ConditionTypePolicyEnforced)"
  "yields (networkPolicyPostureConditionFor K A ms g ex np) (\<lambda>c. cType c = ConditionTypeNetworkPolicyRestricted)"
  unfolding newNotVerifiedCondition_def newAvailableCondition_def policyEnforcedCondition_def networkPolicyPostureConditionFor_def Let_def
  by (intro yields_if yields_imp[OF yields_condition(2)]; simp)+

lemma yields_available: "yields (reconcileAvailableCondition K A d c g ex) (\<lambda>c. cType c = ConditionTypeAvailable)"
  unfolding reconcileAvailableCondition_def Let_def
  by (intro yields_if yields_typed yields_bind[OF yields_any])

lemma yields_observed:
  "yields (observeWorkload K A ms w c) (\<lambda>r. \<forall>o'. r = Inr o' \<longrightarrow> cType (woAvailability o') = ConditionTypeAvailable)"
proof -
  have p: "yields (workloadProgressCondition K A ms k g og) (\<lambda>r. \<forall>c. r = Some c \<longrightarrow> cType c = ConditionTypeAvailable)" for k g og
    unfolding workloadProgressCondition_def
    by (intro yields_if yields_bind[OF yields_typed(3)] yields_return) simp_all
  have "yields (daemonSetAvailability K A ms d) (\<lambda>c. cType c = ConditionTypeAvailable)" for d
    unfolding daemonSetAvailability_def Let_def
    by (rule yields_bind[OF p]) (auto intro!: yields_case yields_if yields_typed yields_return)
  moreover have "yields (statefulSetAvailability K A ms d) (\<lambda>c. cType c = ConditionTypeAvailable)" for d
    unfolding statefulSetAvailability_def Let_def
    by (intro yields_if yields_typed yields_bind[OF p]) (auto intro!: yields_case yields_if yields_typed yields_return)
  ultimately show ?thesis
    unfolding observeWorkload_def
    by (auto intro!: yields_return yields_bind[OF yields_available] yields_bind[of "daemonSetAvailability K A ms _"]
        yields_bind[of "statefulSetAvailability K A ms _"] split: option.split Workload.split)
qed

lemma find_type: "find_law K \<Longrightarrow> findStatusCondition K cs t = Some c \<Longrightarrow> cType c = t"
  by (auto simp: find_law_def find_Some_iff)

lemma yields_handshake:
  assumes "find_law K"
  shows "yields (reconcileHandshake K A R ms url available hash) (\<lambda>(c, info). cType c = ConditionTypeVerified)"
proof -
  have att: "yields (attemptHandshake K A R ms url t) (\<lambda>(c, info). cType c = ConditionTypeVerified)" for t
    by (auto intro!: validI dest!: attempt_run)
  have old: "cType (the (findStatusCondition K (srvConditions ms) ConditionTypeVerified)) = ConditionTypeVerified"
    if "alreadyVerified K ms p h" for p h
    using that find_type[OF assms] by (auto simp: alreadyVerified_def split: option.splits)
  show ?thesis
    unfolding reconcileHandshake_def
    by (intro yields_bind[OF yields_any] yields_if yields_case att yields_bind[OF yields_typed(1)] yields_bind[OF yields_typed(2)] yields_return)
       (simp_all add: old)
qed

lemma yields_events:
  "yields (reconcileHandshakeEventsAndRetryCount K R ms c) (\<lambda>(n, c'). cType c' = cType c \<and> cStatus c' = cStatus c)"
  unfolding reconcileHandshakeEventsAndRetryCount_def Let_def
  by (intro yields_if yields_bind[OF yields_any] yields_return) simp_all

lemma yields_gateway:
  assumes "cType available = ConditionTypeAvailable"
  shows "yields (resolveGatewayStatus K A ms available url)
     (\<lambda>(g, available', url'). cType available' = ConditionTypeAvailable \<and> (\<forall>gw. g = Some gw \<longrightarrow> cType (gsCondition gw) = ConditionTypeGatewayRegistered))"
proof -
  have c: "yields (reconcileGatewayCondition K A ms) (\<lambda>g. \<forall>gw. g = Some gw \<longrightarrow> cType (gsCondition gw) = ConditionTypeGatewayRegistered)"
    unfolding reconcileGatewayCondition_def gatewayCondition_def Let_def
    by (intro yields_if yields_return yields_bind[OF yields_any] yields_case yields_bind[OF yields_condition(1)])
       (simp_all add: notRegistered_def)
  have a: "yields (applyGatewayStatus K A ms gw available url)
      (\<lambda>(gw', available', url'). cType available' = ConditionTypeAvailable \<and> cType (gsCondition gw') = cType (gsCondition gw))" for gw
    unfolding applyGatewayStatus_def Let_def
    by (intro yields_bind[OF yields_any] yields_bind[of _ "\<lambda>c. cType c = ConditionTypeAvailable"] yields_if yields_return yields_bind[OF yields_typed(3)])
       (simp_all add: preserve_same assms)
  show ?thesis
    unfolding resolveGatewayStatus_def
    by (rule yields_bind[OF c]) (auto intro!: yields_case yields_return yields_bind[OF a] simp: assms)
qed


section \<open>A well-formed status\<close>

text \<open>
  A status that the API server accepts and that users can rely on: it is for the current generation, has each condition type at most once,
  always the four basic ones, and an address exactly when the endpoint is verified.
\<close>

definition status_ok :: "MCPServer \<Rightarrow> StatusAC \<Rightarrow> bool" where
  "status_ok ms ac \<longleftrightarrow> acObservedGeneration ac = Some (srvGeneration ms) \<and> acServiceName ac = Some (serviceNameFor ms)
     \<and> distinct (map cType (acConditions ac))
     \<and> {ConditionTypeAccepted, ConditionTypeAvailable, ConditionTypeVerified, ConditionTypePolicyEnforced} \<subseteq> set (map cType (acConditions ac))
     \<and> (acAddress ac \<noteq> None) = (\<exists>c. c \<in> set (acConditions ac) \<and> cType c = ConditionTypeVerified \<and> cStatus c = ConditionTrue)"

definition base_status :: "MCPServer \<Rightarrow> StatusAC \<Rightarrow> bool" where
  "base_status ms st \<longleftrightarrow> acConditions st = [] \<and> acAddress st = None \<and> acObservedGeneration st = Some (srvGeneration ms)
     \<and> acServiceName st = Some (serviceNameFor ms)"

lemma base_configuration: "base_status ms (workloadStatusConfiguration ms n r)"
  by (simp add: base_status_def workloadStatusConfiguration_def empty_ac_def Let_def split: option.split)

lemma conditionToAC_same [simp]: "conditionToAC c = c"
  by (simp add: conditionToAC_def)

lemma yields_persistent:
  assumes "find_law K" "\<And>c. posture = Some c \<Longrightarrow> cType c = ConditionTypeNetworkPolicyRestricted"
  shows "yields (appendPersistentConditions K A R ms cs posture)
     (\<lambda>r. \<exists>e g p. r = cs @ e # g @ p \<and> cType e = ConditionTypePolicyEnforced
        \<and> map cType g \<in> {[], [ConditionTypeGatewayRegistered]} \<and> map cType p \<in> {[], [ConditionTypeNetworkPolicyRestricted]})"
  unfolding appendPersistentConditions_def Let_def
proof (rule yields_bind[OF yields_typed(4)], rule yields_return)
  fix e :: Condition assume e: "cType e = ConditionTypePolicyEnforced"
  let ?g = "case findStatusCondition K (srvConditions ms) ConditionTypeGatewayRegistered of None \<Rightarrow> [] | Some c \<Rightarrow> [conditionToAC c]"
  let ?p = "case posture of Some c \<Rightarrow> [conditionToAC c] | None \<Rightarrow> (case findStatusCondition K (srvConditions ms) ConditionTypeNetworkPolicyRestricted of
             None \<Rightarrow> [] | Some c \<Rightarrow> [conditionToAC c])"
  have "map cType ?g \<in> {[], [ConditionTypeGatewayRegistered]}" "map cType ?p \<in> {[], [ConditionTypeNetworkPolicyRestricted]}"
    by (auto dest!: find_type[OF assms(1)] simp: assms(2) split: option.split)
  with e show "\<exists>e' g p. cs @ [conditionToAC e] @ ?g @ ?p = cs @ e' # g @ p \<and> cType e' = ConditionTypePolicyEnforced
        \<and> map cType g \<in> {[], [ConditionTypeGatewayRegistered]} \<and> map cType p \<in> {[], [ConditionTypeNetworkPolicyRestricted]}"
    by (intro exI[of _ e] exI[of _ ?g] exI[of _ ?p]) simp
qed

definition failure_conditions :: "Condition \<Rightarrow> Condition \<Rightarrow> Condition \<Rightarrow> Condition list \<Rightarrow> bool" where
  "failure_conditions accepted available verified r \<longleftrightarrow> (\<exists>e g p. r = [accepted, available, verified] @ e # g @ p
     \<and> cType e = ConditionTypePolicyEnforced
     \<and> map cType g \<in> {[], [ConditionTypeGatewayRegistered]} \<and> map cType p \<in> {[], [ConditionTypeNetworkPolicyRestricted]})"

lemma failure_fields:
  "acConditions (keepGatewayBinding ms (withConditions st cs)) = acConditions st @ cs"
  "acAddress (keepGatewayBinding ms (withConditions st cs)) = acAddress st"
  "acObservedGeneration (keepGatewayBinding ms (withConditions st cs)) = acObservedGeneration st"
  "acServiceName (keepGatewayBinding ms (withConditions st cs)) = acServiceName st"
  by (simp_all add: keepGatewayBinding_def withConditions_def split: option.split)

lemma complete_fields:
  "acConditions (completeStatus st gw accepted available verified posture enforced url info) =
     acConditions st @ [accepted, available, verified] @ (case gw of None \<Rightarrow> [] | Some g \<Rightarrow> [gsCondition g])
     @ (case posture of None \<Rightarrow> [] | Some c \<Rightarrow> [c]) @ [enforced]"
  "acAddress (completeStatus st gw accepted available verified posture enforced url info) =
     (if cStatus verified = ConditionTrue then Some \<lparr>addrURL = url\<rparr> else acAddress st)"
  "acObservedGeneration (completeStatus st gw accepted available verified posture enforced url info) = acObservedGeneration st"
  "acServiceName (completeStatus st gw accepted available verified posture enforced url info) = acServiceName st"
  by (cases gw; cases posture; cases info;
      simp add: completeStatus_def applyGatewayStatusToAC_def withConditions_def withAddressWhenVerified_def Let_def split: option.split)+

definition extra_types :: "string list set" where
  "extra_types = {ts. distinct ts \<and> ConditionTypePolicyEnforced \<in> set ts
     \<and> set ts \<subseteq> {ConditionTypePolicyEnforced, ConditionTypeGatewayRegistered, ConditionTypeNetworkPolicyRestricted}}"

lemma status_ok_shape:
  assumes "acConditions ac = [accepted, available, verified] @ rest" "map cType rest \<in> extra_types"
    "cType accepted = ConditionTypeAccepted" "cType available = ConditionTypeAvailable" "cType verified = ConditionTypeVerified"
    "(acAddress ac \<noteq> None) = (cStatus verified = ConditionTrue)"
    "acObservedGeneration ac = Some (srvGeneration ms)" "acServiceName ac = Some (serviceNameFor ms)"
  shows "status_ok ms ac"
proof -
  have r: "distinct (map cType rest)" "ConditionTypePolicyEnforced \<in> cType ` set rest"
    "cType ` set rest \<subseteq> {ConditionTypePolicyEnforced, ConditionTypeGatewayRegistered, ConditionTypeNetworkPolicyRestricted}"
    using assms(2) by (simp_all add: extra_types_def)
  have n: "t \<notin> cType ` set rest" if "t \<in> {ConditionTypeAccepted, ConditionTypeAvailable, ConditionTypeVerified}" for t
  proof
    assume "t \<in> cType ` set rest"
    then have "t \<in> {ConditionTypePolicyEnforced, ConditionTypeGatewayRegistered, ConditionTypeNetworkPolicyRestricted}" using r(3) by blast
    with that show False by (elim insertE emptyE) simp_all
  qed
  have "cType c \<noteq> ConditionTypeVerified" if "c \<in> set rest" for c
    using n[of ConditionTypeVerified] that by force
  then have v: "(\<exists>c. c \<in> set (acConditions ac) \<and> cType c = ConditionTypeVerified \<and> cStatus c = ConditionTrue) = (cStatus verified = ConditionTrue)"
    using assms(1,3-5) by auto
  show ?thesis
    unfolding status_ok_def v using assms(1,3-8) r n by simp
qed

lemma failure_status_ok:
  assumes "base_status ms st" "failure_conditions accepted available verified cs"
    "cType accepted = ConditionTypeAccepted" "cType available = ConditionTypeAvailable" "cType verified = ConditionTypeVerified"
    "cStatus verified = ConditionUnknown"
  shows "status_ok ms (keepGatewayBinding ms (withConditions st cs))"
proof -
  obtain e g p where cs: "cs = [accepted, available, verified] @ e # g @ p" "cType e = ConditionTypePolicyEnforced"
    and gp: "map cType g \<in> {[], [ConditionTypeGatewayRegistered]}" "map cType p \<in> {[], [ConditionTypeNetworkPolicyRestricted]}"
    using assms(2) unfolding failure_conditions_def by (elim exE conjE) (rule that)
  have t: "map cType (e # g @ p) \<in> extra_types" using cs(2) gp by (elim insertE emptyE) (simp_all add: extra_types_def)
  have "acConditions (keepGatewayBinding ms (withConditions st cs)) = [accepted, available, verified] @ e # g @ p"
    "(acAddress (keepGatewayBinding ms (withConditions st cs)) \<noteq> None) = (cStatus verified = ConditionTrue)"
    using assms(1,6) cs(1) by (simp_all add: failure_fields base_status_def)
  from status_ok_shape[OF this(1) t assms(3-5) this(2)] show ?thesis
    using assms(1) by (simp add: failure_fields base_status_def)
qed

lemma complete_status_ok:
  assumes "base_status ms st" "cType accepted = ConditionTypeAccepted" "cType available = ConditionTypeAvailable" "cType verified = ConditionTypeVerified"
    "cType enforced = ConditionTypePolicyEnforced" "\<And>g. gw = Some g \<Longrightarrow> cType (gsCondition g) = ConditionTypeGatewayRegistered"
    "\<And>c. posture = Some c \<Longrightarrow> cType c = ConditionTypeNetworkPolicyRestricted"
  shows "status_ok ms (completeStatus st gw accepted available verified posture enforced url info)"
proof (rule status_ok_shape)
  let ?rest = "(case gw of None \<Rightarrow> [] | Some g \<Rightarrow> [gsCondition g]) @ (case posture of None \<Rightarrow> [] | Some c \<Rightarrow> [c]) @ [enforced]"
  show "acConditions (completeStatus st gw accepted available verified posture enforced url info) = [accepted, available, verified] @ ?rest"
    using assms(1) by (simp add: complete_fields base_status_def)
  show "map cType ?rest \<in> extra_types" using assms(5-7) by (auto simp: extra_types_def split: option.split)
qed (use assms in \<open>simp_all add: complete_fields base_status_def\<close>)

section \<open>The guard of the loop\<close>

fun status_guard :: "MCPServer \<Rightarrow> effect \<Rightarrow> bool" where
  "status_guard ms (EApplyStatus n ns ac) \<longleftrightarrow> n = srvName ms \<and> ns = srvNamespace ms \<and> status_ok ms ac"
| "status_guard ms e \<longleftrightarrow> False"

definition reconcile_guard :: "K8sLib \<Rightarrow> 'w Api \<Rightarrow> Reconciler \<Rightarrow> MCPServer \<Rightarrow> effect \<Rightarrow> bool" where
  "reconcile_guard K A R ms e \<longleftrightarrow> is_notice e \<or> deployment_guard K A R ms e \<or> (\<exists>sel. service_guard K A ms sel e)
     \<or> network_policy_guard K A R ms e \<or> binding_guard K ms e \<or> (\<exists>url. handshake_guard ms url e) \<or> status_guard ms e"

lemma notice_allowed: "is_notice e \<Longrightarrow> reconcile_guard K A R ms e"
  by (simp add: reconcile_guard_def)

lemma report_allowed: "is_report e \<Longrightarrow> reconcile_guard K A R ms e"
  by (simp add: notice_allowed is_notice_report)

abbreviation loop_laws :: "K8sLib \<Rightarrow> Reconciler \<Rightarrow> bool" where
  "loop_laws K R \<equiv> owner_laws K \<and> find_law K \<and> tls_profile (rTLSProfile R)"

text \<open>The handlers, within the guard of the loop.\<close>

lemma steps_emit:
  assumes "loop_laws K R"
  shows "emits (reconcile_guard K A R ms) (reconcileDeployment K A R ms)"
    "emits (reconcile_guard K A R ms) (reconcileServiceOrBYO K A ms sel)"
    "emits (reconcile_guard K A R ms) (ensureNetworkPolicy K A R ms)"
    "emits (reconcile_guard K A R ms) (reconcileGatewayBinding K A ms)"
    "emits (reconcile_guard K A R ms) (cleanupGatewayBindingIfRemoved K A ms)"
    "emits (reconcile_guard K A R ms) (reconcileHandshake K A R ms url available hash)"
    "emits (reconcile_guard K A R ms) (validateConfigAndResolveWorkload K A ms)"
proof -
  have laws: "owner_laws K" "set_controller_law K" "tls_profile (rTLSProfile R)" using assms by simp_all
  show "emits (reconcile_guard K A R ms) (reconcileDeployment K A R ms)"
    by (rule managed_deployment.guarded_within[OF laws(1)]) (simp add: reconcile_guard_def)
  show "emits (reconcile_guard K A R ms) (reconcileServiceOrBYO K A ms sel)"
    by (rule managed_service.guarded_within[OF laws(1)]) (auto simp: reconcile_guard_def)
  show "emits (reconcile_guard K A R ms) (ensureNetworkPolicy K A R ms)"
    by (rule network_policy.guarded_within[OF laws(1)]) (simp add: reconcile_guard_def)
  show "emits (reconcile_guard K A R ms) (reconcileGatewayBinding K A ms)"
    by (rule gateway_binding.guarded_within[OF laws(2)]) (simp add: reconcile_guard_def)
  show "emits (reconcile_guard K A R ms) (cleanupGatewayBindingIfRemoved K A ms)"
    by (rule emits_mono[OF cleanupGatewayBinding_emits]) (simp add: reconcile_guard_def)
  show "emits (reconcile_guard K A R ms) (reconcileHandshake K A R ms url available hash)"
    by (rule handshake.guarded_within[OF laws(3)]) (auto simp: reconcile_guard_def)
  show "emits (reconcile_guard K A R ms) (validateConfigAndResolveWorkload K A ms)"
    by (rule emits_mono[OF validation_silent]) simp
qed

lemma applyStatus_emits: "status_ok ms st \<Longrightarrow> emits (reconcile_guard K A R ms) (applyStatus A ms st)"
  unfolding applyStatus_def by (intro emits_rules) (simp add: reconcile_guard_def)

lemma persistent_emits: "emits P (appendPersistentConditions K A R ms cs p)"
  unfolding appendPersistentConditions_def Let_def by (intro emits_bind newCondition_emits emits_return)

text \<open>What only informs is always allowed.\<close>

lemma guard_reports:
  "emits (reconcile_guard K A R ms) (audit m op fs)" "emits (reconcile_guard K A R ms) (recordCondition n ns t st r)"
  "emits (reconcile_guard K A R ms) (countFailure metric m r)" "emits (reconcile_guard K A R ms) (observePhase ph)"
  "emits (reconcile_guard K A R ms) (auditConfigurationRejected m r msg)" "emits (reconcile_guard K A R ms) (auditCapabilityChange m d)"
  "emits (reconcile_guard K A R ms) (auditHandshakeRetriesExhausted m i j)"
  by (rule emits_report emits_audit; rule report_allowed; assumption)+

lemma guard_events:
  "emits (reconcile_guard K A R ms) (emitConfigurationInvalid R' m r n)" "emits (reconcile_guard K A R ms) (emitConfigurationAccepted R' m)"
  "emits (reconcile_guard K A R ms) (emitServerReady R' m)" "emits (reconcile_guard K A R ms) (emitWorkloadUnavailable R' m n)"
  "emits (reconcile_guard K A R ms) (emitServiceReconcileFailed R' m n)" "emits (reconcile_guard K A R ms) (emitNetworkPolicyReconcileFailed R' m n)"
  "emits (reconcile_guard K A R ms) (emitGatewayBindingReconcileFailed R' m n)" "emits (reconcile_guard K A R ms) (emitMCPHandshakeFailed R' m n)"
  "emits (reconcile_guard K A R ms) (emitMCPHandshakeRetriesExhausted R' m c)" "emits (reconcile_guard K A R ms) (emitCapabilityChangeDetected R' m n)"
  by (rule emits_events; rule notice_allowed; assumption)+

lemmas loop_emits = guard_reports guard_events newCondition_emits persistent_emits

text \<open>The common tail of the failure paths.\<close>

lemma failure_tail_emits:
  assumes "find_law K" "base_status ms st" "cType accepted = ConditionTypeAccepted" "cType available = ConditionTypeAvailable"
    "cType verified = ConditionTypeVerified \<and> cStatus verified = ConditionUnknown"
    "\<And>c. posture = Some c \<Longrightarrow> cType c = ConditionTypeNetworkPolicyRestricted"
    "\<And>e. emits (reconcile_guard K A R ms) (f e)"
  shows "emits (reconcile_guard K A R ms) (do {
      conditions \<leftarrow> appendPersistentConditions K A R ms [conditionToAC accepted, conditionToAC available, conditionToAC verified] posture;
      e \<leftarrow> applyStatus A ms (keepGatewayBinding ms (withConditions st conditions));
      f e })"
proof (rule emits_bind_value[OF persistent_emits yields_imp[OF yields_persistent[OF assms(1,6)]]])
  show "failure_conditions accepted available verified cs \<Longrightarrow>
    emits (reconcile_guard K A R ms) (applyStatus A ms (keepGatewayBinding ms (withConditions st cs)) \<bind> f)" for cs
    using assms by (intro emits_bind[OF applyStatus_emits] failure_status_ok) auto
qed (auto simp: failure_conditions_def)

lemma handleDeploymentReconcileError_emits:
  assumes "find_law K" "cType accepted = ConditionTypeAccepted"
  shows "emits (reconcile_guard K A R ms) (handleDeploymentReconcileError K A R ms accepted err)"
  unfolding handleDeploymentReconcileError_def Let_def
  by (rule emits_if[OF emits_return], rule emits_bind[OF guard_reports(3)],
      rule emits_bind_value[OF newCondition_emits(2) yields_typed(1)], rule emits_bind_value[OF newCondition_emits(3) yields_typed(2)],
      rule emits_bind[OF guard_reports(2)], rule emits_bind[OF emits_if[OF guard_events(4) emits_return]],
      rule failure_tail_emits[OF assms(1) base_configuration assms(2) _ _ _ emits_return]) simp_all

text \<open>The three parameter sets of \<open>handleResourceFailure\<close> only differ in how they inform.\<close>

definition failure_params :: "K8sLib \<Rightarrow> 'v Api \<Rightarrow> Reconciler \<Rightarrow> MCPServer \<Rightarrow> 'w resourceFailureParams \<Rightarrow> bool" where
  "failure_params K A R ms p \<longleftrightarrow> (\<forall>m n. emits (reconcile_guard K A R ms) (rfEmitEvent p m n))
     \<and> (\<forall>c. rfNetworkPolicyPosture p = Some c \<longrightarrow> cType c = ConditionTypeNetworkPolicyRestricted)"

lemma failure_params_ok:
  "failure_params K A R ms (serviceFailure R)" "failure_params K A R ms (networkPolicyFailure R)"
  "(\<And>c. posture = Some c \<Longrightarrow> cType c = ConditionTypeNetworkPolicyRestricted) \<Longrightarrow> failure_params K A R ms (bindingFailure R posture)"
  by (simp_all add: failure_params_def serviceFailure_def networkPolicyFailure_def bindingFailure_def guard_events)

lemma handleResourceFailure_emits:
  assumes "find_law K" "cType accepted = ConditionTypeAccepted" "base_status ms st" "failure_params K A R ms p"
  shows "emits (reconcile_guard K A R ms) (handleResourceFailure K A R ms st accepted err p)"
proof -
  have ev: "emits (reconcile_guard K A R ms) (rfEmitEvent p m n)"
    and po: "rfNetworkPolicyPosture p = Some c \<Longrightarrow> cType c = ConditionTypeNetworkPolicyRestricted" for m n c
    using assms(4) by (auto simp: failure_params_def)
  show ?thesis
    unfolding handleResourceFailure_def
    by (rule emits_if[OF emits_return], rule emits_bind[OF guard_reports(3)],
        rule emits_bind_value[OF newCondition_emits(2) yields_typed(1)], rule emits_bind_value[OF newCondition_emits(3) yields_typed(2)],
        rule emits_bind[OF guard_reports(2)], rule emits_bind[OF emits_if[OF ev emits_return]],
        rule failure_tail_emits[OF assms(1,3,2) _ _ po emits_return]) simp_all
qed

lemma permanentError_emits:
  assumes "find_law K"
  shows "emits (reconcile_guard K A R ms) (reconcilePermanentValidationError K A R ms reason message)"
  unfolding reconcilePermanentValidationError_def Let_def
  by (rule emits_bind_value[OF newCondition_emits(2) yields_typed(1)], rule emits_bind[OF guard_reports(2)], rule emits_bind[OF guard_reports(3)],
      rule emits_bind_value[OF newCondition_emits(2) yields_typed(1)], rule emits_bind_value[OF newCondition_emits(3) yields_typed(2)],
      rule failure_tail_emits[OF assms base_configuration])
     (intro emits_case emits_return emits_bind emits_if guard_events guard_reports | simp)+

section \<open>The steps put together\<close>

lemma events_emit: "emits (reconcile_guard K A R ms) (reconcileHandshakeEventsAndRetryCount K R ms c)"
  unfolding reconcileHandshakeEventsAndRetryCount_def Let_def
  by (intro emits_if emits_bind emits_maps emits_return guard_events)

lemma gateway_status_emits: "emits (reconcile_guard K A R ms) (resolveGatewayStatus K A ms available url)"
  unfolding resolveGatewayStatus_def
  by (intro emits_bind reconcileGatewayCondition_emits emits_case emits_return applyGatewayStatus_emits report_allowed)

lemma tail_emits:
  "emits (reconcile_guard K A R ms) (updateTLSCABundleHash ms h c)" "emits (reconcile_guard K A R ms) (handshakeRequeue ms c n)"
  "emits (reconcile_guard K A R ms) (computeTLSCABundleHash K A ns tls)" "emits (reconcile_guard K A R ms) (maybeEmitWorkloadUnavailableEvent K R ms c)"
  unfolding updateTLSCABundleHash_def handshakeRequeue_def computeTLSCABundleHash_def maybeEmitWorkloadUnavailableEvent_def
  by (intro emits_if emits_bind emits_maps emits_return emits_case emits_call guard_reports guard_events)+

lemma finishEndpoint_emits: "emits (reconcile_guard K A R ms) (finishEndpoint R ms hash diff verified n gw)"
  unfolding finishEndpoint_def
  by (intro emits_bind emits_if tail_emits emits_emit guard_events guard_reports emits_return emits_case report_allowed) simp

lemma publishEndpoint_emits:
  assumes "loop_laws K R" "cType accepted = ConditionTypeAccepted" "cType available = ConditionTypeAvailable" "base_status ms st"
    "\<And>c. posture = Some c \<Longrightarrow> cType c = ConditionTypeNetworkPolicyRestricted"
  shows "emits (reconcile_guard K A R ms) (publishEndpoint K A R ms accepted available st url posture)"
proof -
  have find: "find_law K" using assms(1) by simp
  show ?thesis
    unfolding publishEndpoint_def Let_def
    by (rule emits_bind[OF tail_emits(3)], rule emits_bind_value[OF steps_emit(6)[OF assms(1)] yields_handshake[OF find]],
        rule emits_case(3), rule emits_bind[OF guard_reports(2)], rule emits_bind_value[OF events_emit yields_events],
        rule emits_case(3), rule emits_bind_value[OF gateway_status_emits yields_gateway[OF assms(3)]], rule emits_case(3), rule emits_case(3),
        rule emits_bind[OF emits_if[OF guard_events(3) emits_return]], rule emits_bind_value[OF newCondition_emits(5) yields_typed(4)],
        rule emits_bind[OF applyStatus_emits[OF complete_status_ok[OF assms(4,2)]] emits_case(2)[OF finishEndpoint_emits emits_return]])
       (simp_all add: assms(5))
qed

lemma reconcileEndpoint_emits:
  assumes "loop_laws K R" "cType accepted = ConditionTypeAccepted" "cType available = ConditionTypeAvailable" "base_status ms st"
    "\<And>c. posture = Some c \<Longrightarrow> cType c = ConditionTypeNetworkPolicyRestricted"
  shows "emits (reconcile_guard K A R ms) (reconcileEndpoint K A R ms accepted available st endpoint posture)"
  unfolding reconcileEndpoint_def
  by (intro emits_bind[OF steps_emit(4)[OF assms(1)]] emits_bind[OF guard_reports(4)] emits_case(2) publishEndpoint_emits[OF assms]
      handleResourceFailure_emits failure_params_ok(3) assms) (use assms in simp_all)

lemma observe_emits: "emits P (reconcileAvailableCondition K A d c g ex)" "emits P (observeWorkload K A ms w c)"
proof -
  show a: "emits P (reconcileAvailableCondition K A d c g ex)" for d c g ex
    unfolding reconcileAvailableCondition_def getPodFailureMessage_def Let_def
    by (intro emits_if newCondition_emits emits_bind emits_case emits_return emits_call)
  have p: "emits P (workloadProgressCondition K A ms k g og)" for k g og
    unfolding workloadProgressCondition_def by (intro emits_if emits_bind newCondition_emits emits_return)
  have "emits P (daemonSetAvailability K A ms d)" "emits P (statefulSetAvailability K A ms t)" for d t
    unfolding daemonSetAvailability_def statefulSetAvailability_def Let_def
    by (intro emits_if emits_bind p newCondition_emits emits_return emits_case)+
  with a show "emits P (observeWorkload K A ms w c)"
    unfolding observeWorkload_def by (auto intro!: emits_bind emits_return split: option.split Workload.split)
qed

lemma posture_emits: "emits P (networkPolicyPostureConditionFor K A ms g ex np)"
  unfolding networkPolicyPostureConditionFor_def Let_def by (intro emits_if newCondition_emits)

lemma reconcileBYO_emits:
  assumes "loop_laws K R" "cType accepted = ConditionTypeAccepted"
  shows "emits (reconcile_guard K A R ms) (reconcileBYO K A R ms accepted workload)"
proof -
  have find: "find_law K" using assms(1) by simp
  show ?thesis
    unfolding reconcileBYO_def Let_def
    by (rule emits_bind_value[OF observe_emits(2) yields_observed], rule emits_case(1)[OF emits_return], rule emits_bind[OF guard_reports(2)],
        rule emits_bind[OF tail_emits(4)], rule emits_bind[OF steps_emit(2)[OF assms(1)]], rule emits_case(3), rule emits_case(2))
       (auto intro!: reconcileEndpoint_emits assms base_configuration handleResourceFailure_emits find failure_params_ok)
qed

lemma reconcileManaged_emits:
  assumes "loop_laws K R" "cType accepted = ConditionTypeAccepted"
  shows "emits (reconcile_guard K A R ms) (reconcileManaged K A R ms accepted)"
proof -
  have find: "find_law K" using assms(1) by simp
  note fail = handleResourceFailure_emits[OF find assms(2) base_configuration]
  have "emits (reconcile_guard K A R ms) (reconcileManagedResources K A R ms accepted d)" for d
    unfolding reconcileManagedResources_def Let_def
    by (rule emits_bind[OF steps_emit(2)[OF assms(1)]], rule emits_case(3), rule emits_case(2)[rotated], rule fail[OF failure_params_ok(1)],
        rule emits_bind[OF steps_emit(3)[OF assms(1)]], rule emits_bind[OF guard_reports(4)], rule emits_case(1), rule fail[OF failure_params_ok(2)],
        rule emits_bind_value[OF posture_emits yields_typed(5)], rule emits_bind[OF guard_reports(2)],
        rule emits_bind_value[OF observe_emits(1) yields_available], rule emits_bind[OF guard_reports(2)], rule emits_bind[OF tail_emits(4)],
        rule reconcileEndpoint_emits[OF assms _ base_configuration]) auto
  then show ?thesis
    unfolding reconcileManaged_def
    by (intro emits_bind[OF steps_emit(1)[OF assms(1)]] emits_bind[OF guard_reports(4)] emits_case(1)
        handleDeploymentReconcileError_emits find assms)
qed

lemma reconcileServer_emits:
  assumes "loop_laws K R"
  shows "emits (reconcile_guard K A R ms) (reconcileServer K A R ms)"
proof -
  have find: "find_law K" using assms by simp
  show ?thesis
    unfolding reconcileServer_def Let_def
    by (rule emits_bind[OF steps_emit(5)[OF assms]], rule emits_bind[OF steps_emit(7)[OF assms]], rule emits_bind[OF guard_reports(4)], rule emits_case(1),
        intro emits_case emits_return emits_bind[OF permanentError_emits[OF find]],
        rule emits_bind_value[OF newCondition_emits(2) yields_typed(1)], rule emits_bind[OF guard_reports(2)],
        rule emits_bind[OF emits_if[OF guard_events(2) emits_return]])
       (intro emits_if reconcileBYO_emits reconcileManaged_emits assms; simp)
qed

interpretation reconcile_server: guarded_handler "loop_laws K R" "reconcileServer K A R ms" "reconcile_guard K A R ms"
  for K A R ms
  by unfold_locales (rule reconcileServer_emits)


text \<open>The whole loop: what it sends is about the server it fetched, and nothing is sent for one that is being deleted.\<close>

definition loop_guard :: "K8sLib \<Rightarrow> 'w Api \<Rightarrow> Reconciler \<Rightarrow> string \<Rightarrow> string \<Rightarrow> effect \<Rightarrow> bool" where
  "loop_guard K A R name namespace e \<longleftrightarrow> is_report e \<or>
     (\<exists>ms w w'. getMCPServer A name namespace w = (Inr ms, w') \<and> omDeletionTimestamp (msMeta ms) = None \<and> reconcile_guard K A R ms e)"

lemma skip_value: "yields (shouldSkipReconciliation K A ms ns) (\<lambda>r. r = Inr False \<longrightarrow> omDeletionTimestamp (msMeta ms) = None)"
  unfolding shouldSkipReconciliation_def by (intro yields_if yields_return yields_bind[OF yields_any]) auto

lemma Reconcile_emits:
  assumes "loop_laws K R"
  shows "emits (loop_guard K A R name namespace) (Reconcile K A R name namespace)"
proof -
  have rep: "is_report e \<Longrightarrow> loop_guard K A R name namespace e" for e by (simp add: loop_guard_def)
  have skip: "emits P (shouldSkipReconciliation K A ms namespace)" for P ms
    unfolding shouldSkipReconciliation_def by (intro emits_if emits_return emits_bind emits_call)
  have allowed: "emits (loop_guard K A R name namespace) (reconcileServer K A R ms)"
    if "\<exists>w w'. getMCPServer A name namespace w = (Inr ms, w')" "omDeletionTimestamp (msMeta ms) = None" for ms
    by (rule emits_mono[OF reconcileServer_emits[OF assms, where ms = ms]]) (use that in \<open>unfold loop_guard_def, blast\<close>)
  have server: "emits (loop_guard K A R name namespace) (do {
      skip \<leftarrow> shouldSkipReconciliation K A ms namespace;
      (case skip of
         Inl err \<Rightarrow> State_Monad.return (noRequeue, Some err)
       | Inr True \<Rightarrow> State_Monad.return (noRequeue, None)
       | Inr False \<Rightarrow> reconcileServer K A R ms) })" if "\<exists>w w'. getMCPServer A name namespace w = (Inr ms, w')" for ms
    by (rule emits_bind_value[OF skip skip_value])
       (auto intro!: emits_return allowed[OF that] split: sum.split bool.split)
  show ?thesis
    unfolding Reconcile_def
    by (rule emits_bind_value[OF emits_call call_value])
       (auto intro!: emits_case emits_if emits_return emits_bind emits_maps emits_report rep server)
qed

interpretation reconcile_loop: guarded_handler "loop_laws K R" "Reconcile K A R name namespace" "loop_guard K A R name namespace"
  for K A R name namespace
  by unfold_locales (rule Reconcile_emits)

section \<open>What is always sent\<close>

definition sends :: "(effect \<Rightarrow> bool) \<Rightarrow> ('w, 'a) M \<Rightarrow> bool" where
  "sends P m \<longleftrightarrow> (\<forall>s. \<exists>e. e \<in> set (trace (snd (run_state m s))) \<and> P e)"

lemma sends_first: "sends P m \<Longrightarrow> (\<And>x. emits G (f x)) \<Longrightarrow> sends P (State_Monad.bind m f)"
  unfolding sends_def emits_def
proof (rule allI)
  fix s
  assume m: "\<forall>s. \<exists>e. e \<in> set (trace (snd (run_state m s))) \<and> P e"
    and f: "\<And>x. \<forall>s. \<exists>es. trace (snd (run_state (f x) s)) = trace s @ es \<and> list_all G es"
  obtain x s' where run: "run_state m s = (x, s')" by fastforce
  obtain e where e: "e \<in> set (trace s')" "P e" using m[rule_format, of s] by (auto simp: run)
  obtain es where "trace (snd (run_state (f x) s')) = trace s' @ es" using f[rule_format, of x s'] by blast
  with e show "\<exists>e. e \<in> set (trace (snd (run_state (m \<bind> f) s))) \<and> P e" by (auto simp: run)
qed

lemma sends_then: "yields m Q \<Longrightarrow> (\<And>x. Q x \<Longrightarrow> sends P (f x)) \<Longrightarrow> sends P (State_Monad.bind m f)"
  unfolding sends_def valid_def by (fastforce split: prod.splits)

lemma sends_request: "P e \<Longrightarrow> sends P (request e f)"
  by (auto simp: sends_def request_def run_ops split: prod.split)

definition rejects :: "MCPServer \<Rightarrow> string \<Rightarrow> string \<Rightarrow> effect \<Rightarrow> bool" where
  "rejects ms reason message e \<longleftrightarrow> (\<exists>ac c. e = EApplyStatus (srvName ms) (srvNamespace ms) ac \<and> c \<in> set (acConditions ac)
     \<and> cType c = ConditionTypeAccepted \<and> cStatus c = ConditionFalse \<and> cReason c = reason \<and> cMessage c = message
     \<and> cObservedGeneration c = srvGeneration ms)"

lemma permanentError_sends:
  assumes "find_law K"
  shows "sends (rejects ms reason message) (reconcilePermanentValidationError K A R ms reason message)"
proof -
  have apply_sends: "sends (rejects ms reason message) (applyStatus A ms (keepGatewayBinding ms (withConditions st (c # cs))) \<bind> f)"
    if "cType c = ConditionTypeAccepted \<and> cStatus c = ConditionFalse \<and> cReason c = reason \<and> cMessage c = message \<and> cObservedGeneration c = srvGeneration ms"
      "\<And>x. emits (reconcile_guard K A R ms) (f x)" for st c cs f
    unfolding applyStatus_def
    by (rule sends_first[OF sends_first[OF sends_request emits_return] that(2)])
       (use that(1) in \<open>auto simp: rejects_def failure_fields\<close>)
  have p: "yields (appendPersistentConditions K A R ms (c # cs) None) (\<lambda>r. \<exists>cs'. r = c # cs')" for c cs
    by (rule yields_imp[OF yields_persistent[OF assms]]) auto
  show ?thesis
    unfolding reconcilePermanentValidationError_def Let_def conditionToAC_same
    by (rule sends_then[OF yields_condition(2)], rule sends_then[OF yields_any], rule sends_then[OF yields_any], rule sends_then[OF yields_any],
        rule sends_then[OF yields_any], rule sends_then[OF p], elim exE, hypsubst, rule apply_sends)
       (assumption, intro emits_case emits_return emits_bind emits_if guard_events guard_reports)
qed

lemma invalid_reported:
  assumes "getMCPServer A name namespace (world s) = (Inr ms, w1)" "omDeletionTimestamp (msMeta ms) = None"
    and "getNamespace A namespace w1 = (Inr ns, w2)" "omDeletionTimestamp (nsMeta ns) = None" "find_law K"
    and "\<And>s. \<exists>err. fst (run_state (validateConfigAndResolveWorkload K A ms) s) = Inl err \<and> asValidationError err = Some (reason, message)"
  shows "\<exists>e. e \<in> set (trace (snd (run_state (Reconcile K A R name namespace) s))) \<and> rejects ms reason message e"
proof -
  have v: "yields (validateConfigAndResolveWorkload K A ms) (\<lambda>r. \<exists>err. r = Inl err \<and> asValidationError err = Some (reason, message))"
    using assms(6) by (auto simp: valid_def case_prod_beta)
  have server: "sends (rejects ms reason message) (reconcileServer K A R ms)"
    unfolding reconcileServer_def Let_def
    by (rule sends_then[OF yields_any], rule sends_then[OF v], rule sends_then[OF yields_any])
       (auto intro!: sends_first[OF permanentError_sends[OF assms(5)]] emits_return)
  have "run_state (Reconcile K A R name namespace) s = run_state (reconcileServer K A R ms) (s\<lparr>world := w2\<rparr>)"
    using assms(1-4) by (simp add: Reconcile_def shouldSkipReconciliation_def run_ops)
  then show ?thesis using server unfolding sends_def by simp
qed

section \<open>Safety of a pass\<close>

text \<open>
  C1: whatever the API server and the MCP endpoint answer, a pass of the reconcile loop changes nothing but what belongs to the server it was called for. Apart from
  events, audit records and metrics, every request it sends is about a server of that name that is not being deleted. It creates the Deployment, Service or
  NetworkPolicy of that server only after the answer that there is none of its name; it updates one only if the object that was read under the server's name
  already belonged to the server (its controller is this server, or in the same namespace an MCPServer of the same name), keeps its identity, and makes the server its controller. The only Service it deletes is
  the one of the server's name that this server controls, on the condition that it is still the one that was read; the only gateway bindings it creates, updates or deletes belong to
  the server. It writes only that server's status, and dials only with the transport its specification calls for.
\<close>

theorem reconcile_changes_only_own:
  assumes "loop_laws K R" "trace s = []" "run_state (Reconcile K A R name namespace) s = (r, s')" "e \<in> set (trace s')"
  shows "is_notice e \<or> (\<exists>ms w w'. getMCPServer A name namespace w = (Inr ms, w') \<and> omDeletionTimestamp (msMeta ms) = None \<and>
    (case e of
       ECreateDeployment d \<Rightarrow> ownerUID K (depMeta d) = srvUID ms \<and> absent_before K (getDeployment A) ms
     | EUpdateDeployment d \<Rightarrow> ownerUID K (depMeta d) = srvUID ms \<and> ours_before K (getDeployment A) depMeta ms (depMeta d)
     | ECreateService svc \<Rightarrow> ownerUID K (svcMeta svc) = srvUID ms \<and> absent_before K (getService A) ms
     | EUpdateService svc \<Rightarrow> ownerUID K (svcMeta svc) = srvUID ms \<and> ours_before K (getService A) svcMeta ms (svcMeta svc)
     | EDeleteService svc uid rv \<Rightarrow> ownerUID K (svcMeta svc) = srvUID ms \<and> uid = Some (omUID (svcMeta svc)) \<and> rv = Some (omResourceVersion (svcMeta svc))
         \<and> (\<exists>v v'. getService A (srvName ms) (srvNamespace ms) v = (Inr svc, v'))
     | ECreateNetworkPolicy np \<Rightarrow> ownerUID K (npMeta np) = srvUID ms \<and> absent_before K (getNetworkPolicy A) ms
     | EUpdateNetworkPolicy np \<Rightarrow> ownerUID K (npMeta np) = srvUID ms \<and> ours_before K (getNetworkPolicy A) npMeta ms (npMeta np)
     | ECreateBinding b \<Rightarrow> ownerUID K (gbMeta b) = srvUID ms \<and> omName (gbMeta b) = gatewayBindingName K (srvName ms)
     | EUpdateBinding b \<Rightarrow> ours K (gbMeta b) ms
     | EDeleteBinding b \<Rightarrow> ours K (gbMeta b) ms
     | EApplyStatus n ns ac \<Rightarrow> n = srvName ms \<and> ns = srvNamespace ms
     | EDial url t \<Rightarrow> dial_ok (transportTLS ms) t
     | _ \<Rightarrow> False))"
proof -
  have "loop_guard K A R name namespace e" by (rule reconcile_loop.run_from_empty[OF assms(1,3,2,4)])
  then consider "is_report e" | ms w w' where "getMCPServer A name namespace w = (Inr ms, w')" "omDeletionTimestamp (msMeta ms) = None" "reconcile_guard K A R ms e"
    unfolding loop_guard_def by blast
  then show ?thesis
  proof cases
    case (2 ms w w')
    show ?thesis
    proof (cases "is_notice e")
      case False
      with 2(3) show ?thesis
        by (intro disjI2 exI[of _ ms] exI[of _ w] exI[of _ w'] conjI 2(1,2), cases e) (auto simp: reconcile_guard_def ownerUID_def)
    qed simp
  qed (simp add: is_notice_report)
qed

text \<open>A cluster with one server, which references a workload of a kind that is not supported.\<close>

definition cluster_server :: MCPServer where
  "cluster_server = zero_server\<lparr>msMeta := zero_meta\<lparr>omName := ''s'', omNamespace := ''ns'', omUID := ''u'', omGeneration := 1\<rparr>,
     msSpec := zero_spec\<lparr>spWorkloadRef := Some \<lparr>wrName = ''w'', wrKind = ''Job''\<rparr>\<rparr>\<rparr>"

definition cluster_api :: "nat Api" where
  "cluster_api = sample_api\<lparr>getMCPServer := \<lambda>n ns w. (Inr cluster_server, w), getNamespace := \<lambda>n w. (Inr \<lparr>nsMeta = zero_meta\<rparr>, w)\<rparr>"

lemma sample_loop_laws: "loop_laws sample_lib sample_reconciler"
proof -
  have "tls_profile (rTLSProfile sample_reconciler)" by unfold_locales (simp add: sample_reconciler_def)
  then show ?thesis using sample_lib_laws by simp
qed

lemma cluster_rejected:
  "fst (run_state (validateConfigAndResolveWorkload sample_lib cluster_api cluster_server) s) = Inl (invalid ''unsupported workloadRef kind: Job'')"
  by (simp add: validateConfigAndResolveWorkload_def validateWorkloadRef_def getWorkload_def cluster_server_def)

lemma cluster_reads:
  "getMCPServer cluster_api n ns w = (Inr cluster_server, w)" "getNamespace cluster_api n w = (Inr \<lparr>nsMeta = zero_meta\<rparr>, w)"
  "srvName cluster_server = ''s''" "srvNamespace cluster_server = ''ns''" "omDeletionTimestamp (msMeta cluster_server) = None"
  "omDeletionTimestamp zero_meta = None"
  by (simp_all add: cluster_api_def cluster_server_def zero_meta_def)

lemma cluster_validation:
  "\<exists>err. fst (run_state (validateConfigAndResolveWorkload sample_lib cluster_api cluster_server) s) = Inl err
     \<and> asValidationError err = Some (ReasonInvalid, ''unsupported workloadRef kind: Job'')"
  by (simp add: cluster_rejected)

lemma cluster_run:
  "\<exists>ac. EApplyStatus ''s'' ''ns'' ac \<in> set (trace (snd (run_state (Reconcile sample_lib cluster_api sample_reconciler ''s'' ''ns'') start_state)))"
proof -
  have "\<exists>e. e \<in> set (trace (snd (run_state (Reconcile sample_lib cluster_api sample_reconciler ''s'' ''ns'') start_state)))
     \<and> rejects cluster_server ReasonInvalid ''unsupported workloadRef kind: Job'' e"
    by (rule invalid_reported[OF cluster_reads(1,5,2)]) (simp_all add: cluster_reads sample_lib_laws(1) cluster_validation)
  then show ?thesis unfolding rejects_def cluster_reads by blast
qed

theorem reconcile_changes_only_own_witness:
  "\<exists>n ns ac. EApplyStatus n ns ac \<in> set (trace (snd (run_state (Reconcile sample_lib cluster_api sample_reconciler ''s'' ''ns'') start_state)))
     \<and> n = ''s'' \<and> ns = ''ns''"
proof -
  obtain r s' where run: "run_state (Reconcile sample_lib cluster_api sample_reconciler ''s'' ''ns'') start_state = (r, s')" by fastforce
  with cluster_run obtain n ns ac where d: "EApplyStatus n ns ac \<in> set (trace s')" by auto
  from reconcile_changes_only_own[OF sample_loop_laws _ run d] d show ?thesis
    unfolding run by (auto simp: cluster_api_def cluster_server_def)
qed

text \<open>
  C2: every status the loop publishes is well-formed: it is for the current generation, no condition type occurs twice (which the API
  server would reject), \<open>Accepted\<close>, \<open>Available\<close>, \<open>Verified\<close> and \<open>PolicyEnforced\<close> are always there, so none of them is ever pruned, and an
  address is published exactly when \<open>Verified\<close> is true.
\<close>

theorem published_status_well_formed:
  assumes "loop_laws K R" "trace s = []" "run_state (Reconcile K A R name namespace) s = (r, s')" "EApplyStatus n ns ac \<in> set (trace s')"
  shows "\<exists>ms w w'. getMCPServer A name namespace w = (Inr ms, w') \<and> acObservedGeneration ac = Some (srvGeneration ms)
     \<and> distinct (map cType (acConditions ac))
     \<and> {ConditionTypeAccepted, ConditionTypeAvailable, ConditionTypeVerified, ConditionTypePolicyEnforced} \<subseteq> set (map cType (acConditions ac))
     \<and> (acAddress ac \<noteq> None) = (\<exists>c. c \<in> set (acConditions ac) \<and> cType c = ConditionTypeVerified \<and> cStatus c = ConditionTrue)"
proof -
  have "loop_guard K A R name namespace (EApplyStatus n ns ac)" by (rule reconcile_loop.run_from_empty[OF assms(1,3,2,4)])
  then obtain ms w w' where "getMCPServer A name namespace w = (Inr ms, w')" "status_ok ms ac"
    by (auto simp: loop_guard_def reconcile_guard_def)
  then show ?thesis unfolding status_ok_def by blast
qed

theorem published_status_well_formed_witness:
  "\<exists>n ns ac. EApplyStatus n ns ac \<in> set (trace (snd (run_state (Reconcile sample_lib cluster_api sample_reconciler ''s'' ''ns'') start_state)))
     \<and> distinct (map cType (acConditions ac))"
proof -
  obtain r s' where run: "run_state (Reconcile sample_lib cluster_api sample_reconciler ''s'' ''ns'') start_state = (r, s')" by fastforce
  with cluster_run obtain n ns ac where d: "EApplyStatus n ns ac \<in> set (trace s')" by auto
  from published_status_well_formed[OF sample_loop_laws _ run d] d show ?thesis unfolding run by auto
qed

section \<open>When nothing is done\<close>

text \<open>
  C20: for a server that is being deleted, or whose namespace is terminating or gone, a pass does nothing at all: it sends nothing, not even a metric, and
  leaves the operator's memory as it is.
\<close>

theorem deleted_server_left_alone:
  assumes "getMCPServer A name namespace (world s) = (Inr ms, w1)"
    and "omDeletionTimestamp (msMeta ms) \<noteq> None \<or>
         (case fst (getNamespace A namespace w1) of Inl e \<Rightarrow> isNotFound K e | Inr ns \<Rightarrow> omDeletionTimestamp (nsMeta ns) \<noteq> None)"
  shows "\<exists>w. run_state (Reconcile K A R name namespace) s = ((noRequeue, None), s\<lparr>world := w\<rparr>)"
  using assms
  by (cases "getNamespace A namespace w1")
     (auto simp: Reconcile_def shouldSkipReconciliation_def run_ops split: sum.splits)

theorem deleted_server_left_alone_witness:
  "\<exists>w. run_state (Reconcile sample_lib (cluster_api\<lparr>getNamespace := \<lambda>n w. (Inl not_found, w)\<rparr>) sample_reconciler ''s'' ''ns'') start_state
     = ((noRequeue, None), start_state\<lparr>world := w\<rparr>)"
  by (rule deleted_server_left_alone[where ms = cluster_server and ?w1.0 = 0]) (simp_all add: cluster_api_def sample_lib_def)

lemma cleanup_run: "\<exists>es. run_state (cleanupMetrics name namespace) s = ((), s\<lparr>trace := trace s @ es\<rparr>) \<and> list_all is_report es"
proof -
  have all: "run_state (emit_all es) t = ((), t\<lparr>trace := trace t @ es\<rparr>)" for es and t :: "'a rstate"
    by (induction es arbitrary: t) (simp_all add: run_emit)
  show ?thesis unfolding cleanupMetrics_def all by (rule exI, rule conjI, rule refl) simp
qed

text \<open>
  When the server is gone, a pass forgets what it remembered about it (the hash of its CA bundle and its failed handshakes), removes its metrics
  and sends nothing else; what is remembered of other servers stays.
\<close>

lemma gone_server_forgotten:
  assumes "getMCPServer A name namespace (world s) = (Inl err, w1)" "isNotFound K err"
  shows "case run_state (Reconcile K A R name namespace) s of (r, s') \<Rightarrow>
     r = (noRequeue, None)
     \<and> tlsCABundleHashes s' = (tlsCABundleHashes s)(namespace @ ''/'' @ name := None)
     \<and> handshakeRetries s' = (handshakeRetries s)(namespace @ ''/'' @ name := None)
     \<and> (\<exists>es. trace s' = trace s @ es \<and> list_all is_report es)"
proof -
  define s1 where "s1 = s\<lparr>world := w1, tlsCABundleHashes := (tlsCABundleHashes s)(namespace @ ''/'' @ name := None),
     handshakeRetries := (handshakeRetries s)(namespace @ ''/'' @ name := None)\<rparr>"
  have run: "run_state (Reconcile K A R name namespace) s = (case run_state (cleanupMetrics name namespace) s1 of (_, s') \<Rightarrow> ((noRequeue, None), s'))"
    using assms by (simp add: Reconcile_def run_ops s1_def split: prod.split)
  obtain es where "run_state (cleanupMetrics name namespace) s1 = ((), s1\<lparr>trace := trace s1 @ es\<rparr>)" "list_all is_report es"
    using cleanup_run by blast
  then show ?thesis unfolding run by (auto simp: s1_def)
qed

lemma gone_server_forgotten_witness:
  "case run_state (Reconcile sample_lib sample_api sample_reconciler ''s'' ''ns'') (start_state\<lparr>tlsCABundleHashes := [''ns/s'' \<mapsto> ''h'']\<rparr>) of
     (r, s') \<Rightarrow> tlsCABundleHashes s' ''ns/s'' = None"
  using gone_server_forgotten[of sample_api "''s''" "''ns''" "start_state\<lparr>tlsCABundleHashes := [''ns/s'' \<mapsto> ''h'']\<rparr>" not_found 0 sample_lib sample_reconciler]
  by (simp add: sample_api_def sample_lib_def case_prod_beta)

section \<open>Failures\<close>

text \<open>
  What a failed step reports: the server is not available, with the reason and the message of the failure, nothing is verified, and no
  address is published, for the current generation.
\<close>

definition failure_report :: "MCPServer \<Rightarrow> Condition \<Rightarrow> string \<Rightarrow> string \<Rightarrow> StatusAC \<Rightarrow> bool" where
  "failure_report ms accepted reason message ac \<longleftrightarrow> (\<exists>available verified rest. acConditions ac = accepted # available # verified # rest
     \<and> cType available = ConditionTypeAvailable \<and> cStatus available = ConditionFalse
     \<and> cReason available = reason \<and> cMessage available = message \<and> cObservedGeneration available = srvGeneration ms
     \<and> cType verified = ConditionTypeVerified \<and> cStatus verified = ConditionUnknown \<and> cReason verified = ReasonNotVerified
     \<and> cType ` set rest \<subseteq> {ConditionTypePolicyEnforced, ConditionTypeGatewayRegistered, ConditionTypeNetworkPolicyRestricted})
     \<and> acAddress ac = None \<and> acObservedGeneration ac = Some (srvGeneration ms)"

text \<open>The end of a failed step: the last thing it sends is the report, and the answer to it decides the outcome.\<close>

definition failure_end :: "'w Api \<Rightarrow> MCPServer \<Rightarrow> (StatusAC \<Rightarrow> bool) \<Rightarrow> go_error \<Rightarrow> outcome \<Rightarrow> 'w rstate \<Rightarrow> bool" where
  "failure_end A ms report err outcome s' \<longleftrightarrow> (\<exists>ac w a es. report ac \<and> trace s' = es @ [EApplyStatus (srvName ms) (srvNamespace ms) ac]
     \<and> applyStatusApi A (srvName ms) (srvNamespace ms) ac w = (a, world s')
     \<and> outcome = (noRequeue, case a of Inl e \<Rightarrow> Some e | Inr _ \<Rightarrow> if isOwnershipConflict err then None else Some err))"

lemma valid_after: "yields m P \<Longrightarrow> (\<And>x. P x \<Longrightarrow> valid (\<lambda>_. True) (f x) Q) \<Longrightarrow> valid (\<lambda>_. True) (State_Monad.bind m f) Q"
  unfolding valid_def by (fastforce split: prod.splits)

lemma applyStatus_end:
  "report ac \<Longrightarrow> valid (\<lambda>_. True) (applyStatus A ms ac \<bind> (\<lambda>e. State_Monad.return (afterFailure e err))) (failure_end A ms report err)"
  unfolding applyStatus_def request_def failure_end_def
  by (rule validI) (fastforce simp: run_ops afterFailure_def split: prod.splits sum.splits)

lemma failure_tail_end:
  assumes "find_law K" "base_status ms st" "\<And>c. posture = Some c \<Longrightarrow> cType c = ConditionTypeNetworkPolicyRestricted"
    and "cType available = ConditionTypeAvailable \<and> cStatus available = ConditionFalse \<and> cReason available = reason \<and> cMessage available = message
      \<and> cObservedGeneration available = srvGeneration ms"
    and "cType verified = ConditionTypeVerified \<and> cStatus verified = ConditionUnknown \<and> cReason verified = ReasonNotVerified"
  shows "valid (\<lambda>_. True) (do {
      conditions \<leftarrow> appendPersistentConditions K A R ms [conditionToAC accepted, conditionToAC available, conditionToAC verified] posture;
      e \<leftarrow> applyStatus A ms (keepGatewayBinding ms (withConditions st conditions));
      State_Monad.return (afterFailure e err) }) (failure_end A ms (failure_report ms accepted reason message) err)"
proof (rule valid_after[OF yields_persistent[OF assms(1,3)]], assumption, rule applyStatus_end)
  fix cs
  assume "\<exists>e g p. cs = [conditionToAC accepted, conditionToAC available, conditionToAC verified] @ e # g @ p \<and> cType e = ConditionTypePolicyEnforced
      \<and> map cType g \<in> {[], [ConditionTypeGatewayRegistered]} \<and> map cType p \<in> {[], [ConditionTypeNetworkPolicyRestricted]}"
  then show "failure_report ms accepted reason message (keepGatewayBinding ms (withConditions st cs))"
    using assms(2,4,5) by (auto simp: failure_report_def failure_fields base_status_def)
qed

lemma yields_not_verified:
  "yields (newNotVerifiedCondition K A g ex) (\<lambda>c. cType c = ConditionTypeVerified \<and> cStatus c = ConditionUnknown \<and> cReason c = ReasonNotVerified)"
  unfolding newNotVerifiedCondition_def by (rule yields_imp[OF yields_condition(2)]) simp

lemma handleDeploymentReconcileError_end:
  assumes "find_law K" "\<not> isConflict K err"
  shows "valid (\<lambda>_. True) (handleDeploymentReconcileError K A R ms accepted err)
     (failure_end A ms (failure_report ms accepted ReasonWorkloadUnavailable (''Failed to reconcile Deployment: '' @ errText err)) err)"
  using assms(2) unfolding handleDeploymentReconcileError_def Let_def
  by (simp only: if_False, intro valid_after[OF yields_any] valid_after[OF yields_condition(2)] valid_after[OF yields_not_verified]
      failure_tail_end[OF assms(1) base_configuration]) simp_all

lemma handleResourceFailure_end:
  assumes "find_law K" "\<not> isConflict K err" "base_status ms st" "\<And>c. rfNetworkPolicyPosture params = Some c \<Longrightarrow> cType c = ConditionTypeNetworkPolicyRestricted"
  shows "valid (\<lambda>_. True) (handleResourceFailure K A R ms st accepted err params)
     (failure_end A ms (failure_report ms accepted (rfReason params) (''Failed to reconcile '' @ rfResource params @ '': '' @ errText err)) err)"
  using assms(2) unfolding handleResourceFailure_def
  by (simp only: if_False, intro valid_after[OF yields_any] valid_after[OF yields_condition(2)] valid_after[OF yields_not_verified]
      failure_tail_end[OF assms(1,3)]) (simp_all add: assms(4))

text \<open>
  C19: a failed step (Deployment, Service, NetworkPolicy or gateway binding) ends a pass in one of these ways. An optimistic-lock conflict leaves the state untouched, status included,
  and is retried after a second. Any other failure is reported: the last thing sent is a status for the current generation in which the server is not available, with the reason of the step and the
  text of the error, is not verified, and has no address. If that status cannot be written, the error of the write is returned; if it is written, an ownership conflict
  is not retried and every other error is returned, to be retried with backoff.
\<close>

theorem failure_outcomes:
  assumes "find_law K" "base_status ms st" "\<And>c. posture = Some c \<Longrightarrow> cType c = ConditionTypeNetworkPolicyRestricted"
    and "(step, reason, resource) \<in> {
      (handleDeploymentReconcileError K A R ms accepted err, ReasonWorkloadUnavailable, ''Deployment''),
      (handleResourceFailure K A R ms st accepted err (serviceFailure R), ReasonServiceUnavailable, ''Service''),
      (handleResourceFailure K A R ms st accepted err (networkPolicyFailure R), ReasonNetworkPolicyUnavailable, ''NetworkPolicy''),
      (handleResourceFailure K A R ms st accepted err (bindingFailure R posture), ReasonGatewayNotRegistered, ''MCPGatewayBinding'')}"
    and "run_state step s = (outcome, s')"
  shows "if isConflict K err then outcome = (\<lparr>requeueAfter = requeueDelayConflict\<rparr>, None) \<and> s' = s
    else \<exists>ac w a es. failure_report ms accepted reason (''Failed to reconcile '' @ resource @ '': '' @ errText err) ac
      \<and> trace s' = es @ [EApplyStatus (srvName ms) (srvNamespace ms) ac]
      \<and> applyStatusApi A (srvName ms) (srvNamespace ms) ac w = (a, world s')
      \<and> outcome = (noRequeue, case a of Inl e \<Rightarrow> Some e | Inr _ \<Rightarrow> if isOwnershipConflict err then None else Some err)"
proof (cases "isConflict K err")
  case True
  then show ?thesis using assms(4,5) by (auto simp: handleDeploymentReconcileError_def handleResourceFailure_def)
next
  case False
  let ?report = "failure_report ms accepted reason (''Failed to reconcile '' @ resource @ '': '' @ errText err)"
  note resource = handleResourceFailure_end[OF assms(1) False assms(2), where A = A and R = R and accepted = accepted]
  have "valid (\<lambda>_. True) step (failure_end A ms ?report err)"
    using assms(4) handleDeploymentReconcileError_end[OF assms(1) False, of A R ms accepted] resource[of "serviceFailure R"]
      resource[of "networkPolicyFailure R"] resource[of "bindingFailure R posture"] assms(3)
    by (auto simp: serviceFailure_def networkPolicyFailure_def bindingFailure_def)
  from validD[OF this _ assms(5)] False show ?thesis by (simp add: failure_end_def)
qed

text \<open>A Service that somebody else owns: reported, and not retried.\<close>

definition accepted_condition :: Condition where
  "accepted_condition = \<lparr>cType = ConditionTypeAccepted, cStatus = ConditionTrue, cReason = ''Valid'', cMessage = [], cObservedGeneration = 0, cLastTransitionTime = 0\<rparr>"

theorem failure_outcomes_witness:
  "case run_state (handleResourceFailure sample_lib sample_api sample_reconciler zero_server (workloadStatusConfiguration zero_server 1 0)
      accepted_condition (OwnershipConflictError ''foreign'') (serviceFailure sample_reconciler)) start_state of (outcome, s') \<Rightarrow>
     outcome = (noRequeue, None) \<and> (\<exists>ac es. trace s' = es @ [EApplyStatus [] [] ac]
       \<and> failure_report zero_server accepted_condition ReasonServiceUnavailable ''Failed to reconcile Service: foreign'' ac)"
proof -
  let ?step = "handleResourceFailure sample_lib sample_api sample_reconciler zero_server (workloadStatusConfiguration zero_server 1 0)
      accepted_condition (OwnershipConflictError ''foreign'') (serviceFailure sample_reconciler)"
  obtain outcome s' where run: "run_state ?step start_state = (outcome, s')" by fastforce
  have sample: "\<not> isConflict sample_lib (OwnershipConflictError ''foreign'')" "srvName zero_server = []" "srvNamespace zero_server = []"
    "applyStatusApi sample_api n ns ac w = (Inr (), w)" for n ns ac w
    by (simp_all add: sample_lib_def sample_api_def zero_defs)
  from failure_outcomes[OF sample_lib_laws(1) base_configuration _ _ run, of None ReasonServiceUnavailable "''Service''" sample_api sample_reconciler
      zero_server accepted_condition "OwnershipConflictError ''foreign''"]
  show ?thesis by (simp add: run sample) blast
qed

text \<open>
  C18: a configuration that validation rejects for good never goes unreported. Whatever else happens in the pass, it sends a status with
  \<open>Accepted\<close> false and the reason and message of the rejection, for the generation that was rejected.
\<close>

theorem invalid_configuration_reported:
  assumes "getMCPServer A name namespace (world s) = (Inr ms, w1)" "omDeletionTimestamp (msMeta ms) = None"
    and "getNamespace A namespace w1 = (Inr ns, w2)" "omDeletionTimestamp (nsMeta ns) = None" "find_law K"
    and "\<And>s. \<exists>err. fst (run_state (validateConfigAndResolveWorkload K A ms) s) = Inl err \<and> asValidationError err = Some (reason, message)"
  shows "\<exists>ac c. EApplyStatus (srvName ms) (srvNamespace ms) ac \<in> set (trace (snd (run_state (Reconcile K A R name namespace) s)))
     \<and> c \<in> set (acConditions ac) \<and> cType c = ConditionTypeAccepted \<and> cStatus c = ConditionFalse
     \<and> cReason c = reason \<and> cMessage c = message \<and> cObservedGeneration c = srvGeneration ms"
  using invalid_reported[OF assms] unfolding rejects_def by blast

theorem invalid_configuration_reported_witness:
  "\<exists>ac c. EApplyStatus ''s'' ''ns'' ac \<in> set (trace (snd (run_state (Reconcile sample_lib cluster_api sample_reconciler ''s'' ''ns'') start_state)))
     \<and> c \<in> set (acConditions ac) \<and> cType c = ConditionTypeAccepted \<and> cStatus c = ConditionFalse
     \<and> cReason c = ReasonInvalid \<and> cMessage c = ''unsupported workloadRef kind: Job'' \<and> cObservedGeneration c = 1"
proof -
  have "srvGeneration cluster_server = 1" by (simp add: cluster_server_def)
  then show ?thesis
    using invalid_configuration_reported[OF cluster_reads(1,5,2) _ sample_lib_laws(1), where s = start_state and R = sample_reconciler
        and name = "''s''" and namespace = "''ns''", OF _ cluster_validation]
    by (simp add: cluster_reads)
qed

end
