(* ===== verification/Convergence.thy ===== *)
theory Convergence
  imports ReconcileSafety
begin

text \<open>
  When the loop comes to rest. An object of the cluster is \<^emph>\<open>as written\<close> if it holds what the operator writes for the server, up to the fields that the API server fills
  in. If all objects of a managed server are as written, a pass of the loop writes nothing but the status, so it does not wake itself through the objects it owns.
  Reads may still fail, as long as they do not report an object as missing.
\<close>

section \<open>Objects as written\<close>

text \<open>What changes an object other than the status of the server.\<close>

fun is_write :: "effect \<Rightarrow> bool" where
  "is_write (EEvent _ _ _ _) = False"
| "is_write (EApplyStatus _ _ _) = False"
| "is_write (EDial _ _) = False"
| "is_write (EMetric _ _) = False"
| "is_write (EAudit _ _) = False"
| "is_write _ = True"

abbreviation quiet :: "effect \<Rightarrow> bool" where
  "quiet e \<equiv> \<not> is_write e"

lemma notice_quiet: "is_notice e \<Longrightarrow> quiet e"
  by (cases e) auto

lemma report_quiet: "is_report e \<Longrightarrow> quiet e"
  by (cases e) auto

text \<open>A read that finds the object in the given state, or fails in another way than by not finding it.\<close>

definition finds :: "K8sLib \<Rightarrow> ('w, 'a) apicall \<Rightarrow> ('a \<Rightarrow> bool) \<Rightarrow> bool" where
  "finds K get P \<longleftrightarrow> (\<forall>w r w'. get w = (r, w') \<longrightarrow> (case r of Inl err \<Rightarrow> \<not> isNotFound K err | Inr x \<Rightarrow> P x))"

lemma finds_bind:
  assumes "finds K get P" "\<And>err. \<not> isNotFound K err \<Longrightarrow> emits G (f (Inl err))" "\<And>x. P x \<Longrightarrow> emits G (f (Inr x))"
  shows "emits G (State_Monad.bind (call get) f)"
proof (rule emits_bind_value[OF emits_call call_value])
  fix r assume "\<exists>w w'. get w = (r, w')"
  with assms(1) have "case r of Inl err \<Rightarrow> \<not> isNotFound K err | Inr x \<Rightarrow> P x" by (auto simp: finds_def)
  with assms(2,3) show "emits G (f r)" by (cases r) auto
qed

text \<open>The metadata that the operator writes, starting from that of the desired object; identity and versions are the API server's.\<close>

definition meta_as_written :: "K8sLib \<Rightarrow> MCPServer \<Rightarrow> ObjectMeta \<Rightarrow> ObjectMeta \<Rightarrow> bool" where
  "meta_as_written K ms desired m \<longleftrightarrow> (\<exists>m'. applyCustomObjectMetadata K ms desired = Inr m' \<and> omLabels m = omLabels m' \<and> omAnnotations m = omAnnotations m'
     \<and> omOwnerReferences m = omOwnerReferences m')"

lemma metadata_unchanged:
  assumes "owner_laws K" "spec_maps_wf ms" "setControllerReference K ms m0 = Inr m1" "meta_as_written K ms m1 m" "setControllerReference K ms m = Inr m2"
  shows "\<not> objectLabelsChanged ms m2 [] \<and> \<not> objectAnnotationsChanged ms m2 [] \<and> \<not> ownershipChanged K m m2"
proof -
  have laws: "controller_law K" "set_controller_law K" using assms(1) by simp_all
  obtain m' where m': "applyCustomObjectMetadata K ms m1 = Inr m'" "omLabels m = omLabels m'" "omAnnotations m = omAnnotations m'"
    "omOwnerReferences m = omOwnerReferences m'"
    using assms(4) by (auto simp: meta_as_written_def)
  have "ownerUID K m = srvUID ms"
    using custom_keeps_owner[OF laws(1) m'(1)] set_controller_keeps[OF laws(2) assms(3)] m'(4) laws(1)
    by (simp add: ownerUID_def controller_law_def)
  moreover have "omLabels m2 = omLabels m'" "omAnnotations m2 = omAnnotations m'" "ownerUID K m2 = srvUID ms"
    using set_controller_keeps[OF laws(2) assms(5)] m' by simp_all
  ultimately show ?thesis
    using object_settles[OF assms(2) m'(1), of "[]" "[]"]
    by (auto simp: objectLabelsChanged_def objectAnnotationsChanged_def ownershipChanged_def ownerUID_def split: option.splits)
qed

section \<open>Service, NetworkPolicy and binding\<close>

definition service_as_written :: "K8sLib \<Rightarrow> MCPServer \<Rightarrow> gomap \<Rightarrow> Service \<Rightarrow> bool" where
  "service_as_written K ms selector svc \<longleftrightarrow>
     (\<exists>m. setControllerReference K ms (svcMeta (createService ms selector)) = Inr m \<and> meta_as_written K ms m (svcMeta svc))
     \<and> svcPorts svc = svcPorts (createService ms selector) \<and> svcSelector svc = selector
     \<and> svcSessionAffinity svc = svcSessionAffinity (createService ms selector)"

text \<open>With a referenced Service, a managed one is not there any more, or never was the server's.\<close>

definition service_settled :: "K8sLib \<Rightarrow> 'w Api \<Rightarrow> MCPServer \<Rightarrow> gomap \<Rightarrow> bool" where
  "service_settled K A ms selector \<longleftrightarrow> (case spServiceRef (msSpec ms) of
      None \<Rightarrow> finds K (getService A (srvName ms) (srvNamespace ms)) (service_as_written K ms selector)
    | Some ref \<Rightarrow> \<forall>w svc w'. getService A (srvName ms) (srvNamespace ms) w = (Inr svc, w') \<longrightarrow>
        (case getControllerOf K (svcMeta svc) of None \<Rightarrow> True | Some owner \<Rightarrow> orUID owner \<noteq> srvUID ms))"

lemma service_quiet:
  assumes "owner_laws K" "deep_equal_refl K" "spec_maps_wf ms" "service_settled K A ms selector"
  shows "emits quiet (reconcileServiceOrBYO K A ms selector)"
proof (cases "spServiceRef (msSpec ms)")
  case None
  have up: "emits quiet (updateService K A ms ((createService ms selector)\<lparr>svcMeta := m\<rparr>) svc)"
    if w: "service_as_written K ms selector svc" for svc m
  proof -
    obtain m1 where m1: "setControllerReference K ms (svcMeta (createService ms selector)) = Inr m1" "meta_as_written K ms m1 (svcMeta svc)"
      using w by (auto simp: service_as_written_def)
    have "\<not> serviceNeedsUpdate K ms ((createService ms selector)\<lparr>svcMeta := m\<rparr>) svc m2" if "setControllerReference K ms (svcMeta svc) = Inr m2" for m2
      using metadata_unchanged[OF assms(1,3) m1 that] w assms(2)
      by (simp add: serviceNeedsUpdate_def service_as_written_def deep_equal_refl_def createService_meta)
    then show ?thesis unfolding updateService_def by (auto intro!: emits_return emits_case)
  qed
  have get: "finds K (getService A (srvName ms) (srvNamespace ms)) (service_as_written K ms selector)"
    using assms(4) None by (simp add: service_settled_def)
  have "emits quiet (reconcileService K A ms selector)"
    unfolding reconcileService_def Let_def
  proof (intro emits_case emits_return)
    fix m assume m: "setControllerReference K ms (svcMeta (createService ms selector)) = Inr m"
    have n: "omName m = srvName ms" "omNamespace m = srvNamespace ms"
      using set_controller_keeps[of K ms _ m] m assms(1) by (auto simp: createService_meta)
    show "emits quiet (call (getService A (omName m) (omNamespace m)) \<bind> (\<lambda>r. case r of
         Inl err \<Rightarrow> if isNotFound K err then createNewService K A ms ((createService ms selector)\<lparr>svcMeta := m\<rparr>) else State_Monad.return (Some err)
       | Inr existing \<Rightarrow> do {
           o' \<leftarrow> validateOwnership K ''Service'' (svcMeta existing) ms;
           (case o' of Inl e \<Rightarrow> State_Monad.return (Some e) | Inr _ \<Rightarrow> updateService K A ms ((createService ms selector)\<lparr>svcMeta := m\<rparr>) existing) }))"
      unfolding n by (rule finds_bind[OF get]) (auto intro!: emits_return emits_bind emits_case validateOwnership_emits[OF report_quiet] up)
  qed
  then show ?thesis
    unfolding reconcileServiceOrBYO_def by (auto simp: None intro!: emits_bind emits_return emits_report(4)[OF report_quiet])
next
  case (Some ref)
  have "emits quiet (cleanupManagedServiceForBYO K A ms)"
    unfolding cleanupManagedServiceForBYO_def
  proof (intro emits_if emits_return emits_bind_value[OF emits_call call_value] emits_case)
    fix r svc assume "\<exists>w w'. getService A (srvName ms) (srvNamespace ms) w = (r, w')" "r = Inr svc"
    then have "case getControllerOf K (svcMeta svc) of None \<Rightarrow> True | Some owner \<Rightarrow> orUID owner \<noteq> srvUID ms"
      using assms(4) Some by (auto simp: service_settled_def)
    then show "emits quiet (deleteManagedService K A ms svc)" by (simp add: deleteManagedService_def emits_return)
  qed
  then show ?thesis
    unfolding reconcileServiceOrBYO_def by (auto simp: Some intro!: emits_bind emits_return resolve_emits emits_case split: prod.split)
qed

text \<open>The policy for the peers that are derived now.\<close>

definition policy_as_written :: "K8sLib \<Rightarrow> 'w Api \<Rightarrow> Reconciler \<Rightarrow> MCPServer \<Rightarrow> NetworkPolicy \<Rightarrow> bool" where
  "policy_as_written K A R ms np \<longleftrightarrow> (\<forall>s gw s'. run_state (gatewayIngressPeers K A R ms) s = (Inr gw, s') \<longrightarrow>
     (let desired = createNetworkPolicy R ms (operatorIngressPeers R ms @ gw)
      in npSpec np = npSpec desired \<and> (\<exists>m. setControllerReference K ms (npMeta desired) = Inr m \<and> meta_as_written K ms m (npMeta np))))"

abbreviation policy_settled :: "K8sLib \<Rightarrow> 'w Api \<Rightarrow> Reconciler \<Rightarrow> MCPServer \<Rightarrow> bool" where
  "policy_settled K A R ms \<equiv> finds K (getNetworkPolicy A (srvName ms) (srvNamespace ms)) (policy_as_written K A R ms)"

lemma policy_quiet:
  assumes "owner_laws K" "deep_equal_refl K" "spec_maps_wf ms" "policy_settled K A R ms"
  shows "emits quiet (ensureNetworkPolicy K A R ms)"
  unfolding ensureNetworkPolicy_def
proof (rule emits_bind_value[OF gatewayIngressPeers_emits], rule validI)
  show "run_state (gatewayIngressPeers K A R ms) s = (r, s') \<Longrightarrow> \<exists>s s'. run_state (gatewayIngressPeers K A R ms) s = (r, s')" for s r s' by blast
next
  fix r assume run: "\<exists>s s'. run_state (gatewayIngressPeers K A R ms) s = (r, s')"
  have "emits quiet (submitNetworkPolicy K A ms (createNetworkPolicy R ms (operatorIngressPeers R ms @ gw)))" if gw: "r = Inr gw" for gw
  proof -
    let ?d = "createNetworkPolicy R ms (operatorIngressPeers R ms @ gw)"
    have up: "emits quiet (updateNetworkPolicy K A ms (?d\<lparr>npMeta := m\<rparr>) np)" if w: "policy_as_written K A R ms np" for np m
    proof -
      obtain m1 where m1: "npSpec np = npSpec ?d" "setControllerReference K ms (npMeta ?d) = Inr m1" "meta_as_written K ms m1 (npMeta np)"
        using w run gw by (auto simp: policy_as_written_def Let_def)
      have "semanticDeepEqual K x x" for x using assms(2) by (simp add: deep_equal_refl_def)
      with metadata_unchanged[OF assms(1,3) m1(2,3)] m1(1) show ?thesis
        unfolding updateNetworkPolicy_def by (auto intro!: emits_return emits_case emits_if)
    qed
    have n: "omName m = srvName ms" "omNamespace m = srvNamespace ms" if "setControllerReference K ms (npMeta ?d) = Inr m" for m
      using set_controller_keeps[OF conjunct2[OF assms(1)] that] by (auto simp: createNetworkPolicy_meta)
    show ?thesis
      unfolding submitNetworkPolicy_def Let_def
    proof (rule emits_case(1)[OF emits_return])
      fix m assume m: "setControllerReference K ms (npMeta ?d) = Inr m"
      show "emits quiet (call (getNetworkPolicy A (omName m) (omNamespace m)) \<bind> (\<lambda>r. case r of
           Inl err \<Rightarrow> if isNotFound K err then createNewNetworkPolicy K A ms (?d\<lparr>npMeta := m\<rparr>) else State_Monad.return (Inl err)
         | Inr existing \<Rightarrow> do {
             o' \<leftarrow> validateOwnership K ''NetworkPolicy'' (npMeta existing) ms;
             (case o' of Inl e \<Rightarrow> State_Monad.return (Inl e) | Inr _ \<Rightarrow> updateNetworkPolicy K A ms (?d\<lparr>npMeta := m\<rparr>) existing) }))"
        unfolding n[OF m] by (rule finds_bind[OF assms(4)]) (auto intro!: emits_return emits_bind emits_case validateOwnership_emits[OF report_quiet] up)
    qed
  qed
  then show "emits quiet (case r of Inl gwErr \<Rightarrow> State_Monad.return (Inl gwErr)
      | Inr gw \<Rightarrow> submitNetworkPolicy K A ms (createNetworkPolicy R ms (operatorIngressPeers R ms @ gw)))"
    by (auto intro!: emits_case emits_return)
qed

definition binding_settled :: "K8sLib \<Rightarrow> 'w Api \<Rightarrow> MCPServer \<Rightarrow> bool" where
  "binding_settled K A ms \<longleftrightarrow> (case spGateway (msSpec ms) of
      None \<Rightarrow> \<forall>w. isl (fst (getBinding A (gatewayBindingName K (srvName ms)) (srvNamespace ms) w))
    | Some gw \<Rightarrow> finds K (getBinding A (gatewayBindingName K (srvName ms)) (srvNamespace ms)) (\<lambda>b. gbSpec b = gbSpec (desiredBinding K ms gw)))"

lemma binding_quiet:
  assumes "deep_equal_refl K" "binding_settled K A ms"
  shows "emits quiet (reconcileGatewayBinding K A ms)" "emits quiet (cleanupGatewayBindingIfRemoved K A ms)"
proof -
  have none: "isl r" if "spGateway (msSpec ms) = None" "\<exists>w w'. getBinding A (gatewayBindingName K (srvName ms)) (srvNamespace ms) w = (r, w')" for r
    using that assms(2) by (metis binding_settled_def fst_conv option.case(1))
  show "emits quiet (cleanupGatewayBindingIfRemoved K A ms)"
    unfolding cleanupGatewayBindingIfRemoved_def
    by (intro emits_if emits_return emits_bind_value[OF emits_call call_value] emits_case) (use none in fastforce)+
  show "emits quiet (reconcileGatewayBinding K A ms)"
  proof (cases "spGateway (msSpec ms)")
    case None
    show ?thesis
      unfolding reconcileGatewayBinding_def None option.case
      by (intro emits_bind_value[OF emits_call call_value] emits_case emits_return) (use none[OF None] in fastforce)
  next
    case (Some gw)
    have get: "finds K (getBinding A (gatewayBindingName K (srvName ms)) (srvNamespace ms)) (\<lambda>b. gbSpec b = gbSpec (desiredBinding K ms gw))"
      using assms(2) Some by (simp add: binding_settled_def)
    have "semanticDeepEqual K x x" for x using assms(1) by (simp add: deep_equal_refl_def)
    then show ?thesis
      unfolding reconcileGatewayBinding_def Some option.case
      by (intro finds_bind[OF get] emits_case emits_return)
         (auto simp: submitBinding_def intro!: emits_return emits_bind emits_case validateOwnership_emits[OF report_quiet])
  qed
qed

section \<open>Deployment\<close>

text \<open>
  A pod specification after the API server has set the default pull policy and fields that the operator never writes (\<open>ctOther\<close>, \<open>psOther\<close>). Every other field is
  unchanged: volumes, mounts, environment, ports, probes and security contexts are compared by the operator as a whole.
\<close>

definition defaulted_container :: "Container \<Rightarrow> Container \<Rightarrow> bool" where
  "defaulted_container c c' \<longleftrightarrow> ctOther c = [] \<and> c' = c\<lparr>ctOther := ctOther c',
     ctImagePullPolicy := (if ctImagePullPolicy c = [] then defaultImagePullPolicy (ctImage c) else ctImagePullPolicy c)\<rparr>"

definition defaulted_pod :: "PodSpec \<Rightarrow> PodSpec \<Rightarrow> bool" where
  "defaulted_pod p p' \<longleftrightarrow> psOther p = [] \<and> p' = p\<lparr>psContainers := psContainers p', psOther := psOther p'\<rparr>
     \<and> list_all2 defaulted_container (psContainers p) (psContainers p')"

text \<open>\<open>equality.Semantic.DeepDerivative\<close> ignores what is not set in its first argument.\<close>

definition derivative_law :: "K8sLib \<Rightarrow> bool" where
  "derivative_law K \<longleftrightarrow> (\<forall>p p'. defaulted_pod p p' \<longrightarrow> semanticDeepDerivative K (IPodSpec p) (IPodSpec p'))"

text \<open>The Deployment that the operator wants, with the hash of the configuration that can be read now.\<close>

definition wanted_deployment :: "K8sLib \<Rightarrow> 'w Api \<Rightarrow> Reconciler \<Rightarrow> MCPServer \<Rightarrow> Deployment \<Rightarrow> bool" where
  "wanted_deployment K A R ms d \<longleftrightarrow> (\<exists>d0 m s s'. createDeployment R ms = Inr d0 \<and> setControllerReference K ms (depMeta d0) = Inr m
     \<and> run_state (applyConfigHash K A ms (d0\<lparr>depMeta := m\<rparr>)) s = (Inr d, s'))"

definition deployment_as_written :: "K8sLib \<Rightarrow> 'w Api \<Rightarrow> Reconciler \<Rightarrow> MCPServer \<Rightarrow> Deployment \<Rightarrow> bool" where
  "deployment_as_written K A R ms dep \<longleftrightarrow> (\<forall>d. wanted_deployment K A R ms d \<longrightarrow> (\<exists>d'. applyCustomDeploymentMetadata K ms d = Inr d'
     \<and> omLabels (depMeta dep) = omLabels (depMeta d') \<and> omAnnotations (depMeta dep) = omAnnotations (depMeta d')
     \<and> omOwnerReferences (depMeta dep) = omOwnerReferences (depMeta d')
     \<and> depReplicas dep = depReplicas d' \<and> depTemplateLabels dep = depTemplateLabels d' \<and> depTemplateAnnotations dep = depTemplateAnnotations d'
     \<and> defaulted_pod (depPodSpec d') (depPodSpec dep)))"

abbreviation no_extra_metadata :: "MCPServer \<Rightarrow> bool" where
  "no_extra_metadata ms \<equiv> gm_len (effectiveLabels ms) = 0 \<and> gm_len (effectiveAnnotations ms) = 0"

lemma defaulted_up_to_date:
  assumes "deep_equal_refl K" "derivative_law K" "psContainers (depPodSpec d) = [c]" "defaulted_pod (depPodSpec d) (depPodSpec dep)"
    "depReplicas dep = depReplicas d" "depTemplateLabels dep = depTemplateLabels d" "depTemplateAnnotations dep = depTemplateAnnotations d"
    "\<not> deploymentLabelsChanged ms dep" "\<not> deploymentAnnotationsChanged ms dep"
  shows "\<not> deploymentNeedsUpdate K ms dep d False"
proof -
  obtain c' where c': "psContainers (depPodSpec dep) = [c']" "defaulted_container c c'"
    using assms(3,4) by (auto simp: defaulted_pod_def list_all2_Cons1)
  define other policy co where "other = psOther (depPodSpec dep)"
    and "policy = (if ctImagePullPolicy c = [] then defaultImagePullPolicy (ctImage c) else ctImagePullPolicy c)" and "co = ctOther c'"
  then have pod: "depPodSpec dep = (depPodSpec d)\<lparr>psContainers := [c'], psOther := other\<rparr>" and c: "c' = c\<lparr>ctOther := co, ctImagePullPolicy := policy\<rparr>"
    using assms(4) c' by (simp_all add: defaulted_pod_def defaulted_container_def)
  have r: "semanticDeepEqual K x x" for x using assms(1) by (simp add: deep_equal_refl_def)
  have "semanticDeepDerivative K (IPodSpec (depPodSpec d)) (IPodSpec (depPodSpec dep))"
    using assms(2,4) by (simp add: derivative_law_def)
  moreover have "\<not> imagePullPolicyNeedsUpdate c' c" "\<not> containerNeedsUpdate K c' c"
    by (simp_all add: imagePullPolicyNeedsUpdate_def containerNeedsUpdate_def r c policy_def)
  ultimately show ?thesis
    using assms(5-9) by (simp add: deploymentNeedsUpdate_def Let_def pod assms(3) sameImagePullSecrets_def r)
qed

lemma written_up_to_date:
  assumes "owner_laws K" "deep_equal_refl K" "derivative_law K" "spec_maps_wf ms" "no_extra_metadata ms"
    and "wanted_deployment K A R ms d" "desired_deployment K R ms d" "deployment_as_written K A R ms dep" "setControllerReference K ms (depMeta dep) = Inr m"
  shows "\<not> deploymentNeedsUpdate K ms (dep\<lparr>depMeta := m\<rparr>) d (ownershipChanged K (depMeta dep) m)"
proof -
  have laws: "controller_law K" "set_controller_law K" using assms(1) by simp_all
  note f = desired_facts[OF laws(2) assms(7)] and k = set_controller_keeps[OF laws(2) assms(9)]
  from f(1) obtain img where c: "psContainers (depPodSpec d) = [serverContainer R ms img]"
    using createDeployment_facts(7) by (fastforce simp: runs_server_def)
  obtain d' where d': "applyCustomDeploymentMetadata K ms d = Inr d'" "omLabels (depMeta dep) = omLabels (depMeta d')"
      "omAnnotations (depMeta dep) = omAnnotations (depMeta d')" "omOwnerReferences (depMeta dep) = omOwnerReferences (depMeta d')"
      "depReplicas dep = depReplicas d'" "depTemplateLabels dep = depTemplateLabels d'" "depTemplateAnnotations dep = depTemplateAnnotations d'"
      "defaulted_pod (depPodSpec d') (depPodSpec dep)"
    using assms(6,8) by (auto simp: deployment_as_written_def)
  have same: "depPodSpec d' = depPodSpec d" "depReplicas d' = depReplicas d" "applyCustomObjectMetadata K ms (depMeta d) = Inr (depMeta d')"
    "depTemplateLabels d' = depTemplateLabels d" "depTemplateAnnotations d' = depTemplateAnnotations d"
    using custom_deployment_keeps[OF d'(1)] custom_deployment_plain[OF d'(1) f(5)] assms(5) by simp_all
  have "ownerUID K (depMeta dep) = srvUID ms"
    using custom_keeps_owner[OF laws(1) same(3)] f(2) d'(4) laws(1) by (simp add: ownerUID_def controller_law_def)
  then have "\<not> ownershipChanged K (depMeta dep) m" using k by (auto simp: ownershipChanged_def ownerUID_def split: option.splits)
  moreover have "\<not> deploymentLabelsChanged ms (dep\<lparr>depMeta := m\<rparr>)" "\<not> deploymentAnnotationsChanged ms (dep\<lparr>depMeta := m\<rparr>)"
    using deployment_settles[OF assms(4) d'(1)] k d'(2,3,6,7)
    by (simp_all add: deploymentLabelsChanged_def deploymentAnnotationsChanged_def objectLabelsChanged_def objectAnnotationsChanged_def)
  ultimately show ?thesis
    using defaulted_up_to_date[OF assms(2,3) c, of "dep\<lparr>depMeta := m\<rparr>" ms] d'(5-8) same by simp
qed

abbreviation deployment_settled :: "K8sLib \<Rightarrow> 'w Api \<Rightarrow> Reconciler \<Rightarrow> MCPServer \<Rightarrow> bool" where
  "deployment_settled K A R ms \<equiv> finds K (getDeployment A (srvName ms) (srvNamespace ms)) (deployment_as_written K A R ms)"

lemma deployment_quiet:
  assumes "owner_laws K" "deep_equal_refl K" "derivative_law K" "spec_maps_wf ms" "no_extra_metadata ms" "deployment_settled K A R ms"
  shows "emits quiet (reconcileDeployment K A R ms)"
  unfolding reconcileDeployment_def
proof (rule emits_case(1)[OF emits_return], rule emits_case(1)[OF emits_return])
  fix d0 m assume d0: "createDeployment R ms = Inr d0" and m: "setControllerReference K ms (depMeta d0) = Inr m"
  have law: "set_controller_law K" using assms(1) by simp
  have up: "emits quiet (updateDeployment K A ms d dep)"
    if "wanted_deployment K A R ms d" "desired_deployment K R ms d" "deployment_as_written K A R ms dep" for d dep
    using written_up_to_date[OF assms(1-5) that] unfolding updateDeployment_def Let_def by (auto intro!: emits_case emits_return)
  have sub: "emits quiet (submitDeployment K A ms d)" if "wanted_deployment K A R ms d" "desired_deployment K R ms d" for d
    unfolding submitDeployment_def desired_facts(3,4)[OF law that(2)]
    by (rule finds_bind[OF assms(6)]) (auto intro!: emits_return emits_bind emits_case validateOwnership_emits[OF report_quiet] up that)
  have v: "valid (\<lambda>_. True) (applyConfigHash K A ms (d0\<lparr>depMeta := m\<rparr>))
      (\<lambda>r _. \<forall>d. r = Inr d \<longrightarrow> wanted_deployment K A R ms d \<and> desired_deployment K R ms d)"
  proof (rule validI, intro allI impI conjI)
    fix s r s' d assume run: "run_state (applyConfigHash K A ms (d0\<lparr>depMeta := m\<rparr>)) s = (r, s')" "r = Inr d"
    show "wanted_deployment K A R ms d" using d0 m run by (auto simp: wanted_deployment_def)
    show "desired_deployment K R ms d" using validD[OF applyConfigHash_value[OF d0 m] _ run(1)] run(2) by simp
  qed
  show "emits quiet (applyConfigHash K A ms (d0\<lparr>depMeta := m\<rparr>) \<bind> (\<lambda>h. case h of Inl e \<Rightarrow> State_Monad.return (Inl e) | Inr deployment \<Rightarrow> submitDeployment K A ms deployment))"
    by (rule emits_bind_value[OF applyConfigHash_emits v]) (auto intro!: emits_case emits_return sub)
qed

section \<open>What is created is as written\<close>

lemma created_service_as_written:
  "emits (\<lambda>e. \<forall>svc. e = ECreateService svc \<longrightarrow> service_as_written K ms selector svc) (reconcileServiceOrBYO K A ms selector)"
proof -
  let ?P = "\<lambda>e. \<forall>svc. e = ECreateService svc \<longrightarrow> service_as_written K ms selector svc"
  have rep: "is_report e \<Longrightarrow> ?P e" for e by (cases e) auto
  have "?P (ECreateService ((createService ms selector)\<lparr>svcMeta := m'\<rparr>))"
    if "setControllerReference K ms (svcMeta (createService ms selector)) = Inr m" "applyCustomObjectMetadata K ms m = Inr m'" for m m'
    using that by (auto simp: service_as_written_def meta_as_written_def createService_meta)
  then show ?thesis
    unfolding reconcileServiceOrBYO_def reconcileService_def createNewService_def updateService_def cleanupManagedServiceForBYO_def deleteManagedService_def Let_def
    by (intro emits_if emits_bind emits_case emits_return emits_call emits_request resolve_emits validateOwnership_emits[OF rep] emits_report(4)[OF rep]) simp_all
qed

text \<open>A created Deployment is as written as long as the configuration that it was hashed with stays.\<close>

lemma created_deployment_as_written:
  "emits (\<lambda>e. \<forall>dep. e = ECreateDeployment dep \<longrightarrow> (\<exists>d. wanted_deployment K A R ms d \<and> applyCustomDeploymentMetadata K ms d = Inr dep)) (reconcileDeployment K A R ms)"
  (is "emits ?P _")
  unfolding reconcileDeployment_def
proof (rule emits_case(1)[OF emits_return], rule emits_case(1)[OF emits_return])
  fix d0 m assume d0: "createDeployment R ms = Inr d0" and m: "setControllerReference K ms (depMeta d0) = Inr m"
  have rep: "is_report e \<Longrightarrow> ?P e" for e by (cases e) auto
  have sub: "emits ?P (submitDeployment K A ms d)" if "wanted_deployment K A R ms d" for d
    unfolding submitDeployment_def createNewDeployment_def updateDeployment_def Let_def
    by (intro emits_if emits_bind emits_case emits_return emits_call emits_request validateOwnership_emits[OF rep]) (use that in auto)
  show "emits ?P (applyConfigHash K A ms (d0\<lparr>depMeta := m\<rparr>) \<bind> (\<lambda>h. case h of Inl e \<Rightarrow> State_Monad.return (Inl e) | Inr deployment \<Rightarrow> submitDeployment K A ms deployment))"
  proof (rule emits_bind_value[OF applyConfigHash_emits], rule validI)
    fix s r s' assume "run_state (applyConfigHash K A ms (d0\<lparr>depMeta := m\<rparr>)) s = (r, s')"
    then show "\<forall>d. r = Inr d \<longrightarrow> wanted_deployment K A R ms d" using d0 m by (auto simp: wanted_deployment_def)
  qed (auto intro!: emits_case emits_return sub)
qed

section \<open>The loop\<close>

lemmas quiet_reports = emits_report[OF report_quiet] emits_audit[OF report_quiet]
lemmas quiet_events = emits_events[OF notice_quiet]
lemmas quiet_rules = emits_return emits_call emits_maps newCondition_emits persistent_emits quiet_reports quiet_events

lemma status_quiet: "emits quiet (applyStatus A ms st)"
  unfolding applyStatus_def by (intro emits_rules) simp

lemma failure_quiet:
  "(\<And>m n. emits quiet (rfEmitEvent p m n)) \<Longrightarrow> emits quiet (handleResourceFailure K A R ms st accepted err p)"
  "emits quiet (handleDeploymentReconcileError K A R ms accepted err)"
  "emits quiet (reconcilePermanentValidationError K A R ms reason message)"
  unfolding handleResourceFailure_def handleDeploymentReconcileError_def reconcilePermanentValidationError_def Let_def
  by (intro emits_if emits_bind emits_case quiet_rules status_quiet | assumption)+

lemma handshake_quiet:
  assumes "tls_profile (rTLSProfile R)"
  shows "emits quiet (reconcileHandshake K A R ms url available hash)"
proof (rule handshake.guarded_within[OF assms])
  show "handshake_guard ms url e \<Longrightarrow> quiet e" for e using notice_quiet by (cases e) auto
qed

lemma endpoint_quiet:
  assumes "tls_profile (rTLSProfile R)" "deep_equal_refl K" "binding_settled K A ms"
  shows "emits quiet (reconcileEndpoint K A R ms accepted available status endpoint posture)"
proof -
  have gw: "emits quiet (resolveGatewayStatus K A ms available url)" for url
    unfolding resolveGatewayStatus_def
    by (intro emits_bind reconcileGatewayCondition_emits emits_case emits_return applyGatewayStatus_emits report_quiet)
  have events: "emits quiet (reconcileHandshakeEventsAndRetryCount K R ms c)" for c
    unfolding reconcileHandshakeEventsAndRetryCount_def Let_def by (intro emits_if emits_bind emits_maps emits_return quiet_events)
  have hash: "emits quiet (computeTLSCABundleHash K A ns tls)" for ns tls
    unfolding computeTLSCABundleHash_def by (intro emits_case emits_if emits_return emits_bind emits_call)
  have tail: "emits quiet (updateTLSCABundleHash ms h c)" "emits quiet (handshakeRequeue ms c n)" for h c n
    unfolding updateTLSCABundleHash_def handshakeRequeue_def by (intro emits_if emits_bind emits_maps emits_return quiet_reports)+
  have fin: "emits quiet (finishEndpoint R ms hash diff verified n g)" for hash diff verified n g
    unfolding finishEndpoint_def
    by (intro emits_bind emits_if tail emits_emit emits_case quiet_rules) simp
  show ?thesis
    unfolding reconcileEndpoint_def publishEndpoint_def bindingFailure_def Let_def
    by (intro emits_bind emits_if emits_case binding_quiet[OF assms(2,3)] failure_quiet handshake_quiet[OF assms(1)] gw events hash tail fin status_quiet quiet_rules)
       (simp_all add: quiet_events)
qed

abbreviation settle_laws :: "K8sLib \<Rightarrow> Reconciler \<Rightarrow> bool" where
  "settle_laws K R \<equiv> owner_laws K \<and> deep_equal_refl K \<and> derivative_law K \<and> tls_profile (rTLSProfile R)"

text \<open>A managed server whose objects are all as the operator writes them.\<close>

definition settled :: "K8sLib \<Rightarrow> 'w Api \<Rightarrow> Reconciler \<Rightarrow> MCPServer \<Rightarrow> bool" where
  "settled K A R ms \<longleftrightarrow> spec_maps_wf ms \<and> spWorkloadRef (msSpec ms) = None \<and> deployment_settled K A R ms
     \<and> service_settled K A ms (Some (managedWorkloadSelector (srvName ms))) \<and> policy_settled K A R ms \<and> binding_settled K A ms"

lemma server_quiet:
  assumes "settle_laws K R" "settled K A R ms" "no_extra_metadata ms"
  shows "emits quiet (reconcileServer K A R ms)"
proof -
  have laws: "owner_laws K" "deep_equal_refl K" "derivative_law K" "tls_profile (rTLSProfile R)" using assms(1) by simp_all
  have st: "spec_maps_wf ms" "spWorkloadRef (msSpec ms) = None" "deployment_settled K A R ms"
    "service_settled K A ms (Some (managedWorkloadSelector (srvName ms)))" "policy_settled K A R ms" "binding_settled K A ms"
    using assms(2) by (simp_all add: settled_def)
  have events: "emits quiet (maybeEmitWorkloadUnavailableEvent K R ms c)" for c
    unfolding maybeEmitWorkloadUnavailableEvent_def by (intro emits_if emits_return quiet_events)
  have fail: "emits quiet (handleResourceFailure K A R ms status accepted err p)"
    if "p \<in> {serviceFailure R, networkPolicyFailure R}" for status accepted err p
    using that by (intro failure_quiet) (auto simp: serviceFailure_def networkPolicyFailure_def quiet_events)
  have "emits quiet (reconcileManagedResources K A R ms accepted d)" for accepted d
    unfolding reconcileManagedResources_def Let_def
    by (intro emits_bind service_quiet[OF laws(1,2) st(1,4)] policy_quiet[OF laws(1,2) st(1,5)] endpoint_quiet[OF laws(4,2) st(6)]
        emits_case fail observe_emits posture_emits events quiet_reports) simp_all
  then have "emits quiet (reconcileManaged K A R ms accepted)" for accepted
    unfolding reconcileManaged_def
    by (intro emits_bind deployment_quiet[OF laws(1-3) st(1) assms(3) st(3)] emits_case failure_quiet quiet_reports)
  moreover have "emits quiet (validateConfigAndResolveWorkload K A ms)" by (rule emits_mono[OF validation_silent]) simp
  ultimately show ?thesis
    unfolding reconcileServer_def Let_def
    by (auto simp: st(2) intro!: emits_bind emits_case emits_if emits_return binding_quiet[OF laws(2) st(6)] failure_quiet quiet_events quiet_reports newCondition_emits)
qed

text \<open>
  C4: the loop comes to rest. When the objects of a managed server are as the operator writes them and the server has no extra labels or
  annotations, a pass of the loop writes no object: it sends events, metrics, a dial and the status only, whatever else the API server answers. The stored Deployment may
  differ from the written one in two ways only: the API server has set the default image pull policy where the operator left it open, and has set fields of the pod and of its
  containers that the operator never writes. Every field that the operator writes, volumes included, has to come back as written: a stored volume with a filled-in mode does not meet the
  hypothesis, and the code does rewrite such a Deployment.
\<close>

theorem settled_pass_writes_nothing:
  assumes "settle_laws K R" "\<And>w ms w'. getMCPServer A name namespace w = (Inr ms, w') \<Longrightarrow> settled K A R ms \<and> no_extra_metadata ms"
    and "trace s = []" "run_state (Reconcile K A R name namespace) s = (r, s')"
  shows "\<forall>e\<in>set (trace s'). \<not> is_write e"
proof -
  have skip: "emits P (shouldSkipReconciliation K A ms namespace)" for P ms
    unfolding shouldSkipReconciliation_def by (intro emits_if emits_return emits_bind emits_call)
  have "emits quiet (Reconcile K A R name namespace)"
    unfolding Reconcile_def
  proof (rule emits_bind_value[OF emits_call call_value])
    fix m assume "\<exists>w w'. getMCPServer A name namespace w = (m, w')"
    then have "emits quiet (reconcileServer K A R ms)" if "m = Inr ms" for ms using assms(2) server_quiet[OF assms(1)] that by blast
    then show "emits quiet (case m of Inl err \<Rightarrow> if isNotFound K err
        then do { storeHash (namespace @ ''/'' @ name) None; storeRetry (namespace @ ''/'' @ name) None; cleanupMetrics name namespace; State_Monad.return (noRequeue, None) }
        else State_Monad.return (noRequeue, Some err)
      | Inr ms \<Rightarrow> do { skip \<leftarrow> shouldSkipReconciliation K A ms namespace;
          (case skip of Inl err \<Rightarrow> State_Monad.return (noRequeue, Some err) | Inr True \<Rightarrow> State_Monad.return (noRequeue, None)
           | Inr False \<Rightarrow> reconcileServer K A R ms) })"
      by (auto intro!: emits_case emits_if emits_return emits_bind emits_maps emits_report report_quiet skip split: sum.split bool.split)
  qed
  from emitsD[OF this assms(4)] assms(3) show ?thesis by (auto simp: list_all_iff)
qed

text \<open>A cluster before and after the first pass; the API server has given the objects an identity and filled in a field of the pod.\<close>

definition unset_pod :: "PodSpec \<Rightarrow> PodSpec" where
  "unset_pod p = p\<lparr>psContainers := map (\<lambda>c. c\<lparr>ctImagePullPolicy := [], ctOther := []\<rparr>) (psContainers p), psOther := []\<rparr>"

definition derivative_lib :: K8sLib where
  "derivative_lib = sample_lib\<lparr>semanticDeepDerivative := \<lambda>a b. case (a, b) of (IPodSpec p, IPodSpec q) \<Rightarrow> unset_pod p = unset_pod q | _ \<Rightarrow> a = b\<rparr>"

definition plain_server :: MCPServer where
  "plain_server = image_server\<lparr>msMeta := zero_meta\<lparr>omName := ''s'', omNamespace := ''ns'', omUID := ''u'', omGeneration := 1\<rparr>\<rparr>"

definition plain_deployment :: Deployment where
  "plain_deployment = (let d = projr (createDeployment sample_reconciler plain_server)
     in d\<lparr>depMeta := projr (setControllerReference derivative_lib plain_server (depMeta d))\<rparr>)"

definition stored_deployment :: Deployment where
  "stored_deployment = (let d = projr (applyCustomDeploymentMetadata derivative_lib plain_server plain_deployment)
     in d\<lparr>depMeta := (depMeta d)\<lparr>omUID := ''d1'', omResourceVersion := ''5''\<rparr>,
       depPodSpec := (depPodSpec d)\<lparr>psContainers := map (\<lambda>c. c\<lparr>ctImagePullPolicy := ''IfNotPresent'', ctOther := ''terminationMessagePath''\<rparr>) (psContainers (depPodSpec d)),
         psOther := ''restartPolicy''\<rparr>\<rparr>)"

abbreviation plain_selector :: gomap where
  "plain_selector \<equiv> Some (managedWorkloadSelector ''s'')"

definition stored_meta :: "ObjectMeta \<Rightarrow> ObjectMeta" where
  "stored_meta m = (projr (applyCustomObjectMetadata derivative_lib plain_server (projr (setControllerReference derivative_lib plain_server m))))\<lparr>omUID := ''x1''\<rparr>"

definition stored_service :: Service where
  "stored_service = (let svc = createService plain_server plain_selector in svc\<lparr>svcMeta := stored_meta (svcMeta svc), svcOther := ''clusterIP''\<rparr>)"

definition stored_policy :: NetworkPolicy where
  "stored_policy = (let np = createNetworkPolicy sample_reconciler plain_server (operatorIngressPeers sample_reconciler plain_server)
     in np\<lparr>npMeta := stored_meta (npMeta np)\<rparr>)"

definition settled_api :: "nat Api" where
  "settled_api = sample_api\<lparr>getMCPServer := \<lambda>n ns w. (Inr plain_server, w), getNamespace := \<lambda>n w. (Inr \<lparr>nsMeta = zero_meta\<rparr>, w),
     getDeployment := \<lambda>n ns w. (Inr stored_deployment, w), getService := \<lambda>n ns w. (Inr stored_service, w),
     getNetworkPolicy := \<lambda>n ns w. (Inr stored_policy, w)\<rparr>"

lemma derivative_lib_laws: "owner_laws derivative_lib" "deep_equal_refl derivative_lib" "derivative_law derivative_lib"
proof -
  show "owner_laws derivative_lib" "deep_equal_refl derivative_lib"
    using sample_lib_laws by (simp_all add: derivative_lib_def controller_law_def set_controller_law_def deep_equal_refl_def ownerUID_def)
  have "map (\<lambda>c. c\<lparr>ctImagePullPolicy := [], ctOther := []\<rparr>) cs = map (\<lambda>c. c\<lparr>ctImagePullPolicy := [], ctOther := []\<rparr>) cs'"
    if "list_all2 defaulted_container cs cs'" for cs cs'
    using that
  proof (induction rule: list_all2_induct)
    case (Cons c cs c' cs')
    from Cons(1) have "c'\<lparr>ctImagePullPolicy := [], ctOther := []\<rparr> = c\<lparr>ctImagePullPolicy := [], ctOther := []\<rparr>"
      unfolding defaulted_container_def by (cases c; cases c') simp
    with Cons show ?case by simp
  qed simp
  then have "unset_pod p = unset_pod p'" if "defaulted_pod p p'" for p p'
    using that unfolding defaulted_pod_def unset_pod_def by (cases p; cases p') simp
  then show "derivative_law derivative_lib" by (simp add: derivative_law_def derivative_lib_def)
qed

lemma settled_api_reads:
  "getMCPServer settled_api n ns w = (Inr plain_server, w)" "getDeployment settled_api n ns w = (Inr stored_deployment, w)"
  "getService settled_api n ns w = (Inr stored_service, w)" "getNetworkPolicy settled_api n ns w = (Inr stored_policy, w)"
  "getBinding settled_api n ns w = (Inl not_found, w)"
  by (simp_all add: settled_api_def sample_api_def)

lemma plain_wanted: "wanted_deployment derivative_lib settled_api sample_reconciler plain_server d \<Longrightarrow> d = plain_deployment"
proof -
  have "extractConfigMapNames plain_server = [] \<and> extractPodSecretNames plain_server = []" by code_simp
  then show "wanted_deployment derivative_lib settled_api sample_reconciler plain_server d \<Longrightarrow> d = plain_deployment"
    by (auto simp: wanted_deployment_def plain_deployment_def applyConfigHash_def computeConfigHash_def)
qed

lemma stored_meta_written:
  assumes "\<not> isl (setControllerReference derivative_lib plain_server m)"
    "\<not> isl (applyCustomObjectMetadata derivative_lib plain_server (projr (setControllerReference derivative_lib plain_server m)))"
  shows "\<exists>m'. setControllerReference derivative_lib plain_server m = Inr m' \<and> meta_as_written derivative_lib plain_server m' (stored_meta m)"
  using assms by (cases "setControllerReference derivative_lib plain_server m") (auto simp: meta_as_written_def stored_meta_def isl_def intro: sum.exhaust_sel)

lemma plain_names: "srvName plain_server = ''s''" "srvNamespace plain_server = ''ns''"
  by (simp_all add: plain_server_def)

lemma stored_as_written:
  "deployment_as_written derivative_lib settled_api sample_reconciler plain_server stored_deployment"
  "service_as_written derivative_lib plain_server plain_selector stored_service"
  "policy_as_written derivative_lib settled_api sample_reconciler plain_server stored_policy"
proof -
  have "case applyCustomDeploymentMetadata derivative_lib plain_server plain_deployment of Inl _ \<Rightarrow> False | Inr d' \<Rightarrow>
      omLabels (depMeta stored_deployment) = omLabels (depMeta d') \<and> omAnnotations (depMeta stored_deployment) = omAnnotations (depMeta d')
     \<and> omOwnerReferences (depMeta stored_deployment) = omOwnerReferences (depMeta d')
     \<and> depReplicas stored_deployment = depReplicas d' \<and> depTemplateLabels stored_deployment = depTemplateLabels d'
     \<and> depTemplateAnnotations stored_deployment = depTemplateAnnotations d'
     \<and> defaulted_pod (depPodSpec d') (depPodSpec stored_deployment)"
    by code_simp
  then show "deployment_as_written derivative_lib settled_api sample_reconciler plain_server stored_deployment"
    unfolding deployment_as_written_def by (auto dest!: plain_wanted split: sum.splits)
  have "\<not> isl (setControllerReference derivative_lib plain_server (svcMeta (createService plain_server plain_selector)))"
    "\<not> isl (applyCustomObjectMetadata derivative_lib plain_server (projr (setControllerReference derivative_lib plain_server (svcMeta (createService plain_server plain_selector)))))"
    by code_simp+
  from stored_meta_written[OF this] show "service_as_written derivative_lib plain_server plain_selector stored_service"
    by (simp add: service_as_written_def stored_service_def createService_meta Let_def)
  let ?np = "createNetworkPolicy sample_reconciler plain_server (operatorIngressPeers sample_reconciler plain_server)"
  have none: "gw = []" if "run_state (gatewayIngressPeers derivative_lib settled_api sample_reconciler plain_server) s = (Inr gw, s')" for s gw s'
    using that by (auto simp: gatewayIngressPeers_def plain_server_def image_server_def zero_defs split: if_splits)
  have "\<not> isl (setControllerReference derivative_lib plain_server (npMeta ?np))"
    "\<not> isl (applyCustomObjectMetadata derivative_lib plain_server (projr (setControllerReference derivative_lib plain_server (npMeta ?np))))"
    by code_simp+
  from stored_meta_written[OF this] show "policy_as_written derivative_lib settled_api sample_reconciler plain_server stored_policy"
    unfolding policy_as_written_def Let_def by (auto dest!: none simp: stored_policy_def Let_def)
qed

lemma plain_server_settled: "settled derivative_lib settled_api sample_reconciler plain_server" "no_extra_metadata plain_server"
proof -
  have plain: "spServiceRef (msSpec plain_server) = None" "spGateway (msSpec plain_server) = None" "spWorkloadRef (msSpec plain_server) = None"
    "spec_maps_wf plain_server" "gm_len (effectiveLabels plain_server) = 0" "gm_len (effectiveAnnotations plain_server) = 0"
    by (simp_all add: plain_server_def image_server_def zero_defs spec_maps_wf_def gm_wf_def gm_list_def gm_len_def filterReservedKeys_def filterReservedAnnotationKeys_def)
  then show "no_extra_metadata plain_server" by simp
  show "settled derivative_lib settled_api sample_reconciler plain_server"
    using stored_as_written
    by (simp add: settled_def finds_def settled_api_reads service_settled_def binding_settled_def plain plain_names)
qed

theorem settled_pass_writes_nothing_witness:
  "list_all (\<lambda>e. \<not> is_write e) (trace (snd (run_state (Reconcile derivative_lib settled_api sample_reconciler ''s'' ''ns'') start_state)))"
proof -
  have "tls_profile (rTLSProfile sample_reconciler)" using sample_loop_laws by simp
  then have laws: "settle_laws derivative_lib sample_reconciler" using derivative_lib_laws by simp
  show ?thesis
    unfolding list_all_iff by (rule settled_pass_writes_nothing[OF laws _ _ surjective_pairing]) (use plain_server_settled in \<open>auto simp: settled_api_reads\<close>)
qed

end
