(* ===== verification/Metrics.thy ===== *)
theory Metrics
  imports ReconcileSafety
begin

text \<open>
  The metrics of the operator (\<open>internal/controller/metrics.go\<close>) as a whole: the vectors that are registered, and what the metric effects of the passes do to the series that Prometheus keeps. The
  client library is a parameter; a series is the name of a vector with the values of its labels.
\<close>

section \<open>Vectors and series\<close>

text \<open>The registered vectors with their labels.\<close>

definition metricVecs :: "(string \<times> string list) list" where
  "metricVecs =
     [(''condition_info'', [''name'', ''namespace'', ''type'', ''status'', ''reason'']),
      (''validation_failures_total'', [''name'', ''namespace'', ''reason'']),
      (''deployment_failures_total'', [''name'', ''namespace'', ''reason'']),
      (''service_failures_total'', [''name'', ''namespace'', ''reason'']),
      (''networkpolicy_failures_total'', [''name'', ''namespace'', ''reason'']),
      (''gateway_binding_failures_total'', [''name'', ''namespace'', ''reason'']),
      (''reconcile_phase_duration_seconds'', [''phase'']),
      (''handshake_total'', [''name'', ''namespace'', ''result'']),
      (''handshake_duration_seconds'', [''name'', ''namespace'']),
      (''capability_changes_total'', [''name'', ''namespace''])]"

type_synonym labels = "(string \<times> string) list"

text \<open>\<open>With\<close> panics if the labels are not those of the vector.\<close>

definition label_ok :: "string \<Rightarrow> labels \<Rightarrow> bool" where
  "label_ok v ls \<longleftrightarrow> map_of metricVecs v = Some (map fst ls)"

record 'p Prometheus =
  promWith :: "string \<Rightarrow> labels \<Rightarrow> 'p \<Rightarrow> 'p"
  promDelete :: "string \<Rightarrow> labels \<Rightarrow> 'p \<Rightarrow> 'p"
  promSeries :: "'p \<Rightarrow> (string \<times> labels) set"

text \<open>Setting, counting and observing make the series of the labels; \<open>DeletePartialMatch\<close> deletes the series that have the given labels.\<close>

definition prometheus_laws :: "'p Prometheus \<Rightarrow> bool" where
  "prometheus_laws P \<longleftrightarrow>
     (\<forall>v ls p. label_ok v ls \<longrightarrow> promSeries P (promWith P v ls p) = insert (v, ls) (promSeries P p)) \<and>
     (\<forall>v ls p. promSeries P (promDelete P v ls p) = {(v', ls') \<in> promSeries P p. \<not> (v' = v \<and> set ls \<subseteq> set ls')})"

text \<open>The effect on the series; the effects of a trace are replayed in order.\<close>

definition deletedVec :: "string \<Rightarrow> string option" where
  "deletedVec v = (if hasSuffix v ''/delete'' then Some (take (length v - 7) v) else None)"

fun metric_step :: "'p Prometheus \<Rightarrow> effect \<Rightarrow> 'p \<Rightarrow> 'p" where
  "metric_step P (EMetric v ls) p = (case deletedVec v of Some v' \<Rightarrow> promDelete P v' ls p | None \<Rightarrow> promWith P v ls p)"
| "metric_step P e p = p"

definition replay :: "'p Prometheus \<Rightarrow> effect list \<Rightarrow> 'p \<Rightarrow> 'p" where
  "replay P es p = fold (metric_step P) es p"

lemma replay_simps [simp]: "replay P [] p = p" "replay P (e # es) p = replay P es (metric_step P e p)" "replay P (es @ fs) p = replay P fs (replay P es p)"
  by (simp_all add: replay_def)

lemma deletedVec_suffix: "deletedVec (v @ ''/delete'') = Some v"
  by (simp add: deletedVec_def hasSuffix_def hasPrefix_def)

lemma registered_not_deleted: "(v, names) \<in> set metricVecs \<Longrightarrow> deletedVec v = None"
  by (auto simp: metricVecs_def deletedVec_def hasSuffix_def hasPrefix_def)

section \<open>What a pass reports\<close>

text \<open>
  The shape of the metrics in a trace: every series is of a registered vector with its labels; the gauge of a condition is only set right after its other values were deleted; otherwise
  only all series of a server are deleted.
\<close>

fun is_metric :: "effect \<Rightarrow> bool" where
  "is_metric (EMetric _ _) = True"
| "is_metric _ = False"

inductive metered :: "effect list \<Rightarrow> bool" where
  metered_Nil: "metered []"
| metered_other: "\<not> is_metric e \<Longrightarrow> metered [e]"
| metered_with: "label_ok v ls \<Longrightarrow> v \<noteq> ''condition_info'' \<Longrightarrow> metered [EMetric v ls]"
| metered_gauge: "metered [EMetric ''condition_info/delete'' [(''name'', n), (''namespace'', ns), (''type'', ty)],
    EMetric ''condition_info'' [(''name'', n), (''namespace'', ns), (''type'', ty), (''status'', st), (''reason'', r)]]"
| metered_delete: "(v, names) \<in> set metricVecs \<Longrightarrow> metered [EMetric (v @ ''/delete'') [(''name'', n), (''namespace'', ns)]]"
| metered_append: "metered es \<Longrightarrow> metered fs \<Longrightarrow> metered (es @ fs)"

lemma metered_others: "list_all (\<lambda>e. \<not> is_metric e) es \<Longrightarrow> metered es"
proof (induction es)
  case (Cons e es)
  then show ?case using metered_append[of "[e]" es] metered_other by simp
qed (rule metered_Nil)

definition meters :: "('w, 'a) M \<Rightarrow> bool" where
  "meters m \<longleftrightarrow> (\<forall>s. \<exists>es. trace (snd (run_state m s)) = trace s @ es \<and> metered es)"

lemma meters_silent: "emits (\<lambda>e. \<not> is_metric e) m \<Longrightarrow> meters m"
  unfolding meters_def emits_def using metered_others by fast

lemma meters_bind: "meters m \<Longrightarrow> (\<And>x. meters (f x)) \<Longrightarrow> meters (State_Monad.bind m f)"
proof -
  assume m: "meters m" and f: "\<And>x. meters (f x)"
  have "\<exists>es. trace (snd (run_state (State_Monad.bind m f) s)) = trace s @ es \<and> metered es" for s
  proof -
    obtain x s1 where run: "run_state m s = (x, s1)" by fastforce
    obtain es where "trace s1 = trace s @ es" "metered es" using m run unfolding meters_def by (metis snd_conv)
    moreover obtain fs where "trace (snd (run_state (f x) s1)) = trace s1 @ fs" "metered fs" using f unfolding meters_def by blast
    ultimately show ?thesis using run by (intro exI[of _ "es @ fs"]) (simp add: metered_append)
  qed
  then show ?thesis by (simp add: meters_def)
qed

lemma meters_emit: "metered [e] \<Longrightarrow> meters (emit e)"
  by (simp add: meters_def run_emit)

lemma meters_if: "(b \<Longrightarrow> meters m) \<Longrightarrow> (\<not> b \<Longrightarrow> meters n) \<Longrightarrow> meters (if b then m else n)"
  by simp

lemma meters_case:
  "(\<And>e. v = Inl e \<Longrightarrow> meters (f e)) \<Longrightarrow> (\<And>x. v = Inr x \<Longrightarrow> meters (g x)) \<Longrightarrow> meters (case v of Inl e \<Rightarrow> f e | Inr x \<Rightarrow> g x)"
  "(u = None \<Longrightarrow> meters m) \<Longrightarrow> (\<And>x. u = Some x \<Longrightarrow> meters (h x)) \<Longrightarrow> meters (case u of None \<Rightarrow> m | Some x \<Rightarrow> h x)"
  "(\<And>x y. p = (x, y) \<Longrightarrow> meters (k x y)) \<Longrightarrow> meters (case p of (x, y) \<Rightarrow> k x y)"
  by (simp_all split: sum.split option.split prod.split)

lemmas meters_rules = meters_bind meters_if meters_case meters_silent[OF emits_return] meters_silent[OF emits_call] meters_silent[OF emits_maps(1)]
  meters_silent[OF emits_maps(2)] meters_silent[OF emits_maps(3)] meters_silent[OF emits_maps(4)]

lemma meters_recordCondition: "meters (recordCondition n ns ty st r)"
  using metered_gauge by (simp add: meters_def recordCondition_def run_emit)

lemma meters_counts:
  "v \<in> {''validation_failures_total'', ''deployment_failures_total'', ''service_failures_total'', ''networkpolicy_failures_total'', ''gateway_binding_failures_total''}
     \<Longrightarrow> meters (countFailure v ms reason)"
  "meters (observePhase ph)" "meters (countHandshake ms res)"
  "meters (emit (EMetric ''handshake_duration_seconds'' (metricLabels ms)))"
  "meters (emit (EMetric ''capability_changes_total'' [(''name'', srvName ms), (''namespace'', srvNamespace ms)]))"
proof -
  note defs = label_ok_def metricVecs_def withResult_def metricLabels_def
  show "meters (countFailure v ms reason)"
    if "v \<in> {''validation_failures_total'', ''deployment_failures_total'', ''service_failures_total'', ''networkpolicy_failures_total'', ''gateway_binding_failures_total''}"
    using that unfolding countFailure_def by (intro meters_emit metered_with) (auto simp: defs)
  show "meters (observePhase ph)" unfolding observePhase_def by (intro meters_emit metered_with) (simp_all add: defs)
  show "meters (countHandshake ms res)" unfolding countHandshake_def by (intro meters_emit metered_with) (simp_all add: defs)
  show "meters (emit (EMetric ''handshake_duration_seconds'' (metricLabels ms)))" by (intro meters_emit metered_with) (simp_all add: defs)
  show "meters (emit (EMetric ''capability_changes_total'' [(''name'', srvName ms), (''namespace'', srvNamespace ms)]))"
    by (intro meters_emit metered_with) (simp_all add: defs)
qed

text \<open>What sends no metric: events, audit records, and the steps that act on objects.\<close>

abbreviation unmetered :: "effect \<Rightarrow> bool" where
  "unmetered e \<equiv> \<not> is_metric e"

lemma unmetered_reports:
  "emits unmetered (audit ms op fs)" "emits unmetered (recordEvent R a b c d)"
  by (auto simp: audit_def recordEvent_def intro!: emits_rules emits_if)

lemma unmetered_audits:
  "emits unmetered (auditHandshakeAttempt ms url)" "emits unmetered (auditHandshakeSuccess ms url info d)" "emits unmetered (auditHandshakeFailed ms url err d)"
  "emits unmetered (auditHandshakeAuthSkip ms url err)" "emits unmetered (auditHandshakeRetriesExhausted ms n m)" "emits unmetered (auditCapabilityChange ms diff)"
  "emits unmetered (auditNetworkPolicyCreated ms name i e)" "emits unmetered (auditNetworkPolicyUpdated ms name)"
  "emits unmetered (auditConfigurationRejected ms reason message)" "emits unmetered (auditOwnershipViolation ms name kind owner)"
  by (simp_all add: auditHandshakeAttempt_def auditHandshakeSuccess_def auditHandshakeFailed_def auditHandshakeAuthSkip_def
      auditHandshakeRetriesExhausted_def auditCapabilityChange_def auditNetworkPolicyCreated_def auditNetworkPolicyUpdated_def
      auditConfigurationRejected_def auditOwnershipViolation_def unmetered_reports)

lemma unmetered_events:
  "emits unmetered (emitConfigurationInvalid R m r n)" "emits unmetered (emitConfigurationAccepted R m)" "emits unmetered (emitServerReady R m)"
  "emits unmetered (emitInsecureTLSWarning R m)" "emits unmetered (emitHandshakeAuthSkip R m n)"
  "emits unmetered (emitWorkloadUnavailable R m n)" "emits unmetered (emitServiceReconcileFailed R m n)" "emits unmetered (emitNetworkPolicyReconcileFailed R m n)"
  "emits unmetered (emitGatewayBindingReconcileFailed R m n)" "emits unmetered (emitMCPHandshakeFailed R m n)"
  "emits unmetered (emitMCPHandshakeRetriesExhausted R m c)" "emits unmetered (emitCapabilityChangeDetected R m n)"
  by (simp_all add: emitConfigurationInvalid_def emitConfigurationAccepted_def emitServerReady_def emitInsecureTLSWarning_def emitHandshakeAuthSkip_def
      emitWorkloadUnavailable_def emitServiceReconcileFailed_def emitNetworkPolicyReconcileFailed_def emitGatewayBindingReconcileFailed_def
      emitMCPHandshakeFailed_def emitMCPHandshakeRetriesExhausted_def emitCapabilityChangeDetected_def unmetered_reports)

lemma unmetered_ownership: "emits unmetered (validateOwnership K ty obj ms)"
  unfolding validateOwnership_def Let_def by (auto intro!: emits_rules emits_if emits_case unmetered_audits split: option.split)

lemma unmetered_steps:
  "emits unmetered (reconcileDeployment K A R ms)" "emits unmetered (reconcileService K A ms sel)" "emits unmetered (cleanupManagedServiceForBYO K A ms)"
  "emits unmetered (ensureNetworkPolicy K A R ms)" "emits unmetered (reconcileGatewayBinding K A ms)" "emits unmetered (cleanupGatewayBindingIfRemoved K A ms)"
proof -
  note rules = emits_case emits_if emits_return emits_bind emits_call emits_request unmetered_ownership unmetered_audits applyConfigHash_emits gatewayIngressPeers_emits
  show "emits unmetered (reconcileDeployment K A R ms)"
    unfolding reconcileDeployment_def submitDeployment_def createNewDeployment_def updateDeployment_def Let_def by (intro rules) simp_all
  show "emits unmetered (reconcileService K A ms sel)"
    unfolding reconcileService_def createNewService_def updateService_def Let_def by (intro rules) simp_all
  show "emits unmetered (cleanupManagedServiceForBYO K A ms)"
    unfolding cleanupManagedServiceForBYO_def deleteManagedService_def Let_def by (intro rules) simp_all
  show "emits unmetered (ensureNetworkPolicy K A R ms)"
    unfolding ensureNetworkPolicy_def submitNetworkPolicy_def createNewNetworkPolicy_def updateNetworkPolicy_def Let_def by (intro rules) simp_all
  show "emits unmetered (reconcileGatewayBinding K A ms)"
    unfolding reconcileGatewayBinding_def submitBinding_def deleteBinding_def Let_def by (intro rules) simp_all
  show "emits unmetered (cleanupGatewayBindingIfRemoved K A ms)"
    unfolding cleanupGatewayBindingIfRemoved_def deleteBinding_def Let_def by (intro rules) simp_all
qed

lemma unmetered_status: "emits unmetered (applyStatus A ms st)" "emits unmetered (handshakeTransport K A R ms)" "emits unmetered (handshakeRequeue ms c n)"
    "emits unmetered (reconcileHandshakeEventsAndRetryCount K R ms c)" "emits unmetered (updateTLSCABundleHash ms h c)" "emits unmetered (computeTLSCABundleHash K A ns tls)"
    "emits unmetered (verifyMCPEndpoint A url t)" "emits unmetered (maybeEmitWorkloadUnavailableEvent K R ms c)" "emits unmetered (shouldSkipReconciliation K A ms ns)"
    "emits unmetered (networkPolicyPostureConditionFor K A ms g cs np)"
  by (auto simp: applyStatus_def handshakeTransport_def buildTLSTransport_def handshakeRequeue_def reconcileHandshakeEventsAndRetryCount_def updateTLSCABundleHash_def
      computeTLSCABundleHash_def verifyMCPEndpoint_def maybeEmitWorkloadUnavailableEvent_def shouldSkipReconciliation_def networkPolicyPostureConditionFor_def Let_def
      intro!: emits_rules emits_if emits_case unmetered_events unmetered_audits newCondition_emits split: option.split)

lemmas meters_silents = meters_silent[OF newCondition_emits(1)] meters_silent[OF newCondition_emits(2)] meters_silent[OF newCondition_emits(3)]
  meters_silent[OF newCondition_emits(4)] meters_silent[OF newCondition_emits(5)] meters_silent[OF persistent_emits] meters_silent[OF resolve_emits]
  unmetered_steps[THEN meters_silent] unmetered_status[THEN meters_silent] unmetered_events[THEN meters_silent] unmetered_audits[THEN meters_silent]
  meters_silent[OF observe_emits(1)] meters_silent[OF observe_emits(2)] meters_silent[OF reconcileGatewayCondition_emits]

lemmas metering = meters_rules meters_silents meters_recordCondition meters_counts(2-5)

section \<open>The loop\<close>

lemma meters_failures:
  assumes "rfCounter p \<in> {''service_failures_total'', ''networkpolicy_failures_total'', ''gateway_binding_failures_total''}" "\<And>m n. meters (rfEmitEvent p m n)"
  shows "meters (handleResourceFailure K A R ms st accepted err p)"
  unfolding handleResourceFailure_def Let_def using assms(1) by (intro metering assms(2) meters_counts(1)) auto

lemma meters_failure_paths:
  "meters (handleDeploymentReconcileError K A R ms accepted err)" "meters (reconcilePermanentValidationError K A R ms reason message)"
  "meters (handleResourceFailure K A R ms st accepted err (serviceFailure R))"
  "meters (handleResourceFailure K A R ms st accepted err (networkPolicyFailure R))"
  "meters (handleResourceFailure K A R ms st accepted err (bindingFailure R posture))"
proof -
  show "meters (handleDeploymentReconcileError K A R ms accepted err)"
    unfolding handleDeploymentReconcileError_def Let_def by (intro metering meters_counts(1)) simp
  show "meters (reconcilePermanentValidationError K A R ms reason message)"
    unfolding reconcilePermanentValidationError_def Let_def by (intro metering meters_counts(1)) simp
  show "meters (handleResourceFailure K A R ms st accepted err (serviceFailure R))"
    "meters (handleResourceFailure K A R ms st accepted err (networkPolicyFailure R))"
    "meters (handleResourceFailure K A R ms st accepted err (bindingFailure R posture))"
    by (rule meters_failures; simp add: serviceFailure_def networkPolicyFailure_def bindingFailure_def metering)+
qed

lemma meters_handshake: "meters (reconcileHandshake K A R ms url available hash)"
  unfolding reconcileHandshake_def attemptHandshake_def Let_def by (intro metering)

lemma meters_service: "meters (reconcileServiceOrBYO K A ms sel)"
  unfolding reconcileServiceOrBYO_def by (intro metering)

lemma meters_gateway: "meters (resolveGatewayStatus K A ms available url)"
  unfolding resolveGatewayStatus_def applyGatewayStatus_def Let_def by (intro metering)

lemma meters_endpoint: "meters (reconcileEndpoint K A R ms accepted available status endpoint posture)"
  unfolding reconcileEndpoint_def publishEndpoint_def finishEndpoint_def Let_def
  by (intro metering meters_failure_paths meters_handshake meters_gateway)

lemma meters_server: "meters (reconcileServer K A R ms)"
  unfolding reconcileServer_def reconcileBYO_def reconcileManaged_def reconcileManagedResources_def Let_def
  by (intro metering meters_failure_paths meters_service meters_endpoint meters_silent[OF emits_mono[OF validation_silent]]) simp_all

lemma run_emit_all: "run_state (emit_all es) s = ((), s\<lparr>trace := trace s @ es\<rparr>)"
  by (induction es arbitrary: s) (simp_all add: run_emit)

text \<open>The vectors whose series are deleted with a server.\<close>

abbreviation cleanedVecs :: "string list" where
  "cleanedVecs \<equiv> [''condition_info'', ''validation_failures_total'', ''deployment_failures_total'', ''service_failures_total'',
      ''networkpolicy_failures_total'', ''handshake_total'', ''handshake_duration_seconds'', ''capability_changes_total'',
      ''gateway_binding_failures_total'']"

abbreviation deletions :: "string \<Rightarrow> string \<Rightarrow> string list \<Rightarrow> effect list" where
  "deletions n ns vs \<equiv> map (\<lambda>v. EMetric (v @ ''/delete'') [(''name'', n), (''namespace'', ns)]) vs"

lemma run_cleanup: "run_state (cleanupMetrics n ns) s = ((), s\<lparr>trace := trace s @ deletions n ns cleanedVecs\<rparr>)"
  unfolding cleanupMetrics_def by (rule run_emit_all)

lemma deletions_metered: "\<forall>v\<in>set vs. v \<in> fst ` set metricVecs \<Longrightarrow> metered (deletions n ns vs)"
proof (induction vs)
  case (Cons v vs)
  then obtain names where "(v, names) \<in> set metricVecs" by auto
  from metered_append[OF metered_delete[OF this] Cons.IH] Cons.prems show ?case by simp
qed (simp add: metered_Nil)

lemma meters_cleanup: "meters (cleanupMetrics n ns)"
proof -
  have "metered (deletions n ns cleanedVecs)" by (rule deletions_metered) (simp add: metricVecs_def)
  then show ?thesis unfolding meters_def run_cleanup snd_conv by auto
qed

lemma meters_Reconcile: "meters (Reconcile K A R name namespace)"
  unfolding Reconcile_def
  by (intro metering meters_cleanup meters_server) (auto intro: meters_silents meters_rules meters_server split: bool.split)

text \<open>Passes one after the other, each with the API server as it is at that time.\<close>

fun passes :: "K8sLib \<Rightarrow> Reconciler \<Rightarrow> ('w Api \<times> string \<times> string) list \<Rightarrow> 'w rstate \<Rightarrow> 'w rstate" where
  "passes K R [] s = s"
| "passes K R ((A, name, namespace) # rs) s = passes K R rs (snd (run_state (Reconcile K A R name namespace) s))"

lemma passes_metered: "metered (trace s) \<Longrightarrow> metered (trace (passes K R rs s))"
proof (induction rs arbitrary: s)
  case (Cons r rs)
  obtain A name namespace where r: "r = (A, name, namespace)" by (cases r) auto
  obtain es where "trace (snd (run_state (Reconcile K A R name namespace) s)) = trace s @ es" "metered es"
    using meters_Reconcile unfolding meters_def by blast
  with Cons show ?case by (simp add: r metered_append)
qed simp

section \<open>The series\<close>

text \<open>A use of the library that does not panic.\<close>

fun use_ok :: "effect \<Rightarrow> bool" where
  "use_ok (EMetric v ls) = (case deletedVec v of
     None \<Rightarrow> label_ok v ls
   | Some v' \<Rightarrow> v' \<in> fst ` set metricVecs)"
| "use_ok e = True"

text \<open>At most one series for every condition type of a server, and only registered ones.\<close>

definition gauges_unique :: "(string \<times> labels) set \<Rightarrow> bool" where
  "gauges_unique S \<longleftrightarrow> (\<forall>ls ls'. (''condition_info'', ls) \<in> S \<longrightarrow> (''condition_info'', ls') \<in> S \<longrightarrow> take 3 ls = take 3 ls' \<longrightarrow> ls = ls')"

definition series_ok :: "(string \<times> labels) set \<Rightarrow> bool" where
  "series_ok S \<longleftrightarrow> (\<forall>(v, ls)\<in>S. label_ok v ls) \<and> gauges_unique S"

lemma series_ok_subset: "series_ok S \<Longrightarrow> T \<subseteq> S \<Longrightarrow> series_ok T"
  unfolding series_ok_def gauges_unique_def by (meson subsetD)

lemma series_ok_insert:
  assumes "series_ok S" "label_ok ''condition_info'' l" "\<And>ls. (''condition_info'', ls) \<in> S \<Longrightarrow> take 3 ls \<noteq> take 3 l"
  shows "series_ok (insert (''condition_info'', l) S)"
proof -
  have "gauges_unique (insert (''condition_info'', l) S)"
    unfolding gauges_unique_def
  proof (intro allI impI)
    fix ls ls' assume "(''condition_info'', ls) \<in> insert (''condition_info'', l) S" "(''condition_info'', ls') \<in> insert (''condition_info'', l) S" "take 3 ls = take 3 ls'"
    then consider "ls = l" "ls' = l" | "ls = l" "(''condition_info'', ls') \<in> S" | "ls' = l" "(''condition_info'', ls) \<in> S"
      | "(''condition_info'', ls) \<in> S" "(''condition_info'', ls') \<in> S" by blast
    then show "ls = ls'"
      by cases (use \<open>take 3 ls = take 3 ls'\<close> assms(1,3) in \<open>auto simp: series_ok_def gauges_unique_def\<close>)
  qed
  then show ?thesis using assms(1,2) by (simp add: series_ok_def)
qed

lemma deletedVec_values: "deletedVec ''condition_info/delete'' = Some ''condition_info''" "deletedVec ''condition_info'' = None"
  by (simp_all add: deletedVec_def hasSuffix_def hasPrefix_def)

lemma label_ok_registered: "label_ok v ls \<Longrightarrow> deletedVec v = None"
  unfolding label_ok_def by (rule registered_not_deleted) (rule map_of_SomeD)

lemma metered_uses: "metered es \<Longrightarrow> list_all use_ok es"
proof (induction rule: metered.induct)
  case (metered_other e)
  then show ?case by (cases e) simp_all
next
  case (metered_with v ls)
  then show ?case by (simp add: label_ok_registered)
next
  case (metered_gauge n ns ty st r)
  then show ?case by (simp add: deletedVec_values metricVecs_def label_ok_def)
next
  case (metered_delete v names n ns)
  then show ?case by (simp only: list.pred_inject use_ok.simps deletedVec_suffix option.case) force
qed simp_all

lemma metered_series:
  assumes "prometheus_laws P" "metered es" "series_ok (promSeries P p)"
  shows "series_ok (promSeries P (replay P es p))"
  using assms(2,3)
proof (induction arbitrary: p rule: metered.induct)
  case (metered_other e)
  then show ?case by (cases e) simp_all
next
  case (metered_with v ls)
  then show ?case using assms(1) by (auto simp: label_ok_registered prometheus_laws_def series_ok_def gauges_unique_def)
next
  case (metered_gauge n ns ty st r)
  let ?k = "[(''name'', n), (''namespace'', ns), (''type'', ty)]"
  let ?l = "?k @ [(''status'', st), (''reason'', r)]"
  have ok: "label_ok ''condition_info'' ?l" by (simp add: label_ok_def metricVecs_def)
  have S: "promSeries P (replay P [EMetric ''condition_info/delete'' ?k, EMetric ''condition_info'' ?l] p) =
      insert (''condition_info'', ?l) {(v', ls') \<in> promSeries P p. \<not> (v' = ''condition_info'' \<and> set ?k \<subseteq> set ls')}"
    using assms(1) ok by (auto simp: deletedVec_values prometheus_laws_def)
  have other: "take 3 ls \<noteq> ?k" if "\<not> set ?k \<subseteq> set ls" for ls :: labels
    using that set_take_subset[of 3 ls] by auto
  have T: "series_ok T" if T: "T = insert (''condition_info'', ?l) {(v', ls') \<in> promSeries P p. \<not> (v' = ''condition_info'' \<and> set ?k \<subseteq> set ls')}" for T
    unfolding T by (rule series_ok_insert[OF series_ok_subset[OF metered_gauge] ok]) (use other in auto)
  from T[OF S] show ?case by simp
next
  case (metered_delete v names n ns)
  then show ?case using assms(1) by (auto simp: deletedVec_suffix prometheus_laws_def series_ok_def gauges_unique_def simp del: append.simps)
qed simp_all

text \<open>
  C13: the metrics stay consistent. Over any passes of the loop, whatever the API server and the endpoints answer, every use of the metrics library names a registered vector with exactly
  its labels, so that it never panics, and afterwards \<open>condition_info\<close> has at most one series for every condition type of a server: a condition is never reported with two values at once.
\<close>

theorem metrics_consistent:
  assumes "prometheus_laws P" "promSeries P p = {}" "trace s = []"
  shows "list_all use_ok (trace (passes K R rs s)) \<and> gauges_unique (promSeries P (replay P (trace (passes K R rs s)) p))"
proof (rule conjI)
  have m: "metered (trace (passes K R rs s))" by (rule passes_metered) (simp add: assms(3) metered_Nil)
  show "list_all use_ok (trace (passes K R rs s))" by (rule metered_uses[OF m])
  have "series_ok (promSeries P p)" by (simp add: assms(2) series_ok_def gauges_unique_def)
  from metered_series[OF assms(1) m this] show "gauges_unique (promSeries P (replay P (trace (passes K R rs s)) p))" by (simp add: series_ok_def)
qed

text \<open>A library that keeps the series in a list.\<close>

definition list_prometheus :: "(string \<times> labels) list Prometheus" where
  "list_prometheus = \<lparr>promWith = (\<lambda>v ls p. List.insert (v, ls) p), promDelete = (\<lambda>v ls p. filter (\<lambda>(v', ls'). \<not> (v' = v \<and> set ls \<subseteq> set ls')) p), promSeries = set\<rparr>"

lemma list_prometheus_laws: "prometheus_laws list_prometheus"
  by (auto simp: prometheus_laws_def list_prometheus_def)

text \<open>A server without a resolvable reference is rejected: its pass leaves series behind, one for each condition it reports.\<close>

theorem metrics_consistent_witness:
  "trace (passes sample_lib sample_reconciler [(cluster_api, ''s'', ''ns'')] start_state) \<noteq> []
   \<and> gauges_unique (promSeries list_prometheus (replay list_prometheus (trace (passes sample_lib sample_reconciler [(cluster_api, ''s'', ''ns'')] start_state)) []))"
proof -
  have "trace (passes sample_lib sample_reconciler [(cluster_api, ''s'', ''ns'')] start_state) \<noteq> []" using cluster_run by force
  moreover have "promSeries list_prometheus [] = {}" "trace start_state = []" by (simp_all add: list_prometheus_def)
  ultimately show ?thesis
    using metrics_consistent[OF list_prometheus_laws, of "[]" start_state sample_lib sample_reconciler "[(cluster_api, ''s'', ''ns'')]"] by force
qed

section \<open>A server that is gone\<close>

lemma replay_deletions:
  assumes "prometheus_laws P"
  shows "promSeries P (replay P (deletions n ns vs) p) =
    {(v, ls) \<in> promSeries P p. \<not> (v \<in> set vs \<and> {(''name'', n), (''namespace'', ns)} \<subseteq> set ls)}"
proof (induction vs arbitrary: p)
  case (Cons v vs)
  have "promSeries P (promDelete P v [(''name'', n), (''namespace'', ns)] p) =
      {(v', ls') \<in> promSeries P p. \<not> (v' = v \<and> {(''name'', n), (''namespace'', ns)} \<subseteq> set ls')}"
    using assms by (auto simp: prometheus_laws_def)
  then show ?case using Cons.IH by (auto simp: deletedVec_suffix simp del: append.simps)
qed simp

text \<open>Every vector with the labels of a server is cleaned up.\<close>

lemma server_vecs_cleaned: "label_ok v ls \<Longrightarrow> {(''name'', n), (''namespace'', ns)} \<subseteq> set ls \<Longrightarrow> v \<in> set cleanedVecs"
proof -
  assume ok: "label_ok v ls" and sub: "{(''name'', n), (''namespace'', ns)} \<subseteq> set ls"
  then have "''name'' \<in> fst ` set ls" by force
  moreover have "(v, map fst ls) \<in> set metricVecs" using ok by (simp add: label_ok_def map_of_SomeD)
  then have "v \<in> set cleanedVecs \<or> map fst ls = [''phase'']" by (auto simp: metricVecs_def)
  moreover have "map fst ls \<noteq> [''phase'']" using calculation(1) by (auto simp: Cons_eq_map_conv)
  ultimately show ?thesis by blast
qed

text \<open>
  C14: a server that is gone is forgotten. The pass that finds no such server ends without an error and without a new request; it drops what is kept in memory for the server, its count of failed
  handshakes and the hash of its CA bundle, and deletes every series of every registered vector that belongs to it. What is kept for other servers stays.
\<close>

theorem gone_server_cleaned_up:
  assumes "prometheus_laws P" "\<forall>(v, ls)\<in>promSeries P p. label_ok v ls"
    and "getMCPServer A name namespace (world s) = (Inl err, w')" "isNotFound K err"
    and "run_state (Reconcile K A R name namespace) s = (r, s')"
  shows "r = (noRequeue, None)
    \<and> handshakeRetries s' = (handshakeRetries s)(namespace @ ''/'' @ name := None)
    \<and> tlsCABundleHashes s' = (tlsCABundleHashes s)(namespace @ ''/'' @ name := None)
    \<and> (\<exists>es. trace s' = trace s @ es \<and>
      promSeries P (replay P es p) = {(v, ls) \<in> promSeries P p. \<not> {(''name'', name), (''namespace'', namespace)} \<subseteq> set ls})"
proof (intro conjI)
  let ?key = "namespace @ ''/'' @ name"
  define s1 where "s1 = s\<lparr>world := w', tlsCABundleHashes := (tlsCABundleHashes s)(?key := None), handshakeRetries := (handshakeRetries s)(?key := None)\<rparr>"
  have "run_state (Reconcile K A R name namespace) s = (case run_state (cleanupMetrics name namespace) s1 of (_, s') \<Rightarrow> ((noRequeue, None), s'))"
    using assms(3,4) by (simp add: Reconcile_def run_ops s1_def split: prod.split)
  then have run: "r = (noRequeue, None)" "s' = s1\<lparr>trace := trace s1 @ deletions name namespace cleanedVecs\<rparr>"
    using assms(5) unfolding run_cleanup by simp_all
  show "r = (noRequeue, None)" by (rule run(1))
  show "handshakeRetries s' = (handshakeRetries s)(?key := None)" "tlsCABundleHashes s' = (tlsCABundleHashes s)(?key := None)"
    by (simp_all add: run(2) s1_def)
  have "promSeries P (replay P (deletions name namespace cleanedVecs) p) = {(v, ls) \<in> promSeries P p. \<not> {(''name'', name), (''namespace'', namespace)} \<subseteq> set ls}"
    unfolding replay_deletions[OF assms(1)]
  proof (intro Collect_cong, clarify)
    fix v ls
    have "(v \<in> set cleanedVecs \<and> {(''name'', name), (''namespace'', namespace)} \<subseteq> set ls) = ({(''name'', name), (''namespace'', namespace)} \<subseteq> set ls)"
      if "(v, ls) \<in> promSeries P p"
      using server_vecs_cleaned[OF bspec[OF assms(2) that, unfolded case_prod_conv], of name namespace] by blast
    then show "((v, ls) \<in> promSeries P p \<and> \<not> (v \<in> set cleanedVecs \<and> {(''name'', name), (''namespace'', namespace)} \<subseteq> set ls)) =
        ((v, ls) \<in> promSeries P p \<and> \<not> {(''name'', name), (''namespace'', namespace)} \<subseteq> set ls)"
      by argo
  qed
  moreover have "trace s' = trace s @ deletions name namespace cleanedVecs" unfolding run(2) s1_def by simp
  ultimately show "\<exists>es. trace s' = trace s @ es \<and>
      promSeries P (replay P es p) = {(v, ls) \<in> promSeries P p. \<not> {(''name'', name), (''namespace'', namespace)} \<subseteq> set ls}"
    by blast
qed

text \<open>Two servers have a series each; one of them is gone.\<close>

theorem gone_server_cleaned_up_witness:
  "\<exists>es. trace (snd (run_state (Reconcile sample_lib sample_api sample_reconciler ''s'' ''ns'') start_state)) = es
     \<and> (''capability_changes_total'', [(''name'', ''s''), (''namespace'', ''ns'')])
         \<notin> promSeries list_prometheus (replay list_prometheus es [(''capability_changes_total'', [(''name'', ''s''), (''namespace'', ''ns'')]), (''capability_changes_total'', [(''name'', ''t''), (''namespace'', ''ns'')])])
     \<and> (''capability_changes_total'', [(''name'', ''t''), (''namespace'', ''ns'')])
         \<in> promSeries list_prometheus (replay list_prometheus es [(''capability_changes_total'', [(''name'', ''s''), (''namespace'', ''ns'')]), (''capability_changes_total'', [(''name'', ''t''), (''namespace'', ''ns'')])])"
proof -
  let ?p = "[(''capability_changes_total'', [(''name'', ''s''), (''namespace'', ''ns'')]), (''capability_changes_total'', [(''name'', ''t''), (''namespace'', ''ns'')])]"
  have reg: "\<forall>(v, ls)\<in>promSeries list_prometheus ?p. label_ok v ls" by (simp add: list_prometheus_def label_ok_def metricVecs_def)
  have gone: "getMCPServer sample_api ''s'' ''ns'' (world start_state) = (Inl not_found, world start_state)" "isNotFound sample_lib not_found"
    by (simp_all add: sample_api_def sample_lib_def)
  obtain es where es: "trace (snd (run_state (Reconcile sample_lib sample_api sample_reconciler ''s'' ''ns'') start_state)) = trace start_state @ es"
      "promSeries list_prometheus (replay list_prometheus es ?p) = {(v, ls) \<in> promSeries list_prometheus ?p. \<not> {(''name'', ''s''), (''namespace'', ''ns'')} \<subseteq> set ls}"
    using gone_server_cleaned_up[OF list_prometheus_laws reg gone surjective_pairing] by blast
  have "trace start_state = []" by simp
  with es show ?thesis by (intro exI[of _ es] conjI) (simp_all add: list_prometheus_def)
qed

end
