(* ===== verification/Providers.thy ===== *)
theory Providers
  imports Reconcile NetCIDR
begin

text \<open>
  What the gateway providers share (\<open>internal/controller/providers/gateway.go\<close>). A provider is a controller of its own that serves the \<open>MCPGatewayBinding\<close>
  objects the operator writes: it reads the gateway configuration from a ConfigMap of the tenant, publishes an \<open>HTTPRoute\<close> and reports on the
  binding. Its client is the record \<open>GatewayApi\<close>, which holds the operator's API and the calls for routes, gateways and
  registrations; the library functions it uses beyond those of the operator are the record \<open>GatewayLib\<close>.
\<close>

section \<open>The environment of a provider\<close>

record 'w GatewayApi =
  gaBase :: "'w Api"
  getHTTPRoute :: "string \<Rightarrow> string \<Rightarrow> ('w, HTTPRoute) apicall"
  getGateway :: "string \<Rightarrow> string \<Rightarrow> ('w, GatewayObject) apicall"
  getRegistration :: "string \<Rightarrow> string \<Rightarrow> ('w, MCPServerRegistration) apicall"
  getExtension :: "string \<Rightarrow> string \<Rightarrow> ('w, MCPGatewayExtension) apicall"
  listBindings :: "string option \<Rightarrow> ('w, MCPGatewayBinding list) apicall"
  listRegistrations :: "('w, MCPServerRegistration list) apicall"
  createRouteApi :: "HTTPRoute \<Rightarrow> ('w, HTTPRoute) apicall"
  updateRouteApi :: "HTTPRoute \<Rightarrow> ('w, HTTPRoute) apicall"
  deleteRouteApi :: "HTTPRoute \<Rightarrow> ('w, unit) apicall"
  createRegistrationApi :: "MCPServerRegistration \<Rightarrow> ('w, MCPServerRegistration) apicall"
  updateRegistrationApi :: "MCPServerRegistration \<Rightarrow> ('w, MCPServerRegistration) apicall"
  deleteRegistrationApi :: "MCPServerRegistration \<Rightarrow> ('w, unit) apicall"
  patchBindingApi :: "MCPGatewayBinding \<Rightarrow> ('w, MCPGatewayBinding) apicall"
  bindingStatusApi :: "MCPGatewayBinding \<Rightarrow> ('w, MCPGatewayBinding) apicall"
  setStatusCondition :: "Condition list \<Rightarrow> Condition \<Rightarrow> 'w \<Rightarrow> Condition list \<times> 'w"

record GatewayLib =
  glK :: K8sLib
  setBindingReference :: "MCPGatewayBinding \<Rightarrow> ObjectMeta \<Rightarrow> go_error + ObjectMeta"
  isControlledBy :: "ObjectMeta \<Rightarrow> ObjectMeta \<Rightarrow> bool"
  isDNS1123Label :: "string \<Rightarrow> string list"
  isDNS1123Subdomain :: "string \<Rightarrow> string list"
  ownersEqual :: "OwnerReference list \<Rightarrow> OwnerReference list \<Rightarrow> bool"
  routeSpecEqual :: "HTTPRouteSpec \<Rightarrow> HTTPRouteSpec \<Rightarrow> bool"
  registrationSpecEqual :: "MCPServerRegistrationSpec \<Rightarrow> MCPServerRegistrationSpec \<Rightarrow> bool"

abbreviation gbName :: "MCPGatewayBinding \<Rightarrow> string" where "gbName b \<equiv> omName (gbMeta b)"
abbreviation gbNamespace :: "MCPGatewayBinding \<Rightarrow> string" where "gbNamespace b \<equiv> omNamespace (gbMeta b)"
abbreviation hrName :: "HTTPRoute \<Rightarrow> string" where "hrName r \<equiv> omName (hrMeta r)"
abbreviation hrNamespace :: "HTTPRoute \<Rightarrow> string" where "hrNamespace r \<equiv> omNamespace (hrMeta r)"

section \<open>Hostnames and addresses\<close>

text \<open>\<open>netip.ParseAddr\<close> with zones: an IPv6 address may have a zone that is not empty, which is dropped here.\<close>

definition netipParseAddr :: "string \<Rightarrow> 8 word list option" where
  "netipParseAddr s =
     (case List.find (\<lambda>c. c = CHR ''.'' \<or> c = CHR '':'' \<or> c = CHR ''%'') s of
        None \<Rightarrow> None
      | Some c \<Rightarrow>
          if c = CHR ''.'' then parseIPv4Fields s
          else if c = CHR '':''
          then (if CHR ''%'' \<in> set s \<and> tl (dropWhile (\<lambda>c. c \<noteq> CHR ''%'') s) = [] then None
                else parseIPv6 (takeWhile (\<lambda>c. c \<noteq> CHR ''%'') s))
          else None)"

abbreviation maxHostnameLength :: nat where "maxHostnameLength \<equiv> 253"
abbreviation maxLabelLength :: nat where "maxLabelLength \<equiv> 63"

text \<open>\<open>strings.TrimPrefix\<close>.\<close>

definition trimPrefix :: "string \<Rightarrow> string \<Rightarrow> string" where
  "trimPrefix s p = (if hasPrefix s p then drop (length p) s else s)"

definition ValidateHostname :: "GatewayLib \<Rightarrow> string \<Rightarrow> go_error option" where
  "ValidateHostname L v =
     (if v = [] then Some (ErrorString ''hostname must not be empty'')
      else if netipParseAddr v \<noteq> None
      then Some (ErrorString (''hostname '' @ goquote v @ '' must be a DNS name, not an IP address''))
      else if length v > maxHostnameLength
      then Some (ErrorString (''hostname '' @ goquote v @ '' exceeds the maximum length of 253 characters''))
      else let toCheck = trimPrefix v ''*.''; errs = isDNS1123Subdomain L toCheck
           in if errs \<noteq> [] then Some (ErrorString (''hostname '' @ goquote v @ '' is not a valid DNS name: '' @ joinWith ''; '' errs))
              else if list_ex (\<lambda>label. length label > maxLabelLength) (splitOn (CHR ''.'') toCheck)
              then Some (ErrorString (''hostname '' @ goquote v @ '' has a DNS label longer than 63 characters''))
              else None)"

text \<open>The loop over the addresses of a Gateway: the first hostname, or else the first address without a type or of type \<open>IPAddress\<close>.\<close>

fun pickAddress :: "string \<Rightarrow> GatewayStatusAddress list \<Rightarrow> string" where
  "pickAddress firstIP [] = firstIP"
| "pickAddress firstIP (addr # addrs) =
     (if gsaType addr = Some ''Hostname'' then gsaValue addr
      else pickAddress (if firstIP = [] \<and> (gsaType addr = None \<or> gsaType addr = Some ''IPAddress'') then gsaValue addr else firstIP) addrs)"

definition gatewayError :: "string \<Rightarrow> string \<Rightarrow> go_error \<Rightarrow> go_error" where
  "gatewayError gwName gwNamespace err = Wrap (''failed to get Gateway '' @ gwNamespace @ ''/'' @ gwName @ '': '') err"

definition GatewayAddress :: "GatewayLib \<Rightarrow> 'w GatewayApi \<Rightarrow> string \<Rightarrow> string \<Rightarrow> ('w, go_error + string) M" where
  "GatewayAddress L G gwName gwNamespace = do {
     r \<leftarrow> call (getGateway G gwName gwNamespace);
     State_Monad.return (case r of
        Inl err \<Rightarrow> if isNotFound (glK L) err then Inr [] else Inl (gatewayError gwName gwNamespace err)
      | Inr gw \<Rightarrow> Inr (pickAddress [] (goAddresses gw)))
   }"

abbreviation SchemeHTTP :: string where "SchemeHTTP \<equiv> ''http''"
abbreviation SchemeHTTPS :: string where "SchemeHTTPS \<equiv> ''https''"

definition ProtocolToScheme :: "string \<Rightarrow> string" where
  "ProtocolToScheme protocol = (if protocol = ''HTTPS'' \<or> protocol = ''TLS'' then SchemeHTTPS else SchemeHTTP)"

definition isParentAccepted :: "RouteParentStatus \<Rightarrow> bool" where
  "isParentAccepted parent = list_ex (\<lambda>c. cType c = ''Accepted'' \<and> cStatus c = ConditionTrue) (rpsConditions parent)"

text \<open>Whether a parent entry is for a Gateway; a missing namespace is the one of the route.\<close>

definition parentIs :: "HTTPRoute \<Rightarrow> string \<Rightarrow> string \<Rightarrow> RouteParentStatus \<Rightarrow> bool" where
  "parentIs route gwName gwNamespace parent \<longleftrightarrow> prName (rpsParentRef parent) = gwName
     \<and> (case prNamespace (rpsParentRef parent) of None \<Rightarrow> hrNamespace route | Some ns \<Rightarrow> ns) = gwNamespace"

definition schemeOf :: "ParentReference \<Rightarrow> GatewayObject \<Rightarrow> string" where
  "schemeOf ref gw =
     (case (case prSectionName ref of None \<Rightarrow> None | Some sn \<Rightarrow> List.find (\<lambda>l. lnName l = sn) (goListeners gw)) of
        Some l \<Rightarrow> ProtocolToScheme (lnProtocol l)
      | None \<Rightarrow> if list_ex (\<lambda>l. lnProtocol l = ''HTTPS'' \<or> lnProtocol l = ''TLS'') (goListeners gw) then SchemeHTTPS else SchemeHTTP)"

definition SchemeFromAcceptedRoute :: "GatewayLib \<Rightarrow> 'w GatewayApi \<Rightarrow> HTTPRoute \<Rightarrow> string \<Rightarrow> string \<Rightarrow> ('w, go_error + string) M" where
  "SchemeFromAcceptedRoute L G route gwName gwNamespace =
     (case List.find (\<lambda>p. isParentAccepted p \<and> parentIs route gwName gwNamespace p) (hrParents route) of
        None \<Rightarrow> State_Monad.return (Inr SchemeHTTP)
      | Some parent \<Rightarrow> do {
          r \<leftarrow> call (getGateway G gwName gwNamespace);
          State_Monad.return (case r of
             Inl err \<Rightarrow> if isNotFound (glK L) err then Inr SchemeHTTP else Inl (gatewayError gwName gwNamespace err)
           | Inr gw \<Rightarrow> Inr (schemeOf (rpsParentRef parent) gw))
        })"

definition currentTrue :: "HTTPRoute \<Rightarrow> string \<Rightarrow> Condition \<Rightarrow> bool" where
  "currentTrue route ty c \<longleftrightarrow> \<not> cObservedGeneration c < omGeneration (hrMeta route) \<and> cType c = ty \<and> cStatus c = ConditionTrue"

definition IsHTTPRouteAccepted :: "HTTPRoute \<Rightarrow> string \<Rightarrow> string \<Rightarrow> bool" where
  "IsHTTPRouteAccepted route gwName gwNamespace =
     list_ex (\<lambda>p. parentIs route gwName gwNamespace p \<and> list_ex (currentTrue route ''Accepted'') (rpsConditions p)
        \<and> list_ex (currentTrue route ''ResolvedRefs'') (rpsConditions p)) (hrParents route)"

text \<open>\<open>Is6\<close> holds for every address of sixteen bytes.\<close>

definition FormatHost :: "string \<Rightarrow> string" where
  "FormatHost host = (case netipParseAddr host of
     Some ip \<Rightarrow> if length ip = 16 then ''['' @ host @ '']'' else host
   | None \<Rightarrow> host)"

section \<open>Writing to the binding\<close>

definition statusCurrent :: "GatewayLib \<Rightarrow> MCPGatewayBinding \<Rightarrow> string \<Rightarrow> string \<Rightarrow> string \<Rightarrow> string \<Rightarrow> bool" where
  "statusCurrent L b status reason message url =
     (case findStatusCondition (glK L) (gbConditions (gbStatus b)) ConditionTypeRegistered of
        None \<Rightarrow> False
      | Some c \<Rightarrow> cStatus c = status \<and> cReason c = reason \<and> cMessage c = message \<and> gbURL (gbStatus b) = url
          \<and> cObservedGeneration c = omGeneration (gbMeta b))"

definition UpdateBindingStatus ::
    "GatewayLib \<Rightarrow> 'w GatewayApi \<Rightarrow> MCPGatewayBinding \<Rightarrow> string \<Rightarrow> string \<Rightarrow> string \<Rightarrow> string \<Rightarrow> ('w, go_error option) M" where
  "UpdateBindingStatus L G b status reason message url =
     (if statusCurrent L b status reason message url then State_Monad.return None
      else do {
        cs \<leftarrow> call (setStatusCondition G (gbConditions (gbStatus b))
          \<lparr>cType = ConditionTypeRegistered, cStatus = status, cReason = reason, cMessage = message,
           cObservedGeneration = omGeneration (gbMeta b), cLastTransitionTime = 0\<rparr>);
        let b' = b\<lparr>gbStatus := \<lparr>gbURL = url, gbConditions = cs\<rparr>\<rparr>;
        r \<leftarrow> request (EBindingStatus b') (bindingStatusApi G b');
        State_Monad.return (case r of Inl e \<Rightarrow> Some e | Inr _ \<Rightarrow> None)
      })"

abbreviation AnnotationGatewayRef :: string where "AnnotationGatewayRef \<equiv> ''mcp.x-k8s.io/gateway-ref''"
abbreviation AnnotationServiceRef :: string where "AnnotationServiceRef \<equiv> ''mcp.x-k8s.io/service-ref''"
abbreviation AnnotationExtensionRef :: string where "AnnotationExtensionRef \<equiv> ''mcp.x-k8s.io/extension-ref''"

definition RefKey :: "string \<Rightarrow> string \<Rightarrow> string" where
  "RefKey namespace name = namespace @ ''/'' @ name"

text \<open>A missing annotation reads as the empty text. The patch answers with the object as the API server has it then.\<close>

definition annotationOf :: "MCPGatewayBinding \<Rightarrow> string \<Rightarrow> string" where
  "annotationOf b k = (case gm_get (omAnnotations (gbMeta b)) k of None \<Rightarrow> [] | Some v \<Rightarrow> v)"

definition EnsureBindingAnnotations ::
    "'w GatewayApi \<Rightarrow> MCPGatewayBinding \<Rightarrow> (string \<times> string) list \<Rightarrow> ('w, go_error + MCPGatewayBinding) M" where
  "EnsureBindingAnnotations G b desired =
     (if list_all (\<lambda>(k, v). annotationOf b k = v) desired then State_Monad.return (Inr b)
      else let b' = b\<lparr>gbMeta := (gbMeta b)\<lparr>omAnnotations := gm_copy (gm_make (omAnnotations (gbMeta b))) (Some desired)\<rparr>\<rparr>
           in request (EPatchBinding b') (patchBindingApi G b'))"

definition ResolveAndRecordBackendService ::
    "GatewayLib \<Rightarrow> 'w GatewayApi \<Rightarrow> MCPGatewayBinding \<Rightarrow> MCPServer \<Rightarrow> ('w, go_error + MCPGatewayBinding \<times> ServiceEndpoint) M" where
  "ResolveAndRecordBackendService L G b ms = do {
     (endpoint, resolveErr) \<leftarrow> ResolveServiceEndpoint (glK L) (gaBase G) ms;
     r \<leftarrow> EnsureBindingAnnotations G b [(AnnotationServiceRef, RefKey (srvNamespace ms) (epName endpoint))];
     State_Monad.return (case r of
        Inl err \<Rightarrow> Inl err
      | Inr b' \<Rightarrow> (case resolveErr of Some err \<Rightarrow> Inl err | None \<Rightarrow> Inr (b', endpoint)))
   }"

section \<open>Routes\<close>

text \<open>
  Both providers write and remove their route with the same statements: \<open>applyHTTPRoute\<close> and \<open>deleteStaleHTTPRoute\<close> of \<open>providers/httproute\<close>,
  which \<open>providers/kuadrant\<close> repeats inside \<open>reconcileHTTPRoute\<close> and \<open>deleteStaleResources\<close>.
\<close>

definition answered :: "go_error + 'a \<Rightarrow> go_error option" where
  "answered r = (case r of Inl e \<Rightarrow> Some e | Inr _ \<Rightarrow> None)"

definition applyHTTPRoute :: "GatewayLib \<Rightarrow> 'w GatewayApi \<Rightarrow> MCPGatewayBinding \<Rightarrow> HTTPRoute \<Rightarrow> ('w, go_error option) M" where
  "applyHTTPRoute L G b httpRoute =
     (case setBindingReference L b (hrMeta httpRoute) of
        Inl e \<Rightarrow> State_Monad.return (Some (Wrap ''setting controller reference on HTTPRoute: '' e))
      | Inr meta \<Rightarrow> do {
          r \<leftarrow> call (getHTTPRoute G (omName meta) (omNamespace meta));
          (case r of
             Inl err \<Rightarrow>
               if isNotFound (glK L) err
               then do {
                 let route = httpRoute\<lparr>hrMeta := meta\<rparr>;
                 c \<leftarrow> request (ECreateRoute route) (createRouteApi G route);
                 State_Monad.return (answered c)
               }
               else State_Monad.return (Some err)
           | Inr existing \<Rightarrow>
               (case setBindingReference L b (hrMeta existing) of
                  Inl e \<Rightarrow> State_Monad.return (Some (Wrap ''setting controller reference on existing HTTPRoute: '' e))
                | Inr meta' \<Rightarrow>
                    if \<not> ownersEqual L (omOwnerReferences (hrMeta existing)) (omOwnerReferences meta')
                       \<or> \<not> routeSpecEqual L (hrSpec existing) (hrSpec httpRoute)
                    then do {
                      let route = existing\<lparr>hrMeta := meta', hrSpec := hrSpec httpRoute\<rparr>;
                      u \<leftarrow> request (EUpdateRoute route) (updateRouteApi G route);
                      State_Monad.return (answered u)
                    }
                    else State_Monad.return None))
        })"

definition deleteStaleHTTPRoute :: "GatewayLib \<Rightarrow> 'w GatewayApi \<Rightarrow> MCPGatewayBinding \<Rightarrow> ('w, go_error option) M" where
  "deleteStaleHTTPRoute L G b = do {
     r \<leftarrow> call (getHTTPRoute G (gbName b) (gbNamespace b));
     (case r of
        Inl err \<Rightarrow> State_Monad.return (if isNotFound (glK L) err then None else Some (Wrap ''checking for stale HTTPRoute: '' err))
      | Inr route \<Rightarrow>
          if \<not> isControlledBy L (hrMeta route) (gbMeta b) then State_Monad.return None
          else do {
            d \<leftarrow> request (EDeleteRoute route) (deleteRouteApi G route);
            State_Monad.return (case d of
               Inl err \<Rightarrow> if isNotFound (glK L) err then None else Some (Wrap ''deleting stale HTTPRoute: '' err)
             | Inr _ \<Rightarrow> None)
          })
   }"

section \<open>Watches\<close>

text \<open>The bindings of a provider that satisfy a test, as requests.\<close>

definition requestsWhere :: "string \<Rightarrow> (MCPGatewayBinding \<Rightarrow> bool) \<Rightarrow> go_error + MCPGatewayBinding list \<Rightarrow> (string \<times> string) list" where
  "requestsWhere provider P r = (case r of
     Inl _ \<Rightarrow> []
   | Inr bs \<Rightarrow> map (\<lambda>b. (gbName b, gbNamespace b)) (filter (\<lambda>b. gbProvider (gbSpec b) = provider \<and> P b) bs))"

definition FindBindingsForService :: "'w GatewayApi \<Rightarrow> string \<Rightarrow> ObjectMeta \<Rightarrow> ('w, (string \<times> string) list) M" where
  "FindBindingsForService G provider service = do {
     r \<leftarrow> call (listBindings G (Some (omNamespace service)));
     State_Monad.return (requestsWhere provider (\<lambda>b. annotationOf b AnnotationServiceRef = RefKey (omNamespace service) (omName service)) r)
   }"

definition MatchesProvider :: "string \<Rightarrow> MCPGatewayBinding \<Rightarrow> bool" where
  "MatchesProvider name b \<longleftrightarrow> gbProvider (gbSpec b) = name"

section \<open>The laws of the environment\<close>

text \<open>\<open>metav1.IsControlledBy\<close> compares the UID of the controller reference; \<open>SetControllerReference\<close> changes only the owner references and makes the
  binding the controller.\<close>

definition binding_reference_law :: "GatewayLib \<Rightarrow> bool" where
  "binding_reference_law L \<longleftrightarrow> (\<forall>b m m'. setBindingReference L b m = Inr m' \<longrightarrow>
     m'\<lparr>omOwnerReferences := omOwnerReferences m\<rparr> = m \<and> isControlledBy L m' (gbMeta b))"

text \<open>\<open>meta.SetStatusCondition\<close>: the condition is then found with the status, reason, message and generation given.\<close>

definition set_condition_law :: "GatewayLib \<Rightarrow> 'w GatewayApi \<Rightarrow> bool" where
  "set_condition_law L G \<longleftrightarrow> (\<forall>cs c w cs' w'. setStatusCondition G cs c w = (cs', w') \<longrightarrow>
     (\<exists>c'. findStatusCondition (glK L) cs' (cType c) = Some c' \<and> cStatus c' = cStatus c \<and> cReason c' = cReason c
        \<and> cMessage c' = cMessage c \<and> cObservedGeneration c' = cObservedGeneration c))"

text \<open>The API server answers with the object that was asked for; a patch does not rename.\<close>

definition key_law :: "'w GatewayApi \<Rightarrow> bool" where
  "key_law G \<longleftrightarrow>
     (\<forall>n ns w b w'. getBinding (gaBase G) n ns w = (Inr b, w') \<longrightarrow> gbName b = n \<and> gbNamespace b = ns) \<and>
     (\<forall>b w b' w'. patchBindingApi G b w = (Inr b', w') \<longrightarrow> gbName b' = gbName b \<and> gbNamespace b' = gbNamespace b) \<and>
     (\<forall>n ns w r w'. getHTTPRoute G n ns w = (Inr r, w') \<longrightarrow> hrName r = n \<and> hrNamespace r = ns) \<and>
     (\<forall>n ns w r w'. getRegistration G n ns w = (Inr r, w') \<longrightarrow> omName (mrMeta r) = n \<and> omNamespace (mrMeta r) = ns)"

definition provider_laws :: "GatewayLib \<Rightarrow> 'w GatewayApi \<Rightarrow> bool" where
  "provider_laws L G \<longleftrightarrow> binding_reference_law L \<and> set_condition_law L G \<and> key_law G"

section \<open>What a pass may send\<close>

text \<open>The binding of the request as the API server has answered it, from a read or from a patch of this pass.\<close>

definition seen :: "'w GatewayApi \<Rightarrow> string \<Rightarrow> string \<Rightarrow> MCPGatewayBinding \<Rightarrow> bool" where
  "seen G n ns b \<longleftrightarrow> gbName b = n \<and> gbNamespace b = ns \<and>
     ((\<exists>w w'. getBinding (gaBase G) n ns w = (Inr b, w')) \<or> (\<exists>b0 w w'. patchBindingApi G b0 w = (Inr b, w')))"

definition owned :: "GatewayLib \<Rightarrow> 'w GatewayApi \<Rightarrow> string \<Rightarrow> string \<Rightarrow> ObjectMeta \<Rightarrow> bool" where
  "owned L G n ns m \<longleftrightarrow> omName m = n \<and> omNamespace m = ns \<and> (\<exists>b. seen G n ns b \<and> isControlledBy L m (gbMeta b))"

definition reported :: "GatewayLib \<Rightarrow> (string \<Rightarrow> bool) \<Rightarrow> MCPGatewayBinding \<Rightarrow> bool" where
  "reported L evidence b \<longleftrightarrow>
     (\<exists>c. findStatusCondition (glK L) (gbConditions (gbStatus b)) ConditionTypeRegistered = Some c
        \<and> cObservedGeneration c = omGeneration (gbMeta b)
        \<and> (if cStatus c = ConditionTrue then gbURL (gbStatus b) \<noteq> [] \<and> evidence (gbURL (gbStatus b))
           else cStatus c = ConditionFalse \<and> gbURL (gbStatus b) = []))"

text \<open>
  The guard of a pass for the binding \<open>ns/n\<close>: it writes and removes only objects of that name that the binding controls, a route has a single
  parent, which \<open>refOk\<close> allows, a registration is for that route and \<open>regOk\<close> allows it, and of the binding itself the pass changes only the annotations and the
  status. A report has the URL exactly with a \<open>Registered\<close> condition that is true, for which \<open>evidence\<close> holds.
\<close>

fun provider_guard ::
    "GatewayLib \<Rightarrow> 'w GatewayApi \<Rightarrow> string \<Rightarrow> string \<Rightarrow> (ParentReference \<Rightarrow> bool) \<Rightarrow> (MCPServerRegistration \<Rightarrow> bool) \<Rightarrow>
     (string \<Rightarrow> bool) \<Rightarrow> effect \<Rightarrow> bool" where
  "provider_guard L G n ns refOk regOk evidence (ECreateRoute r) \<longleftrightarrow> owned L G n ns (hrMeta r) \<and> (\<exists>ref. hrsParentRefs (hrSpec r) = [ref] \<and> refOk ref)"
| "provider_guard L G n ns refOk regOk evidence (EUpdateRoute r) \<longleftrightarrow> owned L G n ns (hrMeta r) \<and> (\<exists>ref. hrsParentRefs (hrSpec r) = [ref] \<and> refOk ref)"
| "provider_guard L G n ns refOk regOk evidence (EDeleteRoute r) \<longleftrightarrow> owned L G n ns (hrMeta r)"
| "provider_guard L G n ns refOk regOk evidence (ECreateRegistration r) \<longleftrightarrow> owned L G n ns (mrMeta r) \<and> tgtName (mrsTargetRef (mrSpec r)) = n \<and> regOk r"
| "provider_guard L G n ns refOk regOk evidence (EUpdateRegistration r) \<longleftrightarrow> owned L G n ns (mrMeta r) \<and> tgtName (mrsTargetRef (mrSpec r)) = n \<and> regOk r"
| "provider_guard L G n ns refOk regOk evidence (EDeleteRegistration r) \<longleftrightarrow> owned L G n ns (mrMeta r)"
| "provider_guard L G n ns refOk regOk evidence (EPatchBinding b) \<longleftrightarrow>
     (\<exists>b0 ann. seen G n ns b0 \<and> b = b0\<lparr>gbMeta := (gbMeta b0)\<lparr>omAnnotations := ann\<rparr>\<rparr>)"
| "provider_guard L G n ns refOk regOk evidence (EBindingStatus b) \<longleftrightarrow>
     (\<exists>b0 st. seen G n ns b0 \<and> b = b0\<lparr>gbStatus := st\<rparr>) \<and> reported L evidence b"
| "provider_guard L G n ns refOk regOk evidence _ \<longleftrightarrow> False"

lemma seen_key: "seen G n ns b \<Longrightarrow> gbName b = n" "seen G n ns b \<Longrightarrow> gbNamespace b = ns"
  by (simp_all add: seen_def)

lemma referenced_owned:
  assumes "provider_laws L G" "seen G n ns b" "setBindingReference L b m = Inr m'" "omName m = n" "omNamespace m = ns"
  shows "owned L G n ns m'"
proof -
  have "m'\<lparr>omOwnerReferences := omOwnerReferences m\<rparr> = m" "isControlledBy L m' (gbMeta b)"
    using assms(1,3) by (auto simp: provider_laws_def binding_reference_law_def)
  moreover from this(1) assms(4,5) have "omName m' = n" "omNamespace m' = ns"
    by (metis ObjectMeta.select_convs(1,2) ObjectMeta.surjective ObjectMeta.update_convs(9))+
  ultimately show ?thesis using assms(2) by (auto simp: owned_def)
qed

lemma route_key: "provider_laws L G \<Longrightarrow> getHTTPRoute G n ns w = (Inr r, w') \<Longrightarrow> hrName r = n \<and> hrNamespace r = ns"
  unfolding provider_laws_def key_law_def by blast

lemma registration_key: "provider_laws L G \<Longrightarrow> getRegistration G n ns w = (Inr r, w') \<Longrightarrow> omName (mrMeta r) = n \<and> omNamespace (mrMeta r) = ns"
  unfolding provider_laws_def key_law_def by blast

lemma binding_key: "provider_laws L G \<Longrightarrow> getBinding (gaBase G) n ns w = (Inr b, w') \<Longrightarrow> gbName b = n \<and> gbNamespace b = ns"
  unfolding provider_laws_def key_law_def by blast

lemma patch_key: "provider_laws L G \<Longrightarrow> patchBindingApi G b0 w = (Inr b, w') \<Longrightarrow> gbName b = gbName b0 \<and> gbNamespace b = gbNamespace b0"
  unfolding provider_laws_def key_law_def by blast

lemma seenI:
  "provider_laws L G \<Longrightarrow> getBinding (gaBase G) n ns w = (Inr b, w') \<Longrightarrow> seen G n ns b"
  "provider_laws L G \<Longrightarrow> patchBindingApi G b0 w = (Inr b, w') \<Longrightarrow> gbName b0 = n \<Longrightarrow> gbNamespace b0 = ns \<Longrightarrow> seen G n ns b"
  unfolding seen_def using binding_key patch_key by metis+

lemma applyHTTPRoute_emits:
  assumes "provider_laws L G" "seen G n ns b" "hrName route = n" "hrNamespace route = ns"
    and "hrsParentRefs (hrSpec route) = [ref]" "refOk ref"
  shows "emits (provider_guard L G n ns refOk regOk ev) (applyHTTPRoute L G b route)"
proof -
  have own: "owned L G n ns m'" if "setBindingReference L b (hrMeta r) = Inr m'" "hrName r = n" "hrNamespace r = ns" for r m'
    using referenced_owned[OF assms(1,2) that] .
  have same: "omName m' = n" "omNamespace m' = ns" if "setBindingReference L b (hrMeta route) = Inr m'" for m'
    using own[OF that assms(3,4)] by (simp_all add: owned_def)
  have ex: "hrName e = n" "hrNamespace e = ns"
    if "setBindingReference L b (hrMeta route) = Inr m" "getHTTPRoute G (omName m) (omNamespace m) w = (Inr e, w')" for m w e w'
    using route_key[OF assms(1)] same[OF that(1)] that(2) by metis+
  show ?thesis
    unfolding applyHTTPRoute_def Let_def
    by (rule emits_case(1)[OF emits_return], rule emits_bind_value[OF emits_call yields_call], elim exE,
        intro emits_case emits_if emits_return emits_bind[OF emits_request])
       (simp_all add: assms(5,6) own[OF _ assms(3,4)] own[OF _ ex])
qed

lemma deleteStaleHTTPRoute_emits:
  assumes "provider_laws L G" "seen G n ns b"
  shows "emits (provider_guard L G n ns refOk regOk ev) (deleteStaleHTTPRoute L G b)"
  unfolding deleteStaleHTTPRoute_def
  by (rule emits_bind_value[OF emits_call yields_call])
     (use assms in \<open>auto intro!: emits_case emits_if emits_return emits_bind[OF emits_request] dest: route_key[OF assms(1)] simp: owned_def seen_key\<close>)

lemma UpdateBindingStatus_emits:
  assumes "provider_laws L G" "seen G n ns b"
    and "if status = ConditionTrue then url \<noteq> [] \<and> ev url else status = ConditionFalse \<and> url = []"
  shows "emits (provider_guard L G n ns refOk regOk ev) (UpdateBindingStatus L G b status reason message url)"
proof -
  have law: "set_condition_law L G" using assms(1) by (simp add: provider_laws_def)
  have ok: "reported L ev (b\<lparr>gbStatus := \<lparr>gbURL = url, gbConditions = cs\<rparr>\<rparr>)"
    if "\<exists>w w'. setStatusCondition G (gbConditions (gbStatus b)) \<lparr>cType = ConditionTypeRegistered, cStatus = status, cReason = reason, cMessage = message,
       cObservedGeneration = omGeneration (gbMeta b), cLastTransitionTime = 0\<rparr> w = (cs, w')" for cs
    using law that assms(3) unfolding set_condition_law_def reported_def by fastforce
  show ?thesis
    unfolding UpdateBindingStatus_def Let_def
    by (rule emits_if[OF emits_return], rule emits_bind_value[OF emits_call yields_call[THEN yields_imp]], erule ok,
        rule emits_bind[OF emits_request emits_return])
       (use assms(2) in \<open>auto intro!: exI[of _ b]\<close>)
qed

lemma UpdateBindingStatus_value:
  assumes "provider_laws L G" "run_state (UpdateBindingStatus L G b status reason message url) s = (e, s')"
  shows "if statusCurrent L b status reason message url then e = None \<and> s' = s
    else \<exists>b'. trace s' = trace s @ [EBindingStatus b'] \<and> gbMeta b' = gbMeta b \<and> gbURL (gbStatus b') = url
      \<and> bindingRegistered (glK L) b' = (status = ConditionTrue)"
proof (cases "statusCurrent L b status reason message url")
  case True with assms(2) show ?thesis by (simp add: UpdateBindingStatus_def)
next
  case False
  obtain cs w where cs: "setStatusCondition G (gbConditions (gbStatus b)) \<lparr>cType = ConditionTypeRegistered, cStatus = status, cReason = reason,
      cMessage = message, cObservedGeneration = omGeneration (gbMeta b), cLastTransitionTime = 0\<rparr> (world s) = (cs, w)" by fastforce
  let ?b = "b\<lparr>gbStatus := \<lparr>gbURL = url, gbConditions = cs\<rparr>\<rparr>"
  have "bindingRegistered (glK L) ?b = (status = ConditionTrue)"
    using assms(1) cs unfolding provider_laws_def set_condition_law_def bindingRegistered_def by fastforce
  with False assms(2) cs show ?thesis
    by (intro if_not_P[THEN iffD2] exI[of _ ?b]) (auto simp: UpdateBindingStatus_def request_def run_ops Let_def split: prod.splits)
qed

lemma annotations_emits:
  assumes "provider_laws L G" "seen G n ns b"
  shows "emits (provider_guard L G n ns refOk regOk ev) (EnsureBindingAnnotations G b desired)"
    and "yields (EnsureBindingAnnotations G b desired) (\<lambda>r. \<forall>b'. r = Inr b' \<longrightarrow> seen G n ns b')"
proof -
  show "emits (provider_guard L G n ns refOk regOk ev) (EnsureBindingAnnotations G b desired)"
    unfolding EnsureBindingAnnotations_def Let_def
    by (intro emits_if emits_return emits_request) (use assms(2) in \<open>auto intro!: exI[of _ b]\<close>)
  show "yields (EnsureBindingAnnotations G b desired) (\<lambda>r. \<forall>b'. r = Inr b' \<longrightarrow> seen G n ns b')"
    unfolding EnsureBindingAnnotations_def Let_def
    by (intro yields_if yields_return yields_imp[OF yields_request])
       (auto simp: assms(2) seen_key[OF assms(2)] intro: seenI(2)[OF assms(1)])
qed

lemma resolveAndRecord_emits:
  assumes "provider_laws L G" "seen G n ns b"
  shows "emits (provider_guard L G n ns refOk regOk ev) (ResolveAndRecordBackendService L G b ms)"
    and "yields (ResolveAndRecordBackendService L G b ms) (\<lambda>r. \<forall>b' ep. r = Inr (b', ep) \<longrightarrow> seen G n ns b')"
proof -
  show "emits (provider_guard L G n ns refOk regOk ev) (ResolveAndRecordBackendService L G b ms)"
    unfolding ResolveAndRecordBackendService_def
    by (intro emits_bind[OF resolve_emits] emits_case emits_bind[OF annotations_emits(1)[OF assms]] emits_return)
  show "yields (ResolveAndRecordBackendService L G b ms) (\<lambda>r. \<forall>b' ep. r = Inr (b', ep) \<longrightarrow> seen G n ns b')"
    unfolding ResolveAndRecordBackendService_def
    by (intro yields_bind[OF yields_any] yields_case yields_bind[OF annotations_emits(2)[OF assms]] yields_return)
       (auto split: sum.splits option.splits)
qed

lemma reported_registered:
  assumes "reported L evidence b"
  shows "bindingRegistered (glK L) b = (gbURL (gbStatus b) \<noteq> [])" "bindingRegistered (glK L) b \<Longrightarrow> evidence (gbURL (gbStatus b))"
  using assms by (auto simp: reported_def bindingRegistered_def split: if_splits)

section \<open>The contract of a provider\<close>

text \<open>
  What the operator relies on: a provider acts only on bindings that name it, and a pass stays within \<open>provider_guard\<close>. Then whatever
  binding status the provider writes, the operator publishes the address of it exactly when the provider's evidence was there.
\<close>

locale gateway_provider =
  fixes provider :: string and L :: GatewayLib and G :: "'w GatewayApi"
    and pass :: "string \<Rightarrow> string \<Rightarrow> ('w, Result \<times> go_error option) M"
    and refOk :: "ParentReference \<Rightarrow> bool" and regOk :: "string \<Rightarrow> string \<Rightarrow> MCPServerRegistration \<Rightarrow> bool"
    and evidence :: "string \<Rightarrow> string \<Rightarrow> string \<Rightarrow> bool"
  assumes ignores: "getBinding (gaBase G) n ns (world s) = (r, w) \<Longrightarrow> (\<And>b. r = Inr b \<Longrightarrow> gbProvider (gbSpec b) \<noteq> provider) \<Longrightarrow>
      trace (snd (run_state (pass n ns) s)) = trace s"
    and confined: "provider_laws L G \<Longrightarrow> emits (provider_guard L G n ns refOk (regOk n ns) (evidence n ns)) (pass n ns)"
begin

lemma sends_within:
  "provider_laws L G \<Longrightarrow> run_state (pass n ns) s = (r, s') \<Longrightarrow> trace s = [] \<Longrightarrow> e \<in> set (trace s') \<Longrightarrow>
   provider_guard L G n ns refOk (regOk n ns) (evidence n ns) e"
  using emitsD[OF confined, of n ns s r s'] by (auto simp: list_all_iff)

lemma operator_publishes:
  assumes "provider_laws L G" "run_state (pass n ns) s = (r, s')" "trace s = []" "EBindingStatus b \<in> set (trace s')"
    and "spGateway (msSpec ms) \<noteq> None"
    and "\<And>w. fst (getBinding A (gatewayBindingName (glK L) (srvName ms)) (srvNamespace ms) w) = Inr b"
    and "run_state (resolveGatewayStatus (glK L) A ms available url) t = ((g, available', url'), t')"
  shows "if gbURL (gbStatus b) = [] then url' = url \<and> cStatus available' \<noteq> ConditionTrue
     else url' = gbURL (gbStatus b) \<and> evidence n ns url' \<and> (cStatus available' = ConditionTrue) = (cStatus available = ConditionTrue)"
proof -
  have rep: "reported L (evidence n ns) b" using sends_within[OF assms(1-4)] by simp
  obtain answer w w' where ans: "getBinding A (gatewayBindingName (glK L) (srvName ms)) (srvNamespace ms) w = (answer, w')"
    and val: "case answer of Inl e \<Rightarrow> True
      | Inr b \<Rightarrow> (cStatus available' = ConditionTrue) = (cStatus available = ConditionTrue \<and> bindingRegistered (glK L) b)
          \<and> url' = (if bindingRegistered (glK L) b \<and> gbURL (gbStatus b) \<noteq> [] then gbURL (gbStatus b) else url)"
    using resolveGatewayStatus_value[OF assms(5,7)] by (auto split: sum.splits)
  from ans assms(6)[of w] have "answer = Inr b" by simp
  with val reported_registered[OF rep] show ?thesis by auto
qed

end

section \<open>A concrete environment\<close>

text \<open>An instance of the library and of the API server at which the theorems are applied: it holds one binding, its server, ConfigMap, route and Gateway.\<close>

definition sample_gateway_lib :: GatewayLib where
  "sample_gateway_lib = \<lparr>glK = sample_lib,
     setBindingReference = (\<lambda>b m. Inr (m\<lparr>omOwnerReferences :=
        [\<lparr>orAPIVersion = ''mcp.x-k8s.io/v1alpha1'', orKind = ''MCPGatewayBinding'', orName = gbName b, orUID = omUID (gbMeta b), orController = Some True\<rparr>]\<rparr>)),
     isControlledBy = (\<lambda>m owner. \<exists>r\<in>set (omOwnerReferences m). orController r = Some True \<and> orUID r = omUID owner),
     isDNS1123Label = (\<lambda>s. if s = [] \<or> toLower s \<noteq> s then [''not a label''] else []),
     isDNS1123Subdomain = (\<lambda>s. if s = [] \<or> toLower s \<noteq> s then [''not a subdomain''] else []),
     ownersEqual = (=), routeSpecEqual = (=), registrationSpecEqual = (=)\<rparr>"

text \<open>The reports and the routes in a trace.\<close>

definition reports_of :: "effect list \<Rightarrow> MCPGatewayBinding list" where
  "reports_of es = concat (map (\<lambda>e. case e of EBindingStatus b \<Rightarrow> [b] | _ \<Rightarrow> []) es)"

definition created_routes :: "effect list \<Rightarrow> HTTPRoute list" where
  "created_routes es = concat (map (\<lambda>e. case e of ECreateRoute r \<Rightarrow> [r] | _ \<Rightarrow> []) es)"

lemma reports_of_iff: "b \<in> set (reports_of es) \<longleftrightarrow> EBindingStatus b \<in> set es"
  by (force simp: reports_of_def split: effect.splits)

lemma created_routes_iff: "r \<in> set (created_routes es) \<longleftrightarrow> ECreateRoute r \<in> set es"
  by (force simp: created_routes_def split: effect.splits)

definition holds :: "'a \<Rightarrow> bool \<Rightarrow> (nat, 'a) apicall" where
  "holds x found w = (if found then Inr x else Inl not_found, w)"

definition sample_gateway_api ::
    "MCPGatewayBinding \<Rightarrow> MCPServer \<Rightarrow> (string \<times> string) list \<Rightarrow> HTTPRoute \<Rightarrow> GatewayObject \<Rightarrow> nat GatewayApi" where
  "sample_gateway_api b ms d route gw =
     \<lparr>gaBase = sample_api\<lparr>getBinding := (\<lambda>n ns. holds b (n = gbName b \<and> ns = gbNamespace b)),
        getMCPServer := (\<lambda>n ns. holds ms (n = srvName ms \<and> ns = srvNamespace ms)),
        readConfigMap := (\<lambda>n ns. holds \<lparr>cmMeta = zero_meta, cmData = d, cmBinaryData = []\<rparr> (n = gbConfigRef (gbSpec b)))\<rparr>,
      getHTTPRoute = (\<lambda>n ns. holds route (n = hrName route \<and> ns = hrNamespace route)),
      getGateway = (\<lambda>n ns. holds gw (n = omName (goMeta gw) \<and> ns = omNamespace (goMeta gw))),
      getRegistration = (\<lambda>n ns w. (Inl not_found, w)),
      getExtension = (\<lambda>n ns w. (Inl not_found, w)),
      listBindings = (\<lambda>ns w. (Inr [b], w)),
      listRegistrations = (\<lambda>w. (Inr [], w)),
      createRouteApi = (\<lambda>r w. (Inr r, w)), updateRouteApi = (\<lambda>r w. (Inr r, w)), deleteRouteApi = (\<lambda>r w. (Inr (), w)),
      createRegistrationApi = (\<lambda>r w. (Inr r, w)), updateRegistrationApi = (\<lambda>r w. (Inr r, w)), deleteRegistrationApi = (\<lambda>r w. (Inr (), w)),
      patchBindingApi = (\<lambda>b w. (Inr b, w)), bindingStatusApi = (\<lambda>b w. (Inr b, w)),
      setStatusCondition = (\<lambda>cs c w. (c # filter (\<lambda>x. cType x \<noteq> cType c) cs, w))\<rparr>"

lemma sample_provider_laws: "provider_laws sample_gateway_lib (sample_gateway_api b ms d route gw)"
  by (auto simp: provider_laws_def binding_reference_law_def set_condition_law_def key_law_def sample_gateway_lib_def sample_gateway_api_def holds_def
      sample_lib_def split: if_splits)

definition sample_gateway_binding :: "string \<Rightarrow> MCPGatewayBinding" where
  "sample_gateway_binding provider =
     \<lparr>gbMeta = zero_meta\<lparr>omName := ''s-gateway-binding'', omNamespace := ''team'', omUID := ''u-1'', omGeneration := 1,
        omAnnotations := Some [(AnnotationGatewayRef, ''edge/gw''), (AnnotationServiceRef, ''team/s'')]\<rparr>,
      gbSpec = \<lparr>gbMCPServerRef = ''s'', gbProvider = provider, gbConfigRef = ''gw-config''\<rparr>,
      gbStatus = \<lparr>gbURL = [], gbConditions = []\<rparr>\<rparr>"

end
