(* ===== verification/HTTPRouteProvider.thy ===== *)
theory HTTPRouteProvider
  imports Providers
begin

text \<open>
  The reference provider (\<open>internal/controller/providers/httproute/controller.go\<close>): for a binding of provider \<open>httproute\<close> it publishes an
  \<open>HTTPRoute\<close> to the Gateway that the tenant's ConfigMap names, and registers the binding once the Gateway has accepted the route. The
  definitions carry the suffix \<open>_httproute\<close> where the Kuadrant provider has a function of the same name. The allowlist of
  Gateway namespaces is the argument \<open>allowed\<close>; the value of the environment variable is the argument \<open>env\<close>.
\<close>

section \<open>The allowlist\<close>

definition ValidGatewayNamespace :: "GatewayLib \<Rightarrow> string \<Rightarrow> bool" where
  "ValidGatewayNamespace L ns \<longleftrightarrow> isDNS1123Label L ns = []"

definition ValidGatewayName :: "GatewayLib \<Rightarrow> string \<Rightarrow> bool" where
  "ValidGatewayName L name \<longleftrightarrow> isDNS1123Subdomain L name = []"

definition ParseAllowedGatewayNamespaces :: "string \<Rightarrow> string \<Rightarrow> bool \<Rightarrow> string list" where
  "ParseAllowedGatewayNamespaces env flagValue flagSet = commaList (if \<not> flagSet then env else flagValue)"

text \<open>The result is the allowed entries, the entries that were dropped, and an error. A list is printed as by \<open>%v\<close>.\<close>

definition listText :: "string list \<Rightarrow> string" where
  "listText xs = ''['' @ joinWith '' '' xs @ '']''"

definition ResolveAllowedGatewayNamespaces ::
    "GatewayLib \<Rightarrow> string \<Rightarrow> string \<Rightarrow> bool \<Rightarrow> string list \<times> string list \<times> go_error option" where
  "ResolveAllowedGatewayNamespaces L env flagValue flagSet =
     (let parsed = ParseAllowedGatewayNamespaces env flagValue flagSet;
          allowed = filter (ValidGatewayNamespace L) parsed;
          invalid = filter (\<lambda>ns. \<not> ValidGatewayNamespace L ns) parsed
      in if parsed \<noteq> [] \<and> allowed = []
         then ([], invalid, Some (ErrorString (''httproute gateway-namespace allowlist was configured ('' @ listText parsed @
           '') but contains no valid RFC 1123 namespace names'')))
         else (allowed, invalid, None))"

section \<open>The reconciler\<close>

abbreviation ProviderName_httproute :: string where "ProviderName_httproute \<equiv> ''httproute''"
abbreviation configKeyGatewayName :: string where "configKeyGatewayName \<equiv> ''gateway-name''"
abbreviation configKeyGatewayNamespace :: string where "configKeyGatewayNamespace \<equiv> ''gateway-namespace''"
abbreviation configKeyRouteHostname :: string where "configKeyRouteHostname \<equiv> ''route-hostname''"
abbreviation configKeyPublicHostname :: string where "configKeyPublicHostname \<equiv> ''public-hostname''"
abbreviation reasonRouteNotAccepted :: string where "reasonRouteNotAccepted \<equiv> ''RouteNotAccepted''"
abbreviation ReasonPublicAddressPending :: string where "ReasonPublicAddressPending \<equiv> ''PublicAddressPending''"
abbreviation GroupName :: string where "GroupName \<equiv> ''gateway.networking.k8s.io''"

definition setNotRegistered_httproute :: "GatewayLib \<Rightarrow> 'w GatewayApi \<Rightarrow> MCPGatewayBinding \<Rightarrow> string \<Rightarrow> ('w, go_error option) M" where
  "setNotRegistered_httproute L G b message = do {
     e \<leftarrow> deleteStaleHTTPRoute L G b;
     (case e of
        Some err \<Rightarrow> State_Monad.return (Some err)
      | None \<Rightarrow> UpdateBindingStatus L G b ConditionFalse ReasonGatewayNotRegistered message [])
   }"

text \<open>A missing key of the ConfigMap reads as the empty text. \<open>Inl\<close> stands for the flag \<open>done\<close> with the error to return.\<close>

definition dataOf :: "(string \<times> string) list \<Rightarrow> string \<Rightarrow> string" where
  "dataOf d k = (case map_of d k of None \<Rightarrow> [] | Some v \<Rightarrow> v)"

definition missingKey :: "MCPGatewayBinding \<Rightarrow> string \<Rightarrow> string" where
  "missingKey b k = ''ConfigMap '' @ goquote (gbConfigRef (gbSpec b)) @ '' missing required key '' @ goquote k"

definition resolveGatewayRef ::
    "GatewayLib \<Rightarrow> 'w GatewayApi \<Rightarrow> string list \<Rightarrow> MCPGatewayBinding \<Rightarrow> (string \<times> string) list \<Rightarrow> ('w, go_error option + string \<times> string) M" where
  "resolveGatewayRef L G allowed b d =
     (let gwName = dataOf d configKeyGatewayName; gwNamespace = dataOf d configKeyGatewayNamespace;
          reject = (\<lambda>message. setNotRegistered_httproute L G b message \<bind> (\<lambda>e. State_Monad.return (Inl e)))
      in if gwName = [] then reject (missingKey b configKeyGatewayName)
         else if gwNamespace = [] then reject (missingKey b configKeyGatewayNamespace)
         else if \<not> ValidGatewayName L gwName
         then reject (goquote configKeyGatewayName @ '' value '' @ goquote gwName @ '' is not a valid name (must be an RFC 1123 subdomain)'')
         else if \<not> ValidGatewayNamespace L gwNamespace
         then reject (goquote configKeyGatewayNamespace @ '' value '' @ goquote gwNamespace @
           '' is not a valid namespace name (must be an RFC 1123 label)'')
         else if allowed \<noteq> [] \<and> gwNamespace \<notin> set allowed
         then reject (goquote configKeyGatewayNamespace @ '' '' @ goquote gwNamespace @ '' is not in the operator's trusted gateway-namespace allowlist'')
         else State_Monad.return (Inr (gwName, gwNamespace)))"

definition resolvePublicHost ::
    "GatewayLib \<Rightarrow> 'w GatewayApi \<Rightarrow> (string \<times> string) list \<Rightarrow> string \<Rightarrow> string \<Rightarrow> ('w, go_error + string) M" where
  "resolvePublicHost L G d gwName gwNamespace =
     (if dataOf d configKeyPublicHostname \<noteq> [] then State_Monad.return (Inr (dataOf d configKeyPublicHostname))
      else if dataOf d configKeyRouteHostname \<noteq> [] then State_Monad.return (Inr (dataOf d configKeyRouteHostname))
      else GatewayAddress L G gwName gwNamespace)"

definition serverPath :: "MCPServer \<Rightarrow> string" where
  "serverPath ms = (if cfgPath (spConfig (msSpec ms)) = [] then DefaultMCPPath else cfgPath (spConfig (msSpec ms)))"

definition routeRule :: "string \<Rightarrow> ServiceEndpoint \<Rightarrow> HTTPRouteRule" where
  "routeRule path endpoint =
     \<lparr>ruleMatches = [\<lparr>pmType = Some ''PathPrefix'', pmValue = Some path\<rparr>],
      ruleBackendRefs = [\<lparr>brGroup = Some [], brKind = Some ''Service'', brName = epName endpoint, brPort = Some (epPort endpoint), brWeight = Some 1\<rparr>]\<rparr>"

definition desiredRoute_httproute :: "MCPGatewayBinding \<Rightarrow> string \<Rightarrow> string \<Rightarrow> string \<Rightarrow> ServiceEndpoint \<Rightarrow> string \<Rightarrow> HTTPRoute" where
  "desiredRoute_httproute b gwName gwNamespace path endpoint routeHostname =
     \<lparr>hrMeta = zero_meta\<lparr>omName := gbName b, omNamespace := gbNamespace b\<rparr>,
      hrSpec = \<lparr>hrsParentRefs = [\<lparr>prGroup = Some GroupName, prKind = Some ''Gateway'', prName = gwName, prNamespace = Some gwNamespace, prSectionName = None\<rparr>],
        hrsHostnames = (if routeHostname = [] then [] else [routeHostname]),
        hrsRules = [routeRule path endpoint], hrsOther = []\<rparr>,
      hrParents = []\<rparr>"

definition statusURL :: "string \<Rightarrow> string \<Rightarrow> string \<Rightarrow> string" where
  "statusURL scheme host path = scheme @ ''://'' @ FormatHost host @ path"

text \<open>The part of \<open>Reconcile\<close> after the route is written: is it accepted, and where.\<close>

definition publishRoute_httproute ::
    "GatewayLib \<Rightarrow> 'w GatewayApi \<Rightarrow> MCPGatewayBinding \<Rightarrow> (string \<times> string) list \<Rightarrow> string \<Rightarrow> string \<Rightarrow> string \<Rightarrow> HTTPRoute \<Rightarrow>
     ('w, Result \<times> go_error option) M" where
  "publishRoute_httproute L G b d gwName gwNamespace path route =
     (if \<not> IsHTTPRouteAccepted route gwName gwNamespace
      then do {
        e \<leftarrow> UpdateBindingStatus L G b ConditionFalse reasonRouteNotAccepted ''Waiting for gateway to accept HTTPRoute'' [];
        State_Monad.return (\<lparr>requeueAfter = 10 * second\<rparr>, e)
      }
      else do {
        h \<leftarrow> resolvePublicHost L G d gwName gwNamespace;
        (case h of
           Inl err \<Rightarrow> State_Monad.return (noRequeue, Some err)
         | Inr publicHost \<Rightarrow>
             if publicHost = []
             then do {
               e \<leftarrow> UpdateBindingStatus L G b ConditionFalse ReasonPublicAddressPending
                 ''Waiting for public address: no public-hostname in ConfigMap and no Gateway status address available'' [];
               State_Monad.return (\<lparr>requeueAfter = 10 * second\<rparr>, e)
             }
             else do {
               s \<leftarrow> SchemeFromAcceptedRoute L G route gwName gwNamespace;
               (case s of
                  Inl err \<Rightarrow> State_Monad.return (noRequeue, Some err)
                | Inr scheme \<Rightarrow> do {
                    e \<leftarrow> UpdateBindingStatus L G b ConditionTrue ReasonGatewayRegistered ''HTTPRoute accepted by gateway''
                      (statusURL scheme publicHost path);
                    State_Monad.return (noRequeue, e)
                  })
             })
      })"

text \<open>The part of \<open>Reconcile\<close> for a resolved Gateway.\<close>

definition reconcileRoute_httproute ::
    "GatewayLib \<Rightarrow> 'w GatewayApi \<Rightarrow> MCPGatewayBinding \<Rightarrow> MCPServer \<Rightarrow> (string \<times> string) list \<Rightarrow> string \<Rightarrow> string \<Rightarrow>
     ('w, Result \<times> go_error option) M" where
  "reconcileRoute_httproute L G b0 ms d gwName gwNamespace = do {
     ann \<leftarrow> EnsureBindingAnnotations G b0 [(AnnotationGatewayRef, RefKey gwNamespace gwName)];
     (case ann of
        Inl err \<Rightarrow> State_Monad.return (noRequeue, Some err)
      | Inr b1 \<Rightarrow> do {
          ep \<leftarrow> ResolveAndRecordBackendService L G b1 ms;
          (case ep of
             Inl err \<Rightarrow> State_Monad.return (noRequeue, Some err)
           | Inr (b, endpoint) \<Rightarrow>
               (let path = serverPath ms; routeHostname = dataOf d configKeyRouteHostname;
                    hostErr = (if routeHostname = [] then None else ValidateHostname L routeHostname)
                in case hostErr of
                     Some err \<Rightarrow> do {
                       e \<leftarrow> setNotRegistered_httproute L G b (''invalid '' @ goquote configKeyRouteHostname @ '' in ConfigMap '' @
                         goquote (gbConfigRef (gbSpec b)) @ '': '' @ errText err);
                       State_Monad.return (noRequeue, e)
                     }
                   | None \<Rightarrow> do {
                       let httpRoute = desiredRoute_httproute b gwName gwNamespace path endpoint routeHostname;
                       a \<leftarrow> applyHTTPRoute L G b httpRoute;
                       (case a of
                          Some err \<Rightarrow> State_Monad.return (noRequeue, Some err)
                        | None \<Rightarrow> do {
                            r \<leftarrow> call (getHTTPRoute G (hrName httpRoute) (hrNamespace httpRoute));
                            (case r of
                               Inl err \<Rightarrow> State_Monad.return (noRequeue, Some err)
                             | Inr route \<Rightarrow> publishRoute_httproute L G b d gwName gwNamespace path route)
                          })
                     }))
        })
   }"

definition Reconcile_httproute ::
    "GatewayLib \<Rightarrow> 'w GatewayApi \<Rightarrow> string list \<Rightarrow> string \<Rightarrow> string \<Rightarrow> ('w, Result \<times> go_error option) M" where
  "Reconcile_httproute L G allowed name namespace = do {
     found \<leftarrow> call (getBinding (gaBase G) name namespace);
     (case found of
        Inl err \<Rightarrow> State_Monad.return (noRequeue, if isNotFound (glK L) err then None else Some err)
      | Inr b \<Rightarrow>
          if gbProvider (gbSpec b) \<noteq> ProviderName_httproute then State_Monad.return (noRequeue, None)
          else do {
            server \<leftarrow> call (getMCPServer (gaBase G) (gbMCPServerRef (gbSpec b)) (gbNamespace b));
            (case server of
               Inl err \<Rightarrow> State_Monad.return (noRequeue, if isNotFound (glK L) err then None else Some err)
             | Inr ms \<Rightarrow>
                 if gbConfigRef (gbSpec b) = []
                 then do {
                   e \<leftarrow> setNotRegistered_httproute L G b ''spec.configRef is required for httproute provider'';
                   State_Monad.return (noRequeue, e)
                 }
                 else do {
                   cm \<leftarrow> call (readConfigMap (gaBase G) (gbConfigRef (gbSpec b)) (gbNamespace b));
                   (case cm of
                      Inl err \<Rightarrow>
                        if \<not> isNotFound (glK L) err then State_Monad.return (noRequeue, Some err)
                        else do {
                          e \<leftarrow> setNotRegistered_httproute L G b (''ConfigMap '' @ goquote (gbConfigRef (gbSpec b)) @ '' not found'');
                          State_Monad.return (noRequeue, e)
                        }
                    | Inr configMap \<Rightarrow> do {
                        ref \<leftarrow> resolveGatewayRef L G allowed b (cmData configMap);
                        (case ref of
                           Inl e \<Rightarrow> State_Monad.return (noRequeue, e)
                         | Inr (gwName, gwNamespace) \<Rightarrow> reconcileRoute_httproute L G b ms (cmData configMap) gwName gwNamespace)
                      })
                 })
          })
   }"

section \<open>Watches\<close>

definition findBindingsForConfigMap_httproute :: "'w GatewayApi \<Rightarrow> ObjectMeta \<Rightarrow> ('w, (string \<times> string) list) M" where
  "findBindingsForConfigMap_httproute G obj = do {
     r \<leftarrow> call (listBindings G (Some (omNamespace obj)));
     State_Monad.return (requestsWhere ProviderName_httproute (\<lambda>b. gbConfigRef (gbSpec b) = omName obj) r)
   }"

definition findBindingsForGateway_httproute :: "'w GatewayApi \<Rightarrow> ObjectMeta \<Rightarrow> ('w, (string \<times> string) list) M" where
  "findBindingsForGateway_httproute G obj = do {
     r \<leftarrow> call (listBindings G None);
     State_Monad.return (requestsWhere ProviderName_httproute (\<lambda>b. annotationOf b AnnotationGatewayRef = RefKey (omNamespace obj) (omName obj)) r)
   }"

definition findBindingsForMCPServer_httproute :: "'w GatewayApi \<Rightarrow> ObjectMeta \<Rightarrow> ('w, (string \<times> string) list) M" where
  "findBindingsForMCPServer_httproute G obj = do {
     r \<leftarrow> call (listBindings G (Some (omNamespace obj)));
     State_Monad.return (requestsWhere ProviderName_httproute (\<lambda>b. gbMCPServerRef (gbSpec b) = omName obj) r)
   }"

section \<open>What a pass sends\<close>

text \<open>The Gateway of a route: named validly, and in an allowed namespace if there is an allowlist.\<close>

definition allowedGateway :: "GatewayLib \<Rightarrow> string list \<Rightarrow> string \<Rightarrow> string \<Rightarrow> bool" where
  "allowedGateway L allowed gwName gwNamespace \<longleftrightarrow> ValidGatewayName L gwName \<and> ValidGatewayNamespace L gwNamespace
     \<and> (allowed = [] \<or> gwNamespace \<in> set allowed)"

definition refOk_httproute :: "GatewayLib \<Rightarrow> string list \<Rightarrow> ParentReference \<Rightarrow> bool" where
  "refOk_httproute L allowed ref \<longleftrightarrow> prKind ref = Some ''Gateway'' \<and> prGroup ref = Some GroupName
     \<and> (\<exists>gwNamespace. prNamespace ref = Some gwNamespace \<and> allowedGateway L allowed (prName ref) gwNamespace)"

text \<open>The evidence for a registration at \<open>url\<close>: the API server answered a route that such a Gateway has accepted for its current generation.\<close>

definition evidence_httproute :: "GatewayLib \<Rightarrow> 'w GatewayApi \<Rightarrow> string list \<Rightarrow> string \<Rightarrow> string \<Rightarrow> string \<Rightarrow> bool" where
  "evidence_httproute L G allowed n ns url \<longleftrightarrow>
     (\<exists>route w w' gwName gwNamespace scheme host path. getHTTPRoute G n ns w = (Inr route, w') \<and> allowedGateway L allowed gwName gwNamespace
        \<and> IsHTTPRouteAccepted route gwName gwNamespace \<and> host \<noteq> []
        \<and> (scheme = SchemeHTTP \<or> scheme = SchemeHTTPS) \<and> url = statusURL scheme host path)"

lemma setNotRegistered_httproute_emits:
  assumes "provider_laws L G" "seen G n ns b"
  shows "emits (provider_guard L G n ns refOk regOk ev) (setNotRegistered_httproute L G b message)"
  unfolding setNotRegistered_httproute_def
  by (intro emits_bind[OF deleteStaleHTTPRoute_emits[OF assms]] emits_case emits_return UpdateBindingStatus_emits[OF assms]) simp

lemma resolveGatewayRef_emits:
  assumes "provider_laws L G" "seen G n ns b"
  shows "emits (provider_guard L G n ns refOk regOk ev) (resolveGatewayRef L G allowed b d)"
  unfolding resolveGatewayRef_def Let_def
  by (intro emits_if emits_bind[OF setNotRegistered_httproute_emits[OF assms]] emits_return)

lemma resolveGatewayRef_value:
  "yields (resolveGatewayRef L G allowed b d) (\<lambda>r. \<forall>gwName gwNamespace. r = Inr (gwName, gwNamespace) \<longrightarrow> allowedGateway L allowed gwName gwNamespace)"
  unfolding resolveGatewayRef_def Let_def
  by (intro yields_if yields_bind[OF yields_any] yields_return) (auto simp: allowedGateway_def)

lemma scheme_value:
  "emits P (SchemeFromAcceptedRoute L G route gwName gwNamespace)"
  "yields (SchemeFromAcceptedRoute L G route gwName gwNamespace) (\<lambda>r. \<forall>scheme. r = Inr scheme \<longrightarrow> scheme = SchemeHTTP \<or> scheme = SchemeHTTPS)"
  unfolding SchemeFromAcceptedRoute_def
  by (intro emits_case emits_return emits_bind[OF emits_call], intro yields_case yields_return yields_bind[OF yields_any])
     (auto simp: schemeOf_def ProtocolToScheme_def split: sum.splits option.splits if_splits)

lemma resolvePublicHost_emits: "emits P (resolvePublicHost L G d gwName gwNamespace)"
  unfolding resolvePublicHost_def GatewayAddress_def by (intro emits_if emits_return emits_bind[OF emits_call])

lemma statusURL_not_empty: "statusURL scheme host path \<noteq> []"
  by (simp add: statusURL_def)

lemma evidence_httprouteI:
  "getHTTPRoute G n ns w = (Inr route, w') \<Longrightarrow> allowedGateway L allowed gwName gwNamespace \<Longrightarrow> IsHTTPRouteAccepted route gwName gwNamespace \<Longrightarrow>
   host \<noteq> [] \<Longrightarrow> scheme = SchemeHTTP \<or> scheme = SchemeHTTPS \<Longrightarrow> evidence_httproute L G allowed n ns (statusURL scheme host path)"
  unfolding evidence_httproute_def by blast

lemma publishRoute_httproute_emits:
  assumes "provider_laws L G" "seen G n ns b" "allowedGateway L allowed gwName gwNamespace" "getHTTPRoute G n ns w = (Inr route, w')"
  shows "emits (provider_guard L G n ns refOk regOk (evidence_httproute L G allowed n ns)) (publishRoute_httproute L G b d gwName gwNamespace path route)"
proof -
  note waits = emits_bind[OF UpdateBindingStatus_emits[OF assms(1,2)] emits_return]
  show ?thesis
    unfolding publishRoute_httproute_def
    by (rule emits_if[OF waits], simp, rule emits_bind[OF resolvePublicHost_emits], rule emits_case(1)[OF emits_return],
        rule emits_if[OF waits], simp, rule emits_bind_value[OF scheme_value], rule emits_case(1)[OF emits_return], rule waits)
       (simp add: statusURL_not_empty evidence_httprouteI[OF assms(4,3)])
qed

lemma reconcileRoute_httproute_emits:
  assumes "provider_laws L G" "seen G n ns b0" "allowedGateway L allowed gwName gwNamespace"
  shows "emits (provider_guard L G n ns (refOk_httproute L allowed) (\<lambda>_. False) (evidence_httproute L G allowed n ns)) (reconcileRoute_httproute L G b0 ms d gwName gwNamespace)"
proof -
  have app: "emits (provider_guard L G n ns (refOk_httproute L allowed) (\<lambda>_. False) ev) (applyHTTPRoute L G b (desiredRoute_httproute b gwName gwNamespace path ep h))"
    if "seen G n ns b" for b path ep h ev
    using assms(3) seen_key[OF that]
    by (intro applyHTTPRoute_emits[OF assms(1) that]) (auto simp: desiredRoute_httproute_def refOk_httproute_def)
  have key: "hrName (desiredRoute_httproute b gwName gwNamespace path ep h) = n" "hrNamespace (desiredRoute_httproute b gwName gwNamespace path ep h) = ns"
    if "seen G n ns b" for b path ep h
    using seen_key[OF that] by (simp_all add: desiredRoute_httproute_def)
  show ?thesis
    unfolding reconcileRoute_httproute_def Let_def
    by (rule emits_bind_value[OF annotations_emits[OF assms(1,2)]], rule emits_case(1)[OF emits_return],
        rule emits_bind_value[OF resolveAndRecord_emits[OF assms(1)]], blast, blast,
        rule emits_case(1)[OF emits_return], rule emits_case(3), rule emits_case(2), rule emits_bind[OF app], blast,
        rule emits_case(2)[OF _ emits_return], rule emits_bind_value[OF emits_call yields_call], rule emits_case(1)[OF emits_return])
       (auto simp: key intro: publishRoute_httproute_emits[OF assms(1) _ assms(3)]
         intro!: emits_bind[OF setNotRegistered_httproute_emits[OF assms(1)] emits_return])
qed

lemma Reconcile_httproute_emits:
  assumes "provider_laws L G"
  shows "emits (provider_guard L G n ns (refOk_httproute L allowed) (\<lambda>_. False) (evidence_httproute L G allowed n ns)) (Reconcile_httproute L G allowed n ns)"
  unfolding Reconcile_httproute_def
proof (rule emits_bind_value[OF emits_call yields_call], rule emits_case(1)[OF emits_return], rule emits_if[OF emits_return],
    rule emits_bind[OF emits_call], rule emits_case(1)[OF emits_return])
  fix found b server ms
  assume "\<exists>w w'. getBinding (gaBase G) n ns w = (found, w')" "found = Inr b"
  then have seen: "seen G n ns b" using seenI(1)[OF assms] by blast
  note fails = emits_bind[OF setNotRegistered_httproute_emits[OF assms seen] emits_return]
  show "emits (provider_guard L G n ns (refOk_httproute L allowed) (\<lambda>_. False) (evidence_httproute L G allowed n ns))
      (if gbConfigRef (gbSpec b) = []
       then setNotRegistered_httproute L G b ''spec.configRef is required for httproute provider'' \<bind> (\<lambda>e. State_Monad.return (noRequeue, e))
       else call (readConfigMap (gaBase G) (gbConfigRef (gbSpec b)) (gbNamespace b)) \<bind> (\<lambda>cm. case cm of
           Inl err \<Rightarrow> if \<not> isNotFound (glK L) err then State_Monad.return (noRequeue, Some err)
             else setNotRegistered_httproute L G b (''ConfigMap '' @ goquote (gbConfigRef (gbSpec b)) @ '' not found'') \<bind> (\<lambda>e. State_Monad.return (noRequeue, e))
         | Inr configMap \<Rightarrow> resolveGatewayRef L G allowed b (cmData configMap) \<bind> (\<lambda>ref. case ref of
             Inl e \<Rightarrow> State_Monad.return (noRequeue, e)
           | Inr (gwName, gwNamespace) \<Rightarrow> reconcileRoute_httproute L G b ms (cmData configMap) gwName gwNamespace)))"
    by (rule emits_if[OF fails], rule emits_bind[OF emits_call], rule emits_case(1)[OF emits_if[OF emits_return fails]],
        rule emits_bind_value[OF resolveGatewayRef_emits[OF assms seen] resolveGatewayRef_value], rule emits_case(1)[OF emits_return], rule emits_case(3),
        rule reconcileRoute_httproute_emits[OF assms seen]) simp
qed

lemma Reconcile_httproute_ignores:
  assumes "getBinding (gaBase G) n ns (world s) = (r, w)" "\<And>b. r = Inr b \<Longrightarrow> gbProvider (gbSpec b) \<noteq> ProviderName_httproute"
  shows "trace (snd (run_state (Reconcile_httproute L G allowed n ns) s)) = trace s"
  using assms by (auto simp: Reconcile_httproute_def run_call split: sum.split)

interpretation httproute: gateway_provider ProviderName_httproute L G "Reconcile_httproute L G allowed" "refOk_httproute L allowed"
    "\<lambda>_ _ _. False" "evidence_httproute L G allowed"
  for L :: GatewayLib and G :: "'w GatewayApi" and allowed :: "string list"
  by unfold_locales (rule Reconcile_httproute_ignores, assumption+, erule Reconcile_httproute_emits)

section \<open>A concrete cluster\<close>

definition routed_server :: MCPServer where
  "routed_server = zero_server\<lparr>msMeta := zero_meta\<lparr>omName := ''s'', omNamespace := ''team''\<rparr>,
     msSpec := zero_spec\<lparr>spGateway := Some \<lparr>gwProvider = ''httproute'', gwConfigRef = ''gw-config''\<rparr>\<rparr>\<rparr>"

definition gateway_data :: "(string \<times> string) list" where
  "gateway_data = [(configKeyGatewayName, ''gw''), (configKeyGatewayNamespace, ''edge''), (configKeyPublicHostname, ''mcp.example.com'')]"

definition accepted_condition :: "string \<Rightarrow> Condition" where
  "accepted_condition ty = \<lparr>cType = ty, cStatus = ConditionTrue, cReason = ''Accepted'', cMessage = [], cObservedGeneration = 1, cLastTransitionTime = 0\<rparr>"

definition routed_route :: HTTPRoute where
  "routed_route = (desiredRoute_httproute (sample_gateway_binding ''httproute'') ''gw'' ''edge'' ''/mcp'' \<lparr>epName = ''s'', epPort = 0\<rparr> [])\<lparr>
     hrMeta := zero_meta\<lparr>omName := ''s-gateway-binding'', omNamespace := ''team'', omGeneration := 1, omOwnerReferences :=
       [\<lparr>orAPIVersion = ''mcp.x-k8s.io/v1alpha1'', orKind = ''MCPGatewayBinding'', orName = ''s-gateway-binding'', orUID = ''u-1'', orController = Some True\<rparr>]\<rparr>,
     hrParents := [\<lparr>rpsParentRef = \<lparr>prGroup = Some GroupName, prKind = Some ''Gateway'', prName = ''gw'', prNamespace = Some ''edge'', prSectionName = None\<rparr>,
       rpsConditions = [accepted_condition ''Accepted'', accepted_condition ''ResolvedRefs'']\<rparr>]\<rparr>"

definition edge_gateway :: GatewayObject where
  "edge_gateway = \<lparr>goMeta = zero_meta\<lparr>omName := ''gw'', omNamespace := ''edge''\<rparr>,
     goListeners = [\<lparr>lnName = ''https'', lnProtocol = ''HTTPS'', lnHostname = None\<rparr>], goAddresses = []\<rparr>"

abbreviation routed_api :: "HTTPRoute \<Rightarrow> nat GatewayApi" where
  "routed_api route \<equiv> sample_gateway_api (sample_gateway_binding ''httproute'') routed_server gateway_data route edge_gateway"

abbreviation routed_run :: "HTTPRoute \<Rightarrow> (Result \<times> go_error option) \<times> nat rstate" where
  "routed_run route \<equiv> run_state (Reconcile_httproute sample_gateway_lib (routed_api route) [''edge''] ''s-gateway-binding'' ''team'') start_state"

lemma routed_run_creates: "map hrName (created_routes (trace (snd (routed_run (routed_route\<lparr>hrMeta := zero_meta\<rparr>))))) = [''s-gateway-binding'']"
  by code_simp

lemma routed_run_registers: "map (gbURL \<circ> gbStatus) (reports_of (trace (snd (routed_run routed_route)))) = [''https://mcp.example.com/mcp'']"
  by code_simp

section \<open>Confinement\<close>

text \<open>
  C7: whatever the API server answers, a pass of the httproute provider for the binding \<open>ns/n\<close> creates, changes and removes only a route of that name which
  the binding controls, and no registration; the route has one parent, a Gateway with a valid name in an allowed namespace. Of the binding itself it changes only the
  annotations and the status, and it reports a URL exactly with a true \<open>Registered\<close> condition of the current generation, for which a
  route was read that such a Gateway has accepted for the current generation of the route.
\<close>

theorem httproute_pass_confined:
  assumes "provider_laws L G" "run_state (Reconcile_httproute L G allowed n ns) s = (r, s')" "trace s = []" "e \<in> set (trace s')"
  shows "provider_guard L G n ns (refOk_httproute L allowed) (\<lambda>_. False) (evidence_httproute L G allowed n ns) e"
  by (rule httproute.sends_within[OF assms])

theorem httproute_pass_confined_witness:
  "\<exists>b. EBindingStatus b \<in> set (trace (snd (routed_run routed_route)))
     \<and> evidence_httproute sample_gateway_lib (routed_api routed_route) [''edge''] ''s-gateway-binding'' ''team'' (gbURL (gbStatus b))"
proof -
  obtain r s' where run: "routed_run routed_route = (r, s')" by fastforce
  from routed_run_registers obtain b where b: "EBindingStatus b \<in> set (trace s')" "gbURL (gbStatus b) = ''https://mcp.example.com/mcp''"
    unfolding run by (auto simp: map_eq_Cons_conv simp flip: reports_of_iff)
  from httproute_pass_confined[OF sample_provider_laws run _ b(1)] have "reported sample_gateway_lib
      (evidence_httproute sample_gateway_lib (routed_api routed_route) [''edge''] ''s-gateway-binding'' ''team'') b" by simp
  with b run show ?thesis by (auto simp: reported_def split: if_splits)
qed

text \<open>The list that a start with a configuration gives has exactly the valid entries, and is not empty when any namespace is named.\<close>

lemma resolved_gateway_namespaces:
  assumes "ResolveAllowedGatewayNamespaces L env flagValue flagSet = (allowed, dropped, None)"
  shows "allowed = [] \<longleftrightarrow> ParseAllowedGatewayNamespaces env flagValue flagSet = []"
    and "allowed = filter (\<lambda>ns. isDNS1123Label L ns = []) (ParseAllowedGatewayNamespaces env flagValue flagSet)"
  using assms by (auto simp: ResolveAllowedGatewayNamespaces_def Let_def ValidGatewayNamespace_def[abs_def] split: if_splits)

section \<open>A settled cluster\<close>

text \<open>
  The cluster has settled for a binding: the reads succeed and leave the world as it is, the configuration is valid, the annotations are recorded, the
  route is the desired one under the binding's control and the Gateway has accepted it, and there is a public host.
\<close>

definition settled_httproute ::
    "GatewayLib \<Rightarrow> 'w GatewayApi \<Rightarrow> string list \<Rightarrow> MCPGatewayBinding \<Rightarrow> MCPServer \<Rightarrow> (string \<times> string) list \<Rightarrow> ServiceEndpoint \<Rightarrow> HTTPRoute \<Rightarrow> bool" where
  "settled_httproute L G allowed b ms d ep route \<longleftrightarrow>
     (let gwName = dataOf d configKeyGatewayName; gwNamespace = dataOf d configKeyGatewayNamespace; h = dataOf d configKeyRouteHostname;
          want = desiredRoute_httproute b gwName gwNamespace (serverPath ms) ep h
      in (\<forall>w. getBinding (gaBase G) (gbName b) (gbNamespace b) w = (Inr b, w)) \<and> gbProvider (gbSpec b) = ProviderName_httproute
        \<and> (\<forall>w. getMCPServer (gaBase G) (gbMCPServerRef (gbSpec b)) (gbNamespace b) w = (Inr ms, w)) \<and> gbConfigRef (gbSpec b) \<noteq> []
        \<and> (\<forall>w. \<exists>cm. readConfigMap (gaBase G) (gbConfigRef (gbSpec b)) (gbNamespace b) w = (Inr cm, w) \<and> cmData cm = d)
        \<and> gwName \<noteq> [] \<and> gwNamespace \<noteq> [] \<and> allowedGateway L allowed gwName gwNamespace
        \<and> annotationOf b AnnotationGatewayRef = RefKey gwNamespace gwName \<and> annotationOf b AnnotationServiceRef = RefKey (srvNamespace ms) (epName ep)
        \<and> (\<forall>s. run_state (ResolveServiceEndpoint (glK L) (gaBase G) ms) s = ((ep, None), s))
        \<and> (h = [] \<or> ValidateHostname L h = None)
        \<and> (\<exists>m m'. setBindingReference L b (hrMeta want) = Inr m \<and> setBindingReference L b (hrMeta route) = Inr m'
             \<and> ownersEqual L (omOwnerReferences (hrMeta route)) (omOwnerReferences m'))
        \<and> routeSpecEqual L (hrSpec route) (hrSpec want)
        \<and> (\<forall>w. getHTTPRoute G (gbName b) (gbNamespace b) w = (Inr route, w)) \<and> IsHTTPRouteAccepted route gwName gwNamespace)"

lemma settled_steps:
  assumes "provider_laws L G" "settled_httproute L G allowed b ms d ep route"
  defines "gwName \<equiv> dataOf d configKeyGatewayName" and "gwNamespace \<equiv> dataOf d configKeyGatewayNamespace" and "h \<equiv> dataOf d configKeyRouteHostname"
  shows "run_state (Reconcile_httproute L G allowed (gbName b) (gbNamespace b)) s =
    run_state (publishRoute_httproute L G b d gwName gwNamespace (serverPath ms) route) s"
proof -
  let ?want = "desiredRoute_httproute b gwName gwNamespace (serverPath ms) ep h"
  note S = assms(2)[unfolded settled_httproute_def Let_def, folded gwName_def gwNamespace_def h_def]
  obtain m m' where m: "setBindingReference L b (hrMeta ?want) = Inr m" "setBindingReference L b (hrMeta route) = Inr m'"
      "ownersEqual L (omOwnerReferences (hrMeta route)) (omOwnerReferences m')" using S by auto
  have key: "omName (hrMeta ?want) = gbName b" "omNamespace (hrMeta ?want) = gbNamespace b" by (simp_all add: desiredRoute_httproute_def)
  have "seen G (gbName b) (gbNamespace b) b" using S by (auto simp: seen_def)
  from referenced_owned[OF assms(1) this m(1) key] have mk: "omName m = gbName b" "omNamespace m = gbNamespace b" by (simp_all add: owned_def)
  have "run_state (EnsureBindingAnnotations G b [(AnnotationGatewayRef, RefKey gwNamespace gwName)]) t = (Inr b, t)" for t
    using S by (simp add: EnsureBindingAnnotations_def)
  moreover have "run_state (ResolveAndRecordBackendService L G b ms) t = (Inr (b, ep), t)" for t
    using S by (simp add: ResolveAndRecordBackendService_def EnsureBindingAnnotations_def)
  moreover have "run_state (applyHTTPRoute L G b ?want) t = (None, t)" for t
    using S m mk by (simp add: applyHTTPRoute_def run_call)
  moreover have "run_state (resolveGatewayRef L G allowed b d) t = (Inr (gwName, gwNamespace), t)" for t
    using S by (auto simp: resolveGatewayRef_def allowedGateway_def Let_def gwName_def gwNamespace_def)
  moreover have "(if h = [] then None else ValidateHostname L h) = None" using S by auto
  moreover obtain cm where "readConfigMap (gaBase G) (gbConfigRef (gbSpec b)) (gbNamespace b) (world s) = (Inr cm, world s)" "cmData cm = d"
    using S by blast
  ultimately show ?thesis using S key
    by (simp add: Reconcile_httproute_def reconcileRoute_httproute_def run_call Let_def flip: h_def)
qed

text \<open>
  C17: in a settled cluster a pass of the httproute provider writes neither route nor annotation. If the host and the scheme resolve, it reports the binding as registered at
  the URL made of them and the server's path, unless the status says so already: then it sends nothing at all, so
  that its own writes do not wake it again.
\<close>

theorem httproute_settles:
  assumes "provider_laws L G" "settled_httproute L G allowed b ms d ep route"
    and "\<And>s. run_state (resolvePublicHost L G d (dataOf d configKeyGatewayName) (dataOf d configKeyGatewayNamespace)) s = (Inr host, s)" "host \<noteq> []"
    and "\<And>s. run_state (SchemeFromAcceptedRoute L G route (dataOf d configKeyGatewayName) (dataOf d configKeyGatewayNamespace)) s = (Inr scheme, s)"
    and "run_state (Reconcile_httproute L G allowed (gbName b) (gbNamespace b)) s = (r, s')"
  shows "if statusCurrent L b ConditionTrue ReasonGatewayRegistered ''HTTPRoute accepted by gateway'' (statusURL scheme host (serverPath ms))
     then r = (noRequeue, None) \<and> s' = s
     else \<exists>b'. trace s' = trace s @ [EBindingStatus b'] \<and> gbMeta b' = gbMeta b \<and> bindingRegistered (glK L) b'
       \<and> gbURL (gbStatus b') = statusURL scheme host (serverPath ms)"
proof -
  let ?url = "statusURL scheme host (serverPath ms)"
  have "IsHTTPRouteAccepted route (dataOf d configKeyGatewayName) (dataOf d configKeyGatewayNamespace)"
    using assms(2) by (simp add: settled_httproute_def Let_def)
  with assms(3-6) obtain e where "r = (noRequeue, e)"
      "run_state (UpdateBindingStatus L G b ConditionTrue ReasonGatewayRegistered ''HTTPRoute accepted by gateway'' ?url) s = (e, s')"
    by (auto simp: settled_steps[OF assms(1,2)] publishRoute_httproute_def split: prod.splits)
  from UpdateBindingStatus_value[OF assms(1) this(2)] this(1) show ?thesis by (auto split: if_splits)
qed

theorem httproute_settles_witness:
  "\<exists>b'. trace (snd (routed_run routed_route)) = [EBindingStatus b'] \<and> gbURL (gbStatus b') = ''https://mcp.example.com/mcp''"
proof -
  let ?b = "sample_gateway_binding ''httproute''" and ?ep = "\<lparr>epName = ''s'', epPort = 0\<rparr>" and ?L = sample_gateway_lib
  obtain r s' where run: "routed_run routed_route = (r, s')" by fastforce
  have vals: "dataOf gateway_data configKeyGatewayName = ''gw''" "dataOf gateway_data configKeyGatewayNamespace = ''edge''"
      "dataOf gateway_data configKeyRouteHostname = []" "dataOf gateway_data configKeyPublicHostname = ''mcp.example.com''"
      "serverPath routed_server = ''/mcp''" "gbName ?b = ''s-gateway-binding''" "gbNamespace ?b = ''team''"
      "annotationOf ?b AnnotationGatewayRef = RefKey ''edge'' ''gw''" "annotationOf ?b AnnotationServiceRef = RefKey (srvNamespace routed_server) (epName ?ep)"
      "hrName routed_route = ''s-gateway-binding''" "hrNamespace routed_route = ''team''"
      "hrSpec routed_route = hrSpec (desiredRoute_httproute ?b ''gw'' ''edge'' ''/mcp'' ?ep [])"
      "IsHTTPRouteAccepted routed_route ''gw'' ''edge''" "gbSpec ?b = \<lparr>gbMCPServerRef = ''s'', gbProvider = ''httproute'', gbConfigRef = ''gw-config''\<rparr>"
      "srvName routed_server = ''s''" "srvNamespace routed_server = ''team''" "spServiceRef (msSpec routed_server) = None"
      "cfgPort (spConfig (msSpec routed_server)) = 0" "statusURL ''https'' ''mcp.example.com'' ''/mcp'' = ''https://mcp.example.com/mcp''"
      "allowedGateway ?L [''edge''] ''gw'' ''edge''" "gbConditions (gbStatus ?b) = []"
      "List.find (\<lambda>p. isParentAccepted p \<and> parentIs routed_route ''gw'' ''edge'' p) (hrParents routed_route) = Some (hd (hrParents routed_route))"
      "schemeOf (rpsParentRef (hd (hrParents routed_route))) edge_gateway = ''https''" "omName (goMeta edge_gateway) = ''gw''" "omNamespace (goMeta edge_gateway) = ''edge''"
    by code_simp+
  have lib: "ownersEqual ?L = (=)" "routeSpecEqual ?L = (=)" "\<exists>m. setBindingReference ?L ?b m0 = Inr m" for m0 by (simp_all add: sample_gateway_lib_def)
  have owner: "setBindingReference ?L ?b (hrMeta routed_route) = Inr (hrMeta routed_route)" by code_simp
  have settled: "settled_httproute ?L (routed_api routed_route) [''edge''] ?b routed_server gateway_data ?ep routed_route"
    unfolding settled_httproute_def Let_def vals
    by (simp add: vals lib owner sample_gateway_api_def holds_def ResolveServiceEndpoint_def serviceNameFor_def)
  have "run_state (resolvePublicHost ?L (routed_api routed_route) gateway_data (dataOf gateway_data configKeyGatewayName)
      (dataOf gateway_data configKeyGatewayNamespace)) t = (Inr ''mcp.example.com'', t)" for t
    by (simp add: resolvePublicHost_def vals)
  moreover have "run_state (SchemeFromAcceptedRoute ?L (routed_api routed_route) routed_route (dataOf gateway_data configKeyGatewayName)
      (dataOf gateway_data configKeyGatewayNamespace)) t = (Inr ''https'', t)" for t
    by (simp add: SchemeFromAcceptedRoute_def vals run_call sample_gateway_api_def holds_def)
  moreover have "\<not> statusCurrent ?L ?b ConditionTrue ReasonGatewayRegistered ''HTTPRoute accepted by gateway'' (statusURL ''https'' ''mcp.example.com'' (serverPath routed_server))"
    by (simp add: statusCurrent_def vals sample_gateway_lib_def sample_lib_def)
  ultimately show ?thesis
    using httproute_settles[OF sample_provider_laws settled, of "''mcp.example.com''" "''https''" start_state r s'] run by (auto simp: vals)
qed

end
