(* ===== verification/KuadrantProvider.thy ===== *)
theory KuadrantProvider
  imports HTTPRouteProvider
begin

text \<open>
  The Kuadrant provider (\<open>internal/controller/providers/kuadrant/controller.go\<close>): the tenant's ConfigMap names an \<open>MCPGatewayExtension\<close>, whose target is the
  Gateway. The provider publishes an \<open>HTTPRoute\<close> on one listener of that Gateway and an \<open>MCPServerRegistration\<close> with a prefix
  that no other registration has, and registers the binding when both are accepted. Functions that the httproute provider has too carry
  the suffix \<open>_kuadrant\<close>; the allowlist of extension namespaces is the argument \<open>allowed\<close>.
\<close>

section \<open>The allowlist\<close>

definition ParseAllowedExtensionNamespaces :: "string \<Rightarrow> string \<Rightarrow> bool \<Rightarrow> string list" where
  "ParseAllowedExtensionNamespaces env flagValue flagSet = commaList (if \<not> flagSet then env else flagValue)"

definition ValidExtensionNamespace :: "GatewayLib \<Rightarrow> string \<Rightarrow> bool" where
  "ValidExtensionNamespace L ns \<longleftrightarrow> isDNS1123Label L ns = []"

definition ValidExtensionName :: "GatewayLib \<Rightarrow> string \<Rightarrow> bool" where
  "ValidExtensionName L name \<longleftrightarrow> isDNS1123Subdomain L name = []"

definition PartitionExtensionNamespaces :: "GatewayLib \<Rightarrow> string list \<Rightarrow> string list \<times> string list" where
  "PartitionExtensionNamespaces L entries = (filter (ValidExtensionNamespace L) entries, filter (\<lambda>ns. \<not> ValidExtensionNamespace L ns) entries)"

definition ResolveAllowedExtensionNamespaces ::
    "GatewayLib \<Rightarrow> string \<Rightarrow> string \<Rightarrow> bool \<Rightarrow> string list \<times> string list \<times> go_error option" where
  "ResolveAllowedExtensionNamespaces L env flagValue flagSet =
     (let parsed = ParseAllowedExtensionNamespaces env flagValue flagSet;
          (allowed, dropped) = PartitionExtensionNamespaces L parsed
      in if parsed \<noteq> [] \<and> allowed = []
         then ([], dropped, Some (ErrorString (''kuadrant extension-namespace allowlist was configured ('' @ listText parsed @
           '') but contains no valid RFC 1123 namespace names'')))
         else (allowed, dropped, None))"

section \<open>Reports\<close>

abbreviation ProviderName_kuadrant :: string where "ProviderName_kuadrant \<equiv> ''kuadrant''"
abbreviation configKeyExtensionName :: string where "configKeyExtensionName \<equiv> ''extension-name''"
abbreviation configKeyExtensionNamespace :: string where "configKeyExtensionNamespace \<equiv> ''extension-namespace''"
abbreviation configKeyPrefix :: string where "configKeyPrefix \<equiv> ''prefix''"
abbreviation configKeySectionName :: string where "configKeySectionName \<equiv> ''section-name''"
abbreviation reasonExtensionNotReady :: string where "reasonExtensionNotReady \<equiv> ''ExtensionNotReady''"
abbreviation reasonRegistrationNotReady :: string where "reasonRegistrationNotReady \<equiv> ''RegistrationNotReady''"

text \<open>The second half of \<open>deleteStaleResources\<close>.\<close>

definition deleteStaleRegistration :: "GatewayLib \<Rightarrow> 'w GatewayApi \<Rightarrow> MCPGatewayBinding \<Rightarrow> ('w, go_error option) M" where
  "deleteStaleRegistration L G b = do {
     r \<leftarrow> call (getRegistration G (gbName b) (gbNamespace b));
     (case r of
        Inl err \<Rightarrow> State_Monad.return (if isNotFound (glK L) err then None else Some (Wrap ''checking for stale MCPServerRegistration: '' err))
      | Inr reg \<Rightarrow>
          if \<not> isControlledBy L (mrMeta reg) (gbMeta b) then State_Monad.return None
          else do {
            d \<leftarrow> request (EDeleteRegistration reg) (deleteRegistrationApi G reg);
            State_Monad.return (case d of
               Inl err \<Rightarrow> if isNotFound (glK L) err then None else Some (Wrap ''deleting stale MCPServerRegistration: '' err)
             | Inr _ \<Rightarrow> None)
          })
   }"

definition deleteStaleResources :: "GatewayLib \<Rightarrow> 'w GatewayApi \<Rightarrow> MCPGatewayBinding \<Rightarrow> ('w, go_error option) M" where
  "deleteStaleResources L G b = do {
     e \<leftarrow> deleteStaleHTTPRoute L G b;
     (case e of
        Some err \<Rightarrow> State_Monad.return (Some err)
      | None \<Rightarrow> deleteStaleRegistration L G b)
   }"

definition setNotRegistered_kuadrant :: "GatewayLib \<Rightarrow> 'w GatewayApi \<Rightarrow> MCPGatewayBinding \<Rightarrow> string \<Rightarrow> ('w, go_error option) M" where
  "setNotRegistered_kuadrant L G b message = do {
     e \<leftarrow> deleteStaleResources L G b;
     (case e of
        Some err \<Rightarrow> State_Monad.return (Some err)
      | None \<Rightarrow> UpdateBindingStatus L G b ConditionFalse ReasonGatewayNotRegistered message [])
   }"

section \<open>Configuration\<close>

record parsedConfig =
  pcExtensionName :: string
  pcExtensionNamespace :: string
  pcSectionName :: string
  pcRouteHostname :: string
  pcPrefix :: string
  pcPath :: string
  pcPrefixAutoGenerated :: bool

record publicEndpoint =
  peHost :: string
  peScheme :: string

text \<open>
  \<open>parseConfig\<close> after the ConfigMap is read; \<open>Inl\<close> is the missing configuration with the error to return, and the binding
  comes back with the annotations as the API server has them.
\<close>

definition configFromData ::
    "GatewayLib \<Rightarrow> 'w GatewayApi \<Rightarrow> string list \<Rightarrow> MCPGatewayBinding \<Rightarrow> MCPServer \<Rightarrow> (string \<times> string) list \<Rightarrow>
     ('w, go_error option + MCPGatewayBinding \<times> parsedConfig) M" where
  "configFromData L G allowed b ms d =
     (let extName = dataOf d configKeyExtensionName; extNamespace = dataOf d configKeyExtensionNamespace;
          reject = (\<lambda>message. setNotRegistered_kuadrant L G b message \<bind> (\<lambda>e. State_Monad.return (Inl e)))
      in if extName = [] then reject (missingKey b configKeyExtensionName)
         else if extNamespace = [] then reject (missingKey b configKeyExtensionNamespace)
         else if \<not> ValidExtensionName L extName
         then reject (goquote configKeyExtensionName @ '' value '' @ goquote extName @ '' is not a valid RFC 1123 name'')
         else if \<not> ValidExtensionNamespace L extNamespace
         then reject (goquote configKeyExtensionNamespace @ '' value '' @ goquote extNamespace @ '' is not a valid RFC 1123 namespace name'')
         else if allowed \<noteq> [] \<and> extNamespace \<notin> set allowed
         then reject (goquote configKeyExtensionNamespace @ '' '' @ goquote extNamespace @
           '' is not in the operator's trusted extension-namespace allowlist'')
         else do {
           let auto = (dataOf d configKeyPrefix = []);
           let pfx = (if auto then ''mcp_'' @ take 8 (sha256hex (glK L) (srvName ms @ ''/'' @ srvNamespace ms)) @ ''_'' else dataOf d configKeyPrefix);
           r \<leftarrow> EnsureBindingAnnotations G b [(AnnotationExtensionRef, RefKey extNamespace extName)];
           State_Monad.return (case r of
              Inl err \<Rightarrow> Inl (Some err)
            | Inr b' \<Rightarrow> Inr (b', \<lparr>pcExtensionName = extName, pcExtensionNamespace = extNamespace, pcSectionName = dataOf d configKeySectionName,
                pcRouteHostname = dataOf d configKeyRouteHostname, pcPrefix = pfx, pcPath = serverPath ms, pcPrefixAutoGenerated = auto\<rparr>))
         })"

definition parseConfig ::
    "GatewayLib \<Rightarrow> 'w GatewayApi \<Rightarrow> string list \<Rightarrow> MCPGatewayBinding \<Rightarrow> MCPServer \<Rightarrow> ('w, go_error option + MCPGatewayBinding \<times> parsedConfig) M" where
  "parseConfig L G allowed b ms =
     (if gbConfigRef (gbSpec b) = []
      then setNotRegistered_kuadrant L G b ''spec.configRef is required for kuadrant provider'' \<bind> (\<lambda>e. State_Monad.return (Inl e))
      else do {
        r \<leftarrow> call (readConfigMap (gaBase G) (gbConfigRef (gbSpec b)) (gbNamespace b));
        (case r of
           Inl err \<Rightarrow>
             if \<not> isNotFound (glK L) err then State_Monad.return (Inl (Some err))
             else setNotRegistered_kuadrant L G b (''ConfigMap '' @ goquote (gbConfigRef (gbSpec b)) @ '' not found'') \<bind> (\<lambda>e. State_Monad.return (Inl e))
         | Inr cm \<Rightarrow> configFromData L G allowed b ms (cmData cm))
      })"

definition isExtensionReady :: "GatewayLib \<Rightarrow> MCPGatewayExtension \<Rightarrow> bool" where
  "isExtensionReady L ext = (case findStatusCondition (glK L) (gestConditions (geStatus ext)) ''Ready'' of
     None \<Rightarrow> False | Some c \<Rightarrow> cStatus c = ConditionTrue)"

definition isRegistrationReady :: "GatewayLib \<Rightarrow> MCPServerRegistration \<Rightarrow> bool" where
  "isRegistrationReady L reg = (case findStatusCondition (glK L) (mrstConditions (mrStatus reg)) ''Ready'' of
     None \<Rightarrow> False | Some c \<Rightarrow> cStatus c = ConditionTrue)"

section \<open>Listeners and hostnames\<close>

definition wildcard :: "string option \<Rightarrow> bool" where
  "wildcard h = (case h of None \<Rightarrow> False | Some n \<Rightarrow> hasPrefix n ''*.'')"

definition gatewayNotFound :: "string \<Rightarrow> string \<Rightarrow> go_error" where
  "gatewayNotFound gwName gwNamespace = ErrorString (''gateway '' @ gwNamespace @ ''/'' @ gwName @ '' not found'')"

definition discoverWildcardListener :: "GatewayLib \<Rightarrow> 'w GatewayApi \<Rightarrow> string \<Rightarrow> string \<Rightarrow> ('w, go_error + string) M" where
  "discoverWildcardListener L G gwName gwNamespace = do {
     r \<leftarrow> call (getGateway G gwName gwNamespace);
     State_Monad.return (case r of
        Inl err \<Rightarrow> Inl (if isNotFound (glK L) err then gatewayNotFound gwName gwNamespace else err)
      | Inr gw \<Rightarrow> (case map lnName (filter (\<lambda>l. wildcard (lnHostname l)) (goListeners gw)) of
          [l] \<Rightarrow> Inr l
        | [] \<Rightarrow> Inl (ErrorString (''gateway '' @ gwNamespace @ ''/'' @ gwName @ '' has no wildcard listeners; set '' @ goquote configKeySectionName @
            '' in the ConfigMap to select a listener (also set '' @ goquote configKeyRouteHostname @ '' when that listener has no hostname of its own)''))
        | ls \<Rightarrow> Inl (ErrorString (''gateway '' @ gwNamespace @ ''/'' @ gwName @ '' has multiple wildcard listeners ('' @ joinWith '', '' ls @
            ''); set '' @ goquote configKeySectionName @ '' in the ConfigMap to select one''))))
   }"

definition guardDirectHostnameListener :: "Listener \<Rightarrow> string \<Rightarrow> go_error option" where
  "guardDirectHostnameListener listener sectionName =
     (case lnHostname listener of
        None \<Rightarrow> None
      | Some h \<Rightarrow>
          if hasPrefix h ''*.'' then None
          else if lnProtocol listener = ''HTTPS'' \<or> lnProtocol listener = ''TLS''
          then Some (ErrorString (''gateway listener '' @ goquote sectionName @ '' uses HTTPS/TLS with a direct hostname '' @ goquote h @
            ''; HTTPS listeners require a wildcard hostname for per-server routing''))
          else None)"

definition listenerNamed :: "string \<Rightarrow> GatewayObject \<Rightarrow> Listener option" where
  "listenerNamed sectionName gw = List.find (\<lambda>l. lnName l = sectionName) (goListeners gw)"

definition findGatewayListener :: "GatewayLib \<Rightarrow> 'w GatewayApi \<Rightarrow> string \<Rightarrow> string \<Rightarrow> string \<Rightarrow> ('w, go_error + Listener) M" where
  "findGatewayListener L G gwName gwNamespace sectionName = do {
     r \<leftarrow> call (getGateway G gwName gwNamespace);
     State_Monad.return (case r of
        Inl err \<Rightarrow> Inl (if isNotFound (glK L) err then gatewayNotFound gwName gwNamespace else err)
      | Inr gw \<Rightarrow> (case listenerNamed sectionName gw of
          Some l \<Rightarrow> Inr l
        | None \<Rightarrow> Inl (ErrorString (''gateway '' @ gwNamespace @ ''/'' @ gwName @ '' has no listener named '' @ goquote sectionName))))
   }"

definition checkListenerHostnameGuard :: "GatewayLib \<Rightarrow> 'w GatewayApi \<Rightarrow> string \<Rightarrow> string \<Rightarrow> string \<Rightarrow> ('w, go_error option) M" where
  "checkListenerHostnameGuard L G gwName gwNamespace sectionName = do {
     r \<leftarrow> call (getGateway G gwName gwNamespace);
     State_Monad.return (case r of
        Inl err \<Rightarrow> if isNotFound (glK L) err then None else Some err
      | Inr gw \<Rightarrow> (case listenerNamed sectionName gw of
          Some l \<Rightarrow> guardDirectHostnameListener l sectionName
        | None \<Rightarrow> None))
   }"

text \<open>The hostname and a warning. With a wildcard the star is replaced by the server's name and namespace.\<close>

definition resolveHostname ::
    "GatewayLib \<Rightarrow> 'w GatewayApi \<Rightarrow> string \<Rightarrow> string \<Rightarrow> string \<Rightarrow> string \<Rightarrow> string \<Rightarrow> ('w, go_error + string \<times> string) M" where
  "resolveHostname L G mcpServerName mcpServerNamespace gwName gwNamespace sectionName = do {
     r \<leftarrow> findGatewayListener L G gwName gwNamespace sectionName;
     State_Monad.return (case r of
        Inl err \<Rightarrow> Inl err
      | Inr listener \<Rightarrow> (case lnHostname listener of
          None \<Rightarrow> Inl (ErrorString (''gateway listener '' @ goquote sectionName @ '' has no hostname; set '' @ goquote configKeyRouteHostname @ '' in the ConfigMap''))
        | Some h \<Rightarrow>
            if hasPrefix h ''*.'' then Inr (mcpServerName @ ''.'' @ mcpServerNamespace @ drop 1 h, [])
            else (case guardDirectHostnameListener listener sectionName of
                    Some err \<Rightarrow> Inl err
                  | None \<Rightarrow> Inr (h, ''listener '' @ goquote sectionName @ '' uses a direct hostname; only one MCPServer can route through this listener''))))
   }"

definition resolveRouteHostname ::
    "GatewayLib \<Rightarrow> 'w GatewayApi \<Rightarrow> MCPGatewayBinding \<Rightarrow> MCPServer \<Rightarrow> parsedConfig \<Rightarrow> string \<Rightarrow> string \<Rightarrow> string \<Rightarrow> ('w, go_error + string \<times> string) M" where
  "resolveRouteHostname L G b ms cfg gwName gwNamespace sectionName =
     (if pcRouteHostname cfg = [] then resolveHostname L G (srvName ms) (srvNamespace ms) gwName gwNamespace sectionName
      else (case ValidateHostname L (pcRouteHostname cfg) of
              Some err \<Rightarrow> State_Monad.return (Inl (ErrorString (''invalid '' @ goquote configKeyRouteHostname @ '' in ConfigMap '' @
                goquote (gbConfigRef (gbSpec b)) @ '': '' @ errText err)))
            | None \<Rightarrow> do {
                e \<leftarrow> checkListenerHostnameGuard L G gwName gwNamespace sectionName;
                State_Monad.return (case e of Some err \<Rightarrow> Inl err | None \<Rightarrow> Inr (pcRouteHostname cfg, []))
              }))"

section \<open>The public endpoint\<close>

definition schemeFromListener :: "GatewayLib \<Rightarrow> 'w GatewayApi \<Rightarrow> string \<Rightarrow> string \<Rightarrow> string \<Rightarrow> ('w, go_error + string) M" where
  "schemeFromListener L G gwName gwNamespace sectionName = do {
     r \<leftarrow> call (getGateway G gwName gwNamespace);
     State_Monad.return (case r of
        Inl err \<Rightarrow> if isNotFound (glK L) err then Inr SchemeHTTP else Inl (gatewayError gwName gwNamespace err)
      | Inr gw \<Rightarrow> (case listenerNamed sectionName gw of
          Some l \<Rightarrow> Inr (ProtocolToScheme (lnProtocol l))
        | None \<Rightarrow> Inr SchemeHTTP))
   }"

definition listenerHostname :: "'w GatewayApi \<Rightarrow> string \<Rightarrow> string \<Rightarrow> string \<Rightarrow> ('w, string) M" where
  "listenerHostname G gwName gwNamespace sectionName =
     (if sectionName = [] then State_Monad.return []
      else do {
        r \<leftarrow> call (getGateway G gwName gwNamespace);
        State_Monad.return (case r of
           Inl _ \<Rightarrow> []
         | Inr gw \<Rightarrow> (case List.find (\<lambda>l. lnName l = sectionName \<and> lnHostname l \<noteq> None \<and> \<not> wildcard (lnHostname l)) (goListeners gw) of
             None \<Rightarrow> []
           | Some l \<Rightarrow> the (lnHostname l)))
      })"

definition extensionGateway :: "MCPGatewayExtension \<Rightarrow> string \<times> string" where
  "extensionGateway ext = (let ref = gesTargetRef (geSpec ext)
     in (tgtName ref, if tgtNamespace ref = [] then omNamespace (geMeta ext) else tgtNamespace ref))"

definition resolvePublicEndpoint :: "GatewayLib \<Rightarrow> 'w GatewayApi \<Rightarrow> MCPGatewayExtension \<Rightarrow> ('w, go_error + publicEndpoint option) M" where
  "resolvePublicEndpoint L G ext = do {
     let (gwName, gwNamespace) = extensionGateway ext;
     let section = tgtSectionName (gesTargetRef (geSpec ext));
     s \<leftarrow> schemeFromListener L G gwName gwNamespace section;
     (case s of
        Inl err \<Rightarrow> State_Monad.return (Inl err)
      | Inr scheme \<Rightarrow>
          if gesPublicHost (geSpec ext) \<noteq> []
          then State_Monad.return (Inr (Some \<lparr>peHost = gesPublicHost (geSpec ext), peScheme = scheme\<rparr>))
          else do {
            host \<leftarrow> listenerHostname G gwName gwNamespace section;
            State_Monad.return (Inr (if host \<noteq> [] then Some \<lparr>peHost = host, peScheme = scheme\<rparr> else None))
          })
   }"

section \<open>Route and registration\<close>

definition desiredRoute_kuadrant :: "MCPGatewayBinding \<Rightarrow> string \<Rightarrow> string \<Rightarrow> string \<Rightarrow> string \<Rightarrow> string \<Rightarrow> ServiceEndpoint \<Rightarrow> HTTPRoute" where
  "desiredRoute_kuadrant b gwName gwNamespace hostname sectionName path endpoint =
     \<lparr>hrMeta = zero_meta\<lparr>omName := gbName b, omNamespace := gbNamespace b\<rparr>,
      hrSpec = \<lparr>hrsParentRefs = [\<lparr>prGroup = Some GroupName, prKind = Some ''Gateway'', prName = gwName, prNamespace = Some gwNamespace,
          prSectionName = Some sectionName\<rparr>],
        hrsHostnames = [hostname], hrsRules = [routeRule path endpoint], hrsOther = []\<rparr>,
      hrParents = []\<rparr>"

text \<open>The binding comes back as the API server has it after the annotation for the Service.\<close>

definition reconcileHTTPRoute_kuadrant ::
    "GatewayLib \<Rightarrow> 'w GatewayApi \<Rightarrow> MCPGatewayBinding \<Rightarrow> MCPServer \<Rightarrow> string \<Rightarrow> string \<Rightarrow> string \<Rightarrow> string \<Rightarrow> string \<Rightarrow>
     ('w, go_error + MCPGatewayBinding) M" where
  "reconcileHTTPRoute_kuadrant L G b0 ms gwName gwNamespace hostname sectionName path = do {
     ep \<leftarrow> ResolveAndRecordBackendService L G b0 ms;
     (case ep of
        Inl err \<Rightarrow> State_Monad.return (Inl err)
      | Inr (b, endpoint) \<Rightarrow> do {
          a \<leftarrow> applyHTTPRoute L G b (desiredRoute_kuadrant b gwName gwNamespace hostname sectionName path endpoint);
          State_Monad.return (case a of Some err \<Rightarrow> Inl err | None \<Rightarrow> Inr b)
        })
   }"

definition desiredRegistration :: "MCPGatewayBinding \<Rightarrow> string \<Rightarrow> string \<Rightarrow> MCPServerRegistration" where
  "desiredRegistration b path pfx =
     \<lparr>mrMeta = zero_meta\<lparr>omName := gbName b, omNamespace := gbNamespace b\<rparr>,
      mrSpec = \<lparr>mrsTargetRef = \<lparr>tgtGroup = GroupName, tgtKind = ''HTTPRoute'', tgtName = gbName b, tgtNamespace = [], tgtSectionName = []\<rparr>,
        mrsPrefix = pfx, mrsPath = path, mrsState = ''Enabled''\<rparr>,
      mrStatus = \<lparr>mrstConditions = []\<rparr>\<rparr>"

definition reconcileMCPServerRegistration ::
    "GatewayLib \<Rightarrow> 'w GatewayApi \<Rightarrow> MCPGatewayBinding \<Rightarrow> string \<Rightarrow> string \<Rightarrow> ('w, go_error option) M" where
  "reconcileMCPServerRegistration L G b path pfx =
     (let reg = desiredRegistration b path pfx
      in case setBindingReference L b (mrMeta reg) of
           Inl e \<Rightarrow> State_Monad.return (Some (Wrap ''setting controller reference on MCPServerRegistration: '' e))
         | Inr meta \<Rightarrow> do {
             r \<leftarrow> call (getRegistration G (omName meta) (omNamespace meta));
             (case r of
                Inl err \<Rightarrow>
                  if isNotFound (glK L) err
                  then do {
                    let new = reg\<lparr>mrMeta := meta\<rparr>;
                    c \<leftarrow> request (ECreateRegistration new) (createRegistrationApi G new);
                    State_Monad.return (answered c)
                  }
                  else State_Monad.return (Some err)
              | Inr existing \<Rightarrow>
                  (case setBindingReference L b (mrMeta existing) of
                     Inl e \<Rightarrow> State_Monad.return (Some (Wrap ''setting controller reference on existing MCPServerRegistration: '' e))
                   | Inr meta' \<Rightarrow>
                       if \<not> ownersEqual L (omOwnerReferences (mrMeta existing)) (omOwnerReferences meta')
                          \<or> \<not> registrationSpecEqual L (mrSpec existing) (mrSpec reg)
                       then do {
                         let new = existing\<lparr>mrMeta := meta', mrSpec := mrSpec reg\<rparr>;
                         u \<leftarrow> request (EUpdateRegistration new) (updateRegistrationApi G new);
                         State_Monad.return (answered u)
                       }
                       else State_Monad.return None))
           })"

definition conflicting :: "MCPGatewayBinding \<Rightarrow> parsedConfig \<Rightarrow> MCPServerRegistration \<Rightarrow> bool" where
  "conflicting b cfg reg \<longleftrightarrow> (omName (mrMeta reg) \<noteq> gbName b \<or> omNamespace (mrMeta reg) \<noteq> gbNamespace b) \<and> mrsPrefix (mrSpec reg) = pcPrefix cfg"

definition checkPrefixConflict :: "'w GatewayApi \<Rightarrow> MCPGatewayBinding \<Rightarrow> parsedConfig \<Rightarrow> ('w, go_error + string) M" where
  "checkPrefixConflict G b cfg = do {
     r \<leftarrow> call (listRegistrations G);
     State_Monad.return (case r of
        Inl err \<Rightarrow> Inl err
      | Inr regs \<Rightarrow> (case List.find (conflicting b cfg) regs of
          None \<Rightarrow> Inr []
        | Some reg \<Rightarrow>
            (let user = omNamespace (mrMeta reg) @ ''/'' @ omName (mrMeta reg)
             in Inr (if pcPrefixAutoGenerated cfg
                  then ''auto-generated prefix '' @ goquote (pcPrefix cfg) @ '' is already in use by MCPServerRegistration '' @ user @ ''; set a custom '' @
                    goquote configKeyPrefix @ '' in ConfigMap '' @ goquote (gbConfigRef (gbSpec b)) @ '' to resolve this''
                  else ''prefix '' @ goquote (pcPrefix cfg) @ '' is already in use by MCPServerRegistration '' @ user))))
   }"

section \<open>The reconciler\<close>

text \<open>The end of \<open>Reconcile\<close>: the registration is ready, and there is a public endpoint.\<close>

definition publishRegistration ::
    "GatewayLib \<Rightarrow> 'w GatewayApi \<Rightarrow> MCPGatewayBinding \<Rightarrow> MCPGatewayExtension \<Rightarrow> string \<Rightarrow> string \<Rightarrow> MCPServerRegistration \<Rightarrow>
     ('w, Result \<times> go_error option) M" where
  "publishRegistration L G b ext path hostnameWarning reg =
     (if \<not> isRegistrationReady L reg
      then do {
        let msg = (case findStatusCondition (glK L) (mrstConditions (mrStatus reg)) ''Ready'' of
          None \<Rightarrow> ''Waiting for MCPServerRegistration to become ready'' | Some c \<Rightarrow> cMessage c);
        e \<leftarrow> UpdateBindingStatus L G b ConditionFalse reasonRegistrationNotReady msg [];
        State_Monad.return (\<lparr>requeueAfter = 10 * second\<rparr>, e)
      }
      else do {
        r \<leftarrow> resolvePublicEndpoint L G ext;
        (case r of
           Inl err \<Rightarrow> do {
             e \<leftarrow> UpdateBindingStatus L G b ConditionFalse ReasonGatewayNotRegistered (errText err) [];
             State_Monad.return (noRequeue, e)
           }
         | Inr None \<Rightarrow> do {
             e \<leftarrow> UpdateBindingStatus L G b ConditionFalse ReasonPublicAddressPending
               ''Waiting for public address: MCPGatewayExtension has no publicHost and no public listener hostname available'' [];
             State_Monad.return (\<lparr>requeueAfter = 10 * second\<rparr>, e)
           }
         | Inr (Some ep) \<Rightarrow> do {
             let base = ''HTTPRoute accepted and MCPServerRegistration ready'';
             let statusMsg = (if hostnameWarning \<noteq> [] then base @ ''; '' @ hostnameWarning else base);
             e \<leftarrow> UpdateBindingStatus L G b ConditionTrue ReasonGatewayRegistered statusMsg (statusURL (peScheme ep) (peHost ep) path);
             State_Monad.return (noRequeue, e)
           })
      })"

text \<open>The part of \<open>Reconcile\<close> after the route is written: the prefix, the registration, and whether the route is accepted.\<close>

definition registerRoute ::
    "GatewayLib \<Rightarrow> 'w GatewayApi \<Rightarrow> MCPGatewayBinding \<Rightarrow> parsedConfig \<Rightarrow> MCPGatewayExtension \<Rightarrow> string \<Rightarrow> ('w, Result \<times> go_error option) M" where
  "registerRoute L G b cfg ext hostnameWarning = do {
     let (gwName, gwNamespace) = extensionGateway ext;
     p \<leftarrow> checkPrefixConflict G b cfg;
     (case p of
        Inl err \<Rightarrow> State_Monad.return (noRequeue, Some err)
      | Inr msg \<Rightarrow>
          if msg \<noteq> []
          then do {
            e \<leftarrow> setNotRegistered_kuadrant L G b msg;
            State_Monad.return (\<lparr>requeueAfter = 30 * second\<rparr>, e)
          }
          else do {
            e \<leftarrow> reconcileMCPServerRegistration L G b (pcPath cfg) (pcPrefix cfg);
            (case e of
               Some err \<Rightarrow> State_Monad.return (noRequeue, Some err)
             | None \<Rightarrow> do {
                 r \<leftarrow> call (getHTTPRoute G (gbName b) (gbNamespace b));
                 (case r of
                    Inl err \<Rightarrow> State_Monad.return (noRequeue, Some err)
                  | Inr route \<Rightarrow>
                      if \<not> IsHTTPRouteAccepted route gwName gwNamespace
                      then do {
                        e \<leftarrow> UpdateBindingStatus L G b ConditionFalse reasonRouteNotAccepted ''Waiting for gateway to accept HTTPRoute'' [];
                        State_Monad.return (\<lparr>requeueAfter = 10 * second\<rparr>, e)
                      }
                      else do {
                        m \<leftarrow> call (getRegistration G (gbName b) (gbNamespace b));
                        (case m of
                           Inl err \<Rightarrow> State_Monad.return (noRequeue, Some err)
                         | Inr reg \<Rightarrow> publishRegistration L G b ext (pcPath cfg) hostnameWarning reg)
                      })
               })
          })
   }"

text \<open>The part of \<open>Reconcile\<close> for an extension that is ready: the listener and the hostname, then the route.\<close>

definition reconcileReady ::
    "GatewayLib \<Rightarrow> 'w GatewayApi \<Rightarrow> MCPGatewayBinding \<Rightarrow> MCPServer \<Rightarrow> parsedConfig \<Rightarrow> MCPGatewayExtension \<Rightarrow> ('w, Result \<times> go_error option) M" where
  "reconcileReady L G b ms cfg ext = do {
     let (gwName, gwNamespace) = extensionGateway ext;
     section \<leftarrow> (if pcSectionName cfg = [] then discoverWildcardListener L G gwName gwNamespace else State_Monad.return (Inr (pcSectionName cfg)));
     (case section of
        Inl err \<Rightarrow> do {
          e \<leftarrow> setNotRegistered_kuadrant L G b (errText err);
          State_Monad.return (noRequeue, e)
        }
      | Inr sectionName \<Rightarrow> do {
          h \<leftarrow> resolveRouteHostname L G b ms cfg gwName gwNamespace sectionName;
          (case h of
             Inl err \<Rightarrow> do {
               e \<leftarrow> setNotRegistered_kuadrant L G b (errText err);
               State_Monad.return (noRequeue, e)
             }
           | Inr (routeHostname, hostnameWarning) \<Rightarrow> do {
               r \<leftarrow> reconcileHTTPRoute_kuadrant L G b ms gwName gwNamespace routeHostname sectionName (pcPath cfg);
               (case r of
                  Inl err \<Rightarrow> State_Monad.return (noRequeue, Some err)
                | Inr b' \<Rightarrow> registerRoute L G b' cfg ext hostnameWarning)
             })
        })
   }"

definition reconcileExtension ::
    "GatewayLib \<Rightarrow> 'w GatewayApi \<Rightarrow> MCPGatewayBinding \<Rightarrow> MCPServer \<Rightarrow> parsedConfig \<Rightarrow> ('w, Result \<times> go_error option) M" where
  "reconcileExtension L G b ms cfg = do {
     x \<leftarrow> call (getExtension G (pcExtensionName cfg) (pcExtensionNamespace cfg));
     (case x of
        Inl err \<Rightarrow>
          if isNotFound (glK L) err
          then do {
            e \<leftarrow> setNotRegistered_kuadrant L G b (''MCPGatewayExtension '' @ goquote (pcExtensionName cfg) @ '' not found in namespace '' @
              goquote (pcExtensionNamespace cfg));
            State_Monad.return (noRequeue, e)
          }
          else State_Monad.return (noRequeue, Some err)
      | Inr ext \<Rightarrow> do {
          let (gwName, gwNamespace) = extensionGateway ext;
          a \<leftarrow> EnsureBindingAnnotations G b [(AnnotationGatewayRef, RefKey gwNamespace gwName)];
          (case a of
             Inl err \<Rightarrow> State_Monad.return (noRequeue, Some err)
           | Inr b' \<Rightarrow>
               if \<not> isExtensionReady L ext
               then do {
                 let msg = (case findStatusCondition (glK L) (gestConditions (geStatus ext)) ''Ready'' of
                   Some c \<Rightarrow> if cMessage c \<noteq> [] then cMessage c else ''MCPGatewayExtension '' @ goquote (pcExtensionName cfg) @ '' is not ready''
                 | None \<Rightarrow> ''MCPGatewayExtension '' @ goquote (pcExtensionName cfg) @ '' is not ready'');
                 e \<leftarrow> UpdateBindingStatus L G b' ConditionFalse reasonExtensionNotReady msg [];
                 State_Monad.return (\<lparr>requeueAfter = 10 * second\<rparr>, e)
               }
               else reconcileReady L G b' ms cfg ext)
        })
   }"

definition Reconcile_kuadrant ::
    "GatewayLib \<Rightarrow> 'w GatewayApi \<Rightarrow> string list \<Rightarrow> string \<Rightarrow> string \<Rightarrow> ('w, Result \<times> go_error option) M" where
  "Reconcile_kuadrant L G allowed name namespace = do {
     found \<leftarrow> call (getBinding (gaBase G) name namespace);
     (case found of
        Inl err \<Rightarrow> State_Monad.return (noRequeue, if isNotFound (glK L) err then None else Some err)
      | Inr b \<Rightarrow>
          if gbProvider (gbSpec b) \<noteq> ProviderName_kuadrant then State_Monad.return (noRequeue, None)
          else do {
            server \<leftarrow> call (getMCPServer (gaBase G) (gbMCPServerRef (gbSpec b)) (gbNamespace b));
            (case server of
               Inl err \<Rightarrow> State_Monad.return (noRequeue, if isNotFound (glK L) err then None else Some err)
             | Inr ms \<Rightarrow> do {
                 cfg \<leftarrow> parseConfig L G allowed b ms;
                 (case cfg of
                    Inl e \<Rightarrow> State_Monad.return (noRequeue, e)
                  | Inr (b', c) \<Rightarrow> reconcileExtension L G b' ms c)
               })
          })
   }"

section \<open>Watches\<close>

definition findBindingsForConfigMap_kuadrant :: "'w GatewayApi \<Rightarrow> ObjectMeta \<Rightarrow> ('w, (string \<times> string) list) M" where
  "findBindingsForConfigMap_kuadrant G obj = do {
     r \<leftarrow> call (listBindings G (Some (omNamespace obj)));
     State_Monad.return (requestsWhere ProviderName_kuadrant (\<lambda>b. gbConfigRef (gbSpec b) = omName obj) r)
   }"

definition findBindingsForGateway_kuadrant :: "'w GatewayApi \<Rightarrow> ObjectMeta \<Rightarrow> ('w, (string \<times> string) list) M" where
  "findBindingsForGateway_kuadrant G obj = do {
     r \<leftarrow> call (listBindings G None);
     State_Monad.return (requestsWhere ProviderName_kuadrant (\<lambda>b. annotationOf b AnnotationGatewayRef = RefKey (omNamespace obj) (omName obj)) r)
   }"

definition findBindingsForGatewayExtension :: "'w GatewayApi \<Rightarrow> ObjectMeta \<Rightarrow> ('w, (string \<times> string) list) M" where
  "findBindingsForGatewayExtension G obj = do {
     r \<leftarrow> call (listBindings G None);
     State_Monad.return (requestsWhere ProviderName_kuadrant (\<lambda>b. annotationOf b AnnotationExtensionRef = RefKey (omNamespace obj) (omName obj)) r)
   }"

definition findBindingsForMCPServer_kuadrant :: "'w GatewayApi \<Rightarrow> ObjectMeta \<Rightarrow> ('w, (string \<times> string) list) M" where
  "findBindingsForMCPServer_kuadrant G obj = do {
     r \<leftarrow> call (listBindings G (Some (omNamespace obj)));
     State_Monad.return (requestsWhere ProviderName_kuadrant (\<lambda>b. gbMCPServerRef (gbSpec b) = omName obj) r)
   }"

section \<open>What a pass sends\<close>

text \<open>
  The gateway of a route comes from an extension that was read from an allowed namespace, under a valid name.
\<close>

definition allowedExtension :: "GatewayLib \<Rightarrow> 'w GatewayApi \<Rightarrow> string list \<Rightarrow> MCPGatewayExtension \<Rightarrow> bool" where
  "allowedExtension L G allowed ext \<longleftrightarrow> (\<exists>name namespace w w'. getExtension G name namespace w = (Inr ext, w')
     \<and> ValidExtensionName L name \<and> ValidExtensionNamespace L namespace \<and> (allowed = [] \<or> namespace \<in> set allowed))"

definition refOk_kuadrant :: "GatewayLib \<Rightarrow> 'w GatewayApi \<Rightarrow> string list \<Rightarrow> ParentReference \<Rightarrow> bool" where
  "refOk_kuadrant L G allowed ref \<longleftrightarrow> prKind ref = Some ''Gateway'' \<and> prGroup ref = Some GroupName
     \<and> (\<exists>ext. allowedExtension L G allowed ext \<and> isExtensionReady L ext \<and> prName ref = fst (extensionGateway ext)
          \<and> prNamespace ref = Some (snd (extensionGateway ext)))"

definition evidence_kuadrant :: "GatewayLib \<Rightarrow> 'w GatewayApi \<Rightarrow> string list \<Rightarrow> string \<Rightarrow> string \<Rightarrow> string \<Rightarrow> bool" where
  "evidence_kuadrant L G allowed n ns url \<longleftrightarrow>
     (\<exists>ext route reg w w' v v'. allowedExtension L G allowed ext \<and> isExtensionReady L ext
        \<and> getHTTPRoute G n ns w = (Inr route, w') \<and> IsHTTPRouteAccepted route (fst (extensionGateway ext)) (snd (extensionGateway ext))
        \<and> getRegistration G n ns v = (Inr reg, v') \<and> isRegistrationReady L reg
        \<and> (\<exists>scheme host path. url = statusURL scheme host path \<and> host \<noteq> [] \<and> (scheme = SchemeHTTP \<or> scheme = SchemeHTTPS)))"

text \<open>The prefix of a registration is free: in a list of registrations that the API server answered, no other one has it.\<close>

definition prefixFree :: "'w GatewayApi \<Rightarrow> string \<Rightarrow> string \<Rightarrow> string \<Rightarrow> bool" where
  "prefixFree G n ns pfx \<longleftrightarrow> (\<exists>regs w w'. listRegistrations G w = (Inr regs, w')
     \<and> (\<forall>reg\<in>set regs. omName (mrMeta reg) = n \<and> omNamespace (mrMeta reg) = ns \<or> mrsPrefix (mrSpec reg) \<noteq> pfx))"

definition regOk_kuadrant :: "'w GatewayApi \<Rightarrow> string \<Rightarrow> string \<Rightarrow> MCPServerRegistration \<Rightarrow> bool" where
  "regOk_kuadrant G n ns reg \<longleftrightarrow> prefixFree G n ns (mrsPrefix (mrSpec reg)) \<and> mrsState (mrSpec reg) = ''Enabled''
     \<and> tgtKind (mrsTargetRef (mrSpec reg)) = ''HTTPRoute''"

abbreviation kuadrant_guard where
  "kuadrant_guard L G allowed n ns \<equiv> provider_guard L G n ns (refOk_kuadrant L G allowed) (regOk_kuadrant G n ns) (evidence_kuadrant L G allowed n ns)"

lemma deleteStaleRegistration_emits:
  assumes "provider_laws L G" "seen G n ns b"
  shows "emits (provider_guard L G n ns refOk regOk ev) (deleteStaleRegistration L G b)"
  unfolding deleteStaleRegistration_def
  by (rule emits_bind_value[OF emits_call yields_call])
     (use assms in \<open>auto intro!: emits_case emits_if emits_return emits_bind[OF emits_request] dest: registration_key[OF assms(1)] simp: owned_def seen_key\<close>)

lemma setNotRegistered_kuadrant_emits:
  assumes "provider_laws L G" "seen G n ns b"
  shows "emits (provider_guard L G n ns refOk regOk ev) (setNotRegistered_kuadrant L G b message)"
  unfolding setNotRegistered_kuadrant_def deleteStaleResources_def
  by (intro emits_bind[OF emits_bind[OF deleteStaleHTTPRoute_emits[OF assms]]] deleteStaleRegistration_emits[OF assms] emits_case emits_return
      UpdateBindingStatus_emits[OF assms]) simp

lemma configFromData_emits:
  assumes "provider_laws L G" "seen G n ns b"
  shows "emits (provider_guard L G n ns refOk regOk ev) (configFromData L G allowed b ms d)"
    and "yields (configFromData L G allowed b ms d) (\<lambda>r. \<forall>b' cfg. r = Inr (b', cfg) \<longrightarrow> seen G n ns b'
      \<and> ValidExtensionName L (pcExtensionName cfg) \<and> ValidExtensionNamespace L (pcExtensionNamespace cfg)
      \<and> (allowed = [] \<or> pcExtensionNamespace cfg \<in> set allowed))"
proof -
  show "emits (provider_guard L G n ns refOk regOk ev) (configFromData L G allowed b ms d)"
    unfolding configFromData_def Let_def
    by (intro emits_if emits_bind[OF setNotRegistered_kuadrant_emits[OF assms]] emits_bind[OF annotations_emits(1)[OF assms]] emits_return)
  show "yields (configFromData L G allowed b ms d) (\<lambda>r. \<forall>b' cfg. r = Inr (b', cfg) \<longrightarrow> seen G n ns b'
      \<and> ValidExtensionName L (pcExtensionName cfg) \<and> ValidExtensionNamespace L (pcExtensionNamespace cfg)
      \<and> (allowed = [] \<or> pcExtensionNamespace cfg \<in> set allowed))"
    unfolding configFromData_def Let_def
    by (intro yields_if yields_bind[OF annotations_emits(2)[OF assms]] yields_bind[OF yields_any] yields_return)
       (auto split: sum.splits)
qed

lemma parseConfig_emits:
  assumes "provider_laws L G" "seen G n ns b"
  shows "emits (provider_guard L G n ns refOk regOk ev) (parseConfig L G allowed b ms)"
    and "yields (parseConfig L G allowed b ms) (\<lambda>r. \<forall>b' cfg. r = Inr (b', cfg) \<longrightarrow> seen G n ns b'
      \<and> ValidExtensionName L (pcExtensionName cfg) \<and> ValidExtensionNamespace L (pcExtensionNamespace cfg)
      \<and> (allowed = [] \<or> pcExtensionNamespace cfg \<in> set allowed))"
proof -
  show "emits (provider_guard L G n ns refOk regOk ev) (parseConfig L G allowed b ms)"
    unfolding parseConfig_def
    by (intro emits_if emits_case emits_return configFromData_emits(1)[OF assms] emits_bind[OF setNotRegistered_kuadrant_emits[OF assms]] emits_bind[OF emits_call])
  show "yields (parseConfig L G allowed b ms) (\<lambda>r. \<forall>b' cfg. r = Inr (b', cfg) \<longrightarrow> seen G n ns b'
      \<and> ValidExtensionName L (pcExtensionName cfg) \<and> ValidExtensionNamespace L (pcExtensionNamespace cfg)
      \<and> (allowed = [] \<or> pcExtensionNamespace cfg \<in> set allowed))"
    unfolding parseConfig_def
    by (intro yields_if yields_case configFromData_emits(2)[OF assms] yields_bind[OF yields_any] yields_return) auto
qed

lemma registration_emits:
  assumes "provider_laws L G" "seen G n ns b" "prefixFree G n ns pfx"
  shows "emits (provider_guard L G n ns refOk (regOk_kuadrant G n ns) ev) (reconcileMCPServerRegistration L G b path pfx)"
proof -
  have own: "owned L G n ns m'" if "setBindingReference L b (mrMeta r) = Inr m'" "omName (mrMeta r) = n" "omNamespace (mrMeta r) = ns" for r m'
    using referenced_owned[OF assms(1,2) that] .
  let ?reg = "desiredRegistration b path pfx"
  have key: "omName (mrMeta ?reg) = n" "omNamespace (mrMeta ?reg) = ns" "tgtName (mrsTargetRef (mrSpec ?reg)) = n"
    using seen_key[OF assms(2)] by (simp_all add: desiredRegistration_def)
  have free: "regOk_kuadrant G n ns r" if "mrSpec r = mrSpec ?reg" for r
    using assms(3) that by (simp add: regOk_kuadrant_def desiredRegistration_def)
  have ex: "omName (mrMeta e) = n" "omNamespace (mrMeta e) = ns"
    if "setBindingReference L b (mrMeta ?reg) = Inr m" "getRegistration G (omName m) (omNamespace m) w = (Inr e, w')" for m w e w'
    using registration_key[OF assms(1)] own[OF that(1) key(1,2)] that(2) by (metis owned_def)+
  show ?thesis
    unfolding reconcileMCPServerRegistration_def Let_def
    by (rule emits_case(1)[OF emits_return], rule emits_bind_value[OF emits_call yields_call], elim exE,
        intro emits_case emits_if emits_return emits_bind[OF emits_request])
       (simp_all add: key free own[OF _ key(1,2)] own[OF _ ex])
qed

lemma hostname_emits:
  "emits P (discoverWildcardListener L G gwName gwNamespace)" "emits P (resolveRouteHostname L G b ms cfg gwName gwNamespace sn)"
  "emits P (checkPrefixConflict G b cfg)" "emits P (resolvePublicEndpoint L G ext)"
  unfolding discoverWildcardListener_def resolveRouteHostname_def resolveHostname_def findGatewayListener_def checkListenerHostnameGuard_def
    checkPrefixConflict_def resolvePublicEndpoint_def schemeFromListener_def listenerHostname_def Let_def
  by (intro emits_bind[OF emits_call] emits_bind emits_call emits_return emits_if emits_case)+

lemma prefix_value:
  assumes "seen G n ns b"
  shows "yields (checkPrefixConflict G b cfg) (\<lambda>r. r = Inr [] \<longrightarrow> prefixFree G n ns (pcPrefix cfg))"
  unfolding checkPrefixConflict_def prefixFree_def using seen_key[OF assms]
  by (intro yields_bind[OF yields_call] yields_return) (auto simp: find_None_iff conflicting_def Let_def split: sum.splits option.splits if_splits)

lemma endpoint_value:
  "yields (resolvePublicEndpoint L G ext) (\<lambda>r. \<forall>ep. r = Inr (Some ep) \<longrightarrow> peHost ep \<noteq> [] \<and> (peScheme ep = SchemeHTTP \<or> peScheme ep = SchemeHTTPS))"
proof -
  have scheme: "yields (schemeFromListener L G gwName gwNamespace sn) (\<lambda>r. \<forall>s. r = Inr s \<longrightarrow> s = SchemeHTTP \<or> s = SchemeHTTPS)" for gwName gwNamespace sn
    unfolding schemeFromListener_def
    by (intro yields_bind[OF yields_any] yields_return) (auto simp: ProtocolToScheme_def split: sum.splits option.splits if_splits)
  show ?thesis
    unfolding resolvePublicEndpoint_def Let_def
    by (rule yields_case(3), rule yields_bind[OF scheme])
       (auto intro!: yields_case yields_if yields_return yields_bind[OF yields_any] split: if_splits)
qed

lemma publishRegistration_emits:
  assumes "provider_laws L G" "seen G n ns b" "allowedExtension L G allowed ext" "isExtensionReady L ext"
    and "getHTTPRoute G n ns w = (Inr route, w')" "IsHTTPRouteAccepted route (fst (extensionGateway ext)) (snd (extensionGateway ext))"
    and "getRegistration G n ns v = (Inr reg, v')"
  shows "emits (kuadrant_guard L G allowed n ns) (publishRegistration L G b ext path warning reg)"
proof -
  note waits = emits_bind[OF UpdateBindingStatus_emits[OF assms(1,2)] emits_return]
  have ev: "evidence_kuadrant L G allowed n ns (statusURL scheme host path)"
    if "isRegistrationReady L reg" "host \<noteq> []" "scheme = SchemeHTTP \<or> scheme = SchemeHTTPS" for scheme host
    unfolding evidence_kuadrant_def using assms(3-7) that by blast
  show ?thesis
    unfolding publishRegistration_def Let_def
    by (rule emits_if[OF waits], simp, rule emits_bind_value[OF hostname_emits(4) endpoint_value], rule emits_case(1)[OF waits], simp,
        rule emits_case(2)[OF waits], simp, rule waits)
       (simp add: statusURL_not_empty ev)
qed

lemma registerRoute_emits:
  assumes "provider_laws L G" "seen G n ns b" "allowedExtension L G allowed ext" "isExtensionReady L ext"
  shows "emits (kuadrant_guard L G allowed n ns) (registerRoute L G b cfg ext warning)"
  unfolding registerRoute_def Let_def seen_key[OF assms(2)]
  by (rule emits_case(3), rule emits_bind_value[OF hostname_emits(3) prefix_value[OF assms(2)]], rule emits_case(1)[OF emits_return],
      rule emits_if[OF emits_bind[OF setNotRegistered_kuadrant_emits[OF assms(1,2)] emits_return]],
      rule emits_bind[OF registration_emits[OF assms(1,2)]], simp, rule emits_case(2)[OF _ emits_return],
      rule emits_bind_value[OF emits_call yields_call], rule emits_case(1)[OF emits_return],
      rule emits_if[OF emits_bind[OF UpdateBindingStatus_emits[OF assms(1,2)] emits_return]], simp,
      rule emits_bind_value[OF emits_call yields_call], rule emits_case(1)[OF emits_return])
     (auto intro: publishRegistration_emits[OF assms])

lemma reconcileHTTPRoute_kuadrant_emits:
  assumes "provider_laws L G" "seen G n ns b0" "allowedExtension L G allowed ext" "isExtensionReady L ext"
  shows "emits (kuadrant_guard L G allowed n ns)
      (reconcileHTTPRoute_kuadrant L G b0 ms (fst (extensionGateway ext)) (snd (extensionGateway ext)) hostname sn path)"
    and "yields (reconcileHTTPRoute_kuadrant L G b0 ms gwName gwNamespace hostname sn path) (\<lambda>r. \<forall>b. r = Inr b \<longrightarrow> seen G n ns b)"
proof -
  have app: "emits (kuadrant_guard L G allowed n ns) (applyHTTPRoute L G b
      (desiredRoute_kuadrant b (fst (extensionGateway ext)) (snd (extensionGateway ext)) hostname sn path ep))" if "seen G n ns b" for b ep
    using assms(3,4) seen_key[OF that]
    by (intro applyHTTPRoute_emits[OF assms(1) that]) (auto simp: desiredRoute_kuadrant_def refOk_kuadrant_def)
  show "emits (kuadrant_guard L G allowed n ns)
      (reconcileHTTPRoute_kuadrant L G b0 ms (fst (extensionGateway ext)) (snd (extensionGateway ext)) hostname sn path)"
    unfolding reconcileHTTPRoute_kuadrant_def
    by (rule emits_bind_value[OF resolveAndRecord_emits[OF assms(1,2)]], rule emits_case(1)[OF emits_return], rule emits_case(3),
        rule emits_bind[OF app emits_return]) blast
  show "yields (reconcileHTTPRoute_kuadrant L G b0 ms gwName gwNamespace hostname sn path) (\<lambda>r. \<forall>b. r = Inr b \<longrightarrow> seen G n ns b)"
    unfolding reconcileHTTPRoute_kuadrant_def
    by (rule yields_bind[OF resolveAndRecord_emits(2)[OF assms(1,2)]])
       (auto intro!: yields_case yields_return yields_bind[OF yields_any] split: option.splits)
qed

lemma reconcileReady_emits:
  assumes "provider_laws L G" "seen G n ns b" "allowedExtension L G allowed ext" "isExtensionReady L ext"
  shows "emits (kuadrant_guard L G allowed n ns) (reconcileReady L G b ms cfg ext)"
proof -
  note fails = emits_bind[OF setNotRegistered_kuadrant_emits[OF assms(1,2)] emits_return]
  obtain gwName gwNamespace where gw: "extensionGateway ext = (gwName, gwNamespace)" by fastforce
  show ?thesis
    unfolding reconcileReady_def Let_def gw prod.case
    by (rule emits_bind[OF emits_if[OF hostname_emits(1) emits_return]], rule emits_case(1)[OF fails], rule emits_bind[OF hostname_emits(2)],
        rule emits_case(1)[OF fails], rule emits_case(3),
        rule emits_bind_value[OF reconcileHTTPRoute_kuadrant_emits[OF assms, unfolded gw fst_conv snd_conv]], rule emits_case(1)[OF emits_return])
       (blast intro: registerRoute_emits[OF assms(1) _ assms(3,4)])
qed

lemma reconcileExtension_emits:
  assumes "provider_laws L G" "seen G n ns b" "ValidExtensionName L (pcExtensionName cfg)" "ValidExtensionNamespace L (pcExtensionNamespace cfg)"
    and "allowed = [] \<or> pcExtensionNamespace cfg \<in> set allowed"
  shows "emits (kuadrant_guard L G allowed n ns) (reconcileExtension L G b ms cfg)"
proof -
  have ok: "allowedExtension L G allowed ext" if "getExtension G (pcExtensionName cfg) (pcExtensionNamespace cfg) w = (Inr ext, w')" for ext w w'
    unfolding allowedExtension_def using assms(3-5) that by blast
  show ?thesis
    unfolding reconcileExtension_def Let_def
    by (rule emits_bind_value[OF emits_call yields_call], rule emits_case(1)[OF emits_if[OF emits_bind[OF setNotRegistered_kuadrant_emits[OF assms(1,2)] emits_return] emits_return]],
        rule emits_case(3), rule emits_bind_value[OF annotations_emits[OF assms(1,2)]], rule emits_case(1)[OF emits_return],
        rule emits_if[OF emits_bind[OF UpdateBindingStatus_emits[OF assms(1)] emits_return]], blast, simp, rule reconcileReady_emits[OF assms(1)])
       (use ok in blast)+
qed

lemma Reconcile_kuadrant_emits:
  assumes "provider_laws L G"
  shows "emits (kuadrant_guard L G allowed n ns) (Reconcile_kuadrant L G allowed n ns)"
  unfolding Reconcile_kuadrant_def
proof (rule emits_bind_value[OF emits_call yields_call], rule emits_case(1)[OF emits_return], rule emits_if[OF emits_return],
    rule emits_bind[OF emits_call], rule emits_case(1)[OF emits_return])
  fix found b server ms
  assume "\<exists>w w'. getBinding (gaBase G) n ns w = (found, w')" "found = Inr b"
  then have seen: "seen G n ns b" using seenI(1)[OF assms] by blast
  show "emits (kuadrant_guard L G allowed n ns) (parseConfig L G allowed b ms \<bind>
      (\<lambda>cfg. case cfg of Inl e \<Rightarrow> State_Monad.return (noRequeue, e) | Inr (b', c) \<Rightarrow> reconcileExtension L G b' ms c))"
    by (rule emits_bind_value[OF parseConfig_emits[OF assms seen]], rule emits_case(1)[OF emits_return], rule emits_case(3))
       (blast intro: reconcileExtension_emits[OF assms])
qed

lemma Reconcile_kuadrant_ignores:
  assumes "getBinding (gaBase G) n ns (world s) = (r, w)" "\<And>b. r = Inr b \<Longrightarrow> gbProvider (gbSpec b) \<noteq> ProviderName_kuadrant"
  shows "trace (snd (run_state (Reconcile_kuadrant L G allowed n ns) s)) = trace s"
  using assms by (auto simp: Reconcile_kuadrant_def run_call split: sum.split)

interpretation kuadrant: gateway_provider ProviderName_kuadrant L G "Reconcile_kuadrant L G allowed" "refOk_kuadrant L G allowed"
    "regOk_kuadrant G" "evidence_kuadrant L G allowed"
  for L :: GatewayLib and G :: "'w GatewayApi" and allowed :: "string list"
  by unfold_locales (rule Reconcile_kuadrant_ignores, assumption+, erule Reconcile_kuadrant_emits)

section \<open>A concrete cluster\<close>

definition ready_extension :: MCPGatewayExtension where
  "ready_extension = \<lparr>geMeta = zero_meta\<lparr>omName := ''ext'', omNamespace := ''edge''\<rparr>,
     geSpec = \<lparr>gesPublicHost = ''mcp.example.com'', gesTargetRef = \<lparr>tgtGroup = GroupName, tgtKind = ''Gateway'', tgtName = ''gw'', tgtNamespace = [], tgtSectionName = ''mcp''\<rparr>\<rparr>,
     geStatus = \<lparr>gestConditions = [accepted_condition ''Ready'']\<rparr>\<rparr>"

definition wildcard_gateway :: GatewayObject where
  "wildcard_gateway = edge_gateway\<lparr>goListeners := [\<lparr>lnName = ''mcp'', lnProtocol = ''HTTPS'', lnHostname = Some ''*.mcp.local''\<rparr>]\<rparr>"

definition extension_data :: "(string \<times> string) list" where
  "extension_data = [(configKeyExtensionName, ''ext''), (configKeyExtensionNamespace, ''edge''), (configKeyPrefix, ''team_'')]"

definition kuadrant_api :: "HTTPRoute \<Rightarrow> nat GatewayApi" where
  "kuadrant_api route = (sample_gateway_api (sample_gateway_binding ''kuadrant'') routed_server extension_data route wildcard_gateway)\<lparr>
     getExtension := (\<lambda>n ns. holds ready_extension (n = ''ext'' \<and> ns = ''edge''))\<rparr>"

lemma kuadrant_api_laws: "provider_laws sample_gateway_lib (kuadrant_api route)"
  using sample_provider_laws[of "sample_gateway_binding ''kuadrant''" routed_server extension_data route wildcard_gateway]
  by (auto simp: provider_laws_def set_condition_law_def key_law_def kuadrant_api_def)

abbreviation kuadrant_run :: "(Result \<times> go_error option) \<times> nat rstate" where
  "kuadrant_run \<equiv> run_state (Reconcile_kuadrant sample_gateway_lib (kuadrant_api (routed_route\<lparr>hrMeta := zero_meta\<rparr>)) [''edge''] ''s-gateway-binding'' ''team'') start_state"

definition created_registrations :: "effect list \<Rightarrow> MCPServerRegistration list" where
  "created_registrations es = concat (map (\<lambda>e. case e of ECreateRegistration r \<Rightarrow> [r] | _ \<Rightarrow> []) es)"

lemma created_registrations_iff: "r \<in> set (created_registrations es) \<longleftrightarrow> ECreateRegistration r \<in> set es"
  by (force simp: created_registrations_def split: effect.splits)

lemma kuadrant_run_creates: "map (mrsPrefix \<circ> mrSpec) (created_registrations (trace (snd kuadrant_run))) = [''team_'']"
  by code_simp

section \<open>Confinement\<close>

text \<open>
  C8: whatever the API server answers, a pass of the Kuadrant provider for the binding \<open>ns/n\<close> creates, changes and removes only the route and the registration of
  that name which the binding controls. The route has one parent, the Gateway of a ready extension that was read from an allowed namespace;
  the registration is for that route, under a prefix that no other registration in a list read by the pass had. A true
  \<open>Registered\<close> condition is written only with a URL, a route accepted for its current generation and a ready registration.
\<close>

theorem kuadrant_pass_confined:
  assumes "provider_laws L G" "run_state (Reconcile_kuadrant L G allowed n ns) s = (r, s')" "trace s = []" "e \<in> set (trace s')"
  shows "provider_guard L G n ns (refOk_kuadrant L G allowed) (regOk_kuadrant G n ns) (evidence_kuadrant L G allowed n ns) e"
  by (rule kuadrant.sends_within[OF assms])

theorem kuadrant_pass_confined_witness:
  "\<exists>reg. ECreateRegistration reg \<in> set (trace (snd kuadrant_run)) \<and> mrsPrefix (mrSpec reg) = ''team_''
     \<and> prefixFree (kuadrant_api (routed_route\<lparr>hrMeta := zero_meta\<rparr>)) ''s-gateway-binding'' ''team'' ''team_''"
proof -
  obtain r s' where run: "kuadrant_run = (r, s')" by fastforce
  from kuadrant_run_creates obtain reg where reg: "ECreateRegistration reg \<in> set (trace s')" "mrsPrefix (mrSpec reg) = ''team_''"
    unfolding run by (auto simp: map_eq_Cons_conv simp flip: created_registrations_iff)
  from kuadrant_pass_confined[OF kuadrant_api_laws run _ reg(1)] reg run show ?thesis by (auto simp: regOk_kuadrant_def)
qed

lemma resolved_extension_namespaces:
  assumes "ResolveAllowedExtensionNamespaces L env flagValue flagSet = (allowed, dropped, None)"
  shows "allowed = [] \<longleftrightarrow> ParseAllowedExtensionNamespaces env flagValue flagSet = []"
    and "allowed = filter (\<lambda>ns. isDNS1123Label L ns = []) (ParseAllowedExtensionNamespaces env flagValue flagSet)"
  using assms by (auto simp: ResolveAllowedExtensionNamespaces_def PartitionExtensionNamespaces_def ValidExtensionNamespace_def[abs_def] Let_def split: if_splits)

section \<open>Hostnames\<close>

lemma last_dot_unique:
  assumes "a @ CHR ''.'' # b = a' @ CHR ''.'' # b'" "CHR ''.'' \<notin> set b" "CHR ''.'' \<notin> set b'"
  shows "a = a' \<and> b = b'"
  using assms append_eq_append_conv2[of a "CHR ''.'' # b" a' "CHR ''.'' # b'"]
  by (auto simp: Cons_eq_append_conv append_eq_Cons_conv)

text \<open>
  on one wildcard listener every server has a hostname of its own: when the hostname is taken from the listener of a Gateway and no warning is given, two servers get
  the same hostname only if they have the same name and namespace. This needs that a namespace has no dot in it, and holds although names
  of servers may have one.
\<close>

lemma wildcard_hostnames_distinct:
  assumes "\<And>w. getGateway G gwName gwNamespace w = (Inr gw, w)"
    and "run_state (resolveHostname L G name1 namespace1 gwName gwNamespace sectionName) s = (Inr (hostname, []), s1)"
    and "run_state (resolveHostname L G name2 namespace2 gwName gwNamespace sectionName) t = (Inr (hostname, []), t1)"
    and "CHR ''.'' \<notin> set namespace1" "CHR ''.'' \<notin> set namespace2"
  shows "name1 = name2 \<and> namespace1 = namespace2"
proof -
  have val: "\<exists>h. hostname = name @ CHR ''.'' # namespace @ drop 1 h \<and> listenerNamed sectionName gw \<noteq> None \<and> lnHostname (the (listenerNamed sectionName gw)) = Some h"
    if "run_state (resolveHostname L G name namespace gwName gwNamespace sectionName) s = (Inr (hostname, []), s')" for name namespace s s'
    using that assms(1) by (auto simp: resolveHostname_def findGatewayListener_def run_call split: option.splits if_splits)
  from val[OF assms(2)] val[OF assms(3)] have "name1 @ CHR ''.'' # namespace1 = name2 @ CHR ''.'' # namespace2" by auto
  from last_dot_unique[OF this assms(4,5)] show ?thesis .
qed

lemma wildcard_hostnames_distinct_witness:
  "fst (run_state (resolveHostname sample_gateway_lib (kuadrant_api routed_route) ''a.b'' ''c'' ''gw'' ''edge'' ''mcp'') start_state) = Inr (''a.b.c.mcp.local'', [])
   \<and> fst (run_state (resolveHostname sample_gateway_lib (kuadrant_api routed_route) ''a'' ''b'' ''gw'' ''edge'' ''mcp'') start_state) \<noteq> Inr (''a.b.c.mcp.local'', [])"
proof -
  let ?run = "\<lambda>n ns. run_state (resolveHostname sample_gateway_lib (kuadrant_api routed_route) n ns ''gw'' ''edge'' ''mcp'') start_state"
  have gw: "getGateway (kuadrant_api routed_route) ''gw'' ''edge'' w = (Inr wildcard_gateway, w)" for w
    by (simp add: kuadrant_api_def sample_gateway_api_def wildcard_gateway_def edge_gateway_def holds_def)
  have v: "fst (?run ''a.b'' ''c'') = Inr (''a.b.c.mcp.local'', [])" by code_simp
  have "fst (?run ''a'' ''b'') \<noteq> Inr (''a.b.c.mcp.local'', [])"
  proof
    assume "fst (?run ''a'' ''b'') = Inr (''a.b.c.mcp.local'', [])"
    with v obtain s1 t1 where "?run ''a.b'' ''c'' = (Inr (''a.b.c.mcp.local'', []), s1)" "?run ''a'' ''b'' = (Inr (''a.b.c.mcp.local'', []), t1)"
      by (metis prod.collapse)
    from wildcard_hostnames_distinct[OF gw this] show False by simp
  qed
  with v show ?thesis by simp
qed

end
