(* ===== verification/Watches.thy ===== *)
theory Watches
  imports ConfigHash HTTPRouteProvider KuadrantProvider
begin

text \<open>
  What wakes the controllers (the functions \<open>SetupWithManager\<close> of \<open>internal/controller/mcpserver_controller.go\<close> and of the two providers). Each builds a controller from what it
  watches: its own objects, the objects they control, and others that a function maps to requests, with predicates that filter the events. The manager, which registers an index and completes a
  controller, and the work of the controller runtime on an event are parameters.
\<close>

section \<open>Controllers\<close>

datatype Predicate =
    GenerationChangedPredicate
  | AnnotationChangedPredicate
  | LabelChangedPredicate
  | ResourceVersionChangedPredicate
  | OrPredicate "Predicate list"
  | PodPredicate "podEvent \<Rightarrow> bool"
  | BindingPredicate "MCPGatewayBinding \<Rightarrow> bool"

text \<open>Objects are named by their kind; only the metadata of most of them is looked at.\<close>

datatype 'w Watch =
    For string "Predicate list"
  | Owns string
  | Maps string "ObjectMeta \<Rightarrow> ('w, Request list) M" "Predicate list"

record 'w Controller =
  ctlName :: string
  ctlWatches :: "'w Watch list"

record 'w WatchManager =
  indexField :: "string \<Rightarrow> (MCPServer \<Rightarrow> string list) \<Rightarrow> go_error option"
  completeController :: "'w Controller \<Rightarrow> go_error option"

fun registerIndices :: "'w WatchManager \<Rightarrow> (string \<times> (MCPServer \<Rightarrow> string list) \<times> string) list \<Rightarrow> go_error option" where
  "registerIndices M [] = None"
| "registerIndices M ((key, extract, what) # ks) =
     (case indexField M key extract of
        Some err \<Rightarrow> Some (Wrap (''failed to setup '' @ what @ '' index: '') err)
      | None \<Rightarrow> registerIndices M ks)"

definition serverIndices :: "(string \<times> (MCPServer \<Rightarrow> string list) \<times> string) list" where
  "serverIndices =
     [(configMapIndexKey, extractConfigMapNames, ''ConfigMap''), (secretIndexKey, extractSecretNames, ''Secret''),
      (workloadRefIndexKey, extractWorkloadRefNames, ''workloadRef''), (serviceRefIndexKey, extractServiceRefNames, ''serviceRef'')]"

abbreviation versionChanged :: "Predicate list" where
  "versionChanged \<equiv> [ResourceVersionChangedPredicate]"

definition serverController :: "'w Api \<Rightarrow> 'w Controller" where
  "serverController A = \<lparr>ctlName = ''mcpserver'', ctlWatches =
     [For ''MCPServer'' [OrPredicate [GenerationChangedPredicate, AnnotationChangedPredicate, LabelChangedPredicate]],
      Owns ''Deployment'', Owns ''Service'', Owns ''NetworkPolicy'', Owns ''MCPGatewayBinding'',
      Maps ''Pod'' (\<lambda>pod. State_Monad.return (findMCPServersForPod pod)) [PodPredicate podDiagnosticsChangedPredicate],
      Maps ''ConfigMap'' (findMCPServersForConfigMap A) versionChanged,
      Maps ''Secret'' (findMCPServersForSecret A) versionChanged,
      Maps ''Deployment'' (findMCPServersForWorkload A) versionChanged,
      Maps ''DaemonSet'' (findMCPServersForWorkload A) versionChanged,
      Maps ''StatefulSet'' (findMCPServersForWorkload A) versionChanged,
      Maps ''Service'' (findMCPServersForBYOService A) versionChanged]\<rparr>"

definition SetupWithManager :: "'w WatchManager \<Rightarrow> 'w Api \<Rightarrow> go_error option" where
  "SetupWithManager M A = (case registerIndices M serverIndices of
     Some err \<Rightarrow> Some err
   | None \<Rightarrow> completeController M (serverController A))"

definition controller_httproute :: "'w GatewayApi \<Rightarrow> 'w Controller" where
  "controller_httproute G = \<lparr>ctlName = ''mcpgatewaybinding-httproute'', ctlWatches =
     [For ''MCPGatewayBinding'' [BindingPredicate (MatchesProvider ProviderName_httproute)],
      Owns ''HTTPRoute'',
      Maps ''Service'' (FindBindingsForService G ProviderName_httproute) versionChanged,
      Maps ''ConfigMap'' (findBindingsForConfigMap_httproute G) versionChanged,
      Maps ''MCPServer'' (findBindingsForMCPServer_httproute G) [GenerationChangedPredicate],
      Maps ''Gateway'' (findBindingsForGateway_httproute G) versionChanged]\<rparr>"

definition SetupWithManager_httproute :: "'w WatchManager \<Rightarrow> 'w GatewayApi \<Rightarrow> go_error option" where
  "SetupWithManager_httproute M G = completeController M (controller_httproute G)"

definition controller_kuadrant :: "'w GatewayApi \<Rightarrow> 'w Controller" where
  "controller_kuadrant G = \<lparr>ctlName = ''mcpgatewaybinding-kuadrant'', ctlWatches =
     [For ''MCPGatewayBinding'' [BindingPredicate (MatchesProvider ProviderName_kuadrant)],
      Owns ''HTTPRoute'', Owns ''MCPServerRegistration'',
      Maps ''Service'' (FindBindingsForService G ProviderName_kuadrant) versionChanged,
      Maps ''ConfigMap'' (findBindingsForConfigMap_kuadrant G) versionChanged,
      Maps ''MCPServer'' (findBindingsForMCPServer_kuadrant G) [GenerationChangedPredicate],
      Maps ''Gateway'' (findBindingsForGateway_kuadrant G) versionChanged,
      Maps ''MCPGatewayExtension'' (findBindingsForGatewayExtension G) versionChanged]\<rparr>"

definition SetupWithManager_kuadrant :: "'w WatchManager \<Rightarrow> 'w GatewayApi \<Rightarrow> go_error option" where
  "SetupWithManager_kuadrant M G = completeController M (controller_kuadrant G)"

section \<open>The controller runtime\<close>

text \<open>An event of an object, with its old metadata if it is an update. \<open>enqueued\<close> are the requests that a controller gets from an event, in a state of the cluster.\<close>

record ObjectEvent =
  evKind :: string
  evOld :: "ObjectMeta option"
  evNew :: ObjectMeta

record 'w Runtime =
  passesPredicate :: "Predicate \<Rightarrow> ObjectEvent \<Rightarrow> bool"
  enqueued :: "'w Controller \<Rightarrow> string \<times> string \<Rightarrow> ObjectEvent \<Rightarrow> 'w rstate \<Rightarrow> Request set"

text \<open>The documented behaviour: what passes the predicates of a watch is mapped to requests; an owned object wakes its
  controlling object, if that is of the group and kind \<open>owner\<close> of the controller.\<close>

definition predicate_law :: "'w Runtime \<Rightarrow> bool" where
  "predicate_law T \<longleftrightarrow> (\<forall>e.
     (case evOld e of
        None \<Rightarrow> passesPredicate T ResourceVersionChangedPredicate e \<and> passesPredicate T GenerationChangedPredicate e
      | Some old \<Rightarrow> (passesPredicate T ResourceVersionChangedPredicate e \<longleftrightarrow> omResourceVersion old \<noteq> omResourceVersion (evNew e)) \<and>
          (passesPredicate T GenerationChangedPredicate e \<longleftrightarrow> omGeneration old \<noteq> omGeneration (evNew e))) \<and>
     (\<forall>ps. passesPredicate T (OrPredicate ps) e \<longleftrightarrow> (\<exists>p\<in>set ps. passesPredicate T p e)))"

abbreviation groupKind :: "K8sLib \<Rightarrow> OwnerReference \<Rightarrow> string \<times> string \<Rightarrow> bool" where
  "groupKind K r owner \<equiv> (\<exists>version. parseGroupVersion K (orAPIVersion r) = Some (fst owner, version)) \<and> orKind r = snd owner"

definition watch_law :: "K8sLib \<Rightarrow> 'w Runtime \<Rightarrow> bool" where
  "watch_law K T \<longleftrightarrow> (\<forall>c owner e s.
     (\<forall>f ps. Maps (evKind e) f ps \<in> set (ctlWatches c) \<longrightarrow> (\<forall>p\<in>set ps. passesPredicate T p e) \<longrightarrow> set (fst (run_state (f (evNew e)) s)) \<subseteq> enqueued T c owner e s) \<and>
     (\<forall>ps. For (evKind e) ps \<in> set (ctlWatches c) \<longrightarrow> (\<forall>p\<in>set ps. passesPredicate T p e) \<longrightarrow> (omName (evNew e), omNamespace (evNew e)) \<in> enqueued T c owner e s) \<and>
     (\<forall>r. Owns (evKind e) \<in> set (ctlWatches c) \<longrightarrow> getControllerOf K (evNew e) = Some r \<longrightarrow> groupKind K r owner \<longrightarrow> (orName r, omNamespace (evNew e)) \<in> enqueued T c owner e s))"

text \<open>An event that says something new: an object that was not known, or one with another version.\<close>

definition is_news :: "ObjectEvent \<Rightarrow> bool" where
  "is_news e \<longleftrightarrow> (case evOld e of None \<Rightarrow> True | Some old \<Rightarrow> omResourceVersion old \<noteq> omResourceVersion (evNew e))"

lemma predicates_pass:
  assumes "predicate_law T"
  shows "is_news e \<Longrightarrow> passesPredicate T ResourceVersionChangedPredicate e"
    and "(\<And>old. evOld e = Some old \<Longrightarrow> omGeneration old \<noteq> omGeneration (evNew e)) \<Longrightarrow> passesPredicate T GenerationChangedPredicate e"
  using spec[OF assms[unfolded predicate_law_def], of e] unfolding is_news_def by (cases "evOld e"; simp)+

lemma mapped_wakes:
  assumes "predicate_law T" "watch_law K T" "is_news e" "Maps (evKind e) f versionChanged \<in> set (ctlWatches c)" "q \<in> set (fst (run_state (f (evNew e)) s))"
  shows "q \<in> enqueued T c owner e s"
proof -
  have "passesPredicate T ResourceVersionChangedPredicate e"
    by (rule predicates_pass(1)[OF assms(1,3)])
  with assms(2,4,5) show ?thesis unfolding watch_law_def by fastforce
qed

lemma owner_wakes:
  assumes "watch_law K T" "Owns (evKind e) \<in> set (ctlWatches c)" "getControllerOf K (evNew e) = Some r" "groupKind K r owner"
  shows "(orName r, omNamespace (evNew e)) \<in> enqueued T c owner e s"
  using assms unfolding watch_law_def by blast

section \<open>No change is missed\<close>

text \<open>What a server depends on beside itself: what it refers to, and what it controls.\<close>

definition refers_to :: "MCPServer \<Rightarrow> string \<Rightarrow> string \<Rightarrow> bool" where
  "refers_to ms kind n \<longleftrightarrow> kind = ''ConfigMap'' \<and> usesConfigMap ms n \<or> kind = ''Secret'' \<and> (mountsSecret ms n \<or> trustsSecret ms n)
     \<or> (\<exists>ref. spWorkloadRef (msSpec ms) = Some ref \<and> wrKind ref = kind \<and> kind \<in> {''Deployment'', ''DaemonSet'', ''StatefulSet''} \<and> wrName ref = n)
     \<or> (\<exists>ref. spServiceRef (msSpec ms) = Some ref \<and> kind = ''Service'' \<and> srName ref = n)"

definition controls :: "K8sLib \<Rightarrow> MCPServer \<Rightarrow> string \<Rightarrow> ObjectMeta \<Rightarrow> bool" where
  "controls K ms kind m \<longleftrightarrow> kind \<in> {''Deployment'', ''Service'', ''NetworkPolicy'', ''MCPGatewayBinding''} \<and>
     (\<exists>r. getControllerOf K m = Some r \<and> groupKind K r (MCPGroup, MCPServerKind) \<and> orName r = srvName ms)"

lemma reference_wakes:
  assumes "predicate_law T" "watch_law K T" "index_law A servers" "ms \<in> set servers" "is_news e" "omNamespace (evNew e) = srvNamespace ms" "refers_to ms (evKind e) (omName (evNew e))"
  shows "(srvName ms, srvNamespace ms) \<in> enqueued T (serverController A) owner e s"
proof -
  have found: "(srvName ms, srvNamespace ms) \<in> set (fst (run_state (findMCPServersForResource A (omName (evNew e)) (omNamespace (evNew e)) key) s))"
    if "omName (evNew e) \<in> set (indexExtractor key ms)" for key
    unfolding find_for_resource[OF assms(3)] using that assms(4,6) by (intro bexI[of _ ms]) simp_all
  note wake = mapped_wakes[OF assms(1,2,5), of _ "serverController A" _ s owner]
  have keys: "indexExtractor configMapIndexKey = extractConfigMapNames" "indexExtractor secretIndexKey = extractSecretNames"
    "indexExtractor workloadRefIndexKey = extractWorkloadRefNames" "indexExtractor serviceRefIndexKey = extractServiceRefNames"
    by (simp_all add: indexExtractor_def)
  from assms(7) show ?thesis unfolding refers_to_def
  proof (elim disjE conjE exE)
    assume "evKind e = ''ConfigMap''" "usesConfigMap ms (omName (evNew e))"
    then show ?thesis
      by (intro wake[of "findMCPServersForConfigMap A"] found[of configMapIndexKey, folded findMCPServersForConfigMap_def])
         (simp_all add: serverController_def keys set_extractConfigMapNames)
  next
    assume "evKind e = ''Secret''" "mountsSecret ms (omName (evNew e))"
    then show ?thesis
      by (intro wake[of "findMCPServersForSecret A"] found[of secretIndexKey, folded findMCPServersForSecret_def])
         (simp_all add: serverController_def keys set_extractSecretNames)
  next
    assume "evKind e = ''Secret''" "trustsSecret ms (omName (evNew e))"
    then show ?thesis
      by (intro wake[of "findMCPServersForSecret A"] found[of secretIndexKey, folded findMCPServersForSecret_def])
         (simp_all add: serverController_def keys set_extractSecretNames)
  next
    fix ref
    assume "spWorkloadRef (msSpec ms) = Some ref" "evKind e \<in> {''Deployment'', ''DaemonSet'', ''StatefulSet''}" "wrName ref = omName (evNew e)"
    then show ?thesis
      by (intro wake[of "findMCPServersForWorkload A"] found[of workloadRefIndexKey, folded findMCPServersForWorkload_def])
         (auto simp: serverController_def keys extractWorkloadRefNames_def)
  next
    fix ref
    assume "spServiceRef (msSpec ms) = Some ref" "evKind e = ''Service''" "srName ref = omName (evNew e)"
    then show ?thesis
      by (intro wake[of "findMCPServersForBYOService A"] found[of serviceRefIndexKey, folded findMCPServersForBYOService_def])
         (simp_all add: serverController_def keys extractServiceRefNames_def)
  qed
qed

text \<open>
  C12: no change is missed. The controller of the operator is woken for a server by every event that says something new about an object the server refers to, a ConfigMap, a Secret, a workload of
  each of the kinds or a Service; by every event of a Deployment, Service, NetworkPolicy or binding that the server controls; and by every event of the server itself that changes its generation.
\<close>

theorem no_change_missed:
  assumes "predicate_law T" "watch_law K T" "index_law A servers" "ms \<in> set servers" "omNamespace (evNew e) = srvNamespace ms"
    and "is_news e \<and> refers_to ms (evKind e) (omName (evNew e)) \<or> controls K ms (evKind e) (evNew e) \<or>
      evKind e = ''MCPServer'' \<and> omName (evNew e) = srvName ms \<and> (\<forall>old. evOld e = Some old \<longrightarrow> omGeneration old \<noteq> omGeneration (evNew e))"
  shows "(srvName ms, srvNamespace ms) \<in> enqueued T (serverController A) (MCPGroup, MCPServerKind) e s"
  using assms(6)
proof (elim disjE conjE)
  assume "is_news e" "refers_to ms (evKind e) (omName (evNew e))"
  with reference_wakes assms(1-5) show ?thesis by blast
next
  assume c: "controls K ms (evKind e) (evNew e)"
  then obtain r where r: "getControllerOf K (evNew e) = Some r" "groupKind K r (MCPGroup, MCPServerKind)" "orName r = srvName ms"
    and o: "Owns (evKind e) \<in> set (ctlWatches (serverController A))"
    unfolding controls_def by (auto simp: serverController_def)
  from owner_wakes[OF assms(2) o r(1,2)] r(3) assms(5) show ?thesis by simp
next
  assume e: "evKind e = ''MCPServer''" "omName (evNew e) = srvName ms" "\<forall>old. evOld e = Some old \<longrightarrow> omGeneration old \<noteq> omGeneration (evNew e)"
  let ?ps = "[OrPredicate [GenerationChangedPredicate, AnnotationChangedPredicate, LabelChangedPredicate]]"
  have "passesPredicate T GenerationChangedPredicate e"
    using predicates_pass(2)[OF assms(1)] e(3) by blast
  then have "\<forall>p\<in>set ?ps. passesPredicate T p e" using assms(1) by (simp add: predicate_law_def)
  moreover have "For (evKind e) ?ps \<in> set (ctlWatches (serverController A))" by (simp add: serverController_def e(1))
  ultimately show ?thesis using assms(2,5) e(2) unfolding watch_law_def by metis
qed

text \<open>A runtime that does exactly what the laws say, and a server whose gateway configuration changes.\<close>

fun simple_passes :: "Predicate \<Rightarrow> ObjectEvent \<Rightarrow> bool" where
  "simple_passes ResourceVersionChangedPredicate e = is_news e"
| "simple_passes GenerationChangedPredicate e = (case evOld e of None \<Rightarrow> True | Some old \<Rightarrow> omGeneration old \<noteq> omGeneration (evNew e))"
| "simple_passes (OrPredicate ps) e = list_ex (\<lambda>p. simple_passes p e) ps"
| "simple_passes p e = True"

definition simple_runtime :: "K8sLib \<Rightarrow> 'w Runtime" where
  "simple_runtime K = \<lparr>passesPredicate = simple_passes, enqueued = (\<lambda>c owner e s. {q.
     (\<exists>f ps. Maps (evKind e) f ps \<in> set (ctlWatches c) \<and> (\<forall>p\<in>set ps. simple_passes p e) \<and> q \<in> set (fst (run_state (f (evNew e)) s))) \<or>
     (\<exists>ps. For (evKind e) ps \<in> set (ctlWatches c) \<and> (\<forall>p\<in>set ps. simple_passes p e) \<and> q = (omName (evNew e), omNamespace (evNew e))) \<or>
     (\<exists>r. Owns (evKind e) \<in> set (ctlWatches c) \<and> getControllerOf K (evNew e) = Some r \<and> groupKind K r owner \<and> q = (orName r, omNamespace (evNew e)))})\<rparr>"

lemma simple_runtime_laws: "predicate_law (simple_runtime K)" "watch_law K (simple_runtime K)"
proof -
  show "predicate_law (simple_runtime K)"
    unfolding predicate_law_def simple_runtime_def by (auto simp: is_news_def list_ex_iff split: option.splits)
  show "watch_law K (simple_runtime K)"
    unfolding watch_law_def simple_runtime_def by (intro allI conjI impI) auto
qed

theorem no_change_missed_witness:
  "(''s'', ''ns'') \<in> enqueued (simple_runtime sample_lib) (serverController indexed_api) (MCPGroup, MCPServerKind)
     \<lparr>evKind = ''ConfigMap'', evOld = Some (zero_meta\<lparr>omName := ''cfg'', omNamespace := ''ns'', omResourceVersion := ''1''\<rparr>),
      evNew = zero_meta\<lparr>omName := ''cfg'', omNamespace := ''ns'', omResourceVersion := ''2''\<rparr>\<rparr> start_state"
proof -
  let ?e = "\<lparr>evKind = ''ConfigMap'', evOld = Some (zero_meta\<lparr>omName := ''cfg'', omNamespace := ''ns'', omResourceVersion := ''1''\<rparr>),
      evNew = zero_meta\<lparr>omName := ''cfg'', omNamespace := ''ns'', omResourceVersion := ''2''\<rparr>\<rparr>"
  have law: "index_law indexed_api [indexed_server]" by (auto simp: index_law_def indexed_api_def)
  have "is_news ?e \<and> refers_to indexed_server (evKind ?e) (omName (evNew ?e))"
    by (simp add: is_news_def refers_to_def usesConfigMap_def indexed_server_def)
  with no_change_missed[OF simple_runtime_laws law, where ms = indexed_server and e = ?e and s = start_state] show ?thesis
    by (simp add: indexed_server_def)
qed

section \<open>Bindings\<close>

text \<open>Listing bindings gives all of them, or those of a namespace.\<close>

definition list_law :: "'w GatewayApi \<Rightarrow> MCPGatewayBinding list \<Rightarrow> bool" where
  "list_law G bs \<longleftrightarrow> (\<forall>ns w. \<exists>w'. listBindings G ns w = (Inr (filter (\<lambda>b. ns = None \<or> ns = Some (gbNamespace b)) bs), w'))"

text \<open>What a binding depends on: its configuration, and the Service and the Gateway noted on it by the last pass.\<close>

definition binding_refers_to :: "MCPGatewayBinding \<Rightarrow> string \<Rightarrow> ObjectMeta \<Rightarrow> bool" where
  "binding_refers_to b kind obj \<longleftrightarrow>
     kind = ''ConfigMap'' \<and> omNamespace obj = gbNamespace b \<and> gbConfigRef (gbSpec b) = omName obj
     \<or> kind = ''Service'' \<and> omNamespace obj = gbNamespace b \<and> annotationOf b AnnotationServiceRef = RefKey (omNamespace obj) (omName obj)
     \<or> kind = ''Gateway'' \<and> annotationOf b AnnotationGatewayRef = RefKey (omNamespace obj) (omName obj)"

lemma requestsWhere_found:
  assumes "list_law G bs" "b \<in> set bs" "ns = None \<or> ns = Some (gbNamespace b)" "gbProvider (gbSpec b) = provider" "P b" "listBindings G ns w = (r, w1)"
  shows "(gbName b, gbNamespace b) \<in> set (requestsWhere provider P r)"
proof -
  obtain w' where "listBindings G ns w = (Inr (filter (\<lambda>b. ns = None \<or> ns = Some (gbNamespace b)) bs), w')"
    using assms(1) unfolding list_law_def by blast
  with assms show ?thesis by (auto simp: requestsWhere_def)
qed

text \<open>A provider is woken for its bindings by everything new about what they depend on.\<close>

lemma binding_wakes:
  assumes "predicate_law T" "watch_law K T" "list_law G bs" "b \<in> set bs" "is_news e" "binding_refers_to b (evKind e) (evNew e)"
  shows "gbProvider (gbSpec b) = ProviderName_httproute \<Longrightarrow> (gbName b, gbNamespace b) \<in> enqueued T (controller_httproute G) owner e s"
    and "gbProvider (gbSpec b) = ProviderName_kuadrant \<Longrightarrow> (gbName b, gbNamespace b) \<in> enqueued T (controller_kuadrant G) owner e s"
proof -
  note found = requestsWhere_found[OF assms(3,4)]
  note finders = FindBindingsForService_def findBindingsForConfigMap_httproute_def findBindingsForGateway_httproute_def
    findBindingsForConfigMap_kuadrant_def findBindingsForGateway_kuadrant_def
  note wake = mapped_wakes[OF assms(1,2,5)]
  have cases: thesis
    if "evKind e = ''ConfigMap'' \<Longrightarrow> omNamespace (evNew e) = gbNamespace b \<Longrightarrow> gbConfigRef (gbSpec b) = omName (evNew e) \<Longrightarrow> thesis"
      "evKind e = ''Service'' \<Longrightarrow> omNamespace (evNew e) = gbNamespace b \<Longrightarrow> annotationOf b AnnotationServiceRef = RefKey (omNamespace (evNew e)) (omName (evNew e)) \<Longrightarrow> thesis"
      "evKind e = ''Gateway'' \<Longrightarrow> annotationOf b AnnotationGatewayRef = RefKey (omNamespace (evNew e)) (omName (evNew e)) \<Longrightarrow> thesis" for thesis
    using assms(6) that unfolding binding_refers_to_def by blast
  show "(gbName b, gbNamespace b) \<in> enqueued T (controller_httproute G) owner e s" if "gbProvider (gbSpec b) = ProviderName_httproute"
    by (rule cases; rule wake[of _ "controller_httproute G"]; (simp add: controller_httproute_def; fail)?)
       (use that in \<open>auto simp: finders run_call split: prod.split intro!: found[rotated -1]\<close>)
  show "(gbName b, gbNamespace b) \<in> enqueued T (controller_kuadrant G) owner e s" if "gbProvider (gbSpec b) = ProviderName_kuadrant"
    by (rule cases; rule wake[of _ "controller_kuadrant G"]; (simp add: controller_kuadrant_def; fail)?)
       (use that in \<open>auto simp: finders run_call split: prod.split intro!: found[rotated -1]\<close>)
qed

end
