(* ===== verification/ProviderRegistry.thy ===== *)
theory ProviderRegistry
  imports KuadrantProvider
begin

text \<open>
  Which providers run (\<open>internal/controller/providers/registry.go\<close> and \<open>crd_watcher.go\<close>). A provider needs custom resource definitions in the
  cluster. At startup every registered provider whose definitions are there is started; the others are left to a watcher, which tries again on every event and
  every five seconds. The state is the watcher's, together with the manager's world and the order in which providers were started.
  The manager's REST mapper, the factories and the setup of the watch are the parameter \<open>M\<close>.
\<close>

section \<open>Registration\<close>

record GroupVersionKind =
  gvkGroup :: string
  gvkVersion :: string
  gvkKind :: string

record namedRegistration =
  nrName :: string
  nrRequiredCRDs :: "GroupVersionKind list"

record 'w Manager =
  restMapping :: "GroupVersionKind \<Rightarrow> 'w \<Rightarrow> go_error option \<times> 'w"
  isNoMatchError :: "go_error \<Rightarrow> bool"
  factory :: "string \<Rightarrow> 'w \<Rightarrow> go_error option \<times> 'w"
  watchCRDs :: "'w \<Rightarrow> go_error option \<times> 'w"

record 'w crdWatcher =
  mgrWorld :: 'w
  pending :: "namedRegistration list"
  started :: "string \<rightharpoonup> bool"
  startLog :: "string list"

definition Register :: "string \<Rightarrow> GroupVersionKind list \<Rightarrow> namedRegistration list \<Rightarrow> namedRegistration list" where
  "Register name crds reg = reg @ [\<lparr>nrName = name, nrRequiredCRDs = crds\<rparr>]"

definition gatewayCRDs :: "GroupVersionKind list" where
  "gatewayCRDs = [\<lparr>gvkGroup = GroupName, gvkVersion = ''v1'', gvkKind = ''HTTPRoute''\<rparr>, \<lparr>gvkGroup = GroupName, gvkVersion = ''v1'', gvkKind = ''Gateway''\<rparr>]"

definition init_httproute :: "namedRegistration list \<Rightarrow> namedRegistration list" where
  "init_httproute = Register ProviderName_httproute gatewayCRDs"

abbreviation kuadrantGroup :: string where "kuadrantGroup \<equiv> ''mcp.kuadrant.io''"

definition init_kuadrant :: "namedRegistration list \<Rightarrow> namedRegistration list" where
  "init_kuadrant = Register ProviderName_kuadrant (gatewayCRDs @
     [\<lparr>gvkGroup = kuadrantGroup, gvkVersion = ''v1'', gvkKind = ''MCPServerRegistration''\<rparr>,
      \<lparr>gvkGroup = kuadrantGroup, gvkVersion = ''v1'', gvkKind = ''MCPGatewayExtension''\<rparr>])"

text \<open>Packages are initialised in the order of their paths.\<close>

definition registry :: "namedRegistration list" where
  "registry = init_kuadrant (init_httproute [])"

section \<open>Starting providers\<close>

fun missingCRDs :: "'w Manager \<Rightarrow> GroupVersionKind list \<Rightarrow> 'w \<Rightarrow> (go_error + GroupVersionKind list) \<times> 'w" where
  "missingCRDs M [] w = (Inr [], w)"
| "missingCRDs M (gvk # gvks) w =
     (case restMapping M gvk w of
        (None, w1) \<Rightarrow> missingCRDs M gvks w1
      | (Some err, w1) \<Rightarrow>
          if isNoMatchError M err
          then (case missingCRDs M gvks w1 of (Inl e, w2) \<Rightarrow> (Inl e, w2) | (Inr missing, w2) \<Rightarrow> (Inr (gvk # missing), w2))
          else (Inl err, w1))"

definition runFactory :: "'w Manager \<Rightarrow> string \<Rightarrow> 'w crdWatcher \<Rightarrow> go_error option \<times> 'w crdWatcher" where
  "runFactory M name s = (case factory M name (mgrWorld s) of
     (Some err, w) \<Rightarrow> (Some err, s\<lparr>mgrWorld := w\<rparr>)
   | (None, w) \<Rightarrow> (None, s\<lparr>mgrWorld := w, started := (started s)(name \<mapsto> True), startLog := startLog s @ [name]\<rparr>))"

definition defer_provider :: "namedRegistration \<Rightarrow> 'w crdWatcher \<Rightarrow> 'w crdWatcher" where
  "defer_provider nf s = s\<lparr>pending := pending s @ [nf]\<rparr>"

text \<open>The loop of \<open>SetupAll\<close> over the registry; an error ends it.\<close>

fun setupProviders :: "'w Manager \<Rightarrow> namedRegistration list \<Rightarrow> 'w crdWatcher \<Rightarrow> go_error option \<times> 'w crdWatcher" where
  "setupProviders M [] s = (None, s)"
| "setupProviders M (nf # nfs) s =
     (let start = (\<lambda>s. case runFactory M (nrName nf) s of
            (Some err, s') \<Rightarrow> (Some (Wrap (''provider '' @ nrName nf @ '': '') err), s')
          | (None, s') \<Rightarrow> setupProviders M nfs s')
      in if nrRequiredCRDs nf = [] then start s
         else (case missingCRDs M (nrRequiredCRDs nf) (mgrWorld s) of
                 (Inl err, w) \<Rightarrow> setupProviders M nfs (defer_provider nf (s\<lparr>mgrWorld := w\<rparr>))
               | (Inr missing, w) \<Rightarrow>
                   if missing \<noteq> [] then setupProviders M nfs (defer_provider nf (s\<lparr>mgrWorld := w\<rparr>))
                   else start (s\<lparr>mgrWorld := w\<rparr>)))"

definition SetupAll :: "'w Manager \<Rightarrow> namedRegistration list \<Rightarrow> 'w \<Rightarrow> go_error option \<times> 'w crdWatcher" where
  "SetupAll M reg w =
     (case setupProviders M reg \<lparr>mgrWorld = w, pending = [], started = Map.empty, startLog = []\<rparr> of
        (Some err, s) \<Rightarrow> (Some err, s)
      | (None, s) \<Rightarrow>
          if pending s \<noteq> [] then (case watchCRDs M (mgrWorld s) of (e, w') \<Rightarrow> (e, s\<lparr>mgrWorld := w'\<rparr>))
          else (None, s))"

section \<open>The watcher\<close>

text \<open>The loop over the pending providers; the first component is \<open>remaining\<close>.\<close>

fun startPending :: "'w Manager \<Rightarrow> namedRegistration list \<Rightarrow> 'w crdWatcher \<Rightarrow> namedRegistration list \<times> 'w crdWatcher" where
  "startPending M [] s = ([], s)"
| "startPending M (nf # nfs) s =
     (if started s (nrName nf) = Some True then startPending M nfs s
      else let keep = (\<lambda>s. case startPending M nfs s of (remaining, s') \<Rightarrow> (nf # remaining, s'))
           in case missingCRDs M (nrRequiredCRDs nf) (mgrWorld s) of
                (Inl err, w) \<Rightarrow> keep (s\<lparr>mgrWorld := w\<rparr>)
              | (Inr missing, w) \<Rightarrow>
                  if missing \<noteq> [] then keep (s\<lparr>mgrWorld := w\<rparr>)
                  else (case runFactory M (nrName nf) (s\<lparr>mgrWorld := w\<rparr>) of
                          (Some err, s') \<Rightarrow> keep s'
                        | (None, s') \<Rightarrow> startPending M nfs s'))"

definition Reconcile_crdWatcher :: "'w Manager \<Rightarrow> 'w crdWatcher \<Rightarrow> (Result \<times> go_error option) \<times> 'w crdWatcher" where
  "Reconcile_crdWatcher M s =
     (case startPending M (pending s) s of
        (remaining, s') \<Rightarrow>
          ((if remaining \<noteq> [] then \<lparr>requeueAfter = 5 * second\<rparr> else noRequeue, None), s'\<lparr>pending := remaining\<rparr>))"

section \<open>The watcher over time\<close>

text \<open>
  A step is a pass of the watcher, which its mutex makes atomic, or anything else that changes the cluster. The watcher is set up by \<open>SetupAll\<close> without an error.
\<close>

inductive watcher_step :: "'w Manager \<Rightarrow> 'w crdWatcher \<Rightarrow> 'w crdWatcher \<Rightarrow> bool" for M where
  pass: "Reconcile_crdWatcher M s = (r, s') \<Longrightarrow> watcher_step M s s'"
| cluster: "watcher_step M s (s\<lparr>mgrWorld := w\<rparr>)"

inductive watcher_reachable :: "'w Manager \<Rightarrow> namedRegistration list \<Rightarrow> 'w crdWatcher \<Rightarrow> bool" for M reg where
  init: "SetupAll M reg w = (None, s) \<Longrightarrow> watcher_reachable M reg s"
| step: "watcher_reachable M reg s \<Longrightarrow> watcher_step M s s' \<Longrightarrow> watcher_reachable M reg s'"

inductive_cases watcher_stepE: "watcher_step M s s'"

text \<open>The log has each started provider once; every provider of \<open>reg\<close> is either started or pending.\<close>

definition log_ok :: "'w crdWatcher \<Rightarrow> bool" where
  "log_ok s \<longleftrightarrow> distinct (startLog s) \<and> (\<forall>n. started s n = Some True \<longleftrightarrow> n \<in> set (startLog s))"

definition covers :: "string set \<Rightarrow> 'w crdWatcher \<Rightarrow> namedRegistration list \<Rightarrow> bool" where
  "covers names s nfs \<longleftrightarrow> distinct (map nrName nfs) \<and> set (startLog s) \<inter> nrName ` set nfs = {}
     \<and> names = set (startLog s) \<union> nrName ` set nfs"

definition watcher_inv :: "namedRegistration list \<Rightarrow> 'w crdWatcher \<Rightarrow> bool" where
  "watcher_inv reg s \<longleftrightarrow> log_ok s \<and> covers (nrName ` set reg) s (pending s)"

lemma runFactory_cases:
  assumes "runFactory M name s = (e, s')"
  shows "pending s' = pending s \<and> (if e = None then startLog s' = startLog s @ [name] \<and> started s' = (started s)(name \<mapsto> True)
     else startLog s' = startLog s \<and> started s' = started s)"
  using assms by (auto simp: runFactory_def split: prod.splits option.splits)

lemma runFactory_log:
  assumes "runFactory M name s = (None, s')" "log_ok s" "name \<notin> set (startLog s)"
  shows "log_ok s'" "set (startLog s') = insert name (set (startLog s))" "pending s' = pending s"
  using runFactory_cases[OF assms(1)] assms(2,3) by (auto simp: log_ok_def)

lemma log_ok_world [simp]:
  "log_ok (s\<lparr>mgrWorld := w\<rparr>) = log_ok s" "log_ok (s\<lparr>pending := ps\<rparr>) = log_ok s"
  by (simp_all add: log_ok_def)

lemma covers_world [simp]:
  "covers names (s\<lparr>mgrWorld := w\<rparr>) nfs = covers names s nfs" "covers names (s\<lparr>pending := ps\<rparr>) nfs = covers names s nfs"
  by (simp_all add: covers_def)

lemma covers_steps:
  assumes "covers names s nfs"
  shows "nrName nf \<notin> names \<Longrightarrow> covers (insert (nrName nf) names) s (nfs @ [nf])"
    and "n \<notin> names \<Longrightarrow> set (startLog s') = insert n (set (startLog s)) \<Longrightarrow> covers (insert n names) s' nfs"
    and "set (startLog s) \<subseteq> names"
  using assms by (auto simp: covers_def)

lemma covers_Cons:
  assumes "covers names s (nf # nfs)"
  shows "nrName nf \<notin> set (startLog s)"
    and "set (startLog s') = set (startLog s) \<Longrightarrow> covers (names - {nrName nf}) s' nfs"
    and "covers (names - {nrName nf}) s' rest \<Longrightarrow> covers names s' (nf # rest)"
    and "set (startLog s') = insert (nrName nf) (set (startLog s)) \<Longrightarrow> covers names s' nfs"
  using assms by (auto simp: covers_def)

lemma setupProviders_inv:
  assumes "setupProviders M nfs s = (None, s')" "watcher_inv before s" "distinct (map nrName (before @ nfs))"
  shows "watcher_inv (before @ nfs) s'"
  using assms
proof (induction nfs arbitrary: s before)
  case Nil then show ?case by simp
next
  case (Cons nf nfs)
  have fresh: "nrName nf \<notin> nrName ` set before" using Cons.prems(3) by auto
  then have notlog: "nrName nf \<notin> set (startLog s)" using Cons.prems(2) covers_steps(3) unfolding watcher_inv_def by blast
  have defer': "watcher_inv (before @ [nf]) (defer_provider nf (s\<lparr>mgrWorld := w\<rparr>))" for w
    using Cons.prems(2) fresh by (simp add: watcher_inv_def covers_steps(1) defer_provider_def)
  have start: "watcher_inv (before @ [nf]) s1" if "runFactory M (nrName nf) (s\<lparr>mgrWorld := w\<rparr>) = (None, s1)" for w s1
    using runFactory_log[OF that] Cons.prems(2) fresh notlog by (auto simp: watcher_inv_def intro: covers_steps(2))
  have start0: "watcher_inv (before @ [nf]) s1" if "runFactory M (nrName nf) s = (None, s1)" for s1
    using start[of "mgrWorld s" s1] that by simp
  have dist: "distinct (map nrName ((before @ [nf]) @ nfs))" using Cons.prems(3) by simp
  from Cons.prems(1) Cons.IH[OF _ defer' dist] Cons.IH[OF _ start dist] Cons.IH[OF _ start0 dist]
  show ?case by (auto simp: Let_def split: if_splits prod.splits sum.splits option.splits)
qed

lemma startPending_inv:
  assumes "startPending M nfs s = (remaining, s')" "log_ok s" "covers names s nfs"
  shows "log_ok s' \<and> covers names s' remaining"
  using assms
proof (induction nfs arbitrary: s remaining names)
  case Nil then show ?case by simp
next
  case (Cons nf nfs)
  note fresh = covers_Cons(1)[OF Cons.prems(3)]
  have keep: "log_ok s' \<and> covers names s' (nf # rest)"
    if "startPending M nfs s1 = (rest, s')" "log_ok s1" "startLog s1 = startLog s" for s1 rest
    using Cons.IH[OF that(1,2) covers_Cons(2)[OF Cons.prems(3)]] covers_Cons(3)[OF Cons.prems(3)] that(3) by metis
  have start: "log_ok s' \<and> covers names s' remaining"
    if "runFactory M (nrName nf) (s\<lparr>mgrWorld := w\<rparr>) = (None, s1)" "startPending M nfs s1 = (remaining, s')" for w s1
    using runFactory_log[OF that(1)] Cons.prems(2,3) fresh by (intro Cons.IH[OF that(2)] covers_Cons(4)[OF Cons.prems(3)]) auto
  have fails: "log_ok s1" "startLog s1 = startLog s" if "runFactory M (nrName nf) (s\<lparr>mgrWorld := w\<rparr>) = (Some e, s1)" for w e s1
    using runFactory_cases[OF that] Cons.prems(2) by (auto simp: log_ok_def)
  have "started s (nrName nf) \<noteq> Some True" using fresh Cons.prems(2) by (auto simp: log_ok_def)
  with Cons.prems(1,2) keep start keep[OF _ fails] show ?case
    by (auto simp: Let_def split: prod.splits sum.splits if_splits option.splits)
qed

lemma Reconcile_crdWatcher_inv:
  assumes "watcher_inv reg s" "Reconcile_crdWatcher M s = (r, s')"
  shows "watcher_inv reg s'"
proof -
  obtain remaining s1 where run: "startPending M (pending s) s = (remaining, s1)" by fastforce
  from startPending_inv[OF run] assms(1) have "log_ok s1 \<and> covers (nrName ` set reg) s1 remaining" unfolding watcher_inv_def by blast
  with run assms(2) show ?thesis by (auto simp: Reconcile_crdWatcher_def watcher_inv_def)
qed

lemma watcher_inv_reachable:
  assumes "watcher_reachable M reg s" "distinct (map nrName reg)"
  shows "watcher_inv reg s"
  using assms(1)
proof induction
  case (init w s)
  have "watcher_inv [] (\<lparr>mgrWorld = w, pending = [], started = Map.empty, startLog = []\<rparr> :: 'a crdWatcher)"
    by (simp add: watcher_inv_def log_ok_def covers_def)
  from setupProviders_inv[OF _ this, of M reg] assms(2)
  have setup': "watcher_inv reg s1" if "setupProviders M reg \<lparr>mgrWorld = w, pending = [], started = Map.empty, startLog = []\<rparr> = (None, s1)" for s1
    using that by simp
  have "watcher_inv reg (s1\<lparr>mgrWorld := w'\<rparr>) = watcher_inv reg s1" for s1 :: "'a crdWatcher" and w'
    by (simp add: watcher_inv_def covers_def)
  with init setup' show ?case by (auto simp: SetupAll_def split: prod.splits option.splits if_splits)
next
  case (step s s')
  from step(2,3) show ?case
    by (auto elim!: watcher_stepE intro: Reconcile_crdWatcher_inv) (simp add: watcher_inv_def)
qed

section \<open>Liveness\<close>

text \<open>The definitions of the custom resources are there and the factories succeed.\<close>

definition serves_all :: "'w Manager \<Rightarrow> namedRegistration list \<Rightarrow> bool" where
  "serves_all M nfs \<longleftrightarrow> (\<forall>nf\<in>set nfs. (\<forall>gvk\<in>set (nrRequiredCRDs nf). \<forall>w. fst (restMapping M gvk w) = None) \<and> (\<forall>w. fst (factory M (nrName nf) w) = None))"

lemma missingCRDs_none: "(\<And>gvk w. gvk \<in> set gvks \<Longrightarrow> fst (restMapping M gvk w) = None) \<Longrightarrow> fst (missingCRDs M gvks w) = Inr []"
proof (induction gvks arbitrary: w)
  case (Cons gvk gvks)
  then obtain w1 where "restMapping M gvk w = (None, w1)" by (metis list.set_intros(1) prod.collapse)
  with Cons show ?case by simp
qed simp

lemma startPending_all: "serves_all M nfs \<Longrightarrow> fst (startPending M nfs s) = []"
proof (induction nfs arbitrary: s)
  case (Cons nf nfs)
  then have IH: "fst (startPending M nfs t) = []" for t by (simp add: serves_all_def)
  have "fst (missingCRDs M (nrRequiredCRDs nf) (mgrWorld s)) = Inr []"
    using Cons.prems by (intro missingCRDs_none) (simp add: serves_all_def)
  then obtain w where w: "missingCRDs M (nrRequiredCRDs nf) (mgrWorld s) = (Inr [], w)" by (metis prod.collapse)
  have "fst (factory M (nrName nf) w) = None" using Cons.prems by (simp add: serves_all_def)
  then obtain w' where "factory M (nrName nf) w = (None, w')" by (metis prod.collapse)
  with w IH show ?case by (simp add: runFactory_def)
qed simp

section \<open>Properties\<close>

lemma registry_distinct: "distinct (map nrName registry)"
  by (simp add: registry_def init_kuadrant_def init_httproute_def Register_def)

text \<open>
  C10: at any time after startup, whatever the cluster does between the passes of the watcher, every registered provider is either pending or started and never both, and no
  provider has been started twice.
\<close>

theorem provider_starts_once:
  assumes "watcher_reachable M registry s"
  shows "distinct (startLog s) \<and> set (startLog s) \<inter> nrName ` set (pending s) = {}
     \<and> set (startLog s) \<union> nrName ` set (pending s) = {ProviderName_httproute, ProviderName_kuadrant}"
proof -
  have "nrName ` set registry = {ProviderName_httproute, ProviderName_kuadrant}"
    by (simp add: registry_def init_kuadrant_def init_httproute_def Register_def)
  with watcher_inv_reachable[OF assms registry_distinct] show ?thesis by (simp add: watcher_inv_def log_ok_def covers_def)
qed

text \<open>A cluster where only the definitions of the Gateway API are installed.\<close>

definition gateway_manager :: "nat Manager" where
  "gateway_manager = \<lparr>restMapping = (\<lambda>gvk w. (if gvkGroup gvk = GroupName \<or> w > 0 then None else Some (ErrorString ''no match''), w)),
     isNoMatchError = (\<lambda>e. errText e = ''no match''), factory = (\<lambda>name w. (None, w)), watchCRDs = (\<lambda>w. (None, w))\<rparr>"

lemma gateway_setup: "SetupAll gateway_manager registry 0 = (None, snd (SetupAll gateway_manager registry 0))"
    "startLog (snd (SetupAll gateway_manager registry 0)) = [ProviderName_httproute]"
    "map nrName (pending (snd (SetupAll gateway_manager registry 0))) = [ProviderName_kuadrant]"
proof -
  have "fst (SetupAll gateway_manager registry 0) = None" by code_simp
  then show "SetupAll gateway_manager registry 0 = (None, snd (SetupAll gateway_manager registry 0))" by (metis prod.collapse)
qed code_simp+

lemma other_one: "{a} \<inter> P = {} \<Longrightarrow> {a} \<union> P = {a, b} \<Longrightarrow> a \<noteq> b \<Longrightarrow> P = {b}"
  using insert_ident[of a P "{b}"] by simp

theorem provider_starts_once_witness:
  "startLog (snd (SetupAll gateway_manager registry 0)) = [ProviderName_httproute]
   \<and> nrName ` set (pending (snd (SetupAll gateway_manager registry 0))) = {ProviderName_kuadrant}"
proof -
  have "{ProviderName_httproute} \<inter> nrName ` set (pending (snd (SetupAll gateway_manager registry 0))) = {}"
    "{ProviderName_httproute} \<union> nrName ` set (pending (snd (SetupAll gateway_manager registry 0))) = {ProviderName_httproute, ProviderName_kuadrant}"
    using provider_starts_once[OF watcher_reachable.init[OF gateway_setup(1)], unfolded gateway_setup(2)] unfolding list.set by - (elim conjE, assumption)+
  from other_one[OF this] gateway_setup(2) show ?thesis by simp
qed

text \<open>
  C11: no provider is forgotten: while one is pending, a pass of the watcher asks to run again after five seconds, and a pass in a cluster that serves all definitions of the
  pending providers, and where their factories succeed, starts every one of them.
\<close>

theorem pending_providers_start:
  assumes "watcher_reachable M registry s" "Reconcile_crdWatcher M s = (r, s')"
  shows "(if pending s' = [] then r = (noRequeue, None) else r = (\<lparr>requeueAfter = 5 * second\<rparr>, None))
     \<and> (serves_all M (pending s) \<longrightarrow> pending s' = [] \<and> set (startLog s') = {ProviderName_httproute, ProviderName_kuadrant})"
proof -
  have inv: "watcher_inv registry s'"
    using Reconcile_crdWatcher_inv[OF watcher_inv_reachable[OF assms(1) registry_distinct] assms(2)] .
  have names: "nrName ` set registry = {ProviderName_httproute, ProviderName_kuadrant}"
    by (simp add: registry_def init_kuadrant_def init_httproute_def Register_def)
  have "pending s' = []" if "serves_all M (pending s)"
    using startPending_all[OF that, of s] assms(2) by (auto simp: Reconcile_crdWatcher_def split: prod.splits)
  moreover have "set (startLog s') \<union> nrName ` set (pending s') = {ProviderName_httproute, ProviderName_kuadrant}"
    using inv names by (simp add: watcher_inv_def covers_def del: insert_iff)
  moreover have "if pending s' = [] then r = (noRequeue, None) else r = (\<lparr>requeueAfter = 5 * second\<rparr>, None)"
    using assms(2) by (simp add: Reconcile_crdWatcher_def split: prod.splits) fastforce
  ultimately show ?thesis unfolding serves_all_def by (metis Un_empty_right image_empty list.set(1))
qed

theorem pending_providers_start_witness:
  "\<exists>r s'. Reconcile_crdWatcher gateway_manager ((snd (SetupAll gateway_manager registry 0))\<lparr>mgrWorld := 1\<rparr>) = (r, s')
     \<and> r = (noRequeue, None)"
proof -
  let ?s = "(snd (SetupAll gateway_manager registry 0))\<lparr>mgrWorld := 1\<rparr>"
  obtain r s' where run: "Reconcile_crdWatcher gateway_manager ?s = (r, s')" by fastforce
  have reach: "watcher_reachable gateway_manager registry ?s"
    by (rule watcher_reachable.step[OF watcher_reachable.init[OF gateway_setup(1)] watcher_step.cluster])
  have "pending (snd (Reconcile_crdWatcher gateway_manager ?s)) = []" by code_simp
  with pending_providers_start[OF reach run] run show ?thesis by simp
qed

end
