(* ===== verification/TLSConfig.thy ===== *)
theory TLSConfig
  imports Handshake
begin

text \<open>
  The operator's TLS settings from the environment (\<open>cmd/tlsconfig.go\<close>): parsing, the profile that \<open>tlsConfigFunc\<close> applies to a TLS
  configuration, and the variables passed on to server containers. \<open>os.Getenv\<close> is a function to strings, \<open>''''\<close> for a
  variable that is not set. The names that \<open>crypto/tls\<close> knows depend on the Go release the operator is built with (the code
  says so of the groups) and are a parameter; log lines are left out.
\<close>

record CryptoTLS =
  tlsCipherSuites :: "(string \<times> nat) list"
  tlsInsecureCipherSuites :: "(string \<times> nat) list"
  curveIDString :: "nat \<Rightarrow> string"

abbreviation envTLSMinVersion :: string where "envTLSMinVersion \<equiv> ''TLS_MIN_VERSION''"
abbreviation envTLSCipherSuites :: string where "envTLSCipherSuites \<equiv> ''TLS_CIPHER_SUITES''"
abbreviation envTLSGroups :: string where "envTLSGroups \<equiv> ''TLS_GROUPS''"

record tlsSettings =
  minVersionStr :: string
  minVersionCode :: nat
  cipherSuitesStr :: string
  cipherSuiteIDs :: "nat list"
  groupsStr :: string
  groupIDs :: "nat list"

definition no_settings :: tlsSettings where
  "no_settings = \<lparr>minVersionStr = [], minVersionCode = 0, cipherSuitesStr = [], cipherSuiteIDs = [], groupsStr = [], groupIDs = []\<rparr>"

text \<open>The version constants of \<open>crypto/tls\<close>.\<close>

abbreviation versionTLS13 :: nat where "versionTLS13 \<equiv> 0x0304"

definition parseTLSVersion :: "string \<Rightarrow> nat" where
  "parseTLSVersion s =
     (if s = ''VersionTLS10'' then 0x0301 else if s = ''VersionTLS11'' then 0x0302
      else if s = ''VersionTLS12'' then 0x0303 else if s = ''VersionTLS13'' then versionTLS13 else 0)"

definition cipherLookup :: "CryptoTLS \<Rightarrow> string \<rightharpoonup> nat" where
  "cipherLookup C = foldl (\<lambda>m (n, i). m(n \<mapsto> i)) Map.empty (tlsCipherSuites C @ tlsInsecureCipherSuites C)"

definition parseCipherSuites :: "CryptoTLS \<Rightarrow> string \<Rightarrow> nat list \<times> string list" where
  "parseCipherSuites C s =
     (if s = [] then ([], [])
      else foldl (\<lambda>(suites, names) n. let name = trimSpace n in
             (case cipherLookup C name of Some i \<Rightarrow> (suites @ [i], names @ [name]) | None \<Rightarrow> (suites, names)))
           ([], []) (splitOn (CHR '','') s))"

text \<open>\<open>tlsGroupLookup\<close> scans all 65536 identifiers and then adds the aliases of the NIST curves.\<close>

abbreviation curveAliases :: "(string \<times> nat) list" where
  "curveAliases \<equiv> [(''p-256'', 23), (''secp256r1'', 23), (''p-384'', 24), (''secp384r1'', 24), (''p-521'', 25), (''secp521r1'', 25)]"

definition addCurve :: "CryptoTLS \<Rightarrow> (string \<rightharpoonup> nat) \<Rightarrow> nat \<Rightarrow> (string \<rightharpoonup> nat)" where
  "addCurve C lookup i = (let name = curveIDString C i in
     if hasPrefix name ''CurveID('' then lookup else lookup(toLower name \<mapsto> i))"

definition tlsGroupLookup :: "CryptoTLS \<Rightarrow> string \<rightharpoonup> nat" where
  "tlsGroupLookup C = foldl (addCurve C) Map.empty [0..<65536] ++ map_of curveAliases"

definition groupStep :: "(string \<rightharpoonup> nat) \<Rightarrow> CryptoTLS \<Rightarrow> nat list \<times> string list \<Rightarrow> string \<Rightarrow> nat list \<times> string list" where
  "groupStep lookup C = (\<lambda>(groups, names) n. let name = trimSpace n in
     if name = [] then (groups, names)
     else (case lookup (toLower name) of
             Some g \<Rightarrow> if g \<in> set groups then (groups, names) else (groups @ [g], names @ [curveIDString C g])
           | None \<Rightarrow> (groups, names)))"

definition parseTLSGroups :: "CryptoTLS \<Rightarrow> string \<Rightarrow> nat list \<times> string list" where
  "parseTLSGroups C s =
     (if s = [] then ([], []) else foldl (groupStep (tlsGroupLookup C) C) ([], []) (splitOn (CHR '','') s))"

definition parseTLSSettings :: "CryptoTLS \<Rightarrow> (string \<Rightarrow> string) \<Rightarrow> go_error + tlsSettings" where
  "parseTLSSettings C getenv =
     (let v = getenv envTLSMinVersion;
          s1 = (if v \<noteq> [] \<and> parseTLSVersion v > 0 then no_settings\<lparr>minVersionStr := v, minVersionCode := parseTLSVersion v\<rparr> else no_settings);
          c = getenv envTLSCipherSuites;
          s2 = (if c \<noteq> [] then (case parseCipherSuites C c of (ids, names) \<Rightarrow>
                  if ids \<noteq> [] then s1\<lparr>cipherSuiteIDs := ids, cipherSuitesStr := joinWith '','' names\<rparr> else s1) else s1);
          g = getenv envTLSGroups
      in if g \<noteq> [] then (case parseTLSGroups C g of (ids, names) \<Rightarrow>
           if ids = [] then Inl (ErrorString (envTLSGroups @ '' contains no supported TLS groups: '' @ goquote g))
           else Inr (s2\<lparr>groupIDs := ids, groupsStr := joinWith '','' names\<rparr>))
         else Inr s2)"

definition settingVar :: "string \<Rightarrow> string \<Rightarrow> EnvVar list" where
  "settingVar name value = (if value \<noteq> [] then [\<lparr>evName = name, evValue = value, evValueFrom = None\<rparr>] else [])"

definition envVars :: "tlsSettings \<Rightarrow> EnvVar list" where
  "envVars s = settingVar envTLSMinVersion (minVersionStr s) @ settingVar envTLSCipherSuites (cipherSuitesStr s)
     @ settingVar envTLSGroups (groupsStr s)"

definition tlsConfigFunc :: "tlsSettings \<Rightarrow> (TLSTransport \<Rightarrow> TLSTransport) option" where
  "tlsConfigFunc s =
     (if minVersionCode s = 0 \<and> cipherSuiteIDs s = [] \<and> groupIDs s = [] then None
      else Some (\<lambda>c.
        let c1 = (if minVersionCode s > 0 then c\<lparr>ttMinVersion := minVersionCode s\<rparr> else c);
            c2 = (if minVersionCode s < versionTLS13 \<and> cipherSuiteIDs s \<noteq> [] then c1\<lparr>ttCipherSuites := cipherSuiteIDs s\<rparr> else c1)
        in if groupIDs s \<noteq> [] then c2\<lparr>ttCurvePreferences := groupIDs s\<rparr> else c2))"

text \<open>The profile of the environment is one that the handshake may rely on (see \<open>Handshake\<close>).\<close>

interpretation env_profile: tls_profile "tlsConfigFunc s" for s
  by unfold_locales (auto simp: tlsConfigFunc_def Let_def split: if_splits)

text \<open>
  C31: whatever TLS settings the environment has, applying them to a transport never lowers its protocol version below its floor: the result is the
  larger of the two, and certificates are verified as before, against the same roots.
\<close>

theorem env_profile_keeps_floor:
  assumes "tlsConfigFunc s = Some p"
  shows "ttMinVersion (applyTLSProfileWithFloor t p) = max (ttMinVersion t) (minVersionCode s)
    \<and> ttInsecureSkipVerify (applyTLSProfileWithFloor t p) = ttInsecureSkipVerify t
    \<and> ttRootCAs (applyTLSProfileWithFloor t p) = ttRootCAs t"
  using env_profile.floored[OF assms, of t] assms
  by (auto simp: tlsConfigFunc_def applyTLSProfileWithFloor_def Let_def max_def split: if_splits)

theorem env_profile_keeps_floor_witness:
  "ttMinVersion (applyTLSProfileWithFloor (tlsTransport False None) (the (tlsConfigFunc (no_settings\<lparr>minVersionCode := 0x0301\<rparr>)))) = 0x0303"
proof -
  have "\<exists>p. tlsConfigFunc (no_settings\<lparr>minVersionCode := 0x0301\<rparr>) = Some p" by (simp add: tlsConfigFunc_def no_settings_def)
  then obtain p where p: "tlsConfigFunc (no_settings\<lparr>minVersionCode := 0x0301\<rparr>) = Some p" by blast
  from env_profile_keeps_floor[OF p, of "tlsTransport False None"] show ?thesis
    unfolding p by (simp add: tlsTransport_def no_settings_def)
qed

section \<open>Reading back what is passed on\<close>

text \<open>Cipher suites: the names that are found, trimmed.\<close>

definition suiteNames :: "CryptoTLS \<Rightarrow> string \<Rightarrow> string list" where
  "suiteNames C s = filter (\<lambda>n. cipherLookup C n \<noteq> None) (map trimSpace (splitOn (CHR '','') s))"

lemma parseCipherSuites_names:
  assumes "s \<noteq> []"
  shows "parseCipherSuites C s = (map (the \<circ> cipherLookup C) (suiteNames C s), suiteNames C s)"
proof -
  have "foldl (\<lambda>(suites, names) n. let name = trimSpace n in
      (case cipherLookup C name of Some i \<Rightarrow> (suites @ [i], names @ [name]) | None \<Rightarrow> (suites, names))) (is, ns) ws
    = (is @ map (the \<circ> cipherLookup C) (filter (\<lambda>n. cipherLookup C n \<noteq> None) (map trimSpace ws)),
       ns @ filter (\<lambda>n. cipherLookup C n \<noteq> None) (map trimSpace ws))" for "is" ns ws
    by (induction ws arbitrary: "is" ns) (auto simp: Let_def split: option.split)
  from this[of "[]" "[]"] assms show ?thesis by (simp add: parseCipherSuites_def suiteNames_def)
qed

lemma suiteNames_again:
  assumes "suiteNames C s \<noteq> []"
  shows "suiteNames C (joinWith '','' (suiteNames C s)) = suiteNames C s"
proof -
  let ?ns = "suiteNames C s"
  have w: "CHR '','' \<notin> set n" "trimSpace n = n" "cipherLookup C n \<noteq> None" if "n \<in> set ?ns" for n
    using that trimSpace_subset splitOn_parts unfolding suiteNames_def by fastforce+
  have "splitOn (CHR '','') (joinWith '','' ?ns) = ?ns" by (rule splitOn_joinWith[OF assms]) (simp add: w)
  then have "suiteNames C (joinWith '','' ?ns) = filter (\<lambda>n. cipherLookup C n \<noteq> None) (map trimSpace ?ns)"
    by (simp add: suiteNames_def)
  also have "map trimSpace ?ns = ?ns" by (rule map_idI) (rule w)
  also have "filter (\<lambda>n. cipherLookup C n \<noteq> None) ?ns = ?ns" by (rule filter_True) (simp add: w)
  finally show ?thesis .
qed

text \<open>
  What is relied on of \<open>CurveID.String\<close> (a generated method of \<open>crypto/tls\<close>, which returns the identifier of a Go constant, or \<open>CurveID(n)\<close> for a number without one):
  names are different even in lower case, are not empty and have neither commas nor spaces around them, the NIST curves have names,
  and the aliases are not names of other curves. No cipher suite has an empty name.
\<close>

definition named :: "CryptoTLS \<Rightarrow> nat \<Rightarrow> bool" where
  "named C i \<longleftrightarrow> i < 65536 \<and> \<not> hasPrefix (curveIDString C i) ''CurveID(''"

definition crypto_laws :: "CryptoTLS \<Rightarrow> bool" where
  "crypto_laws C \<longleftrightarrow> cipherLookup C [] = None
     \<and> (\<forall>i j. named C i \<longrightarrow> named C j \<longrightarrow> toLower (curveIDString C i) = toLower (curveIDString C j) \<longrightarrow> i = j)
     \<and> (\<forall>i. named C i \<longrightarrow> curveIDString C i \<noteq> [] \<and> CHR '','' \<notin> set (curveIDString C i) \<and> trimSpace (curveIDString C i) = curveIDString C i)
     \<and> (\<forall>i. i \<in> {23, 24, 25} \<longrightarrow> named C i)
     \<and> (\<forall>i k. named C i \<longrightarrow> map_of curveAliases (toLower (curveIDString C i)) = Some k \<longrightarrow> k = i)"

lemma addCurve_named: "i < 65536 \<Longrightarrow> addCurve C m i = (if named C i then m(toLower (curveIDString C i) \<mapsto> i) else m)"
  by (simp add: addCurve_def named_def Let_def)

lemma scan_finds:
  assumes "crypto_laws C" "named C i"
  shows "i < n \<Longrightarrow> n \<le> 65536 \<Longrightarrow> foldl (addCurve C) Map.empty [0..<n] (toLower (curveIDString C i)) = Some i"
proof (induction n)
  case (Suc n)
  have "toLower (curveIDString C i) = toLower (curveIDString C n) \<Longrightarrow> named C n \<Longrightarrow> n = i"
    using assms unfolding crypto_laws_def by metis
  moreover have "named C n" if "i = n" using that assms(2) by simp
  ultimately show ?case using Suc by (auto simp: addCurve_named less_Suc_eq)
qed simp

lemma scan_only: "n \<le> 65536 \<Longrightarrow> foldl (addCurve C) Map.empty [0..<n] k = Some i \<Longrightarrow> named C i"
  by (induction n) (auto simp: addCurve_named split: if_splits)

lemma alias_ids: "map_of curveAliases k = Some i \<Longrightarrow> i \<in> {23, 24, 25}"
  by (drule map_of_SomeD) (simp, elim disjE conjE; simp)

lemma lookup_named:
  assumes "crypto_laws C" "tlsGroupLookup C k = Some i"
  shows "named C i"
proof -
  have "map_of curveAliases k = Some i \<or> foldl (addCurve C) Map.empty [0..<65536] k = Some i"
    using assms(2) unfolding tlsGroupLookup_def map_add_Some_iff by blast
  then show ?thesis
  proof
    assume "map_of curveAliases k = Some i"
    from alias_ids[OF this] assms(1) show ?thesis unfolding crypto_laws_def by blast
  qed (rule scan_only[OF order_refl])
qed

lemma lookup_canonical:
  assumes "crypto_laws C" "named C i"
  shows "tlsGroupLookup C (toLower (curveIDString C i)) = Some i"
proof (cases "map_of curveAliases (toLower (curveIDString C i))")
  case None
  then show ?thesis
    using scan_finds[OF assms, of 65536] assms(2) unfolding tlsGroupLookup_def map_add_def by (simp add: named_def)
next
  case (Some k)
  then have "k = i" using assms unfolding crypto_laws_def by blast
  with Some show ?thesis unfolding tlsGroupLookup_def map_add_def by simp
qed

text \<open>The groups that are parsed are distinct, known and stand with their own names.\<close>

lemma group_names: "curveIDString C ` {i. named C i} \<subseteq> {n. n \<noteq> [] \<and> CHR '','' \<notin> set n \<and> trimSpace n = n}" if "crypto_laws C"
  using that by (auto simp: crypto_laws_def)

definition canonical :: "CryptoTLS \<Rightarrow> nat list \<times> string list \<Rightarrow> bool" where
  "canonical C = (\<lambda>(gs, ns). distinct gs \<and> ns = map (curveIDString C) gs \<and> (\<forall>g \<in> set gs. named C g))"

lemma groupStep_canonical: "crypto_laws C \<Longrightarrow> canonical C st \<Longrightarrow> canonical C (groupStep (tlsGroupLookup C) C st n)"
  by (auto simp: canonical_def groupStep_def Let_def lookup_named split: prod.splits option.splits)

lemma parseTLSGroups_canonical: "crypto_laws C \<Longrightarrow> canonical C (parseTLSGroups C s)"
proof -
  assume C: "crypto_laws C"
  have "canonical C st \<Longrightarrow> canonical C (foldl (groupStep (tlsGroupLookup C) C) st ws)" for st ws
    by (induction ws arbitrary: st) (simp_all add: groupStep_canonical[OF C])
  then show ?thesis by (simp add: parseTLSGroups_def) (simp add: canonical_def)
qed

lemma groups_again:
  assumes "crypto_laws C" "canonical C (gs, ns)" "gs \<noteq> []"
  shows "parseTLSGroups C (joinWith '','' ns) = (gs, ns) \<and> joinWith '','' ns \<noteq> []"
proof -
  have ns: "ns = map (curveIDString C) gs" and gs: "distinct gs" "\<And>g. g \<in> set gs \<Longrightarrow> named C g"
    using assms(2) by (auto simp: canonical_def)
  have name: "curveIDString C g \<noteq> []" "CHR '','' \<notin> set (curveIDString C g)" "trimSpace (curveIDString C g) = curveIDString C g" if "g \<in> set gs" for g
    using group_names[OF assms(1)] gs(2)[OF that] by auto
  have "foldl (groupStep (tlsGroupLookup C) C) (as, map (curveIDString C) as) (map (curveIDString C) bs) = (as @ bs, map (curveIDString C) (as @ bs))"
    if "distinct (as @ bs)" "set bs \<subseteq> set gs" for as bs
    using that
  proof (induction bs arbitrary: as)
    case (Cons b bs)
    have "groupStep (tlsGroupLookup C) C (as, map (curveIDString C) as) (curveIDString C b) = (as @ [b], map (curveIDString C) (as @ [b]))"
      using Cons.prems name lookup_canonical[OF assms(1) gs(2)] by (simp add: groupStep_def)
    with Cons.IH[of "as @ [b]"] Cons.prems show ?case by simp
  qed simp
  from this[of "[]" gs] gs(1) have fold: "foldl (groupStep (tlsGroupLookup C) C) ([], []) ns = (gs, ns)" by (simp add: ns)
  have "splitOn (CHR '','') (joinWith '','' ns) = ns"
    by (rule splitOn_joinWith) (use assms(3) name in \<open>auto simp: ns\<close>)
  moreover have "joinWith '','' ns \<noteq> []" using name(1) assms(3) by (subst joinWith_empty) (auto simp: ns dest: sym)
  ultimately show ?thesis using fold by (simp add: parseTLSGroups_def)
qed

section \<open>Passing settings on\<close>

text \<open>The environment of a container that has been given variables.\<close>

definition container_env :: "EnvVar list \<Rightarrow> string \<Rightarrow> string" where
  "container_env vars k = (case find (\<lambda>v. evName v = k) vars of None \<Rightarrow> [] | Some v \<Rightarrow> evValue v)"

lemma container_values:
  "container_env (envVars s) envTLSMinVersion = minVersionStr s"
  "container_env (envVars s) envTLSCipherSuites = cipherSuitesStr s"
  "container_env (envVars s) envTLSGroups = groupsStr s"
  by (simp_all add: container_env_def envVars_def settingVar_def)

text \<open>What is known of parsed settings.\<close>

definition settings_wf :: "CryptoTLS \<Rightarrow> tlsSettings \<Rightarrow> bool" where
  "settings_wf C s \<longleftrightarrow> minVersionCode s = parseTLSVersion (minVersionStr s) \<and> (minVersionStr s = [] \<or> minVersionCode s > 0)
     \<and> (if cipherSuitesStr s = [] then cipherSuiteIDs s = []
        else parseCipherSuites C (cipherSuitesStr s) = (cipherSuiteIDs s, splitOn (CHR '','') (cipherSuitesStr s)) \<and> cipherSuiteIDs s \<noteq> [])
     \<and> (if groupsStr s = [] then groupIDs s = []
        else parseTLSGroups C (groupsStr s) = (groupIDs s, splitOn (CHR '','') (groupsStr s)) \<and> groupIDs s \<noteq> [])"

lemma reparse_wf: "settings_wf C s \<Longrightarrow> parseTLSSettings C (container_env (envVars s)) = Inr s"
  unfolding parseTLSSettings_def container_values settings_wf_def
  by (cases s) (auto simp: no_settings_def Let_def joinWith_splitOn parseTLSVersion_def split: if_splits)

lemma suites_wf:
  assumes "crypto_laws C" "parseCipherSuites C c = (is, ns)" "c \<noteq> []" "is \<noteq> []"
  shows "joinWith '','' ns \<noteq> []" "parseCipherSuites C (joinWith '','' ns) = (is, splitOn (CHR '','') (joinWith '','' ns))"
proof -
  have ns: "ns = suiteNames C c" "is = map (the \<circ> cipherLookup C) ns" using assms(2) parseCipherSuites_names[OF assms(3)] by auto
  have w: "CHR '','' \<notin> set n" "n \<noteq> []" if n: "n \<in> set ns" for n
  proof -
    obtain m where m: "m \<in> set (splitOn (CHR '','') c)" "n = trimSpace m" "cipherLookup C n \<noteq> None"
      using n unfolding ns(1) suiteNames_def by auto
    show "CHR '','' \<notin> set n" using splitOn_parts[OF m(1)] trimSpace_subset[of m] m(2) by blast
    show "n \<noteq> []" using m(3) assms(1) by (auto simp: crypto_laws_def)
  qed
  have e: "ns \<noteq> []" using assms(4) by (simp add: ns(2))
  show ne: "joinWith '','' ns \<noteq> []" using w(2) e by (subst joinWith_empty) auto
  have sp: "splitOn (CHR '','') (joinWith '','' ns) = ns" by (rule splitOn_joinWith[OF e w(1)])
  show "parseCipherSuites C (joinWith '','' ns) = (is, splitOn (CHR '','') (joinWith '','' ns))"
    using suiteNames_again[of C c] e unfolding parseCipherSuites_names[OF ne] sp by (simp add: ns)
qed

lemma groups_wf:
  assumes "crypto_laws C" "parseTLSGroups C g = (gs, ns)" "gs \<noteq> []"
  shows "joinWith '','' ns \<noteq> []" "parseTLSGroups C (joinWith '','' ns) = (gs, splitOn (CHR '','') (joinWith '','' ns))"
proof -
  have c: "canonical C (gs, ns)" using parseTLSGroups_canonical[OF assms(1), of g] assms(2) by simp
  from groups_again[OF assms(1) c assms(3)] show ne: "joinWith '','' ns \<noteq> []" by simp
  have "splitOn (CHR '','') (joinWith '','' ns) = ns"
    using c assms(3) group_names[OF assms(1)] by (intro splitOn_joinWith) (auto simp: canonical_def)
  with groups_again[OF assms(1) c assms(3)] show "parseTLSGroups C (joinWith '','' ns) = (gs, splitOn (CHR '','') (joinWith '','' ns))" by simp
qed

lemma parsed_fields:
  assumes "parseTLSSettings C getenv = Inr s"
  shows "(minVersionStr s, minVersionCode s) = (let v = getenv envTLSMinVersion in if v \<noteq> [] \<and> parseTLSVersion v > 0 then (v, parseTLSVersion v) else ([], 0))"
    and "(cipherSuitesStr s, cipherSuiteIDs s) = (let c = getenv envTLSCipherSuites; (is, ns) = parseCipherSuites C c in
           if c \<noteq> [] \<and> is \<noteq> [] then (joinWith '','' ns, is) else ([], []))"
    and "(groupsStr s, groupIDs s) = (let g = getenv envTLSGroups; (gs, ns) = parseTLSGroups C g in if g \<noteq> [] then (joinWith '','' ns, gs) else ([], []))"
    and "getenv envTLSGroups \<noteq> [] \<Longrightarrow> groupIDs s \<noteq> []"
  using assms unfolding parseTLSSettings_def Let_def
  by (auto simp: no_settings_def split: if_splits prod.splits)

lemma parsed_wf:
  assumes "crypto_laws C" "parseTLSSettings C getenv = Inr s"
  shows "settings_wf C s"
proof -
  note f = parsed_fields[OF assms(2)]
  obtain "is" ns where c: "parseCipherSuites C (getenv envTLSCipherSuites) = (is, ns)" by fastforce
  obtain gs ms where g: "parseTLSGroups C (getenv envTLSGroups) = (gs, ms)" by fastforce
  have "minVersionCode s = parseTLSVersion (minVersionStr s) \<and> (minVersionStr s = [] \<or> minVersionCode s > 0)"
    using f(1) by (auto simp: Let_def parseTLSVersion_def split: if_splits)
  moreover have "if cipherSuitesStr s = [] then cipherSuiteIDs s = []
      else parseCipherSuites C (cipherSuitesStr s) = (cipherSuiteIDs s, splitOn (CHR '','') (cipherSuitesStr s)) \<and> cipherSuiteIDs s \<noteq> []"
    using f(2) suites_wf[OF assms(1) c] by (simp add: c Let_def split: if_splits)
  moreover have "if groupsStr s = [] then groupIDs s = []
      else parseTLSGroups C (groupsStr s) = (groupIDs s, splitOn (CHR '','') (groupsStr s)) \<and> groupIDs s \<noteq> []"
    using f(3,4) groups_wf[OF assms(1) g] by (simp add: g Let_def split: if_splits)
  ultimately show ?thesis unfolding settings_wf_def by (elim conjE, intro conjI)
qed

text \<open>
  C30: settings survive being passed on. The variables that the operator injects into a server container parse, with the same Go release, to exactly the settings
  they were made from: unknown names were dropped, the group names are canonical and none is repeated.
\<close>

theorem tls_settings_reparse:
  assumes "crypto_laws C" "parseTLSSettings C getenv = Inr s"
  shows "parseTLSSettings C (container_env (envVars s)) = Inr s \<and> distinct (groupIDs s)"
proof -
  have wf: "settings_wf C s" by (rule parsed_wf[OF assms])
  then have "parseTLSGroups C (groupsStr s) = (groupIDs s, splitOn (CHR '','') (groupsStr s)) \<or> groupIDs s = []"
    by (auto simp: settings_wf_def split: if_splits)
  then have "distinct (groupIDs s)" using parseTLSGroups_canonical[OF assms(1), of "groupsStr s"] by (auto simp: canonical_def)
  with reparse_wf[OF wf] show ?thesis by simp
qed

text \<open>Some of the names of a Go release.\<close>

definition sample_crypto :: CryptoTLS where
  "sample_crypto = \<lparr>tlsCipherSuites = [(''TLS_ECDHE_RSA_WITH_AES_128_GCM_SHA256'', 0xc02f)], tlsInsecureCipherSuites = [],
     curveIDString = (\<lambda>i. if i = 23 then ''CurveP256'' else if i = 24 then ''CurveP384'' else if i = 25 then ''CurveP521''
       else if i = 29 then ''X25519'' else ''CurveID('' @ nat_dec i @ '')'')\<rparr>"

lemma sample_named: "named sample_crypto i \<longleftrightarrow> i \<in> {23, 24, 25, 29}"
  by (simp add: named_def sample_crypto_def hasPrefix_def)

lemma sample_crypto_laws: "crypto_laws sample_crypto"
  unfolding crypto_laws_def sample_named
  by (simp add: sample_crypto_def cipherLookup_def toLower_def lower_char_def trimSpace_def is_space_def Let_def)

theorem tls_settings_reparse_witness:
  "\<exists>s. parseTLSSettings sample_crypto ((\<lambda>_. [])(envTLSGroups := ''P-256,secp256r1'')) = Inr s \<and> groupIDs s = [23]
     \<and> parseTLSSettings sample_crypto (container_env (envVars s)) = Inr s"
proof -
  define env where "env = (\<lambda>_. [])(envTLSGroups := ''P-256,secp256r1'')"
  have l: "tlsGroupLookup sample_crypto ''p-256'' = Some 23" "tlsGroupLookup sample_crypto ''secp256r1'' = Some 23"
    unfolding tlsGroupLookup_def map_add_def by simp_all
  have t: "trimSpace ''P-256'' = ''P-256''" "toLower ''P-256'' = ''p-256''" "trimSpace ''secp256r1'' = ''secp256r1''" "toLower ''secp256r1'' = ''secp256r1''"
    by code_simp+
  have "parseTLSGroups sample_crypto ''P-256,secp256r1'' = ([23], [''CurveP256''])"
    by (simp add: parseTLSGroups_def groupStep_def t l) (simp add: sample_crypto_def)
  then have "parseTLSSettings sample_crypto env = Inr (no_settings\<lparr>groupIDs := [23], groupsStr := ''CurveP256''\<rparr>)"
    by (simp add: parseTLSSettings_def env_def no_settings_def)
  from tls_settings_reparse[OF sample_crypto_laws this] this show ?thesis
    unfolding env_def by (intro exI[of _ "no_settings\<lparr>groupIDs := [23], groupsStr := ''CurveP256''\<rparr>"]) simp
qed

end
