(* ===== verification/Policy.thy ===== *)
theory Policy
  imports AlphaTypes NetCIDR Env
begin

text \<open>
  The validating admission webhook: the operator-level policy (\<open>internal/webhook/policy.go\<close>), parsed from flags and environment, and the
  validator of \<open>api/v1alpha1/mcpserver_webhook.go\<close>. The audit log line of a decision is an effect of the trace; other log lines are left out. The text of an
  aggregated error is made by the Kubernetes libraries and is a parameter.
\<close>

section \<open>The policy\<close>

definition privilegedCapabilities :: "string set" where
  "privilegedCapabilities = set [''ALL'', ''SYS_ADMIN'', ''SYS_MODULE'', ''SYS_RAWIO'', ''SYS_PTRACE'', ''SYS_BOOT'', ''SYS_TIME'', ''NET_ADMIN'', ''NET_RAW'',
     ''DAC_READ_SEARCH'', ''DAC_OVERRIDE'', ''SETUID'', ''SETGID'', ''SETFCAP'', ''LINUX_IMMUTABLE'', ''BPF'', ''PERFMON'', ''SYSLOG'']"

record AdmissionPolicy =
  apImageAllowlist :: "string list"
  apRequireImageDigest :: bool
  apMaxStorageMounts :: "int option"
  apRequiredLabels :: "string list"
  apDisallowPrivilegedSecurityContext :: bool

record PolicyFlags =
  pfImageAllowlist :: string
  pfRequireImageDigest :: bool
  pfMaxStorageMounts :: int
  pfRequiredLabels :: string
  pfDisallowPrivilegedSecurityContext :: bool
  pfDisallowPrivilegedSecurityContextSet :: bool

text \<open>\<open>strconv.Atoi\<close>: an optional sign and decimal digits that fit into 64 bits; \<open>strings.EqualFold\<close> on ASCII text.\<close>

definition atoi :: "string \<Rightarrow> int option" where
  "atoi s =
     (let neg = hasPrefix s ''-''; ds = (if neg \<or> hasPrefix s ''+'' then tl s else s);
          n = (if neg then - int (dec_val ds) else int (dec_val ds))
      in if ds \<noteq> [] \<and> list_all is_digit ds \<and> - (2 ^ 63) \<le> n \<and> n < 2 ^ 63 then Some n else None)"

definition equalFold :: "string \<Rightarrow> string \<Rightarrow> bool" where
  "equalFold s t \<longleftrightarrow> toLower s = toLower t"

definition ParseAdmissionPolicy :: "(string \<Rightarrow> string) \<Rightarrow> PolicyFlags \<Rightarrow> AdmissionPolicy" where
  "ParseAdmissionPolicy getenv flags =
     (let allowlist = (if pfImageAllowlist flags = [] then getenv ''IMAGE_ALLOWLIST'' else pfImageAllowlist flags);
          digestEnv = getenv ''REQUIRE_IMAGE_DIGEST'';
          mountsEnv = getenv ''MAX_STORAGE_MOUNTS'';
          labels = (if pfRequiredLabels flags = [] then getenv ''REQUIRED_LABELS'' else pfRequiredLabels flags);
          guardEnv = trimSpace (getenv ''DISALLOW_PRIVILEGED_SECURITY_CONTEXT'')
      in \<lparr>apImageAllowlist = commaList allowlist,
          apRequireImageDigest = (if pfRequireImageDigest flags then True else digestEnv \<noteq> [] \<and> equalFold digestEnv ''true''),
          apMaxStorageMounts =
            (if pfMaxStorageMounts flags \<ge> 0 then Some (pfMaxStorageMounts flags)
             else if mountsEnv \<noteq> [] then (case atoi mountsEnv of Some n \<Rightarrow> if n \<ge> 0 then Some n else None | None \<Rightarrow> None)
             else None),
          apRequiredLabels = commaList labels,
          apDisallowPrivilegedSecurityContext =
            (if \<not> pfDisallowPrivilegedSecurityContextSet flags \<and> guardEnv \<noteq> []
             then if equalFold guardEnv ''true'' then True
                  else if equalFold guardEnv ''false'' then False
                  else pfDisallowPrivilegedSecurityContext flags
             else pfDisallowPrivilegedSecurityContext flags)\<rparr>)"

definition HasActiveRules :: "AdmissionPolicy \<Rightarrow> bool" where
  "HasActiveRules p \<longleftrightarrow> length (apImageAllowlist p) > 0 \<or> apRequireImageDigest p \<or> apMaxStorageMounts p \<noteq> None
     \<or> length (apRequiredLabels p) > 0 \<or> apDisallowPrivilegedSecurityContext p"

section \<open>The rules\<close>

record FieldError =
  feType :: string
  feField :: string
  feDetail :: string

abbreviation forbiddenField :: "string \<Rightarrow> string \<Rightarrow> FieldError" where
  "forbiddenField path detail \<equiv> \<lparr>feType = ''FieldValueForbidden'', feField = path, feDetail = detail\<rparr>"

abbreviation imagePath :: string where "imagePath \<equiv> ''spec.source.containerImage.ref''"

text \<open>The test of one prefix inside the loop of \<open>ValidateImageAllowlist\<close>.\<close>

definition prefixMatches :: "string \<Rightarrow> string \<Rightarrow> bool" where
  "prefixMatches pfx imageRef \<longleftrightarrow> hasPrefix imageRef pfx \<and>
     (length imageRef = length pfx
      \<or> (let c = imageRef ! length pfx in
           c = CHR ''/'' \<or> c = CHR ''@'' \<or> (c = CHR '':'' \<and> containsStr pfx ''/'') \<or> hasSuffix pfx ''/''))"

definition ValidateImageAllowlist :: "AdmissionPolicy \<Rightarrow> string \<Rightarrow> FieldError option" where
  "ValidateImageAllowlist p imageRef =
     (if apImageAllowlist p = [] then None
      else if list_ex (\<lambda>pfx. prefixMatches pfx imageRef) (apImageAllowlist p) then None
      else Some (forbiddenField imagePath
        (''image '' @ goquote imageRef @ '' does not match any allowed registry prefix: ['' @ joinWith '' '' (apImageAllowlist p) @ '']'')))"

text \<open>The regular expression \<open>@sha256:[a-f0-9]{64}$\<close>, which is anchored at the end only.\<close>

definition hexDigit :: "char \<Rightarrow> bool" where
  "hexDigit c \<longleftrightarrow> c \<in> set ''0123456789abcdef''"

definition validDigestRe :: "string \<Rightarrow> bool" where
  "validDigestRe s \<longleftrightarrow> (let t = drop (length s - 72) s in length s \<ge> 72 \<and> take 8 t = ''@sha256:'' \<and> list_all hexDigit (drop 8 t))"

definition ValidateImageDigest :: "AdmissionPolicy \<Rightarrow> string \<Rightarrow> FieldError option" where
  "ValidateImageDigest p imageRef =
     (if \<not> apRequireImageDigest p \<or> validDigestRe imageRef then None
      else Some (forbiddenField imagePath
        (''image '' @ goquote imageRef @ '' must use a digest reference (@sha256:<64 hex chars>) when digest pinning is required'')))"

definition ValidateRuntimePolicy :: "AdmissionPolicy \<Rightarrow> nat \<Rightarrow> gomap \<Rightarrow> FieldError list" where
  "ValidateRuntimePolicy p storageMountCount labels =
     (case apMaxStorageMounts p of
        Some n \<Rightarrow> if int storageMountCount > n
          then [forbiddenField ''spec.config.storage''
                 (''number of storage mounts ('' @ itoa (int storageMountCount) @ '') exceeds maximum allowed ('' @ itoa n @ '')'')]
          else []
      | None \<Rightarrow> [])
     @ concat (map (\<lambda>l. if gm_get labels l = None
          then [\<lparr>feType = ''FieldValueRequired'', feField = ''metadata.labels['' @ l @ '']'',
                  feDetail = ''label '' @ goquote l @ '' is required by admission policy''\<rparr>]
          else []) (apRequiredLabels p))"

abbreviation podPath :: "string \<Rightarrow> string" where "podPath f \<equiv> ''spec.runtime.security.podSecurityContext.'' @ f"
abbreviation containerPath :: "string \<Rightarrow> string" where "containerPath f \<equiv> ''spec.runtime.security.securityContext.'' @ f"

definition when_list :: "bool \<Rightarrow> 'a \<Rightarrow> 'a list" where
  "when_list b x = (if b then [x] else [])"

definition podContextErrors :: "PodSecurityContext \<Rightarrow> FieldError list" where
  "podContextErrors sc =
     when_list (pscRunAsNonRoot sc = Some False) (forbiddenField (podPath ''runAsNonRoot'') ''runAsNonRoot must not be set to false'')
     @ when_list (pscRunAsUser sc = Some 0) (forbiddenField (podPath ''runAsUser'') ''running as UID 0 (root) is not allowed'')"

definition containerContextErrors :: "SecurityContext \<Rightarrow> FieldError list" where
  "containerContextErrors sc =
     when_list (scPrivileged sc = Some True) (forbiddenField (containerPath ''privileged'') ''privileged containers are not allowed'')
     @ when_list (scAllowPrivilegeEscalation sc = Some True)
         (forbiddenField (containerPath ''allowPrivilegeEscalation'') ''allowPrivilegeEscalation must not be set to true'')
     @ when_list (scRunAsNonRoot sc = Some False) (forbiddenField (containerPath ''runAsNonRoot'') ''runAsNonRoot must not be set to false'')
     @ when_list (scRunAsUser sc = Some 0) (forbiddenField (containerPath ''runAsUser'') ''running as UID 0 (root) is not allowed'')
     @ (case scCapabilities sc of
          None \<Rightarrow> []
        | Some caps \<Rightarrow> concat (map (\<lambda>c. when_list (c \<in> privilegedCapabilities)
              (forbiddenField (containerPath ''capabilities.add'') (''adding capability '' @ goquote c @ '' is not allowed''))) (capAdd caps)))"

definition ValidateSecurityContext :: "AdmissionPolicy \<Rightarrow> PodSecurityContext option \<Rightarrow> SecurityContext option \<Rightarrow> FieldError list" where
  "ValidateSecurityContext p podSC containerSC =
     (if \<not> apDisallowPrivilegedSecurityContext p then []
      else (case podSC of None \<Rightarrow> [] | Some sc \<Rightarrow> podContextErrors sc)
         @ (case containerSC of None \<Rightarrow> [] | Some sc \<Rightarrow> containerContextErrors sc))"

section \<open>The validator\<close>

text \<open>The parts of the request's context that the validator reads, and the reader, which may be missing.\<close>

record AdmissionKind =
  akGroup :: string
  akVersion :: string
  akKind :: string

record AdmissionRequest =
  arKind :: AdmissionKind
  arRequestKind :: "AdmissionKind option"

record 'w MCPServerCustomValidator =
  cvPolicy :: "AdmissionPolicy option"
  cvReader :: "'w Api option"
  cvAggregate :: "FieldError list \<Rightarrow> string"

abbreviation srvNameA :: "MCPServerA \<Rightarrow> string" where "srvNameA ms \<equiv> omName (msMetaA ms)"
abbreviation srvNamespaceA :: "MCPServerA \<Rightarrow> string" where "srvNamespaceA ms \<equiv> omNamespace (msMetaA ms)"

definition policyErrors :: "AdmissionPolicy \<Rightarrow> MCPServerA \<Rightarrow> FieldError list" where
  "policyErrors p ms =
     (case srcContainerImageA (spSourceA (msSpecA ms)) of
        None \<Rightarrow> []
      | Some img \<Rightarrow> (case ValidateImageAllowlist p (cisRefA img) of None \<Rightarrow> [] | Some e \<Rightarrow> [e])
                   @ (case ValidateImageDigest p (cisRefA img) of None \<Rightarrow> [] | Some e \<Rightarrow> [e]))
     @ ValidateRuntimePolicy p (length (cfgStorageA (spConfigA (msSpecA ms)))) (omLabels (msMetaA ms))
     @ ValidateSecurityContext p (secPodSecurityContextA (rtSecurityA (spRuntimeA (msSpecA ms))))
         (secSecurityContextA (rtSecurityA (spRuntimeA (msSpecA ms))))"

definition decision :: "MCPServerA \<Rightarrow> string \<Rightarrow> bool \<Rightarrow> string \<Rightarrow> (string \<times> string) list" where
  "decision ms operation allowed reason = [(''mcpserver'', srvNameA ms), (''namespace'', srvNamespaceA ms), (''operation'', operation),
     (''allowed'', btoa allowed), (''reason'', reason)]"

definition validate :: "'w MCPServerCustomValidator \<Rightarrow> MCPServerA \<Rightarrow> string \<Rightarrow> ('w, FieldError list) M" where
  "validate v ms operation =
     (case cvPolicy v of
        None \<Rightarrow> do {
          emit (EAudit ''webhook_decision'' (decision ms operation True ''no policy configured''));
          State_Monad.return []
        }
      | Some p \<Rightarrow>
          (let allErrs = policyErrors p ms; allowed = (allErrs = []);
               image' = (case srcContainerImageA (spSourceA (msSpecA ms)) of None \<Rightarrow> [] | Some img \<Rightarrow> cisRefA img)
           in do {
             emit (EAudit ''webhook_decision'' (decision ms operation allowed (if allowed then [] else cvAggregate v allErrs) @ [(''image'', image')]));
             State_Monad.return allErrs
           }))"

abbreviation mcpGroup :: string where "mcpGroup \<equiv> ''mcp.x-k8s.io''"

definition alphaReferenceLossWarnings :: "'w MCPServerCustomValidator \<Rightarrow> AdmissionRequest option \<Rightarrow> MCPServerA \<Rightarrow> ('w, string list) M" where
  "alphaReferenceLossWarnings v ctx ms =
     (case cvReader v of
        None \<Rightarrow> State_Monad.return []
      | Some A \<Rightarrow>
          (case ctx of
             None \<Rightarrow> State_Monad.return []
           | Some req \<Rightarrow>
               (let kind = (case arRequestKind req of Some k \<Rightarrow> k | None \<Rightarrow> arKind req)
                in if akGroup kind \<noteq> mcpGroup \<or> akVersion kind \<noteq> ''v1alpha1'' \<or> akKind kind \<noteq> ''MCPServer'' then State_Monad.return []
                   else do {
                     stored \<leftarrow> call (getMCPServer A (srvNameA ms) (srvNamespaceA ms));
                     State_Monad.return (case stored of
                        Inl _ \<Rightarrow> []
                      | Inr s \<Rightarrow>
                          if spWorkloadRef (msSpec s) = None \<and> spServiceRef (msSpec s) = None then []
                          else [''Updating through mcp.x-k8s.io/v1alpha1 may discard workloadRef or serviceRef; use mcp.x-k8s.io/v1beta1 instead''])
                   })))"

text \<open>A validator returns its warnings and the errors, none of them for an admitted object.\<close>

definition ValidateCreate :: "'w MCPServerCustomValidator \<Rightarrow> MCPServerA \<Rightarrow> ('w, string list \<times> FieldError list) M" where
  "ValidateCreate v ms = do { errs \<leftarrow> validate v ms ''CREATE''; State_Monad.return ([], errs) }"

definition ValidateUpdate :: "'w MCPServerCustomValidator \<Rightarrow> AdmissionRequest option \<Rightarrow> MCPServerA \<Rightarrow> ('w, string list \<times> FieldError list) M" where
  "ValidateUpdate v ctx ms = do {
     errs \<leftarrow> validate v ms ''UPDATE'';
     (if errs \<noteq> [] then State_Monad.return ([], errs)
      else do {
        warnings \<leftarrow> alphaReferenceLossWarnings v ctx ms;
        State_Monad.return (warnings, [])
      })
   }"

definition ValidateDelete :: "'w MCPServerCustomValidator \<Rightarrow> MCPServerA \<Rightarrow> ('w, string list \<times> FieldError list) M" where
  "ValidateDelete v ms = State_Monad.return ([], [])"

section \<open>What is admitted\<close>

text \<open>An image reference lies within an allowed prefix if the prefix ends where a path component of the reference ends.\<close>

definition image_within :: "string \<Rightarrow> string \<Rightarrow> bool" where
  "image_within pfx ref \<longleftrightarrow> (\<exists>rest. ref = pfx @ rest \<and>
     (rest = [] \<or> (\<exists>c more. rest = c # more \<and> (c = CHR ''/'' \<or> c = CHR ''@'' \<or> c = CHR '':'' \<and> CHR ''/'' \<in> set pfx
        \<or> (\<exists>init. pfx = init @ ''/'')))))"

lemma prefixMatches_iff: "prefixMatches pfx ref \<longleftrightarrow> image_within pfx ref"
proof
  assume "prefixMatches pfx ref"
  then obtain rest where "ref = pfx @ rest"
    "rest = [] \<or> (let c = (pfx @ rest) ! length pfx in c = CHR ''/'' \<or> c = CHR ''@'' \<or> c = CHR '':'' \<and> CHR ''/'' \<in> set pfx \<or> hasSuffix pfx ''/'')"
    by (auto simp: prefixMatches_def hasPrefix_iff containsStr_char)
  then show "image_within pfx ref" by (cases rest) (auto simp: image_within_def hasSuffix_iff)
next
  assume "image_within pfx ref"
  then show "prefixMatches pfx ref"
    by (auto simp: image_within_def prefixMatches_def hasPrefix_iff containsStr_char hasSuffix_iff)
qed

definition pinned :: "string \<Rightarrow> bool" where
  "pinned ref \<longleftrightarrow> (\<exists>name digest. ref = name @ ''@sha256:'' @ digest \<and> length digest = 64 \<and> set digest \<subseteq> set ''0123456789abcdef'')"

lemma validDigestRe_iff: "validDigestRe ref \<longleftrightarrow> pinned ref"
proof
  assume v: "validDigestRe ref"
  define t where "t = drop (length ref - 72) ref"
  have t: "length t = 72" "take 8 t = ''@sha256:''" "set (drop 8 t) \<subseteq> set ''0123456789abcdef''"
    using v unfolding t_def validDigestRe_def Let_def list_all_iff hexDigit_def subset_iff by (elim conjE; simp)+
  have "ref = take (length ref - 72) ref @ take 8 t @ drop 8 t" by (simp add: t_def del: drop_drop)
  then show "pinned ref" unfolding pinned_def t(2) using t(1,3) by (intro exI[of _ "take (length ref - 72) ref"] exI[of _ "drop 8 t"]) simp
next
  assume "pinned ref"
  then obtain name digest where "ref = name @ ''@sha256:'' @ digest" "length digest = 64" "set digest \<subseteq> set ''0123456789abcdef''"
    unfolding pinned_def by blast
  moreover from this have "drop (length ref - 72) ref = ''@sha256:'' @ digest" "length ref \<ge> 72" by simp_all
  ultimately show "validDigestRe ref" by (simp add: validDigestRe_def list_all_iff hexDigit_def subset_iff)
qed

definition unprivileged_pod :: "PodSecurityContext \<Rightarrow> bool" where
  "unprivileged_pod sc \<longleftrightarrow> pscRunAsNonRoot sc \<noteq> Some False \<and> pscRunAsUser sc \<noteq> Some 0"

definition unprivileged :: "SecurityContext \<Rightarrow> bool" where
  "unprivileged sc \<longleftrightarrow> scPrivileged sc \<noteq> Some True \<and> scAllowPrivilegeEscalation sc \<noteq> Some True \<and> scRunAsNonRoot sc \<noteq> Some False
     \<and> scRunAsUser sc \<noteq> Some 0 \<and> (case scCapabilities sc of None \<Rightarrow> True | Some caps \<Rightarrow> set (capAdd caps) \<inter> privilegedCapabilities = {})"

lemma when_list_empty [simp]: "when_list b x = [] \<longleftrightarrow> \<not> b"
  by (simp add: when_list_def)

lemma context_errors:
  "podContextErrors psc = [] \<longleftrightarrow> unprivileged_pod psc"
  "containerContextErrors sc = [] \<longleftrightarrow> unprivileged sc"
  by (auto simp: podContextErrors_def containerContextErrors_def unprivileged_pod_def unprivileged_def split: option.split)

text \<open>The rules of the policy as one predicate.\<close>

definition admitted :: "AdmissionPolicy \<Rightarrow> MCPServerA \<Rightarrow> bool" where
  "admitted p ms \<longleftrightarrow>
     (case srcContainerImageA (spSourceA (msSpecA ms)) of
        None \<Rightarrow> True
      | Some img \<Rightarrow> (apImageAllowlist p = [] \<or> (\<exists>pfx \<in> set (apImageAllowlist p). image_within pfx (cisRefA img)))
                   \<and> (if apRequireImageDigest p then pinned (cisRefA img) else True))
     \<and> (case apMaxStorageMounts p of None \<Rightarrow> True | Some n \<Rightarrow> int (length (cfgStorageA (spConfigA (msSpecA ms)))) \<le> n)
     \<and> set (apRequiredLabels p) \<subseteq> dom (gm_get (omLabels (msMetaA ms)))
     \<and> (if apDisallowPrivilegedSecurityContext p
        then (case secPodSecurityContextA (rtSecurityA (spRuntimeA (msSpecA ms))) of None \<Rightarrow> True | Some sc \<Rightarrow> unprivileged_pod sc)
           \<and> (case secSecurityContextA (rtSecurityA (spRuntimeA (msSpecA ms))) of None \<Rightarrow> True | Some sc \<Rightarrow> unprivileged sc)
        else True)"

lemma rules:
  "ValidateImageAllowlist p ref = None \<longleftrightarrow> apImageAllowlist p = [] \<or> (\<exists>pfx \<in> set (apImageAllowlist p). image_within pfx ref)"
  "ValidateImageDigest p ref = None \<longleftrightarrow> (if apRequireImageDigest p then pinned ref else True)"
  "ValidateRuntimePolicy p n labels = [] \<longleftrightarrow>
     (case apMaxStorageMounts p of None \<Rightarrow> True | Some m \<Rightarrow> int n \<le> m) \<and> set (apRequiredLabels p) \<subseteq> dom (gm_get labels)"
  "ValidateSecurityContext p psc sc = [] \<longleftrightarrow>
     (if apDisallowPrivilegedSecurityContext p
      then (case psc of None \<Rightarrow> True | Some c \<Rightarrow> unprivileged_pod c) \<and> (case sc of None \<Rightarrow> True | Some c \<Rightarrow> unprivileged c) else True)"
proof -
  have c: "concat (map (\<lambda>l. if P l then [f l] else []) ls) = [] \<longleftrightarrow> (\<forall>l \<in> set ls. \<not> P l)" for P ls and f :: "string \<Rightarrow> FieldError"
    by (induction ls) auto
  show "ValidateRuntimePolicy p n labels = [] \<longleftrightarrow>
     (case apMaxStorageMounts p of None \<Rightarrow> True | Some m \<Rightarrow> int n \<le> m) \<and> set (apRequiredLabels p) \<subseteq> dom (gm_get labels)"
    unfolding ValidateRuntimePolicy_def append_is_Nil_conv c by (auto split: option.splits)
qed (auto simp: ValidateImageAllowlist_def ValidateImageDigest_def ValidateSecurityContext_def context_errors
      list_ex_iff prefixMatches_iff validDigestRe_iff split: option.splits)

lemma policyErrors_iff: "policyErrors p ms = [] \<longleftrightarrow> admitted p ms"
proof -
  have o: "(case x of None \<Rightarrow> [] | Some e \<Rightarrow> [e]) = [] \<longleftrightarrow> x = None" for x :: "FieldError option" by (cases x) simp_all
  show ?thesis
    by (cases "srcContainerImageA (spSourceA (msSpecA ms))") (simp_all add: policyErrors_def admitted_def o rules)
qed

lemma validate_run:
  "run_state (validate v ms op) s = (case cvPolicy v of
      None \<Rightarrow> ([], s\<lparr>trace := trace s @ [EAudit ''webhook_decision'' (decision ms op True ''no policy configured'')]\<rparr>)
    | Some p \<Rightarrow> (policyErrors p ms, s\<lparr>trace := trace s @ [EAudit ''webhook_decision''
        (decision ms op (admitted p ms) (if admitted p ms then [] else cvAggregate v (policyErrors p ms))
         @ [(''image'', case srcContainerImageA (spSourceA (msSpecA ms)) of None \<Rightarrow> [] | Some img \<Rightarrow> cisRefA img)])]\<rparr>))"
  by (simp add: validate_def run_emit Let_def policyErrors_iff split: option.split)

text \<open>
  C27: a server is admitted on creation exactly if it obeys every rule of the policy: its image lies within an allowed prefix, ending at a component boundary, and is pinned by a
  sha256 digest if that is required; it has not too many storage mounts and all required labels; and, under the guardrail, neither security context is
  privileged, may escalate, runs as root or adds a privileged capability. The decision is written to the audit log, and nothing else is sent.
\<close>

theorem admission_iff:
  "case run_state (ValidateCreate v ms) s of ((warnings, errs), s') \<Rightarrow>
     (errs = [] \<longleftrightarrow> (case cvPolicy v of None \<Rightarrow> True | Some p \<Rightarrow> admitted p ms))
     \<and> (\<exists>fs. trace s' = trace s @ [EAudit ''webhook_decision'' fs] \<and> (''allowed'', btoa (errs = [])) \<in> set fs) \<and> world s' = world s"
  by (cases "cvPolicy v") (simp_all add: ValidateCreate_def validate_run policyErrors_iff decision_def)

text \<open>
  An update is decided by the same rules as a creation, and reading the stored object for the warning never changes a decision; the warning is
  given exactly for an admitted update through \<open>v1alpha1\<close> of an object that refers to a workload or Service of its own.
\<close>

lemma update_admission:
  "case run_state (ValidateUpdate v ctx ms) s of ((warnings, errs), s') \<Rightarrow>
     (errs = [] \<longleftrightarrow> (case cvPolicy v of None \<Rightarrow> True | Some p \<Rightarrow> admitted p ms))
     \<and> (warnings \<noteq> [] \<longleftrightarrow> errs = [] \<and> (\<exists>A req stored w. cvReader v = Some A \<and> ctx = Some req
         \<and> (case arRequestKind req of None \<Rightarrow> arKind req | Some k \<Rightarrow> k) = \<lparr>akGroup = mcpGroup, akVersion = ''v1alpha1'', akKind = ''MCPServer''\<rparr>
         \<and> getMCPServer A (srvNameA ms) (srvNamespaceA ms) (world s) = (Inr stored, w)
         \<and> (spWorkloadRef (msSpec stored) \<noteq> None \<or> spServiceRef (msSpec stored) \<noteq> None)))"
proof -
  have "run_state (alphaReferenceLossWarnings v ctx ms) t = (ws, t') \<Longrightarrow> world t = world s \<Longrightarrow>
      ws \<noteq> [] \<longleftrightarrow> (\<exists>A req stored w. cvReader v = Some A \<and> ctx = Some req
         \<and> (case arRequestKind req of None \<Rightarrow> arKind req | Some k \<Rightarrow> k) = \<lparr>akGroup = mcpGroup, akVersion = ''v1alpha1'', akKind = ''MCPServer''\<rparr>
         \<and> getMCPServer A (srvNameA ms) (srvNamespaceA ms) (world s) = (Inr stored, w)
         \<and> (spWorkloadRef (msSpec stored) \<noteq> None \<or> spServiceRef (msSpec stored) \<noteq> None))" for t ws t'
    by (cases "cvReader v"; cases ctx)
       (auto simp: alphaReferenceLossWarnings_def run_ops Let_def split: if_splits prod.splits sum.splits option.splits)
  then show ?thesis
    by (cases "cvPolicy v") (auto simp: ValidateUpdate_def validate_run policyErrors_iff split: prod.splits)
qed

section \<open>The guardrail\<close>

text \<open>With the flag at its default, only an explicit \<open>false\<close> in the environment switches the guardrail off.\<close>

lemma guardrail_default:
  assumes "pfDisallowPrivilegedSecurityContext flags"
    and "pfDisallowPrivilegedSecurityContextSet flags \<or> \<not> equalFold (trimSpace (getenv ''DISALLOW_PRIVILEGED_SECURITY_CONTEXT'')) ''false''"
  shows "apDisallowPrivilegedSecurityContext (ParseAdmissionPolicy getenv flags)"
  using assms by (auto simp: ParseAdmissionPolicy_def Let_def)

text \<open>A limit on storage mounts is never negative.\<close>

lemma mounts_limit: "apMaxStorageMounts (ParseAdmissionPolicy getenv flags) = Some n \<Longrightarrow> 0 \<le> n"
  by (auto simp: ParseAdmissionPolicy_def Let_def split: if_splits option.splits)

end
