(* ===== verification/Startup.thy ===== *)
theory Startup
  imports ProviderRegistry TLSConfig Policy
begin

text \<open>
  How the operator starts (\<open>cmd/main.go\<close>, \<open>cmd/loglevel.go\<close>, \<open>internal/controller/cache.go\<close>): the configuration that the flags and the environment give, the
  errors that end the process, and the log level that follows a ConfigMap at run time. The flag package is left out: the arguments are the values after parsing
  and whether a flag was given. \<open>os.Getenv\<close> is a function to strings. Building and starting the manager is the work of the
  libraries; whether such a step fails is the parameter \<open>mgrStep\<close>, by the name of the step. The providers are set up by \<open>SetupAll\<close> with the manager \<open>M\<close> in the
  world \<open>w\<close>. Log lines are left out.
\<close>

section \<open>The log level\<close>

text \<open>\<open>zapcore.Level\<close> is an \<open>int8\<close>.\<close>

type_synonym Level = "8 word"

abbreviation DebugLevel :: Level where "DebugLevel \<equiv> - 1"
abbreviation InfoLevel :: Level where "InfoLevel \<equiv> 0"
abbreviation ErrorLevel :: Level where "ErrorLevel \<equiv> 2"
abbreviation PanicLevel :: Level where "PanicLevel \<equiv> 4"

definition detectOperatorNamespace :: "(string \<Rightarrow> string) \<Rightarrow> string option \<Rightarrow> string" where
  "detectOperatorNamespace getenv saFile =
     (let ns = trimSpace (getenv ''POD_NAMESPACE'')
      in if ns \<noteq> [] then ns else (case saFile of None \<Rightarrow> [] | Some content \<Rightarrow> trimSpace content))"

definition resolveLoggingNamespace :: "(string \<Rightarrow> string) \<Rightarrow> string option \<Rightarrow> string \<Rightarrow> string" where
  "resolveLoggingNamespace getenv saFile namespaceOverride =
     (let ns = trimSpace namespaceOverride in if ns \<noteq> [] then ns else detectOperatorNamespace getenv saFile)"

text \<open>The level of the logger options: an atomic level (by value or by pointer), or nothing.\<close>

definition extractAtomicLevel :: "Level option \<Rightarrow> bool \<Rightarrow> Level" where
  "extractAtomicLevel level development =
     (case level of Some l \<Rightarrow> l | None \<Rightarrow> if development then DebugLevel else InfoLevel)"

definition levelNames :: "(string \<times> Level) list" where
  "levelNames = [(''debug'', DebugLevel), (''info'', InfoLevel), (''error'', ErrorLevel), (''panic'', PanicLevel)]"

definition parseLogLevel :: "string \<Rightarrow> go_error + Level" where
  "parseLogLevel s =
     (let value = trimSpace s; bad = Inl (ErrorString (''invalid log level '' @ goquote value))
      in if value = [] then Inl (ErrorString ''log level must not be empty'')
         else (case map_of levelNames (toLower value) of
                 Some level \<Rightarrow> Inr level
               | None \<Rightarrow> (case atoi value of
                   None \<Rightarrow> bad
                 | Some logLevel \<Rightarrow> if logLevel \<le> 0 \<or> logLevel > 128 then bad else Inr (word_of_int (- logLevel)))))"

text \<open>The atomic level is the state of this controller.\<close>

definition Reconcile_logLevel ::
    "K8sLib \<Rightarrow> 'w Api \<Rightarrow> string \<Rightarrow> string \<Rightarrow> string \<Rightarrow> Level \<times> 'w \<Rightarrow> (Result \<times> go_error option) \<times> Level \<times> 'w" where
  "Reconcile_logLevel K A key name namespace = (\<lambda>(atomicLevel, w).
     (case readConfigMap A name namespace w of
        (Inl err, w') \<Rightarrow> ((noRequeue, if isNotFound K err then None else Some err), atomicLevel, w')
      | (Inr cm, w') \<Rightarrow>
          (case map_of (cmData cm) key of
             None \<Rightarrow> ((noRequeue, None), atomicLevel, w')
           | Some levelStr \<Rightarrow>
               (case parseLogLevel levelStr of
                  Inl err \<Rightarrow> ((noRequeue, None), atomicLevel, w')
                | Inr level \<Rightarrow> ((noRequeue, None), if atomicLevel \<noteq> level then level else atomicLevel, w')))))"

text \<open>The watch on the ConfigMap: off, or on one object.\<close>

definition setupLogLevelFromConfigMap :: "string \<Rightarrow> string \<Rightarrow> string \<Rightarrow> go_error + (string \<times> string \<times> string) option" where
  "setupLogLevelFromConfigMap namespace name key =
     (if name = [] \<or> namespace = [] then Inr None
      else if key = [] then Inl (ErrorString ''logging configmap key must not be empty'')
      else Inr (Some (namespace, name, key)))"

section \<open>The cache of pods\<close>

definition cacheSelects :: "Pod \<Rightarrow> bool" where
  "cacheSelects pod \<longleftrightarrow> gm_get (omLabels (podMeta pod)) LabelKeyMCPServer \<noteq> None"

text \<open>The fields of a pod that the model has at all are the ones kept here, besides the annotations.\<close>

definition stripPodForDiagnostics :: "Pod \<Rightarrow> Pod" where
  "stripPodForDiagnostics pod = pod\<lparr>podMeta := (podMeta pod)\<lparr>omAnnotations := None\<rparr>\<rparr>"

definition cachedPods :: "Pod list \<Rightarrow> Pod list" where
  "cachedPods pods = map stripPodForDiagnostics (filter cacheSelects pods)"

section \<open>Configuration\<close>

definition openPostureStartupAdvisory :: "string \<Rightarrow> string" where
  "openPostureStartupAdvisory posture =
     (if posture \<noteq> PostureOpen then []
      else ''WARNING: NetworkPolicy default posture is '' @ goquote ''open'' @ '': managed MCP servers that leave '' @
        ''spec.network.ingressFrom unset are reachable from any pod in any namespace, which permits '' @
        ''lateral movement on a multi-tenant cluster. Set spec.network.ingressFrom per server, or start '' @
        ''the operator with --network-policy-default-posture=restricted, to limit ingress. Each server '' @
        ''reports its effective posture in the NetworkPolicyRestricted status condition.'')"

text \<open>The list that is then set for the provider.\<close>

definition configureHTTPRouteProvider :: "GatewayLib \<Rightarrow> (string \<Rightarrow> string) \<Rightarrow> string \<Rightarrow> bool \<Rightarrow> go_error + string list" where
  "configureHTTPRouteProvider L getenv allowedGatewayNamespaces flagSet =
     (case ResolveAllowedGatewayNamespaces L (getenv ''HTTPROUTE_ALLOWED_GATEWAY_NAMESPACES'') allowedGatewayNamespaces flagSet of
        (allowed, dropped, Some err) \<Rightarrow> Inl err
      | (allowed, dropped, None) \<Rightarrow> Inr allowed)"

definition configureKuadrantProvider :: "GatewayLib \<Rightarrow> (string \<Rightarrow> string) \<Rightarrow> string \<Rightarrow> bool \<Rightarrow> go_error + string list" where
  "configureKuadrantProvider L getenv allowedExtensionNamespaces flagSet =
     (case ResolveAllowedExtensionNamespaces L (getenv ''KUADRANT_ALLOWED_EXTENSION_NAMESPACES'') allowedExtensionNamespaces flagSet of
        (allowed, dropped, Some err) \<Rightarrow> Inl err
      | (allowed, dropped, None) \<Rightarrow> Inr allowed)"

definition parseAdmissionFlags ::
    "(string \<Rightarrow> string) \<Rightarrow> string \<Rightarrow> bool \<Rightarrow> int \<Rightarrow> string \<Rightarrow> bool \<Rightarrow> bool \<Rightarrow> AdmissionPolicy" where
  "parseAdmissionFlags getenv imageAllowlist requireImageDigest maxStorageMounts requiredLabels disallowPrivileged disallowPrivilegedSet =
     ParseAdmissionPolicy getenv \<lparr>pfImageAllowlist = imageAllowlist, pfRequireImageDigest = requireImageDigest,
       pfMaxStorageMounts = maxStorageMounts, pfRequiredLabels = requiredLabels,
       pfDisallowPrivilegedSecurityContext = disallowPrivileged, pfDisallowPrivilegedSecurityContextSet = disallowPrivilegedSet\<rparr>"

section \<open>The main function\<close>

record Flags =
  flMetricsAddr :: string
  flMetricsCert :: "string \<times> string \<times> string"
  flWebhookCert :: "string \<times> string \<times> string"
  flLeaderElect :: bool
  flProbeAddr :: string
  flZapLevel :: "Level option"
  flZapDevel :: bool
  flSecureMetrics :: bool
  flEnableHTTP2 :: bool
  flEnableWebhook :: bool
  flImageAllowlist :: string
  flRequireImageDigest :: bool
  flMaxStorageMounts :: int
  flRequiredLabels :: string
  flDisallowPrivileged :: bool
  flDisallowPrivilegedSet :: bool
  flPosture :: string
  flHTTPRouteAllowed :: string
  flHTTPRouteSet :: bool
  flKuadrantAllowed :: string
  flKuadrantSet :: bool
  flLoggingName :: string
  flLoggingNamespace :: string
  flLoggingKey :: string

text \<open>A certificate is used when its directory is given: directory, file of the certificate, file of the key.\<close>

definition certOption :: "string \<times> string \<times> string \<Rightarrow> (string \<times> string \<times> string) option" where
  "certOption c = (if length (fst c) > 0 then Some c else None)"

text \<open>What the process runs with once \<open>main\<close> reaches \<open>mgr.Start\<close>.\<close>

record 'w Operator =
  opReconciler :: Reconciler
  opLogLevel :: Level
  opMetricsAddr :: string
  opMetricsCert :: "(string \<times> string \<times> string) option"
  opWebhookCert :: "(string \<times> string \<times> string) option"
  opLeaderElection :: bool
  opProbeAddr :: string
  opNextProtos :: "string list option"
  opMetricsAuth :: bool
  opAdmissionPolicy :: "AdmissionPolicy option"
  opAllowedGatewayNamespaces :: "string list"
  opAllowedExtensionNamespaces :: "string list"
  opProviders :: "'w crdWatcher"
  opLogWatch :: "(string \<times> string \<times> string) option"

text \<open>The flags as \<open>main\<close> declares them.\<close>

definition defaultFlags :: Flags where
  "defaultFlags = \<lparr>flMetricsAddr = ''0'', flMetricsCert = ([], ''tls.crt'', ''tls.key''), flWebhookCert = ([], ''tls.crt'', ''tls.key''),
     flLeaderElect = False, flProbeAddr = '':8081'', flZapLevel = None, flZapDevel = False, flSecureMetrics = True, flEnableHTTP2 = False, flEnableWebhook = False, flImageAllowlist = [], flRequireImageDigest = False,
     flMaxStorageMounts = - 1, flRequiredLabels = [], flDisallowPrivileged = True, flDisallowPrivilegedSet = False, flPosture = ''open'',
     flHTTPRouteAllowed = [], flHTTPRouteSet = False, flKuadrantAllowed = [], flKuadrantSet = False,
     flLoggingName = ''mcp-lifecycle-operator-config'', flLoggingNamespace = [], flLoggingKey = ''log-level''\<rparr>"

text \<open>A failed step logs its error and ends the process: \<open>Inl\<close>.\<close>

definition orExit :: "go_error + 'a \<Rightarrow> ('a \<Rightarrow> go_error + 'b) \<Rightarrow> go_error + 'b" where
  "orExit r rest = (case r of Inl err \<Rightarrow> Inl err | Inr x \<Rightarrow> rest x)"

definition stepResult :: "(string \<Rightarrow> go_error option) \<Rightarrow> string \<Rightarrow> go_error + unit" where
  "stepResult mgrStep name = (case mgrStep name of Some err \<Rightarrow> Inl err | None \<Rightarrow> Inr ())"

definition errorResult :: "go_error option \<times> 'a \<Rightarrow> go_error + 'a" where
  "errorResult r = (case r of (Some err, _) \<Rightarrow> Inl err | (None, x) \<Rightarrow> Inr x)"

definition newReconciler :: "(string \<Rightarrow> string) \<Rightarrow> string option \<Rightarrow> Flags \<Rightarrow> string \<Rightarrow> tlsSettings \<Rightarrow> AdmissionPolicy option \<Rightarrow> Reconciler" where
  "newReconciler getenv saFile fl posture tlsCfg admissionPolicy =
     \<lparr>rHasRecorder = True,
      rTLSEnvVars = (if equalFold (getenv ''PROPAGATE_TLS_ENV_VARS'') ''true'' then envVars tlsCfg else []),
      rTLSProfile = tlsConfigFunc tlsCfg,
      rPosture = posture,
      rOperatorNamespace = detectOperatorNamespace getenv saFile,
      rOperatorPodLabels = [(''control-plane'', ''controller-manager''), (''app.kubernetes.io/name'', ''mcp-lifecycle-operator'')],
      rWebhookEnabled = flEnableWebhook fl,
      rAdmissionPolicyActive = (flEnableWebhook fl \<and> (case admissionPolicy of Some p \<Rightarrow> HasActiveRules p | None \<Rightarrow> False))\<rparr>"

definition main :: "GatewayLib \<Rightarrow> CryptoTLS \<Rightarrow> (string \<Rightarrow> string) \<Rightarrow> string option \<Rightarrow> (string \<Rightarrow> go_error option) \<Rightarrow> 'w Manager \<Rightarrow> 'w \<Rightarrow> Flags
    \<Rightarrow> go_error + 'w Operator" where
  "main L C getenv saFile mgrStep M w fl =
     orExit (ParseDefaultPosture (flPosture fl)) (\<lambda>defaultPosture.
     orExit (parseTLSSettings C getenv) (\<lambda>tlsCfg.
     orExit (stepResult mgrStep ''CacheOptions'') (\<lambda>_.
     orExit (stepResult mgrStep ''NewManager'') (\<lambda>_.
     let admissionPolicy = (if flEnableWebhook fl
            then Some (parseAdmissionFlags getenv (flImageAllowlist fl) (flRequireImageDigest fl) (flMaxStorageMounts fl) (flRequiredLabels fl)
                   (flDisallowPrivileged fl) (flDisallowPrivilegedSet fl))
            else None);
         reconciler = newReconciler getenv saFile fl defaultPosture tlsCfg admissionPolicy in
     orExit (stepResult mgrStep ''MCPServer controller'') (\<lambda>_.
     orExit (configureHTTPRouteProvider L getenv (flHTTPRouteAllowed fl) (flHTTPRouteSet fl)) (\<lambda>gatewayNamespaces.
     orExit (configureKuadrantProvider L getenv (flKuadrantAllowed fl) (flKuadrantSet fl)) (\<lambda>extensionNamespaces.
     orExit (errorResult (SetupAll M registry w)) (\<lambda>watcher.
     orExit (if flEnableWebhook fl then stepResult mgrStep ''v1alpha1 webhook'' else Inr ()) (\<lambda>_.
     orExit (stepResult mgrStep ''v1beta1 webhook'') (\<lambda>_.
     orExit (stepResult mgrStep ''healthz'') (\<lambda>_.
     orExit (stepResult mgrStep ''readyz'') (\<lambda>_.
     orExit (setupLogLevelFromConfigMap (resolveLoggingNamespace getenv saFile (flLoggingNamespace fl)) (flLoggingName fl) (flLoggingKey fl)) (\<lambda>logWatch.
     orExit (if logWatch \<noteq> None then stepResult mgrStep ''logging-config'' else Inr ()) (\<lambda>_.
     Inr \<lparr>opReconciler = reconciler, opLogLevel = extractAtomicLevel (flZapLevel fl) (flZapDevel fl), opMetricsAddr = flMetricsAddr fl,
        opMetricsCert = certOption (flMetricsCert fl), opWebhookCert = certOption (flWebhookCert fl),
        opLeaderElection = flLeaderElect fl, opProbeAddr = flProbeAddr fl, opNextProtos = (if \<not> flEnableHTTP2 fl then Some [''http/1.1''] else None),
        opMetricsAuth = flSecureMetrics fl, opAdmissionPolicy = admissionPolicy,
        opAllowedGatewayNamespaces = gatewayNamespaces, opAllowedExtensionNamespaces = extensionNamespaces,
        opProviders = watcher, opLogWatch = logWatch\<rparr>))))))))))))))"

section \<open>Log levels\<close>

lemma orExit_Inr: "orExit r rest = Inr y \<longleftrightarrow> (\<exists>x. r = Inr x \<and> rest x = Inr y)"
  by (simp add: orExit_def split: sum.split)

lemma dec_val_append: "dec_val (s @ [c]) = dec_val s * 10 + digit_val c"
  by (simp add: dec_val_def)

lemma digit_char_facts: "d < 10 \<Longrightarrow> is_digit (digit_char d) \<and> digit_val (digit_char d) = d"
proof -
  have "\<forall>d\<in>set [0..<10]. is_digit (digit_char d) \<and> digit_val (digit_char d) = d" by code_simp
  then show "d < 10 \<Longrightarrow> is_digit (digit_char d) \<and> digit_val (digit_char d) = d" by simp
qed

lemma nat_dec_facts: "list_all is_digit (nat_dec n) \<and> dec_val (nat_dec n) = n"
proof (induction n rule: nat_dec.induct)
  case (1 n)
  then show ?case using digit_char_facts[of n] digit_char_facts[of "n mod 10"]
    by (subst (1 2) nat_dec.simps) (auto simp: dec_val_append dec_val_def)
qed

lemma nat_dec_head: "hasPrefix (nat_dec n) ''-'' = False" "hasPrefix (nat_dec n) ''+'' = False"
proof -
  obtain c cs where c: "nat_dec n = c # cs" using nat_dec_nonempty by (cases "nat_dec n") auto
  then have "is_digit c" using nat_dec_facts[of n] by simp
  then have "c \<noteq> CHR ''-''" "c \<noteq> CHR ''+''" by (auto simp: is_digit_def)
  with c show "hasPrefix (nat_dec n) ''-'' = False" "hasPrefix (nat_dec n) ''+'' = False" by (simp_all add: hasPrefix_def)
qed

lemma atoi_itoa: "atoi (itoa n) = (if - (2 ^ 63) \<le> n \<and> n < 2 ^ 63 then Some n else None)"
proof (cases "n < 0")
  case True
  then have "itoa n = CHR ''-'' # nat_dec (nat (- n))" by (simp add: itoa_def)
  with True nat_dec_facts[of "nat (- n)"] nat_dec_nonempty[of "nat (- n)"] show ?thesis by (simp add: atoi_def hasPrefix_def) linarith
next
  case False
  then have "itoa n = nat_dec (nat n)" by (simp add: itoa_def)
  with False nat_dec_facts[of "nat n"] nat_dec_nonempty[of "nat n"] nat_dec_head[of "nat n"] show ?thesis by (simp add: atoi_def) linarith
qed

lemma trimSpace_id: "list_all (\<lambda>c. \<not> is_space c) s \<Longrightarrow> trimSpace s = s"
proof -
  assume "list_all (\<lambda>c. \<not> is_space c) s"
  then have "\<And>t. set t = set s \<Longrightarrow> dropWhile is_space t = t" by (cases s rule: rev_cases) (metis dropWhile_eq_self_iff hd_in_set list_all_iff)+
  from this[of s] this[of "rev s"] show "trimSpace s = s" by (simp add: trimSpace_def)
qed

lemma itoa_chars: "list_all (\<lambda>c. c = CHR ''-'' \<or> is_digit c) (itoa n)"
  using nat_dec_facts[of "nat n"] nat_dec_facts[of "nat (- n)"] by (auto simp: itoa_def list_all_iff)

lemma digit_or_sign:
  assumes "c = CHR ''-'' \<or> is_digit c"
  shows "\<not> is_space c" "lower_char c = c" "c \<notin> {CHR ''d'', CHR ''i'', CHR ''e'', CHR ''p''}"
  using assms by (auto simp: is_space_def lower_char_def is_digit_def Let_def)

lemma levelNames_itoa: "map_of levelNames (toLower (itoa n)) = None"
proof -
  have "toLower (itoa n) = itoa n"
    unfolding toLower_def using itoa_chars[of n] by (intro map_idI) (auto simp: list_all_iff digit_or_sign(2))
  moreover have "itoa n \<noteq> x # xs" if "x \<in> {CHR ''d'', CHR ''i'', CHR ''e'', CHR ''p''}" for x xs
  proof
    assume "itoa n = x # xs"
    with itoa_chars[of n] have "x = CHR ''-'' \<or> is_digit x" by simp
    with digit_or_sign(3) that show False by blast
  qed
  ultimately show ?thesis by (simp add: levelNames_def)
qed

text \<open>
  C34: a decimal number is accepted as a log level exactly from 1 to 128, and the level is its negative as a signed byte without wrap-around: verbosity \<open>N\<close>
  becomes level \<open>-N\<close>, down to the smallest byte, -128. Every other number, however long, is an error.
\<close>

theorem log_level_of_verbosity:
  "case parseLogLevel (itoa n) of Inr level \<Rightarrow> 1 \<le> n \<and> n \<le> 128 \<and> sint level = - n | Inl err \<Rightarrow> \<not> (1 \<le> n \<and> n \<le> 128)"
proof -
  have "trimSpace (itoa n) = itoa n"
    by (rule trimSpace_id) (use itoa_chars[of n] digit_or_sign(1) in \<open>auto simp: list_all_iff\<close>)
  moreover have "itoa n \<noteq> []" using nat_dec_nonempty by (simp add: itoa_def)
  moreover have "sint (word_of_int (- n) :: 8 word) = - n" if "1 \<le> n" "n \<le> 128"
    using that unfolding sint_sbintrunc' by (simp add: signed_take_bit_int_eq_self_iff)
  ultimately show ?thesis by (auto simp: parseLogLevel_def Let_def levelNames_itoa atoi_itoa split: option.splits)
qed

section \<open>The cache\<close>

lemma stripped_failure: "firstFailure (stripPodForDiagnostics pod) = firstFailure pod"
  by (simp add: firstFailure_def stripPodForDiagnostics_def split: option.split)

lemma stripped_analysis: "analyzePodFailures (map stripPodForDiagnostics pods) = analyzePodFailures pods"
  by (induction pods) (simp_all add: stripped_failure split: option.split)

text \<open>
  C33: the trimmed cache is enough for the diagnosis of a managed server: for pods that the selector of its Deployment selects, the diagnosis from the cache is the one from the
  complete pods, in the same order, and so is the signature on which the watch compares an old and a new pod.
\<close>

theorem cached_pods_suffice:
  assumes "createDeployment R ms = Inr d" "depSelector d = Some sel"
    and "\<And>p k v. p \<in> set pods \<Longrightarrow> (k, v) \<in> set (lsMatchLabels sel) \<Longrightarrow> gm_get (omLabels (podMeta p)) k = Some v"
  shows "analyzePodFailures (cachedPods pods) = analyzePodFailures pods
     \<and> map podFailureSignature (cachedPods pods) = map podFailureSignature pods"
proof -
  have "(LabelKeyMCPServer, srvName ms) \<in> set (lsMatchLabels sel)"
    using createDeployment_facts(6)[OF assms(1)] assms(2) by (simp add: managedWorkloadSelector_def)
  then have "\<forall>p\<in>set pods. cacheSelects p" using assms(3) by (auto simp: cacheSelects_def)
  then have "filter cacheSelects pods = pods" by (simp add: filter_id_conv)
  then show ?thesis by (simp add: cachedPods_def stripped_analysis podFailureSignature_def stripped_failure)
qed

theorem cached_pods_suffice_witness:
  "analyzePodFailures (cachedPods [(crashing_pod 3)\<lparr>podMeta := zero_meta\<lparr>omName := ''p'', omLabels := Some [(LabelKeyMCPServer, srvName image_server)]\<rparr>\<rparr>])
   = analyzePodFailures [(crashing_pod 3)\<lparr>podMeta := zero_meta\<lparr>omName := ''p'', omLabels := Some [(LabelKeyMCPServer, srvName image_server)]\<rparr>\<rparr>]"
proof -
  have "\<not> isl (createDeployment sample_reconciler image_server)" by code_simp
  then obtain d where d: "createDeployment sample_reconciler image_server = Inr d" by (cases "createDeployment sample_reconciler image_server") auto
  show ?thesis
    by (rule cached_pods_suffice[OF d createDeployment_facts(6)[OF d], THEN conjunct1]) (auto simp: managedWorkloadSelector_def gm_get_def gm_list_def)
qed

section \<open>What a started operator does\<close>

lemma main_facts:
  assumes "main L C getenv saFile mgrStep M w fl = Inr op"
  shows "ParseDefaultPosture (flPosture fl) = Inr (rPosture (opReconciler op))"
    and "rWebhookEnabled (opReconciler op) = (opAdmissionPolicy op \<noteq> None)"
    and "rAdmissionPolicyActive (opReconciler op) = (\<exists>p. opAdmissionPolicy op = Some p \<and> HasActiveRules p)"
    and "configureHTTPRouteProvider L getenv (flHTTPRouteAllowed fl) (flHTTPRouteSet fl) = Inr (opAllowedGatewayNamespaces op)"
    and "configureKuadrantProvider L getenv (flKuadrantAllowed fl) (flKuadrantSet fl) = Inr (opAllowedExtensionNamespaces op)"
    and "SetupAll M registry w = (None, opProviders op)"
proof -
  let ?policy = "if flEnableWebhook fl
    then Some (parseAdmissionFlags getenv (flImageAllowlist fl) (flRequireImageDigest fl) (flMaxStorageMounts fl) (flRequiredLabels fl)
      (flDisallowPrivileged fl) (flDisallowPrivilegedSet fl)) else None"
  obtain posture tlsCfg gws exts watcher logWatch where f: "ParseDefaultPosture (flPosture fl) = Inr posture"
      "configureHTTPRouteProvider L getenv (flHTTPRouteAllowed fl) (flHTTPRouteSet fl) = Inr gws"
      "configureKuadrantProvider L getenv (flKuadrantAllowed fl) (flKuadrantSet fl) = Inr exts"
      "errorResult (SetupAll M registry w) = Inr watcher"
      "\<lparr>opReconciler = newReconciler getenv saFile fl posture tlsCfg ?policy, opLogLevel = extractAtomicLevel (flZapLevel fl) (flZapDevel fl), opMetricsAddr = flMetricsAddr fl,
        opMetricsCert = certOption (flMetricsCert fl), opWebhookCert = certOption (flWebhookCert fl),
        opLeaderElection = flLeaderElect fl, opProbeAddr = flProbeAddr fl, opNextProtos = (if \<not> flEnableHTTP2 fl then Some [''http/1.1''] else None),
        opMetricsAuth = flSecureMetrics fl, opAdmissionPolicy = ?policy,
        opAllowedGatewayNamespaces = gws, opAllowedExtensionNamespaces = exts, opProviders = watcher, opLogWatch = logWatch\<rparr> = op"
    using assms unfolding main_def Let_def orExit_Inr sum.inject by (elim exE conjE) (rule that)
  show "ParseDefaultPosture (flPosture fl) = Inr (rPosture (opReconciler op))"
    and "rWebhookEnabled (opReconciler op) = (opAdmissionPolicy op \<noteq> None)"
    and "rAdmissionPolicyActive (opReconciler op) = (\<exists>p. opAdmissionPolicy op = Some p \<and> HasActiveRules p)"
    and "configureHTTPRouteProvider L getenv (flHTTPRouteAllowed fl) (flHTTPRouteSet fl) = Inr (opAllowedGatewayNamespaces op)"
    and "configureKuadrantProvider L getenv (flKuadrantAllowed fl) (flKuadrantSet fl) = Inr (opAllowedExtensionNamespaces op)"
    and "SetupAll M registry w = (None, opProviders op)"
    using f(4) by (auto simp: f(1-3) newReconciler_def errorResult_def simp flip: f(5) split: prod.splits option.splits)
qed

text \<open>
  a started operator is honest about its admission policy: the condition \<open>PolicyEnforced\<close> that it writes is true exactly if the webhook was enabled with a policy that has a
  rule.
\<close>

lemma policy_report_honest:
  assumes "main L C getenv saFile mgrStep M w fl = Inr op" "run_state (policyEnforcedCondition K A (opReconciler op) generation existing) s = (c, s')"
  shows "cStatus c = ConditionTrue \<longleftrightarrow> (\<exists>p. opAdmissionPolicy op = Some p \<and> HasActiveRules p)"
  using assms(2) main_facts(2,3)[OF assms(1)]
  by (auto simp: policyEnforcedCondition_def split: if_splits dest!: condition_run(2))

text \<open>An environment without variables and a manager whose steps succeed.\<close>

definition webhook_operator :: "nat Operator" where
  "webhook_operator = projr (main sample_gateway_lib sample_crypto (\<lambda>_. []) (Some ''ops'') (\<lambda>_. None) gateway_manager 0 (defaultFlags\<lparr>flEnableWebhook := True,
     flHTTPRouteAllowed := ''edge, Bad'', flHTTPRouteSet := True, flKuadrantAllowed := ''edge'', flKuadrantSet := True\<rparr>))"

lemma webhook_main:
  "main sample_gateway_lib sample_crypto (\<lambda>_. []) (Some ''ops'') (\<lambda>_. None) gateway_manager 0 (defaultFlags\<lparr>flEnableWebhook := True,
     flHTTPRouteAllowed := ''edge, Bad'', flHTTPRouteSet := True, flKuadrantAllowed := ''edge'', flKuadrantSet := True\<rparr>) = Inr webhook_operator"
proof -
  have "\<not> isl (main sample_gateway_lib sample_crypto (\<lambda>_. []) (Some ''ops'') (\<lambda>_. None) gateway_manager 0 (defaultFlags\<lparr>flEnableWebhook := True,
     flHTTPRouteAllowed := ''edge, Bad'', flHTTPRouteSet := True, flKuadrantAllowed := ''edge'', flKuadrantSet := True\<rparr>))" by code_simp
  then show ?thesis by (simp add: webhook_operator_def)
qed

lemma policy_report_honest_witness:
  "cStatus (fst (run_state (policyEnforcedCondition sample_lib sample_api (opReconciler webhook_operator) 1 []) start_state)) = ConditionTrue"
proof -
  obtain c s' where run: "run_state (policyEnforcedCondition sample_lib sample_api (opReconciler webhook_operator) 1 []) start_state = (c, s')" by fastforce
  have "case opAdmissionPolicy webhook_operator of Some p \<Rightarrow> HasActiveRules p | None \<Rightarrow> False" by code_simp
  with policy_report_honest[OF webhook_main run] run show ?thesis by (auto split: option.splits)
qed

section \<open>The allowlists\<close>

definition routeWrites :: "effect list \<Rightarrow> HTTPRoute set" where
  "routeWrites es = {route. ECreateRoute route \<in> set es \<or> EUpdateRoute route \<in> set es}"

definition gatewayListed :: "(string \<Rightarrow> string) \<Rightarrow> Flags \<Rightarrow> string list" where
  "gatewayListed getenv fl = ParseAllowedGatewayNamespaces (getenv ''HTTPROUTE_ALLOWED_GATEWAY_NAMESPACES'') (flHTTPRouteAllowed fl) (flHTTPRouteSet fl)"

definition extensionListed :: "(string \<Rightarrow> string) \<Rightarrow> Flags \<Rightarrow> string list" where
  "extensionListed getenv fl = ParseAllowedExtensionNamespaces (getenv ''KUADRANT_ALLOWED_EXTENSION_NAMESPACES'') (flKuadrantAllowed fl) (flKuadrantSet fl)"

text \<open>The entries that are valid names.\<close>

abbreviation validNames :: "GatewayLib \<Rightarrow> string list \<Rightarrow> string list" where
  "validNames L entries \<equiv> filter (\<lambda>ns. isDNS1123Label L ns = []) entries"

lemma main_lists:
  assumes "main L C getenv saFile mgrStep M w fl = Inr op"
  shows "gatewayListed getenv fl \<noteq> [] \<Longrightarrow> opAllowedGatewayNamespaces op \<noteq> []" "opAllowedGatewayNamespaces op = validNames L (gatewayListed getenv fl)"
    and "extensionListed getenv fl \<noteq> [] \<Longrightarrow> opAllowedExtensionNamespaces op \<noteq> []" "opAllowedExtensionNamespaces op = validNames L (extensionListed getenv fl)"
proof -
  obtain dropped where g: "ResolveAllowedGatewayNamespaces L (getenv ''HTTPROUTE_ALLOWED_GATEWAY_NAMESPACES'') (flHTTPRouteAllowed fl) (flHTTPRouteSet fl)
      = (opAllowedGatewayNamespaces op, dropped, None)"
    using main_facts(4)[OF assms] by (auto simp: configureHTTPRouteProvider_def split: prod.splits option.splits)
  obtain dropped' where e: "ResolveAllowedExtensionNamespaces L (getenv ''KUADRANT_ALLOWED_EXTENSION_NAMESPACES'') (flKuadrantAllowed fl) (flKuadrantSet fl)
      = (opAllowedExtensionNamespaces op, dropped', None)"
    using main_facts(5)[OF assms] by (auto simp: configureKuadrantProvider_def split: prod.splits option.splits)
  show "gatewayListed getenv fl \<noteq> [] \<Longrightarrow> opAllowedGatewayNamespaces op \<noteq> []" "opAllowedGatewayNamespaces op = validNames L (gatewayListed getenv fl)"
    using resolved_gateway_namespaces[OF g] by (simp_all add: gatewayListed_def)
  show "extensionListed getenv fl \<noteq> [] \<Longrightarrow> opAllowedExtensionNamespaces op \<noteq> []" "opAllowedExtensionNamespaces op = validNames L (extensionListed getenv fl)"
    using resolved_extension_namespaces[OF e] by (simp_all add: extensionListed_def)
qed

lemma routeWrites_guard:
  assumes "\<And>e. e \<in> set es \<Longrightarrow> provider_guard L G n ns refOk regOk ev e" "route \<in> routeWrites es"
  shows "\<exists>ref. hrsParentRefs (hrSpec route) = [ref] \<and> refOk ref"
  using assms by (auto simp: routeWrites_def dest: assms(1))

lemma enforced_gateways:
  assumes "main L C getenv saFile mgrStep M w fl = Inr op" "provider_laws L G" "trace s = []" "gatewayListed getenv fl \<noteq> []"
    and "route \<in> routeWrites (trace (snd (run_state (Reconcile_httproute L G (opAllowedGatewayNamespaces op) n ns) s)))"
  shows "\<exists>ref gwNamespace. hrsParentRefs (hrSpec route) = [ref] \<and> prNamespace ref = Some gwNamespace \<and> gwNamespace \<in> set (validNames L (gatewayListed getenv fl))"
proof -
  obtain ref where "hrsParentRefs (hrSpec route) = [ref]" "refOk_httproute L (opAllowedGatewayNamespaces op) ref"
    using routeWrites_guard[OF httproute.sends_within[OF assms(2) surjective_pairing assms(3)] assms(5)] by blast
  with main_lists(1)[OF assms(1,4)] show ?thesis
    unfolding main_lists(2)[OF assms(1), symmetric] by (auto simp: refOk_httproute_def allowedGateway_def)
qed

lemma enforced_extensions:
  assumes "main L C getenv saFile mgrStep M w fl = Inr op" "provider_laws L G" "trace s = []" "extensionListed getenv fl \<noteq> []"
    and "route \<in> routeWrites (trace (snd (run_state (Reconcile_kuadrant L G (opAllowedExtensionNamespaces op) n ns) s)))"
  shows "\<exists>ref ext name extNamespace w w'. hrsParentRefs (hrSpec route) = [ref] \<and> getExtension G name extNamespace w = (Inr ext, w')
      \<and> extNamespace \<in> set (validNames L (extensionListed getenv fl)) \<and> (prName ref, prNamespace ref) = apsnd Some (extensionGateway ext)"
proof -
  obtain ref where "hrsParentRefs (hrSpec route) = [ref]" "refOk_kuadrant L G (opAllowedExtensionNamespaces op) ref"
    using routeWrites_guard[OF kuadrant.sends_within[OF assms(2) surjective_pairing assms(3)] assms(5)] by blast
  with main_lists(3)[OF assms(1,4)] show ?thesis
    unfolding main_lists(4)[OF assms(1), symmetric] refOk_kuadrant_def allowedExtension_def by (metis (no_types, lifting) apsnd_conv prod.collapse)
qed

text \<open>
  C16: a configured allowlist is enforced or the operator does not start. When flag or variable name any namespace for one of the two lists, but none that is a valid name, the start fails.
  A started operator keeps exactly the valid entries: when a list is configured, every route that the httproute provider writes attaches to a Gateway in one of
  them, and every route that the Kuadrant provider writes attaches to the Gateway of an extension that was read from one of them.
\<close>

theorem operator_enforces_allowlists:
  assumes "provider_laws L G" "trace s = []"
  shows "(gatewayListed getenv fl \<noteq> [] \<and> validNames L (gatewayListed getenv fl) = []
      \<or> extensionListed getenv fl \<noteq> [] \<and> validNames L (extensionListed getenv fl) = [] \<longrightarrow> isl (main L C getenv saFile mgrStep M w fl))
    \<and> (\<forall>op. main L C getenv saFile mgrStep M w fl = Inr op \<longrightarrow>
        opAllowedGatewayNamespaces op = validNames L (gatewayListed getenv fl) \<and> opAllowedExtensionNamespaces op = validNames L (extensionListed getenv fl)
      \<and> (gatewayListed getenv fl \<noteq> [] \<longrightarrow>
        (\<forall>route\<in>routeWrites (trace (snd (run_state (Reconcile_httproute L G (opAllowedGatewayNamespaces op) n ns) s))).
          \<exists>ref gwNamespace. hrsParentRefs (hrSpec route) = [ref] \<and> prNamespace ref = Some gwNamespace \<and> gwNamespace \<in> set (validNames L (gatewayListed getenv fl))))
      \<and> (extensionListed getenv fl \<noteq> [] \<longrightarrow>
        (\<forall>route\<in>routeWrites (trace (snd (run_state (Reconcile_kuadrant L G (opAllowedExtensionNamespaces op) n ns) s))).
          \<exists>ref ext name extNamespace w w'. hrsParentRefs (hrSpec route) = [ref] \<and> getExtension G name extNamespace w = (Inr ext, w')
            \<and> extNamespace \<in> set (validNames L (extensionListed getenv fl)) \<and> (prName ref, prNamespace ref) = apsnd Some (extensionGateway ext))))"
proof (intro conjI allI impI ballI)
  assume "gatewayListed getenv fl \<noteq> [] \<and> validNames L (gatewayListed getenv fl) = []
    \<or> extensionListed getenv fl \<noteq> [] \<and> validNames L (extensionListed getenv fl) = []"
  then show "isl (main L C getenv saFile mgrStep M w fl)"
    using main_lists[of L C getenv saFile mgrStep M w fl] by (cases "main L C getenv saFile mgrStep M w fl") auto
qed (blast intro: main_lists(2,4) enforced_gateways[OF _ assms] enforced_extensions[OF _ assms])+

text \<open>One list with a valid and an invalid entry, and a start with the invalid one alone.\<close>

theorem operator_enforces_allowlists_witness:
  "isl (main sample_gateway_lib sample_crypto (\<lambda>_. []) (Some ''ops'') (\<lambda>_. None) gateway_manager 0
       (defaultFlags\<lparr>flHTTPRouteAllowed := ''Bad'', flHTTPRouteSet := True\<rparr>))
   \<and> (\<exists>route ref. ECreateRoute route \<in> set (trace (snd (routed_run (routed_route\<lparr>hrMeta := zero_meta\<rparr>))))
     \<and> hrsParentRefs (hrSpec route) = [ref] \<and> prNamespace ref = Some ''edge'')"
proof -
  let ?fl = "defaultFlags\<lparr>flEnableWebhook := True, flHTTPRouteAllowed := ''edge, Bad'', flHTTPRouteSet := True, flKuadrantAllowed := ''edge'', flKuadrantSet := True\<rparr>"
  let ?bad = "defaultFlags\<lparr>flHTTPRouteAllowed := ''Bad'', flHTTPRouteSet := True\<rparr>"
  have lists: "opAllowedGatewayNamespaces webhook_operator = [''edge'']" "gatewayListed (\<lambda>_. []) ?fl = [''edge'', ''Bad'']"
    "validNames sample_gateway_lib [''edge'', ''Bad''] = [''edge'']"
    "gatewayListed (\<lambda>_. []) ?bad = [''Bad'']" "validNames sample_gateway_lib [''Bad''] = []" by code_simp+
  from routed_run_creates obtain route where r: "ECreateRoute route \<in> set (trace (snd (routed_run (routed_route\<lparr>hrMeta := zero_meta\<rparr>))))"
    by (auto simp: map_eq_Cons_conv simp flip: created_routes_iff)
  have "trace start_state = []" by simp
  note enforced = operator_enforces_allowlists[OF sample_provider_laws[of "sample_gateway_binding ''httproute''" routed_server gateway_data
      "routed_route\<lparr>hrMeta := zero_meta\<rparr>" edge_gateway] this, where n = "''s-gateway-binding''" and ns = "''team''" and getenv = "\<lambda>_. []"]
  have "isl (main sample_gateway_lib sample_crypto (\<lambda>_. []) (Some ''ops'') (\<lambda>_. None) gateway_manager 0 ?bad)"
    by (rule enforced[where fl = ?bad, THEN conjunct1, rule_format]) (simp only: lists, simp)
  moreover have "\<exists>ref. hrsParentRefs (hrSpec route) = [ref] \<and> prNamespace ref = Some ''edge''"
    using enforced[where fl = ?fl, THEN conjunct2, rule_format, OF webhook_main, THEN conjunct2, THEN conjunct2, THEN conjunct1] r
    unfolding lists by (auto simp: routeWrites_def)
  ultimately show ?thesis using r by blast
qed

end
