(* ===== verification/JUnitReport.thy ===== *)
theory JUnitReport
  imports Policy
begin

text \<open>
  The test report of the end-to-end runner (\<open>test/e2e/runner/xml_tree.go\<close>, \<open>report_xml.go\<close>). \<open>gotestsum\<close> writes a JUnit file with one suite per test binary; the runner reads it
  as a tree, renames the test cases, and either joins the suites into one or marks the report as verbatim. The decoder of \<open>encoding/xml\<close> is the token stream it delivers, with the error that
  ends it; its encoder is a parameter with a state. Floating point numbers, used for times only, are a parameter as well. Titles are ASCII.
\<close>

section \<open>The tree\<close>

record xmlName =
  xnSpace :: string
  xnLocal :: string

record xmlAttr =
  xaName :: xmlName
  xaValue :: string

record StartElement =
  seName :: xmlName
  seAttr :: "xmlAttr list"

datatype xmlToken =
    StartToken StartElement
  | EndToken xmlName
  | CharData string
  | XmlComment string
  | ProcInst string string
  | Directive string

datatype xmlElement = Element (elStart: StartElement) (elNodes: "xmlNode list")
  and xmlNode = TokenNode xmlToken | ElementNode xmlElement

record xmlDocument =
  docLeading :: "xmlToken list"
  docRoot :: xmlElement
  docTrailing :: "xmlToken list"

abbreviation elLocal :: "xmlElement \<Rightarrow> string" where
  "elLocal e \<equiv> xnLocal (seName (elStart e))"

abbreviation io_EOF :: go_error where "io_EOF \<equiv> ErrorString ''EOF''"

text \<open>
  \<open>parseXMLElement\<close> from the start tag on: the nodes read so far, the tokens that are left, and the error that comes after them.
\<close>

function (sequential) parseXMLElement :: "go_error \<Rightarrow> StartElement \<Rightarrow> xmlNode list \<Rightarrow> xmlToken list \<Rightarrow> (go_error + xmlElement) \<times> xmlToken list" where
  "parseXMLElement fin st nodes [] = (Inl (Wrap (''read XML element '' @ xnLocal (seName st) @ '': '') fin), [])"
| "parseXMLElement fin st nodes (StartToken s # ts) =
     (case parseXMLElement fin s [] ts of
        (Inl err, ts') \<Rightarrow> (Inl err, ts')
      | (Inr child, ts') \<Rightarrow> parseXMLElement fin st (nodes @ [ElementNode child]) ts')"
| "parseXMLElement fin st nodes (EndToken n # ts) = (Inr (Element st nodes), ts)"
| "parseXMLElement fin st nodes (t # ts) = parseXMLElement fin st (nodes @ [TokenNode t]) ts"
  by pat_completeness auto

lemma parseXMLElement_shorter:
  assumes "parseXMLElement_dom (fin, st, nodes, ts)" "parseXMLElement fin st nodes ts = (r, ts')"
  shows "length ts' \<le> length ts"
  using assms by (induction arbitrary: r ts' rule: parseXMLElement.pinduct) (fastforce simp: parseXMLElement.psimps split: prod.splits sum.splits)+

termination parseXMLElement
  by (relation "measure (\<lambda>(fin, st, nodes, ts). length ts)") (auto dest!: parseXMLElement_shorter[OF _ sym] simp: le_imp_less_Suc)

lemma parseXMLElement_rest: "parseXMLElement fin st nodes ts = (r, ts') \<Longrightarrow> length ts' \<le> length ts"
  by (induction fin st nodes ts arbitrary: r ts' rule: parseXMLElement.induct) (fastforce split: prod.splits sum.splits)+

text \<open>The loop of \<open>parseXMLDocument\<close>; the root is set at most once.\<close>

function (sequential) parseXMLTokens :: "go_error \<Rightarrow> xmlToken list \<Rightarrow> xmlElement option \<Rightarrow> xmlToken list \<Rightarrow> xmlToken list \<Rightarrow> go_error + xmlDocument" where
  "parseXMLTokens fin leading root trailing [] =
     (if fin = io_EOF
      then (case root of None \<Rightarrow> Inl (ErrorString ''missing XML root element'')
                       | Some r \<Rightarrow> Inr \<lparr>docLeading = leading, docRoot = r, docTrailing = trailing\<rparr>)
      else Inl (Wrap ''read XML token: '' fin))"
| "parseXMLTokens fin leading root trailing (StartToken s # ts) =
     (if root \<noteq> None then Inl (ErrorString ''multiple XML root elements'')
      else (case parseXMLElement fin s [] ts of
              (Inl err, ts') \<Rightarrow> Inl err
            | (Inr r, ts') \<Rightarrow> parseXMLTokens fin leading (Some r) trailing ts'))"
| "parseXMLTokens fin leading root trailing (t # ts) =
     (if root = None then parseXMLTokens fin (leading @ [t]) root trailing ts else parseXMLTokens fin leading root (trailing @ [t]) ts)"
  by pat_completeness auto
termination parseXMLTokens
  by (relation "measure (\<lambda>(fin, l, r, t, ts). length ts)") (auto dest!: parseXMLElement_rest[OF sym] simp: le_imp_less_Suc)


text \<open>\<open>decoder\<close> gives the tokens of a text and the error after the last one.\<close>

type_synonym decoder = "string \<Rightarrow> xmlToken list \<times> go_error"

definition parseXMLDocument :: "decoder \<Rightarrow> string \<Rightarrow> go_error + xmlDocument" where
  "parseXMLDocument D data = (case D data of (ts, fin) \<Rightarrow> parseXMLTokens fin [] None [] ts)"

record 'e Encoder =
  newEncoder :: 'e
  encodeToken :: "xmlToken \<Rightarrow> 'e \<Rightarrow> go_error option \<times> 'e"
  flushEncoder :: "'e \<Rightarrow> go_error + string"

definition endName :: "StartElement \<Rightarrow> xmlToken" where
  "endName st = EndToken (seName st)"

fun encodeTokens :: "'e Encoder \<Rightarrow> string \<Rightarrow> xmlToken list \<Rightarrow> 'e \<Rightarrow> go_error option \<times> 'e" where
  "encodeTokens E what [] e = (None, e)"
| "encodeTokens E what (t # ts) e = (case encodeToken E t e of
     (Some err, e') \<Rightarrow> (Some (Wrap what err), e') | (None, e') \<Rightarrow> encodeTokens E what ts e')"

fun marshalXMLElement :: "'e Encoder \<Rightarrow> xmlElement \<Rightarrow> 'e \<Rightarrow> go_error option \<times> 'e"
  and marshalXMLNodes :: "'e Encoder \<Rightarrow> xmlNode list \<Rightarrow> 'e \<Rightarrow> go_error option \<times> 'e" where
  "marshalXMLElement E (Element st ns) e =
     (case encodeToken E (StartToken st) e of
        (Some err, e1) \<Rightarrow> (Some (Wrap (''write XML element '' @ xnLocal (seName st) @ '': '') err), e1)
      | (None, e1) \<Rightarrow>
          (case marshalXMLNodes E ns e1 of
             (Some err, e2) \<Rightarrow> (Some err, e2)
           | (None, e2) \<Rightarrow>
               (case encodeToken E (endName st) e2 of
                  (Some err, e3) \<Rightarrow> (Some (Wrap (''close XML element '' @ xnLocal (seName st) @ '': '') err), e3)
                | (None, e3) \<Rightarrow> (None, e3))))"
| "marshalXMLNodes E [] e = (None, e)"
| "marshalXMLNodes E (ElementNode el # ns) e = (case marshalXMLElement E el e of (Some err, e') \<Rightarrow> (Some err, e') | (None, e') \<Rightarrow> marshalXMLNodes E ns e')"
| "marshalXMLNodes E (TokenNode t # ns) e = (case encodeToken E t e of
     (Some err, e') \<Rightarrow> (Some (Wrap ''write XML token: '' err), e') | (None, e') \<Rightarrow> marshalXMLNodes E ns e')"

definition marshalXMLDocument :: "'e Encoder \<Rightarrow> xmlDocument \<Rightarrow> go_error + string" where
  "marshalXMLDocument E doc =
     (case encodeTokens E ''write XML header: '' (docLeading doc) (newEncoder E) of
        (Some err, e) \<Rightarrow> Inl err
      | (None, e) \<Rightarrow>
          (case marshalXMLElement E (docRoot doc) e of
             (Some err, e1) \<Rightarrow> Inl err
           | (None, e1) \<Rightarrow>
               (case encodeTokens E ''write XML trailer: '' (docTrailing doc) e1 of
                  (Some err, e2) \<Rightarrow> Inl err
                | (None, e2) \<Rightarrow> (case flushEncoder E e2 of Inl err \<Rightarrow> Inl (Wrap ''flush XML: '' err) | Inr out \<Rightarrow> Inr out))))"

section \<open>Attributes\<close>

definition isPlainAttr :: "string \<Rightarrow> xmlAttr \<Rightarrow> bool" where
  "isPlainAttr name a \<longleftrightarrow> xnSpace (xaName a) = [] \<and> xnLocal (xaName a) = name"

definition attribute :: "xmlElement \<Rightarrow> string \<Rightarrow> string option" where
  "attribute e name = map_option xaValue (List.find (isPlainAttr name) (seAttr (elStart e)))"

fun setAttr :: "string \<Rightarrow> string \<Rightarrow> xmlAttr list \<Rightarrow> xmlAttr list" where
  "setAttr name val [] = [\<lparr>xaName = \<lparr>xnSpace = [], xnLocal = name\<rparr>, xaValue = val\<rparr>]"
| "setAttr name val (a # as) = (if isPlainAttr name a then a\<lparr>xaValue := val\<rparr> # as else a # setAttr name val as)"

definition setAttribute :: "string \<Rightarrow> string \<Rightarrow> xmlElement \<Rightarrow> xmlElement" where
  "setAttribute name val e = Element ((elStart e)\<lparr>seAttr := setAttr name val (seAttr (elStart e))\<rparr>) (elNodes e)"

definition startElement :: "string \<Rightarrow> StartElement" where
  "startElement name = \<lparr>seName = \<lparr>xnSpace = [], xnLocal = name\<rparr>, seAttr = []\<rparr>"

section \<open>Names\<close>

definition packageCaseName :: "string \<Rightarrow> string \<Rightarrow> string" where
  "packageCaseName suiteName caseName = (let prefix = suiteName @ ''/'' in if hasPrefix caseName prefix then caseName else prefix @ caseName)"

definition upper_char :: "char \<Rightarrow> char" where
  "upper_char c = (let n = of_char c :: nat in if 97 \<le> n \<and> n \<le> 122 then char_of (n - 32) else c)"

definition titleCase :: "string \<Rightarrow> string" where
  "titleCase v = (case toLower v of [] \<Rightarrow> [] | c # cs \<Rightarrow> upper_char c # cs)"

text \<open>\<open>strings.Fields\<close>.\<close>

fun fields_from :: "string \<Rightarrow> string \<Rightarrow> string list" where
  "fields_from acc [] = (if acc = [] then [] else [acc])"
| "fields_from acc (c # s) = (if is_space c then (if acc = [] then fields_from [] s else acc # fields_from [] s) else fields_from (acc @ [c]) s)"

definition titleWords :: "string \<Rightarrow> string" where
  "titleWords v = joinWith '' '' (map titleCase (fields_from [] (map (\<lambda>c. if c = CHR ''-'' then CHR '' '' else c) v)))"

section \<open>Rewriting suites\<close>

abbreviation testSuiteElement :: string where "testSuiteElement \<equiv> ''testsuite''"

definition suiteNameOf :: "xmlElement \<Rightarrow> string" where
  "suiteNameOf e = (case attribute e ''name'' of None \<Rightarrow> [] | Some n \<Rightarrow> n)"

definition rewriteCase :: "string \<Rightarrow> string \<Rightarrow> xmlElement \<Rightarrow> xmlElement" where
  "rewriteCase repoAbbr suiteName c = setAttribute ''classname'' (titleCase repoAbbr) (setAttribute ''name'' (packageCaseName suiteName (suiteNameOf c)) c)"

fun rewriteSuite :: "string \<Rightarrow> xmlElement \<Rightarrow> xmlElement"
  and rewriteNodes :: "string \<Rightarrow> string \<Rightarrow> xmlNode list \<Rightarrow> xmlNode list" where
  "rewriteSuite repoAbbr (Element st ns) = Element st (rewriteNodes repoAbbr (suiteNameOf (Element st ns)) ns)"
| "rewriteNodes repoAbbr suiteName [] = []"
| "rewriteNodes repoAbbr suiteName (TokenNode t # ns) = TokenNode t # rewriteNodes repoAbbr suiteName ns"
| "rewriteNodes repoAbbr suiteName (ElementNode e # ns) =
     ElementNode (if elLocal e = ''testcase'' then rewriteCase repoAbbr suiteName e
                  else if elLocal e = testSuiteElement then rewriteSuite repoAbbr e else e)
     # rewriteNodes repoAbbr suiteName ns"


definition isElement :: "string \<Rightarrow> xmlNode \<Rightarrow> bool" where
  "isElement name n = (case n of ElementNode e \<Rightarrow> elLocal e = name | TokenNode _ \<Rightarrow> False)"

definition onElement :: "string \<Rightarrow> (xmlElement \<Rightarrow> xmlElement) \<Rightarrow> xmlNode \<Rightarrow> xmlNode" where
  "onElement name f n = (case n of ElementNode e \<Rightarrow> if elLocal e = name then ElementNode (f e) else n | TokenNode _ \<Rightarrow> n)"

definition rewriteSuites :: "string \<Rightarrow> xmlElement \<Rightarrow> xmlElement" where
  "rewriteSuites repoAbbr root = Element (elStart root) (map (onElement testSuiteElement (rewriteSuite repoAbbr)) (elNodes root))"

text \<open>
  \<open>setRootProperty\<close>: the value is set on every property of that name; without one, the property is added to the first \<open>properties\<close> element, which is
  made first if there is none.
\<close>

definition namedProperty :: "string \<Rightarrow> xmlElement \<Rightarrow> bool" where
  "namedProperty name e \<longleftrightarrow> elLocal e = ''property'' \<and> attribute e ''name'' = Some name"

definition setProperty :: "string \<Rightarrow> string \<Rightarrow> xmlElement \<Rightarrow> xmlElement" where
  "setProperty name val props = Element (elStart props)
     (map (onElement ''property'' (\<lambda>e. if attribute e ''name'' = Some name then setAttribute ''value'' val e else e)) (elNodes props))"

definition hasProperty :: "string \<Rightarrow> xmlNode \<Rightarrow> bool" where
  "hasProperty name n = (case n of
     ElementNode e \<Rightarrow> elLocal e = ''properties'' \<and> list_ex (\<lambda>p. case p of ElementNode q \<Rightarrow> namedProperty name q | TokenNode _ \<Rightarrow> False) (elNodes e)
   | TokenNode _ \<Rightarrow> False)"

definition newProperty :: "string \<Rightarrow> string \<Rightarrow> xmlElement" where
  "newProperty name val = setAttribute ''value'' val (setAttribute ''name'' name (Element (startElement ''property'') []))"

definition appendNode :: "xmlNode \<Rightarrow> xmlElement \<Rightarrow> xmlElement" where
  "appendNode n e = Element (elStart e) (elNodes e @ [n])"

fun onFirst :: "('a \<Rightarrow> bool) \<Rightarrow> ('a \<Rightarrow> 'a) \<Rightarrow> 'a list \<Rightarrow> 'a list" where
  "onFirst P f [] = []"
| "onFirst P f (x # xs) = (if P x then f x # xs else x # onFirst P f xs)"

definition setRootProperty :: "string \<Rightarrow> string \<Rightarrow> xmlElement \<Rightarrow> xmlElement" where
  "setRootProperty name val root =
     (let found = list_ex (hasProperty name) (elNodes root);
          nodes = map (onElement ''properties'' (setProperty name val)) (elNodes root);
          nodes' = (if list_ex (isElement ''properties'') nodes then nodes else ElementNode (Element (startElement ''properties'') []) # nodes)
      in Element (elStart root)
           (if found then nodes'
            else onFirst (isElement ''properties'') (onElement ''properties'' (appendNode (ElementNode (newProperty name val)))) nodes'))"

section \<open>Joining suites\<close>

record 'f Floats =
  fZero :: 'f
  fAdd :: "'f \<Rightarrow> 'f \<Rightarrow> 'f"
  parseFloat :: "string \<Rightarrow> go_error + 'f"
  formatFloat :: "'f \<Rightarrow> string"

text \<open>\<open>strconv.ParseInt(s, 10, 64)\<close>; the sum wraps around.\<close>

definition parseInt64 :: "string \<Rightarrow> go_error + 64 word" where
  "parseInt64 s = (case atoi s of
     Some i \<Rightarrow> Inr (word_of_int i)
   | None \<Rightarrow> Inl (ErrorString (''strconv.ParseInt: parsing '' @ goquote s @ '': '' @
       (let ds = (if hasPrefix s ''-'' \<or> hasPrefix s ''+'' then tl s else s)
        in if ds \<noteq> [] \<and> list_all is_digit ds then ''value out of range'' else ''invalid syntax''))))"

text \<open>The loop over the suites for one counter: the total, and whether any suite has the attribute.\<close>

fun counterTotal :: "string \<Rightarrow> xmlElement list \<Rightarrow> 64 word \<Rightarrow> bool \<Rightarrow> go_error + 64 word \<times> bool" where
  "counterTotal name [] tot found = Inr (tot, found)"
| "counterTotal name (suite # suites) tot found =
     (case attribute suite name of
        None \<Rightarrow> counterTotal name suites tot found
      | Some v \<Rightarrow> (case parseInt64 v of
          Inl err \<Rightarrow> Inl (Wrap (''parse testsuite '' @ name @ ''='' @ goquote v @ '': '') err)
        | Inr count \<Rightarrow> counterTotal name suites (tot + count) True))"

fun aggregateInts :: "string list \<Rightarrow> xmlElement list \<Rightarrow> xmlElement \<Rightarrow> go_error + xmlElement" where
  "aggregateInts [] suites agg = Inr agg"
| "aggregateInts (name # names) suites agg =
     (case counterTotal name suites 0 False of
        Inl err \<Rightarrow> Inl err
      | Inr (tot, found) \<Rightarrow> aggregateInts names suites (if found then setAttribute name (itoa (sint tot)) agg else agg))"

fun timeTotal :: "'f Floats \<Rightarrow> xmlElement list \<Rightarrow> 'f \<Rightarrow> bool \<Rightarrow> go_error + 'f \<times> bool" where
  "timeTotal F [] tot found = Inr (tot, found)"
| "timeTotal F (suite # suites) tot found =
     (case attribute suite ''time'' of
        None \<Rightarrow> timeTotal F suites tot found
      | Some v \<Rightarrow> (case parseFloat F v of
          Inl err \<Rightarrow> Inl (Wrap (''parse testsuite time='' @ goquote v @ '': '') err)
        | Inr seconds \<Rightarrow> timeTotal F suites (fAdd F tot seconds) True))"

definition counterNames :: "string list" where
  "counterNames = [''tests'', ''failures'', ''errors'', ''skipped'', ''disabled'', ''assertions'']"

definition aggregateCounters :: "'f Floats \<Rightarrow> xmlElement \<Rightarrow> xmlElement list \<Rightarrow> go_error + xmlElement" where
  "aggregateCounters F agg suites =
     (case aggregateInts counterNames suites agg of
        Inl err \<Rightarrow> Inl err
      | Inr agg' \<Rightarrow> (case timeTotal F suites (fZero F) False of
          Inl err \<Rightarrow> Inl err
        | Inr (tot, found) \<Rightarrow> Inr (if found then setAttribute ''time'' (formatFloat F tot) agg' else agg')))"

text \<open>The first loop of \<open>flattenSuites\<close>: the other nodes, the rewritten suites, and the index of the first suite among the former.\<close>

fun splitSuites :: "string \<Rightarrow> xmlNode list \<Rightarrow> xmlNode list \<Rightarrow> xmlElement list \<Rightarrow> nat option \<Rightarrow> xmlNode list \<times> xmlElement list \<times> nat option" where
  "splitSuites repoAbbr [] filtered suites at = (filtered, suites, at)"
| "splitSuites repoAbbr (ElementNode e # ns) filtered suites at =
     (if elLocal e = testSuiteElement
      then splitSuites repoAbbr ns filtered (suites @ [rewriteSuite repoAbbr e]) (case at of None \<Rightarrow> Some (length filtered) | Some i \<Rightarrow> Some i)
      else splitSuites repoAbbr ns (filtered @ [ElementNode e]) suites at)"
| "splitSuites repoAbbr (TokenNode t # ns) filtered suites at = splitSuites repoAbbr ns (filtered @ [TokenNode t]) suites at"

text \<open>The nodes of the suites go into one, their properties into one element.\<close>

fun joinNodes :: "xmlNode list \<Rightarrow> xmlNode list \<Rightarrow> xmlElement option \<Rightarrow> xmlNode list \<times> xmlElement option" where
  "joinNodes [] nodes properties = (nodes, properties)"
| "joinNodes (n # ns) nodes properties =
     (case n of
        ElementNode e \<Rightarrow>
          if elLocal e = ''properties''
          then joinNodes ns nodes (Some (case properties of
                 None \<Rightarrow> Element (elStart e) (elNodes e) | Some p \<Rightarrow> Element (elStart p) (elNodes p @ elNodes e)))
          else joinNodes ns (nodes @ [n]) properties
      | TokenNode t \<Rightarrow> joinNodes ns (nodes @ [n]) properties)"

definition insertNode :: "nat \<Rightarrow> 'a \<Rightarrow> 'a list \<Rightarrow> 'a list" where
  "insertNode i x xs = take i xs @ x # drop i xs"

definition joinSuites :: "'f Floats \<Rightarrow> xmlElement list \<Rightarrow> go_error + xmlElement" where
  "joinSuites F suites =
     (case joinNodes (concat (map elNodes suites)) [] None of (nodes, properties) \<Rightarrow>
        aggregateCounters F (Element (elStart (hd suites)) (case properties of
           None \<Rightarrow> nodes
         | Some p \<Rightarrow> insertNode (length (takeWhile (\<lambda>n. \<not> isElement ''testcase'' n) nodes)) (ElementNode p) nodes)) suites)"

record junitReportConfig =
  jrMode :: string
  jrComponent :: string
  jrRepoAbbr :: string

definition flattenSuites :: "'f Floats \<Rightarrow> junitReportConfig \<Rightarrow> xmlElement \<Rightarrow> go_error + xmlElement" where
  "flattenSuites F config root =
     (case splitSuites (jrRepoAbbr config) (elNodes root) [] [] None of (filtered, suites, at) \<Rightarrow>
        (case (if suites \<noteq> [] then joinSuites F suites
               else Inr (Element ((startElement testSuiteElement)\<lparr>seAttr := seAttr (elStart root)\<rparr>) [])) of
           Inl err \<Rightarrow> Inl err
         | Inr agg \<Rightarrow>
             (let n = ElementNode (setAttribute ''name'' (titleWords (jrComponent config)) agg)
              in Inr (Element (elStart root) (case at of None \<Rightarrow> filtered @ [n] | Some i \<Rightarrow> insertNode i n filtered)))))"

section \<open>The report\<close>

abbreviation junitReportModeRhoAI :: string where "junitReportModeRhoAI \<equiv> ''rhoai''"
abbreviation junitReportModeVerbatim :: string where "junitReportModeVerbatim \<equiv> ''verbatim''"

definition parseJUnitReportMode :: "string \<Rightarrow> go_error + string" where
  "parseJUnitReportMode v =
     (if v = [] \<or> v = junitReportModeRhoAI then Inr junitReportModeRhoAI
      else if v = junitReportModeVerbatim then Inr junitReportModeVerbatim
      else Inl (ErrorString (goquote v @ '': expected rhoai or verbatim'')))"

definition transformJUnitReport :: "decoder \<Rightarrow> 'e Encoder \<Rightarrow> 'f Floats \<Rightarrow> string \<Rightarrow> junitReportConfig \<Rightarrow> go_error + string" where
  "transformJUnitReport D E F data config =
     (case parseXMLDocument D data of
        Inl err \<Rightarrow> Inl err
      | Inr doc \<Rightarrow>
          if elLocal (docRoot doc) \<noteq> ''testsuites'' then Inl (ErrorString (''expected testsuites root, got '' @ elLocal (docRoot doc)))
          else (let root = setAttribute ''name'' (jrComponent config) (docRoot doc);
                    root' = (if jrMode config = junitReportModeRhoAI then flattenSuites F config root
                             else if jrMode config = junitReportModeVerbatim
                             then Inr (setRootProperty ''repo'' (jrRepoAbbr config) (setRootProperty ''verbatim'' ''true'' (rewriteSuites (jrRepoAbbr config) root)))
                             else Inl (ErrorString (''unsupported report mode '' @ goquote (jrMode config))))
                in case root' of Inl err \<Rightarrow> Inl err | Inr r \<Rightarrow> marshalXMLDocument E (doc\<lparr>docRoot := r\<rparr>)))"

text \<open>The file system: reading may fail, with or without the file being there.\<close>

record 'w Files =
  readFile :: "string \<Rightarrow> 'w \<Rightarrow> (go_error + string) \<times> 'w"
  writeFile :: "string \<Rightarrow> string \<Rightarrow> 'w \<Rightarrow> go_error option \<times> 'w"
  statFile :: "string \<Rightarrow> 'w \<Rightarrow> go_error option \<times> 'w"
  mkdirAll :: "string \<Rightarrow> 'w \<Rightarrow> go_error option \<times> 'w"
  isNotExist :: "go_error \<Rightarrow> bool"

definition rewriteJUnitReport :: "decoder \<Rightarrow> 'e Encoder \<Rightarrow> 'f Floats \<Rightarrow> 'w Files \<Rightarrow> string \<Rightarrow> junitReportConfig \<Rightarrow> 'w \<Rightarrow> go_error option \<times> 'w" where
  "rewriteJUnitReport D E F FS path config w =
     (case readFile FS path w of
        (Inl err, w1) \<Rightarrow> (if isNotExist FS err then None else Some (Wrap (''read '' @ path @ '': '') err), w1)
      | (Inr data, w1) \<Rightarrow>
          (case transformJUnitReport D E F data config of
             Inl err \<Rightarrow> (Some (Wrap (''transform '' @ path @ '': '') err), w1)
           | Inr rewritten \<Rightarrow>
               (case writeFile FS path rewritten w1 of
                  (Some err, w2) \<Rightarrow> (Some (Wrap (''write '' @ path @ '': '') err), w2)
                | (None, w2) \<Rightarrow> (None, w2))))"


section \<open>Reading and writing the tree\<close>

fun elementTokens :: "xmlElement \<Rightarrow> xmlToken list" and nodesTokens :: "xmlNode list \<Rightarrow> xmlToken list" where
  "elementTokens (Element st ns) = StartToken st # nodesTokens ns @ [endName st]"
| "nodesTokens [] = []"
| "nodesTokens (ElementNode e # ns) = elementTokens e @ nodesTokens ns"
| "nodesTokens (TokenNode t # ns) = t # nodesTokens ns"

definition documentTokens :: "xmlDocument \<Rightarrow> xmlToken list" where
  "documentTokens doc = docLeading doc @ elementTokens (docRoot doc) @ docTrailing doc"

fun is_tag :: "xmlToken \<Rightarrow> bool" where
  "is_tag (StartToken s) = True"
| "is_tag (EndToken n) = True"
| "is_tag t = False"

text \<open>A tree in which tags occur as elements only.\<close>

fun element_ok :: "xmlElement \<Rightarrow> bool" and nodes_ok :: "xmlNode list \<Rightarrow> bool" where
  "element_ok (Element st ns) = nodes_ok ns"
| "nodes_ok [] = True"
| "nodes_ok (ElementNode e # ns) = (element_ok e \<and> nodes_ok ns)"
| "nodes_ok (TokenNode t # ns) = (\<not> is_tag t \<and> nodes_ok ns)"

fun is_start :: "xmlToken \<Rightarrow> bool" where
  "is_start (StartToken s) = True"
| "is_start t = False"

definition document_ok :: "xmlDocument \<Rightarrow> bool" where
  "document_ok doc \<longleftrightarrow> list_all (\<lambda>t. \<not> is_start t) (docLeading doc) \<and> element_ok (docRoot doc) \<and> list_all (\<lambda>t. \<not> is_start t) (docTrailing doc)"

lemma nodes_append: "nodesTokens (ns @ ms) = nodesTokens ns @ nodesTokens ms" "nodes_ok (ns @ ms) \<longleftrightarrow> nodes_ok ns \<and> nodes_ok ms"
proof (induction ns)
  case (Cons n ns)
  case 1 show ?case using Cons by (cases n) auto
  case 2 show ?case using Cons by (cases n) auto
qed simp_all

lemma parse_plain: "\<not> is_tag t \<Longrightarrow> parseXMLElement fin st acc (t # ts) = parseXMLElement fin st (acc @ [TokenNode t]) ts"
  by (cases t) auto

lemma parse_written:
  "element_ok e \<Longrightarrow> parseXMLElement fin (elStart e) [] (tl (elementTokens e) @ ts) = (Inr e, ts)"
  "nodes_ok ns \<Longrightarrow> parseXMLElement fin st acc (nodesTokens ns @ endName st' # ts) = (Inr (Element st (acc @ ns)), ts)"
proof (induction e and ns arbitrary: ts and st acc st' ts rule: elementTokens_nodesTokens.induct)
  case (1 st ns)
  then show ?case by simp
next
  case 2
  then show ?case by (simp add: endName_def)
next
  case (3 e ns)
  obtain es where e: "elementTokens e = StartToken (elStart e) # es" "es = tl (elementTokens e)" by (cases e) simp
  have "parseXMLElement fin (elStart e) [] (es @ nodesTokens ns @ endName st' # ts) = (Inr e, nodesTokens ns @ endName st' # ts)"
    using 3(1)[of "nodesTokens ns @ endName st' # ts"] 3(3) e(2) by simp
  with 3(2)[of st "acc @ [ElementNode e]" st' ts] 3(3) show ?case by (simp add: e(1))
next
  case (4 t ns)
  with 4(1)[of st "acc @ [TokenNode t]" st' ts] show ?case by (simp add: parse_plain)
qed

lemma parse_outside:
  "list_all (\<lambda>t. \<not> is_start t) ts \<Longrightarrow> parseXMLTokens fin leading None trailing (ts @ us) = parseXMLTokens fin (leading @ ts) None trailing us"
  "list_all (\<lambda>t. \<not> is_start t) ts \<Longrightarrow> parseXMLTokens fin leading (Some r) trailing (ts @ us) = parseXMLTokens fin leading (Some r) (trailing @ ts) us"
proof -
  have one: "\<not> is_start t \<Longrightarrow> parseXMLTokens fin leading root trailing (t # us) =
      (if root = None then parseXMLTokens fin (leading @ [t]) root trailing us else parseXMLTokens fin leading root (trailing @ [t]) us)" for t leading root trailing us
    by (cases t) auto
  show "list_all (\<lambda>t. \<not> is_start t) ts \<Longrightarrow> parseXMLTokens fin leading None trailing (ts @ us) = parseXMLTokens fin (leading @ ts) None trailing us"
    by (induction ts arbitrary: leading) (auto simp: one)
  show "list_all (\<lambda>t. \<not> is_start t) ts \<Longrightarrow> parseXMLTokens fin leading (Some r) trailing (ts @ us) = parseXMLTokens fin leading (Some r) (trailing @ ts) us"
    by (induction ts arbitrary: trailing) (auto simp: one)
qed

lemma parse_document:
  assumes "document_ok doc"
  shows "parseXMLTokens io_EOF [] None [] (documentTokens doc) = Inr doc"
proof -
  have ok: "list_all (\<lambda>t. \<not> is_start t) (docLeading doc)" "element_ok (docRoot doc)" "list_all (\<lambda>t. \<not> is_start t) (docTrailing doc)"
    using assms by (simp_all add: document_ok_def)
  obtain es where e: "elementTokens (docRoot doc) = StartToken (elStart (docRoot doc)) # es"
    by (cases "docRoot doc") simp
  have root: "parseXMLElement io_EOF (elStart (docRoot doc)) [] (es @ docTrailing doc) = (Inr (docRoot doc), docTrailing doc)"
    using parse_written(1)[OF ok(2), of io_EOF "docTrailing doc"] unfolding e by simp
  have "parseXMLTokens io_EOF [] None [] (documentTokens doc) = parseXMLTokens io_EOF (docLeading doc) None [] (StartToken (elStart (docRoot doc)) # es @ docTrailing doc)"
    unfolding documentTokens_def parse_outside(1)[OF ok(1)] e by simp
  also have "\<dots> = parseXMLTokens io_EOF (docLeading doc) (Some (docRoot doc)) [] (docTrailing doc @ [])"
    by (simp add: root)
  also have "\<dots> = Inr doc" unfolding parse_outside(2)[OF ok(3)] by simp
  finally show ?thesis .
qed

text \<open>The other direction: the tree keeps every token that was read; an end tag takes the name of its start tag.\<close>

fun unnamed :: "xmlToken \<Rightarrow> xmlToken" where
  "unnamed (EndToken n) = EndToken \<lparr>xnSpace = [], xnLocal = []\<rparr>"
| "unnamed t = t"

lemma parsed_element:
  "parseXMLElement fin st acc ts = (Inr e, ts') \<Longrightarrow> nodes_ok acc \<Longrightarrow>
   element_ok e \<and> elStart e = st \<and> (\<exists>us. ts = us @ ts' \<and> map unnamed (nodesTokens acc @ us) = map unnamed (tl (elementTokens e)))"
proof (induction fin st acc ts arbitrary: e ts' rule: parseXMLElement.induct)
  case (2 fin st acc s ts)
  then obtain c ts1 where c: "parseXMLElement fin s [] ts = (Inr c, ts1)" "parseXMLElement fin st (acc @ [ElementNode c]) ts1 = (Inr e, ts')"
    by (auto split: prod.splits sum.splits)
  from 2(1)[OF c(1)] obtain us where us: "element_ok c" "elStart c = s" "ts = us @ ts1" "map unnamed us = map unnamed (tl (elementTokens c))" by auto
  from 2(2)[OF c(1)[symmetric] refl c(2)] us(1) 2(4) obtain vs where vs: "element_ok e" "elStart e = st" "ts1 = vs @ ts'"
    "map unnamed (nodesTokens (acc @ [ElementNode c]) @ vs) = map unnamed (tl (elementTokens e))" by (auto simp: nodes_append(2))
  have "elementTokens c = StartToken s # tl (elementTokens c)" using us(2) by (cases c) auto
  then have "map unnamed (elementTokens c) = StartToken s # map unnamed us" using us(4) by (metis list.simps(9) unnamed.simps(2))
  with vs us(3) show ?case by (intro conjI exI[of _ "StartToken s # us @ vs"]) (auto simp: nodes_append(1))
next
  case (3 fin st acc n ts)
  then show ?case by (auto simp: endName_def nodes_append(1))
qed (auto simp: nodes_append(1) nodes_append(2); fastforce)+

lemma outside_step: "\<not> is_start t \<Longrightarrow> parseXMLTokens fin leading root trailing (t # us) =
      (if root = None then parseXMLTokens fin (leading @ [t]) root trailing us else parseXMLTokens fin leading root (trailing @ [t]) us)"
  by (cases t) auto

definition rootTokens :: "xmlElement option \<Rightarrow> xmlToken list" where
  "rootTokens r = (case r of None \<Rightarrow> [] | Some e \<Rightarrow> elementTokens e)"

lemma parsed_tokens:
  assumes "parseXMLTokens fin leading root trailing ts = Inr doc" "root = None \<Longrightarrow> trailing = []"
    "list_all (\<lambda>t. \<not> is_start t) leading" "list_all (\<lambda>t. \<not> is_start t) trailing" "\<And>e. root = Some e \<Longrightarrow> element_ok e"
  shows "document_ok doc \<and> map unnamed (documentTokens doc) = map unnamed (leading @ rootTokens root @ trailing @ ts)"
  using assms
proof (induction ts arbitrary: leading root trailing rule: length_induct)
  case (1 ts)
  show ?case
  proof (cases ts)
    case Nil
    with 1(2-) show ?thesis by (auto simp: document_ok_def documentTokens_def rootTokens_def split: if_splits option.splits)
  next
    case (Cons t us)
    show ?thesis
    proof (cases "is_start t")
      case True
      then obtain s where t: "t = StartToken s" by (cases t) auto
      with 1(2) Cons obtain e vs where e: "root = None" "parseXMLElement fin s [] us = (Inr e, vs)" "parseXMLTokens fin leading (Some e) trailing vs = Inr doc"
        by (auto split: if_splits prod.splits sum.splits)
      from parsed_element[OF e(2)] obtain ws where ws: "element_ok e" "elStart e = s" "us = ws @ vs" "map unnamed ws = map unnamed (tl (elementTokens e))" by auto
      have hd: "map unnamed (elementTokens e) = StartToken s # map unnamed ws" using ws(2,4) by (cases e) auto
      have "length vs < length ts" using Cons ws(3) by simp
      with 1(1) e(3) 1(4,5) ws(1) have "document_ok doc \<and> map unnamed (documentTokens doc) = map unnamed (leading @ rootTokens (Some e) @ trailing @ vs)" by simp
      then show ?thesis using hd 1(3)[OF e(1)] by (simp add: rootTokens_def e(1) Cons t ws(3))
    next
      case False
      have len: "length us < length ts" using Cons by simp
      show ?thesis
      proof (cases root)
        case None
        with 1(2) False Cons have "parseXMLTokens fin (leading @ [t]) None trailing us = Inr doc" by (simp add: outside_step)
        with 1(1) len 1(3-5) False None show ?thesis by (auto simp: rootTokens_def Cons)
      next
        case (Some r)
        with 1(2) False Cons have "parseXMLTokens fin leading (Some r) (trailing @ [t]) us = Inr doc" by (simp add: outside_step)
        with 1(1) len 1(4-6) False Some show ?thesis by (auto simp: rootTokens_def Cons)
      qed
    qed
  qed
qed

lemma encodeTokens_append:
  "encodeTokens E what (ts @ us) e = (case encodeTokens E what ts e of (Some err, e') \<Rightarrow> (Some err, e') | (None, e') \<Rightarrow> encodeTokens E what us e')"
  by (induction ts arbitrary: e) (auto split: prod.splits option.splits)

lemma encode_any: "encodeTokens E a ts e = (None, e') \<Longrightarrow> encodeTokens E b ts e = (None, e')"
  by (induction ts arbitrary: e) (auto split: prod.splits option.splits)

lemma marshal_encodes:
  "marshalXMLElement E el e = (None, e') \<Longrightarrow> encodeTokens E w (elementTokens el) e = (None, e')"
  "marshalXMLNodes E ns e = (None, e') \<Longrightarrow> encodeTokens E w (nodesTokens ns) e = (None, e')"
  by (induction E el e and E ns e arbitrary: e' and e' rule: marshalXMLElement_marshalXMLNodes.induct)
     (auto simp: encodeTokens_append split: prod.splits option.splits)

lemma document_encodes:
  assumes "marshalXMLDocument E doc = Inr out"
  shows "\<exists>e. encodeTokens E w (documentTokens doc) (newEncoder E) = (None, e) \<and> flushEncoder E e = Inr out"
proof -
  obtain e1 e2 e3 where m: "encodeTokens E ''write XML header: '' (docLeading doc) (newEncoder E) = (None, e1)" "marshalXMLElement E (docRoot doc) e1 = (None, e2)"
      "encodeTokens E ''write XML trailer: '' (docTrailing doc) e2 = (None, e3)" "flushEncoder E e3 = Inr out"
    using assms by (auto simp: marshalXMLDocument_def split: prod.splits option.splits sum.splits)
  have "encodeTokens E w (documentTokens doc) (newEncoder E) = (None, e3)"
    unfolding documentTokens_def encodeTokens_append encode_any[OF m(1)] marshal_encodes(1)[OF m(2)] encode_any[OF m(3)] by (simp add: marshal_encodes(1)[OF m(2)] encode_any[OF m(3)])
  with m(4) show ?thesis by blast
qed

text \<open>
  C37: the report is read and written without loss. When a text is parsed and the tree is marshalled, the encoder is given the tokens that were read, in their order, an end tag with the name of its
  start tag, and the tree is what parsing those tokens gives.
\<close>

theorem xml_round_trip:
  assumes "parseXMLDocument D data = Inr doc" "marshalXMLDocument E doc = Inr out"
  shows "\<exists>ts e. map unnamed ts = map unnamed (fst (D data)) \<and> encodeTokens E [] ts (newEncoder E) = (None, e) \<and> flushEncoder E e = Inr out
     \<and> parseXMLTokens io_EOF [] None [] ts = Inr doc"
proof -
  obtain ts fin where D: "D data = (ts, fin)" by fastforce
  with assms(1) have "parseXMLTokens fin [] None [] ts = Inr doc" by (simp add: parseXMLDocument_def)
  from parsed_tokens[OF this] have "document_ok doc" "map unnamed (documentTokens doc) = map unnamed ts" by (simp_all add: rootTokens_def)
  with parse_document document_encodes[OF assms(2), of "[]"] D show ?thesis by (intro exI[of _ "documentTokens doc"]) auto
qed

text \<open>A report with one suite of one case; an encoder that counts the tokens it is given.\<close>

definition small_report :: "xmlToken list" where
  "small_report = [ProcInst ''xml'' ''version'', StartToken (startElement ''testsuites''), CharData ''.'', StartToken (startElement testSuiteElement),
     StartToken (startElement ''testcase''), endName (startElement ''testcase''), endName (startElement testSuiteElement), endName (startElement ''testsuites'')]"

definition counting_encoder :: "nat Encoder" where
  "counting_encoder = \<lparr>newEncoder = 0, encodeToken = (\<lambda>t n. (None, Suc n)), flushEncoder = (\<lambda>n. Inr (itoa (int n)))\<rparr>"

theorem xml_round_trip_witness:
  "\<exists>ts e. map unnamed ts = map unnamed small_report \<and> encodeTokens counting_encoder [] ts 0 = (None, e) \<and> flushEncoder counting_encoder e = Inr ''8''"
proof -
  have "\<not> isl (parseXMLDocument (\<lambda>_. (small_report, io_EOF)) [])" by code_simp
  then obtain doc where doc: "parseXMLDocument (\<lambda>_. (small_report, io_EOF)) [] = Inr doc" by (metis sum.collapse(2))
  have "marshalXMLDocument counting_encoder (projr (parseXMLDocument (\<lambda>_. (small_report, io_EOF)) [])) = Inr ''8''" by code_simp
  from xml_round_trip[OF doc this[unfolded doc sum.sel]] show ?thesis by (auto simp: counting_encoder_def)
qed

section \<open>What the joined report says\<close>

definition childrenNamed :: "string \<Rightarrow> xmlNode list \<Rightarrow> xmlElement list" where
  "childrenNamed name ns = concat (map (\<lambda>n. case n of ElementNode e \<Rightarrow> if elLocal e = name then [e] else [] | TokenNode _ \<Rightarrow> []) ns)"

lemma childrenNamed_simps [simp]:
  "childrenNamed name [] = []"
  "childrenNamed name (TokenNode t # ns) = childrenNamed name ns"
  "childrenNamed name (ElementNode e # ns) = (if elLocal e = name then [e] else []) @ childrenNamed name ns"
  "childrenNamed name (ns @ ms) = childrenNamed name ns @ childrenNamed name ms"
  by (simp_all add: childrenNamed_def)

lemma childrenNamed_concat [simp]: "childrenNamed name (concat nss) = concat (map (childrenNamed name) nss)"
  by (induction nss) simp_all

lemma childrenNamed_filter: "name \<noteq> other \<Longrightarrow> childrenNamed name (filter (\<lambda>n. \<not> isElement other n) ns) = childrenNamed name ns"
  by (induction ns) (auto simp: childrenNamed_def isElement_def split: xmlNode.splits)

lemma insertNode_split: "\<exists>a b. xs = a @ b \<and> insertNode i x xs = a @ x # b"
  unfolding insertNode_def by (metis append_take_drop_id)

lemma isPlainAttr_value [simp]: "isPlainAttr n (a\<lparr>xaValue := v\<rparr>) = isPlainAttr n a"
  by (simp add: isPlainAttr_def)

lemma find_setAttr: "map_option xaValue (List.find (isPlainAttr m) (setAttr n v as)) = (if m = n then Some v else map_option xaValue (List.find (isPlainAttr m) as))"
proof -
  have "isPlainAttr m \<lparr>xaName = \<lparr>xnSpace = [], xnLocal = n\<rparr>, xaValue = v\<rparr> = (m = n)" "\<not> (m \<noteq> n \<and> isPlainAttr n a \<and> isPlainAttr m a)" for a
    by (auto simp: isPlainAttr_def)
  then show ?thesis by (induction as) auto
qed

lemma setAttribute_facts [simp]:
  "attribute (setAttribute n v e) m = (if m = n then Some v else attribute e m)"
  "elNodes (setAttribute n v e) = elNodes e" "seName (elStart (setAttribute n v e)) = seName (elStart e)"
  by (simp_all add: attribute_def setAttribute_def find_setAttr)

lemma rewriteCase_local [simp]: "seName (elStart (rewriteCase a n e)) = seName (elStart e)"
  by (simp add: rewriteCase_def)

lemma rewriteSuite_facts [simp]:
  "elStart (rewriteSuite a s) = elStart s" "attribute (rewriteSuite a s) n = attribute s n"
  "childrenNamed ''testcase'' (elNodes (rewriteSuite a s)) = map (rewriteCase a (suiteNameOf s)) (childrenNamed ''testcase'' (elNodes s))"
proof -
  show st: "elStart (rewriteSuite a s) = elStart s" for s by (cases s) simp
  show "attribute (rewriteSuite a s) n = attribute s n" by (simp add: attribute_def st)
  have "childrenNamed ''testcase'' (rewriteNodes a n ns) = map (rewriteCase a n) (childrenNamed ''testcase'' ns)" for n ns
  proof (induction ns)
    case (Cons x ns)
    then show ?case by (cases x) (auto simp: st)
  qed simp
  then show "childrenNamed ''testcase'' (elNodes (rewriteSuite a s)) = map (rewriteCase a (suiteNameOf s)) (childrenNamed ''testcase'' (elNodes s))"
    by (cases s) simp
qed

lemma splitSuites_value:
  "splitSuites a ns filtered suites at = (filtered @ filter (\<lambda>n. \<not> isElement testSuiteElement n) ns, suites @ map (rewriteSuite a) (childrenNamed testSuiteElement ns),
     snd (snd (splitSuites a ns filtered suites at)))"
  by (induction a ns filtered suites at rule: splitSuites.induct) (auto simp: isElement_def)

lemma joinNodes_nodes: "fst (joinNodes ns nodes p) = nodes @ filter (\<lambda>n. \<not> isElement ''properties'' n) ns"
proof (induction ns arbitrary: nodes p)
  case (Cons n ns)
  then show ?case by (cases n) (auto simp: isElement_def)
qed simp

text \<open>The children \<open>properties\<close> of several suites, in one element.\<close>

definition joinedProperties :: "xmlElement list \<Rightarrow> xmlElement list" where
  "joinedProperties ps = (case ps of [] \<Rightarrow> [] | p # _ \<Rightarrow> [Element (elStart p) (concat (map elNodes ps))])"

lemma element_eta [simp]: "Element (elStart e) (elNodes e) = e"
  by (cases e) simp

lemma joinNodes_properties:
  "snd (joinNodes ns nodes (Some p)) = Some (Element (elStart p) (elNodes p @ concat (map elNodes (childrenNamed ''properties'' ns))))"
  "snd (joinNodes ns nodes None) = (case joinedProperties (childrenNamed ''properties'' ns) of [] \<Rightarrow> None | q # _ \<Rightarrow> Some q)"
proof -
  show some: "snd (joinNodes ns nodes (Some p)) = Some (Element (elStart p) (elNodes p @ concat (map elNodes (childrenNamed ''properties'' ns))))" for ns nodes p
  proof (induction ns arbitrary: nodes p)
    case (Cons n ns)
    then show ?case by (cases n) simp_all
  qed simp
  show "snd (joinNodes ns nodes None) = (case joinedProperties (childrenNamed ''properties'' ns) of [] \<Rightarrow> None | q # _ \<Rightarrow> Some q)"
  proof (induction ns arbitrary: nodes)
    case (Cons n ns)
    then show ?case by (cases n) (auto simp: some joinedProperties_def split: list.split)
  qed (simp add: joinedProperties_def)
qed

lemma aggregate_keeps:
  "aggregateInts names suites agg = Inr agg' \<Longrightarrow> elNodes agg' = elNodes agg \<and> seName (elStart agg') = seName (elStart agg)"
  "aggregateCounters F agg suites = Inr agg' \<Longrightarrow> elNodes agg' = elNodes agg \<and> seName (elStart agg') = seName (elStart agg)"
proof -
  show a: "aggregateInts names suites agg = Inr agg' \<Longrightarrow> elNodes agg' = elNodes agg \<and> seName (elStart agg') = seName (elStart agg)" for names agg agg'
  proof (induction names arbitrary: agg)
    case (Cons n ns)
    then show ?case by (auto split: sum.splits prod.splits if_splits)
  qed simp
  show "aggregateCounters F agg suites = Inr agg' \<Longrightarrow> elNodes agg' = elNodes agg \<and> seName (elStart agg') = seName (elStart agg)"
    by (auto simp: aggregateCounters_def dest!: a split: sum.splits if_splits)
qed

lemma joinedProperties_local:
  "q \<in> set (joinedProperties (childrenNamed ''properties'' ns)) \<Longrightarrow> elLocal q = ''properties''"
  by (induction ns) (auto simp: joinedProperties_def childrenNamed_def split: list.splits xmlNode.splits if_splits)

lemma childrenNamed_other: "childrenNamed name (filter (\<lambda>n. \<not> isElement name n) ns) = []"
  by (induction ns) (auto simp: childrenNamed_def isElement_def split: xmlNode.splits)

lemma joinSuites_facts:
  assumes "joinSuites F suites = Inr agg"
  shows "seName (elStart agg) = seName (elStart (hd suites))"
    and "childrenNamed ''properties'' (elNodes agg) = joinedProperties (childrenNamed ''properties'' (concat (map elNodes suites)))"
    and "filter (\<lambda>n. \<not> isElement ''properties'' n) (elNodes agg) = filter (\<lambda>n. \<not> isElement ''properties'' n) (concat (map elNodes suites))"
proof -
  let ?ns = "concat (map elNodes suites)"
  obtain nodes properties where j: "joinNodes ?ns [] None = (nodes, properties)" by fastforce
  have nodes: "nodes = filter (\<lambda>n. \<not> isElement ''properties'' n) ?ns" using joinNodes_nodes[of ?ns "[]" None] j by simp
  have props: "properties = (case joinedProperties (childrenNamed ''properties'' ?ns) of [] \<Rightarrow> None | q # _ \<Rightarrow> Some q)"
    using joinNodes_properties(2)[of ?ns "[]"] j by simp
  define agg0 where "agg0 = (case properties of None \<Rightarrow> nodes
    | Some p \<Rightarrow> insertNode (length (takeWhile (\<lambda>n. \<not> isElement ''testcase'' n) nodes)) (ElementNode p) nodes)"
  have agg: "elNodes agg = agg0" "seName (elStart agg) = seName (elStart (hd suites))"
    using assms j by (auto simp: joinSuites_def agg0_def dest!: aggregate_keeps(2))
  show "seName (elStart agg) = seName (elStart (hd suites))" by (rule agg(2))
  have keep: "filter (\<lambda>n. \<not> isElement ''properties'' n) nodes = nodes" "childrenNamed ''properties'' nodes = []"
    by (simp_all add: nodes childrenNamed_other)
  have "childrenNamed ''properties'' agg0 = joinedProperties (childrenNamed ''properties'' ?ns) \<and> filter (\<lambda>n. \<not> isElement ''properties'' n) agg0 = nodes"
  proof (cases "joinedProperties (childrenNamed ''properties'' ?ns)")
    case Nil
    with keep show ?thesis by (simp add: agg0_def props)
  next
    case (Cons q qs)
    then have q: "elLocal q = ''properties''" "qs = []" "properties = Some q"
      using joinedProperties_local[of q ?ns] by (auto simp: props joinedProperties_def split: list.splits)
    obtain a b where "nodes = a @ b" "agg0 = a @ ElementNode q # b"
      using insertNode_split[of nodes "length (takeWhile (\<lambda>n. \<not> isElement ''testcase'' n) nodes)" "ElementNode q"] unfolding agg0_def q(3) option.case by blast
    with keep q Cons show ?thesis by (auto simp: isElement_def)
  qed
  then show "childrenNamed ''properties'' (elNodes agg) = joinedProperties (childrenNamed ''properties'' ?ns)"
    "filter (\<lambda>n. \<not> isElement ''properties'' n) (elNodes agg) = filter (\<lambda>n. \<not> isElement ''properties'' n) ?ns"
    by (simp_all add: agg(1) nodes)
qed

text \<open>A suite without the two attributes of its test cases that rewriting sets, in the suites it contains too.\<close>

fun bare :: "xmlElement \<Rightarrow> xmlElement" and bareNodes :: "xmlNode list \<Rightarrow> xmlNode list" where
  "bare (Element st ns) = Element st (bareNodes ns)"
| "bareNodes [] = []"
| "bareNodes (TokenNode t # ns) = TokenNode t # bareNodes ns"
| "bareNodes (ElementNode e # ns) =
     ElementNode (if elLocal e = ''testcase'' then setAttribute ''classname'' [] (setAttribute ''name'' [] e)
                  else if elLocal e = testSuiteElement then bare e else e)
     # bareNodes ns"

lemma setAttr_again: "setAttr n v (setAttr n u as) = setAttr n v as"
  by (induction as) (auto simp: isPlainAttr_def)

lemma setAttr_commute: "m \<noteq> n \<Longrightarrow> list_ex (isPlainAttr n) as \<Longrightarrow> setAttr n v (setAttr m u as) = setAttr m u (setAttr n v as)"
  by (induction as) (auto simp: isPlainAttr_def)

lemma setAttr_has: "list_ex (isPlainAttr n) (setAttr n v as)"
  by (induction as) (auto simp: isPlainAttr_def)

lemma bare_case: "setAttribute ''classname'' [] (setAttribute ''name'' [] (rewriteCase a n e)) = setAttribute ''classname'' [] (setAttribute ''name'' [] e)"
proof -
  have "setAttr ''name'' [] (setAttr ''classname'' u (setAttr ''name'' v as)) = setAttr ''classname'' u (setAttr ''name'' [] as)" for u v as
    by (subst setAttr_commute) (simp_all add: setAttr_has setAttr_again)
  then show ?thesis by (simp add: rewriteCase_def setAttribute_def setAttr_again)
qed

lemma bare_start [simp]: "elStart (bare e) = elStart e"
  by (cases e) simp

lemma bare_rewrite: "bare (rewriteSuite a s) = bare s" "bareNodes (rewriteNodes a n ns) = bareNodes ns"
  by (induction a s and a n ns rule: rewriteSuite_rewriteNodes.induct) (auto simp: bare_case)

lemma bareNodes_append [simp]: "bareNodes (ns @ ms) = bareNodes ns @ bareNodes ms"
proof (induction ns)
  case (Cons n ns)
  then show ?case by (cases n) simp_all
qed simp

lemma bareNodes_concat: "(\<And>s. s \<in> set ss \<Longrightarrow> bareNodes (f s) = bareNodes (g s)) \<Longrightarrow> bareNodes (concat (map f ss)) = bareNodes (concat (map g ss))"
  by (induction ss) simp_all

lemma bareNodes_filter: "bareNodes (filter (\<lambda>n. \<not> isElement ''properties'' n) ns) = filter (\<lambda>n. \<not> isElement ''properties'' n) (bareNodes ns)"
proof (induction ns)
  case (Cons n ns)
  then show ?case by (cases n) (simp_all add: isElement_def)
qed simp

lemma rewritten_nodes: "elNodes (rewriteSuite a s) = rewriteNodes a (suiteNameOf s) (elNodes s)"
  by (cases s) simp

lemma rewritten_properties: "childrenNamed ''properties'' (rewriteNodes a n ns) = childrenNamed ''properties'' ns"
proof (induction ns)
  case (Cons x ns)
  then show ?case by (cases x) auto
qed simp

text \<open>The values of a counter in the suites that have it.\<close>

definition counterValues :: "string \<Rightarrow> xmlElement list \<Rightarrow> int list" where
  "counterValues name suites = List.map_filter (\<lambda>s. Option.bind (attribute s name) atoi) suites"

lemma parseInt64_Inr: "parseInt64 v = Inr c \<longleftrightarrow> (\<exists>i. atoi v = Some i \<and> c = word_of_int i)"
  by (auto simp: parseInt64_def split: option.split)

lemma counterTotal_value:
  assumes "counterTotal name suites tot found = Inr (tot', found')"
  shows "tot' = tot + word_of_int (sum_list (counterValues name suites)) \<and> found' = (found \<or> (\<exists>s\<in>set suites. attribute s name \<noteq> None))"
  using assms
proof (induction suites arbitrary: tot found)
  case (Cons s ss)
  show ?case
  proof (cases "attribute s name")
    case None
    with Cons show ?thesis by (simp add: counterValues_def List.map_filter_simps)
  next
    case (Some v)
    with Cons.prems obtain c where c: "parseInt64 v = Inr c" "counterTotal name ss (tot + c) True = Inr (tot', found')" by (auto split: sum.splits)
    then obtain i where "atoi v = Some i" "c = word_of_int i" by (auto simp: parseInt64_Inr)
    with Cons.IH[OF c(2)] Some show ?thesis by (simp add: counterValues_def List.map_filter_simps add.assoc)
  qed
qed (simp add: counterValues_def List.map_filter_simps)

lemma aggregateInts_other:
  "aggregateInts names suites agg = Inr agg' \<Longrightarrow> name \<notin> set names \<Longrightarrow> attribute agg' name = attribute agg name"
proof (induction names arbitrary: agg)
  case (Cons n ns)
  then show ?case by (auto split: sum.splits prod.splits if_splits)
qed simp

lemma aggregateInts_value:
  assumes "aggregateInts names suites agg = Inr agg'" "distinct names" "name \<in> set names" "\<exists>s\<in>set suites. attribute s name \<noteq> None"
  shows "attribute agg' name = Some (itoa (sint (word_of_int (sum_list (counterValues name suites)) :: 64 word)))"
  using assms
proof (induction names arbitrary: agg)
  case (Cons n ns)
  then obtain tot found where c: "counterTotal n suites 0 False = Inr (tot, found)"
    "aggregateInts ns suites (if found then setAttribute n (itoa (sint tot)) agg else agg) = Inr agg'"
    by (auto split: sum.splits prod.splits)
  show ?case
  proof (cases "name = n")
    case True
    with counterTotal_value[OF c(1)] aggregateInts_other[OF c(2), of name] Cons.prems(2,4) show ?thesis by simp
  next
    case False
    with Cons.IH[OF c(2)] Cons.prems show ?thesis by simp
  qed
qed simp

lemma aggregateCounters_value:
  assumes "aggregateCounters F agg suites = Inr agg'" "name \<in> set counterNames" "\<exists>s\<in>set suites. attribute s name \<noteq> None"
  shows "attribute agg' name = Some (itoa (sint (word_of_int (sum_list (counterValues name suites)) :: 64 word)))"
proof -
  obtain agg1 where a1: "aggregateInts counterNames suites agg = Inr agg1" using assms(1) by (auto simp: aggregateCounters_def split: sum.splits)
  have a2: "agg' = agg1 \<or> (\<exists>v. agg' = setAttribute ''time'' v agg1)"
    using assms(1) by (auto simp: aggregateCounters_def a1 split: sum.splits if_splits)
  have "distinct counterNames" "name \<noteq> ''time''" using assms(2) by (auto simp: counterNames_def)
  with aggregateInts_value[OF a1 _ assms(2,3)] a2 show ?thesis by auto
qed

lemma int64_fits: "- (2 ^ 63) \<le> i \<Longrightarrow> i < 2 ^ 63 \<Longrightarrow> sint (word_of_int i :: 64 word) = i"
  by (simp add: signed_of_int signed_take_bit_int_eq_self)

text \<open>The durations of the suites that have one.\<close>

definition timeValues :: "'f Floats \<Rightarrow> xmlElement list \<Rightarrow> 'f list" where
  "timeValues F suites = List.map_filter (\<lambda>s. Option.bind (attribute s ''time'') (\<lambda>v. case parseFloat F v of Inl _ \<Rightarrow> None | Inr x \<Rightarrow> Some x)) suites"

lemma timeTotal_value:
  "timeTotal F suites tot found = Inr (tot', found') \<Longrightarrow>
   tot' = foldl (fAdd F) tot (timeValues F suites) \<and> found' = (found \<or> (\<exists>s\<in>set suites. attribute s ''time'' \<noteq> None))"
proof (induction suites arbitrary: tot found)
  case (Cons s ss)
  show ?case
  proof (cases "attribute s ''time''")
    case None
    with Cons show ?thesis by (simp add: timeValues_def List.map_filter_simps)
  next
    case (Some v)
    with Cons.prems obtain x where x: "parseFloat F v = Inr x" "timeTotal F ss (fAdd F tot x) True = Inr (tot', found')" by (auto split: sum.splits)
    from Cons.IH[OF x(2)] Some x(1) show ?thesis by (simp add: timeValues_def List.map_filter_simps)
  qed
qed (simp add: timeValues_def List.map_filter_simps)

lemma aggregateCounters_attributes:
  assumes "aggregateCounters F agg suites = Inr agg'"
  shows "name \<notin> set (''time'' # counterNames) \<Longrightarrow> attribute agg' name = attribute agg name"
    and "\<exists>s\<in>set suites. attribute s ''time'' \<noteq> None \<Longrightarrow> attribute agg' ''time'' = Some (formatFloat F (foldl (fAdd F) (fZero F) (timeValues F suites)))"
proof -
  obtain agg1 tot found where a: "aggregateInts counterNames suites agg = Inr agg1" "timeTotal F suites (fZero F) False = Inr (tot, found)"
    "agg' = (if found then setAttribute ''time'' (formatFloat F tot) agg1 else agg1)"
    using assms by (auto simp: aggregateCounters_def split: sum.splits)
  show "name \<notin> set (''time'' # counterNames) \<Longrightarrow> attribute agg' name = attribute agg name"
    using aggregateInts_other[OF a(1), of name] a(3) by auto
  show "\<exists>s\<in>set suites. attribute s ''time'' \<noteq> None \<Longrightarrow> attribute agg' ''time'' = Some (formatFloat F (foldl (fAdd F) (fZero F) (timeValues F suites)))"
    using timeTotal_value[OF a(2)] a(3) by auto
qed

text \<open>The one suite of the result, over the suites of the report. Its attributes are those of the first suite, or of the report if it has none.\<close>

definition joined_suite :: "'f Floats \<Rightarrow> junitReportConfig \<Rightarrow> xmlElement \<Rightarrow> xmlElement list \<Rightarrow> xmlElement \<Rightarrow> bool" where
  "joined_suite F config root suites agg \<longleftrightarrow> elLocal agg = testSuiteElement
     \<and> attribute agg ''name'' = Some (titleWords (jrComponent config))
     \<and> (\<forall>name. name \<notin> set (''name'' # ''time'' # counterNames) \<longrightarrow> attribute agg name = attribute (case suites of [] \<Rightarrow> root | s # _ \<Rightarrow> s) name)
     \<and> childrenNamed ''properties'' (elNodes agg) = joinedProperties (childrenNamed ''properties'' (concat (map elNodes suites)))
     \<and> filter (\<lambda>n. \<not> isElement ''properties'' n) (bareNodes (elNodes agg)) = filter (\<lambda>n. \<not> isElement ''properties'' n) (bareNodes (concat (map elNodes suites)))
     \<and> childrenNamed ''testcase'' (elNodes agg) = concat (map (\<lambda>s. map (rewriteCase (jrRepoAbbr config) (suiteNameOf s)) (childrenNamed ''testcase'' (elNodes s))) suites)
     \<and> (\<forall>name\<in>set counterNames. let total = sum_list (counterValues name suites) in
         (\<exists>s\<in>set suites. attribute s name \<noteq> None) \<and> - (2 ^ 63) \<le> total \<and> total < 2 ^ 63 \<longrightarrow> attribute agg name = Some (itoa total))
     \<and> ((\<exists>s\<in>set suites. attribute s ''time'' \<noteq> None) \<longrightarrow> attribute agg ''time'' = Some (formatFloat F (foldl (fAdd F) (fZero F) (timeValues F suites))))"

lemma joinSuites_joined:
  assumes "joinSuites F (map (rewriteSuite (jrRepoAbbr config)) suites) = Inr agg" "suites = s0 # ss" "elLocal s0 = testSuiteElement"
  shows "joined_suite F config root suites (setAttribute ''name'' (titleWords (jrComponent config)) agg)"
proof -
  let ?abbr = "jrRepoAbbr config" and ?rw = "map (rewriteSuite (jrRepoAbbr config)) suites"
  note f = joinSuites_facts[OF assms(1)]
  obtain nodes where agg: "aggregateCounters F (Element (elStart s0) nodes) ?rw = Inr agg"
    using assms(1,2) by (auto simp: joinSuites_def split: prod.splits)
  have nodes: "concat (map elNodes ?rw) = concat (map (\<lambda>s. rewriteNodes ?abbr (suiteNameOf s) (elNodes s)) suites)"
    by (simp add: comp_def rewritten_nodes)
  have same: "counterValues name ?rw = counterValues name suites" "timeValues F ?rw = timeValues F suites" for name
    by (simp_all add: counterValues_def timeValues_def List.map_filter_def comp_def filter_map)
  have props: "childrenNamed ''properties'' (concat (map elNodes ?rw)) = childrenNamed ''properties'' (concat (map elNodes suites))"
    unfolding nodes by (simp add: comp_def rewritten_properties)
  have bare: "bareNodes (concat (map elNodes ?rw)) = bareNodes (concat (map elNodes suites))"
    unfolding nodes by (rule bareNodes_concat) (rule bare_rewrite(2))
  have "childrenNamed ''testcase'' (elNodes agg) = childrenNamed ''testcase'' (concat (map elNodes ?rw))"
    using arg_cong[OF f(3), of "childrenNamed ''testcase''"] by (simp add: childrenNamed_filter)
  then have cases: "childrenNamed ''testcase'' (elNodes agg) = concat (map (\<lambda>s. map (rewriteCase ?abbr (suiteNameOf s)) (childrenNamed ''testcase'' (elNodes s))) suites)"
    by (simp add: comp_def)
  have other: "filter (\<lambda>n. \<not> isElement ''properties'' n) (bareNodes (elNodes agg)) = filter (\<lambda>n. \<not> isElement ''properties'' n) (bareNodes (concat (map elNodes suites)))"
    using arg_cong[OF f(3), of bareNodes] unfolding bareNodes_filter bare .
  have cnt: "attribute agg name = Some (itoa (sum_list (counterValues name suites)))"
    if "name \<in> set counterNames" "\<exists>s\<in>set suites. attribute s name \<noteq> None" "- (2 ^ 63) \<le> sum_list (counterValues name suites)" "sum_list (counterValues name suites) < 2 ^ 63" for name
    using aggregateCounters_value[OF agg that(1)] that(2) int64_fits[OF that(3,4)] by (simp add: same)
  have "attribute agg name = attribute s0 name" if "name \<notin> set (''time'' # counterNames)" for name
    using aggregateCounters_attributes(1)[OF agg that] by (simp add: attribute_def)
  moreover have "\<exists>s\<in>set suites. attribute s ''time'' \<noteq> None \<Longrightarrow> attribute agg ''time'' = Some (formatFloat F (foldl (fAdd F) (fZero F) (timeValues F suites)))"
    using aggregateCounters_attributes(2)[OF agg] by (simp add: same)
  moreover have "''name'' \<notin> set counterNames" by (simp add: counterNames_def)
  ultimately show ?thesis
    using f(1,2) cases other cnt assms(2,3) unfolding joined_suite_def props by (auto simp: Let_def)
qed

lemma noSuites_joined:
  "joined_suite F config root [] (setAttribute ''name'' (titleWords (jrComponent config)) (Element ((startElement testSuiteElement)\<lparr>seAttr := seAttr (elStart root)\<rparr>) []))"
  by (simp add: joined_suite_def startElement_def joinedProperties_def attribute_def setAttribute_def find_setAttr)

text \<open>
  C36: joining the suites of a report loses nothing. The report keeps its start tag and everything beside its suites, and has one suite in the end, named after the component. The children \<open>properties\<close> of
  all suites are joined into one element, in their order (and there is none if no suite has one); every other child of a suite, text, output and contained suites included, is kept in order, and
  the only thing that is changed there is the name and the class name of test cases. The test cases directly in a suite are named after that suite.
  Every counter that some suite has is the sum over the suites, as long as the sum fits into 64 bits, the time is the sum of the times, and the other attributes are those of the first suite.
\<close>

theorem joined_report_complete:
  assumes "flattenSuites F config root = Inr root'"
  shows "elStart root' = elStart root
     \<and> filter (\<lambda>n. \<not> isElement testSuiteElement n) (elNodes root') = filter (\<lambda>n. \<not> isElement testSuiteElement n) (elNodes root)
     \<and> (\<exists>agg. childrenNamed testSuiteElement (elNodes root') = [agg] \<and> joined_suite F config root (childrenNamed testSuiteElement (elNodes root)) agg)"
proof -
  let ?suites = "childrenNamed testSuiteElement (elNodes root)" and ?rest = "filter (\<lambda>n. \<not> isElement testSuiteElement n) (elNodes root)"
  let ?rw = "map (rewriteSuite (jrRepoAbbr config)) ?suites"
  obtain at where sp: "splitSuites (jrRepoAbbr config) (elNodes root) [] [] None = (?rest, ?rw, at)"
    using splitSuites_value[of "jrRepoAbbr config" "elNodes root" "[]" "[]" None] by (metis append_Nil)
  obtain agg0 where agg0: "(if ?rw \<noteq> [] then joinSuites F ?rw else Inr (Element ((startElement testSuiteElement)\<lparr>seAttr := seAttr (elStart root)\<rparr>) [])) = Inr agg0"
    and root': "elNodes root' = (let n = ElementNode (setAttribute ''name'' (titleWords (jrComponent config)) agg0) in case at of None \<Rightarrow> ?rest @ [n] | Some i \<Rightarrow> insertNode i n ?rest)"
    and start: "elStart root' = elStart root"
    using assms by (auto simp: flattenSuites_def sp Let_def split: sum.splits)
  define agg where "agg = setAttribute ''name'' (titleWords (jrComponent config)) agg0"
  have joined: "joined_suite F config root ?suites agg"
  proof (cases ?suites)
    case Nil
    then show ?thesis using agg0 noSuites_joined[of F config root] by (auto simp: agg_def)
  next
    case (Cons s0 ss)
    then have "s0 \<in> set ?suites" by simp
    then have "elLocal s0 = testSuiteElement" by (auto simp: childrenNamed_def split: xmlNode.splits if_splits)
    with joinSuites_joined[OF _ Cons] agg0 Cons show ?thesis by (auto simp: agg_def)
  qed
  obtain a b where ab: "?rest = a @ b" "elNodes root' = a @ ElementNode agg # b"
  proof (cases at)
    case None
    then show ?thesis using root' that[of ?rest "[]"] by (simp add: agg_def Let_def)
  next
    case (Some i)
    then show ?thesis using root' insertNode_split[of ?rest i "ElementNode agg"] that by (auto simp: agg_def Let_def)
  qed
  have none: "childrenNamed testSuiteElement (a @ b) = []" unfolding ab(1)[symmetric] by (rule childrenNamed_other)
  have keep: "filter (\<lambda>n. \<not> isElement testSuiteElement n) (a @ b) = a @ b" unfolding ab(1)[symmetric] by simp
  have "elLocal agg = testSuiteElement" using joined by (simp add: joined_suite_def)
  with start joined none keep ab show ?thesis by (auto simp: isElement_def)
qed

text \<open>Two suites with three cases and one property each; times are counted in whole seconds.\<close>

definition plain_case :: "string \<Rightarrow> xmlNode" where
  "plain_case n = ElementNode (setAttribute ''name'' n (Element (startElement ''testcase'') []))"

definition plain_suite :: "string \<Rightarrow> string \<Rightarrow> string list \<Rightarrow> xmlNode" where
  "plain_suite n tests cs = ElementNode (setAttribute ''tests'' tests (setAttribute ''name'' n (Element (startElement testSuiteElement)
     (ElementNode (Element (startElement ''properties'') [ElementNode (newProperty n ''1'')]) # map plain_case cs))))"

definition two_suites :: xmlElement where
  "two_suites = Element (startElement ''testsuites'') [TokenNode (CharData ''.''), plain_suite ''e2e'' ''2'' [''A'', ''B''], plain_suite ''gw'' ''1'' [''A'']]"

definition whole_seconds :: "int Floats" where
  "whole_seconds = \<lparr>fZero = 0, fAdd = (+), parseFloat = (\<lambda>s. case atoi s of None \<Rightarrow> Inl (ErrorString s) | Some i \<Rightarrow> Inr i), formatFloat = itoa\<rparr>"

definition sample_config :: junitReportConfig where
  "sample_config = \<lparr>jrMode = junitReportModeRhoAI, jrComponent = ''mcp-operator'', jrRepoAbbr = ''operator''\<rparr>"

theorem joined_report_complete_witness:
  "\<exists>agg. childrenNamed testSuiteElement (elNodes (projr (flattenSuites whole_seconds sample_config two_suites))) = [agg]
     \<and> map suiteNameOf (childrenNamed ''testcase'' (elNodes agg)) = [''e2e/A'', ''e2e/B'', ''gw/A''] \<and> attribute agg ''tests'' = Some ''3''
     \<and> map (\<lambda>p. map suiteNameOf (childrenNamed ''property'' (elNodes p))) (childrenNamed ''properties'' (elNodes agg)) = [[''e2e'', ''gw'']]"
proof -
  let ?suites = "childrenNamed testSuiteElement (elNodes two_suites)"
  have "\<not> isl (flattenSuites whole_seconds sample_config two_suites)" by code_simp
  then have run: "flattenSuites whole_seconds sample_config two_suites = Inr (projr (flattenSuites whole_seconds sample_config two_suites))" by simp
  have cases: "map suiteNameOf (concat (map (\<lambda>s. map (rewriteCase (jrRepoAbbr sample_config) (suiteNameOf s)) (childrenNamed ''testcase'' (elNodes s))) ?suites))
      = [''e2e/A'', ''e2e/B'', ''gw/A'']"
    "map (\<lambda>p. map suiteNameOf (childrenNamed ''property'' (elNodes p))) (joinedProperties (childrenNamed ''properties'' (concat (map elNodes ?suites)))) = [[''e2e'', ''gw'']]"
    by code_simp+
  have tests: "sum_list (counterValues ''tests'' ?suites) = 3" "itoa 3 = ''3''" "''tests'' \<in> set counterNames" "list_ex (\<lambda>s. attribute s ''tests'' \<noteq> None) ?suites" by code_simp+
  obtain agg where agg: "childrenNamed testSuiteElement (elNodes (projr (flattenSuites whole_seconds sample_config two_suites))) = [agg]"
      "joined_suite whole_seconds sample_config two_suites ?suites agg"
    using joined_report_complete[OF run] by blast
  from agg(2) tests have "attribute agg ''tests'' = Some ''3''" unfolding joined_suite_def list_ex_iff by (fastforce simp: Let_def)
  with agg cases show ?thesis unfolding joined_suite_def by (intro exI[of _ agg]) simp
qed

end
