(* ===== verification/TestRunner.thy ===== *)
theory TestRunner
  imports JUnitReport
begin

text \<open>
  The runner of the end-to-end tests (\<open>test/e2e/runner/runner.go\<close>). The program calls \<open>gotestsum\<close>, which calls the program again in its second mode; there it runs every compiled test binary under
  \<open>test2json\<close>. The commands, the file system, the environment and the functions of the standard library on durations and paths are the record \<open>RunnerEnv\<close>, whose commands and files work on a
  world. Log lines are left out.
\<close>

section \<open>Packages\<close>

record TestPackage =
  tpName :: string
  tpBinary :: string

text \<open>\<open>strings.SplitN(pair, "=", 2)\<close> when there is an equals sign.\<close>

definition cutEquals :: "string \<Rightarrow> (string \<times> string) option" where
  "cutEquals pair = (if CHR ''='' \<in> set pair then Some (takeWhile (\<lambda>c. c \<noteq> CHR ''='') pair, tl (dropWhile (\<lambda>c. c \<noteq> CHR ''='') pair)) else None)"

fun parsePairs :: "string list \<Rightarrow> go_error + TestPackage list" where
  "parsePairs [] = Inr []"
| "parsePairs (pair # pairs) =
     (case (case cutEquals pair of None \<Rightarrow> None | Some (n, b) \<Rightarrow> if n = [] \<or> b = [] then None else Some (n, b)) of
        None \<Rightarrow> Inl (ErrorString (''invalid package spec '' @ goquote pair @ '': expected name=binary''))
      | Some (n, b) \<Rightarrow> (case parsePairs pairs of Inl err \<Rightarrow> Inl err | Inr ps \<Rightarrow> Inr (\<lparr>tpName = n, tpBinary = b\<rparr> # ps)))"

definition ParsePackages :: "string \<Rightarrow> go_error + TestPackage list" where
  "ParsePackages s = (if s = [] then Inl (ErrorString ''testPackages not set (must be set via -ldflags at build time)'') else parsePairs (splitOn (CHR '','') s))"

section \<open>Configuration\<close>

text \<open>How a command ends.\<close>

datatype CommandOutcome = Succeeded | ExitError int | NotRun go_error

record 'w RunnerEnv =
  lookupEnv :: "string \<Rightarrow> string option"
  arg0 :: string
  goVersion :: string
  parseDuration :: "string \<Rightarrow> go_error + int"
  durationString :: "int \<Rightarrow> string"
  joinPath :: "string \<Rightarrow> string \<Rightarrow> string"
  runCommand :: "string \<Rightarrow> string list \<Rightarrow> string list \<Rightarrow> 'w \<Rightarrow> CommandOutcome \<times> 'w"
  files :: "'w Files"

record Runner =
  rnSelfPath :: string
  rnPackages :: "TestPackage list option"
  rnArtifactsDir :: string
  rnResultsDir :: string
  rnGotestsumBin :: string
  rnVerbosity :: string
  rnTest2JSONBin :: string
  rnTestCount :: string
  rnComponent :: string
  rnRepoAbbr :: string
  rnReportMode :: string
  rnTestTimeout :: int

definition newRunner :: Runner where
  "newRunner = \<lparr>rnSelfPath = [], rnPackages = None, rnArtifactsDir = [], rnResultsDir = [], rnGotestsumBin = [], rnVerbosity = [], rnTest2JSONBin = [],
     rnTestCount = [], rnComponent = [], rnRepoAbbr = [], rnReportMode = [], rnTestTimeout = 0\<rparr>"

record RunResult =
  rsJUnitFile :: string
  rsJSONFile :: string
  rsExitCode :: int

abbreviation defaultComponent :: string where "defaultComponent \<equiv> ''mcp-lifecycle-operator''"
abbreviation defaultTestTimeout :: int where "defaultTestTimeout \<equiv> 60 * 60 * 1000000000"

definition envOr :: "'w RunnerEnv \<Rightarrow> string \<Rightarrow> string \<Rightarrow> string" where
  "envOr X key fallback = (case lookupEnv X key of Some v \<Rightarrow> if v \<noteq> [] then v else fallback | None \<Rightarrow> fallback)"

definition deriveRepoAbbr :: "string \<Rightarrow> string" where
  "deriveRepoAbbr component =
     (if component = defaultComponent then ''operator''
      else case splitOn (CHR ''-'') component of
        [] \<Rightarrow> []
      | p # ps \<Rightarrow> p @ concat (map (take 1) ps))"

abbreviation orDefault :: "string \<Rightarrow> string \<Rightarrow> string" where
  "orDefault v d \<equiv> if v = [] then d else v"

definition initialize :: "'w RunnerEnv \<Rightarrow> Runner \<Rightarrow> go_error + Runner" where
  "initialize X r =
     (let component = envOr X ''E2E_COMPONENT'' (orDefault (rnComponent r) defaultComponent);
          r1 = r\<lparr>rnSelfPath := orDefault (rnSelfPath r) (arg0 X),
             rnArtifactsDir := envOr X ''ARTIFACTS'' (orDefault (rnArtifactsDir r) ''/artifacts''),
             rnResultsDir := envOr X ''E2E_RESULTS_DIR'' (orDefault (rnResultsDir r) ''e2e-results''),
             rnGotestsumBin := envOr X ''E2E_GOTESTSUM_BIN'' (orDefault (rnGotestsumBin r) ''gotestsum''),
             rnVerbosity := envOr X ''E2E_GO_TEST_VERBOSITY'' (orDefault (rnVerbosity r) ''testname''),
             rnComponent := component,
             rnRepoAbbr := envOr X ''E2E_REPO_ABBR'' (orDefault (rnRepoAbbr r) (deriveRepoAbbr component)),
             rnReportMode := envOr X ''E2E_JUNIT_REPORT_MODE'' (orDefault (rnReportMode r) ''rhoai''),
             rnTest2JSONBin := envOr X ''E2E_TEST2JSON_BIN'' (orDefault (rnTest2JSONBin r) ''/usr/local/bin/test2json''),
             rnTestCount := envOr X ''E2E_COUNT'' (orDefault (rnTestCount r) ''1'')\<rparr>;
          timeout = (case lookupEnv X ''E2E_PACKAGE_TIMEOUT'' of
              None \<Rightarrow> Inr (rnTestTimeout r)
            | Some v \<Rightarrow> (case parseDuration X v of
                Inl err \<Rightarrow> Inl (Wrap (''invalid E2E_PACKAGE_TIMEOUT '' @ goquote v @ '': '') err) | Inr d \<Rightarrow> Inr d))
      in case timeout of
           Inl err \<Rightarrow> Inl err
         | Inr d \<Rightarrow>
             (case parseJUnitReportMode (rnReportMode r1) of
                Inl err \<Rightarrow> Inl err
              | Inr mode \<Rightarrow> Inr (r1\<lparr>rnTestTimeout := (if d = 0 then defaultTestTimeout else d), rnReportMode := mode\<rparr>)))"

definition initPackages :: "string \<Rightarrow> Runner \<Rightarrow> go_error + Runner" where
  "initPackages testPackages r = (case rnPackages r of
     Some _ \<Rightarrow> Inr r
   | None \<Rightarrow> (case ParsePackages testPackages of Inl err \<Rightarrow> Inl err | Inr ps \<Rightarrow> Inr (r\<lparr>rnPackages := Some ps\<rparr>)))"

section \<open>Running the tests\<close>

text \<open>Whether the arguments before a double dash set a time-out.\<close>

fun hasTimeout :: "string list \<Rightarrow> bool" where
  "hasTimeout [] = False"
| "hasTimeout (arg # args) =
     (if arg = ''--'' then False
      else if arg = ''-test.timeout'' \<or> hasPrefix arg ''-test.timeout='' then True
      else hasTimeout args)"

definition testArgs :: "'w RunnerEnv \<Rightarrow> Runner \<Rightarrow> string list \<Rightarrow> string list" where
  "testArgs X r args =
     (if \<not> hasTimeout args \<and> rnTestTimeout r \<ge> 0 then [''-test.timeout='' @ durationString X (rnTestTimeout r)] else [])
     @ [''-test.count='' @ rnTestCount r, ''-test.v=test2json''] @ args"

definition runPackage :: "'w RunnerEnv \<Rightarrow> Runner \<Rightarrow> string list \<Rightarrow> TestPackage \<Rightarrow> 'w \<Rightarrow> CommandOutcome \<times> 'w" where
  "runPackage X r args pkg w = runCommand X (rnTest2JSONBin r) ([''-t'', ''-p'', tpName pkg, tpBinary pkg] @ testArgs X r args) [] w"

fun execLoop :: "'w RunnerEnv \<Rightarrow> Runner \<Rightarrow> string list \<Rightarrow> TestPackage list \<Rightarrow> int \<Rightarrow> 'w \<Rightarrow> int \<times> 'w" where
  "execLoop X r args [] worstCode w = (worstCode, w)"
| "execLoop X r args (pkg # pkgs) worstCode w =
     (case runPackage X r args pkg w of
        (Succeeded, w') \<Rightarrow> execLoop X r args pkgs worstCode w'
      | (ExitError c, w') \<Rightarrow> (let code = (if c \<le> 0 then 1 else c) in execLoop X r args pkgs (if code > worstCode then code else worstCode) w')
      | (NotRun err, w') \<Rightarrow> execLoop X r args pkgs (if worstCode = 0 then 1 else worstCode) w')"

definition execPackages :: "'w RunnerEnv \<Rightarrow> Runner \<Rightarrow> string list \<Rightarrow> 'w \<Rightarrow> int \<times> 'w" where
  "execPackages X r args w = execLoop X r args (case rnPackages r of None \<Rightarrow> [] | Some ps \<Rightarrow> ps) 0 w"

section \<open>The orchestrator\<close>

definition gotestsumArgs :: "Runner \<Rightarrow> string \<Rightarrow> string \<Rightarrow> string \<Rightarrow> string list \<Rightarrow> string list" where
  "gotestsumArgs r junitFile jsonFile selfPath args =
     [''--raw-command'', ''--junitfile'', junitFile, ''--junitfile-project-name'', rnComponent r, ''--jsonfile'', jsonFile, ''--format'', rnVerbosity r,
      ''--'', selfPath, ''exec''] @ args"

definition childEnv :: "'w RunnerEnv \<Rightarrow> Runner \<Rightarrow> string list" where
  "childEnv X r = [''E2E_PACKAGE_TIMEOUT='' @ durationString X (rnTestTimeout r)] @ (if envOr X ''GOVERSION'' [] = [] then [''GOVERSION='' @ goVersion X] else [])"

text \<open>After \<open>gotestsum\<close>: the report has to be there and is rewritten.\<close>

definition checkReport :: "decoder \<Rightarrow> 'e Encoder \<Rightarrow> 'f Floats \<Rightarrow> 'w RunnerEnv \<Rightarrow> Runner \<Rightarrow> RunResult \<Rightarrow> 'w \<Rightarrow> RunResult \<times> 'w" where
  "checkReport D E F X r result w =
     (case statFile (files X) (rsJUnitFile result) w of
        (Some err, w1) \<Rightarrow>
          (if isNotExist (files X) err then (if rsExitCode result = 0 then result\<lparr>rsExitCode := 1\<rparr> else result) else result\<lparr>rsExitCode := 1\<rparr>, w1)
      | (None, w1) \<Rightarrow>
          (case rewriteJUnitReport D E F (files X) (rsJUnitFile result) \<lparr>jrMode = rnReportMode r, jrComponent = rnComponent r, jrRepoAbbr = rnRepoAbbr r\<rparr> w1 of
             (Some err, w2) \<Rightarrow> (if rsExitCode result = 0 then result\<lparr>rsExitCode := 1\<rparr> else result, w2)
           | (None, w2) \<Rightarrow> (result, w2)))"

definition orchestrate :: "decoder \<Rightarrow> 'e Encoder \<Rightarrow> 'f Floats \<Rightarrow> 'w RunnerEnv \<Rightarrow> Runner \<Rightarrow> string list \<Rightarrow> 'w \<Rightarrow> RunResult \<times> 'w" where
  "orchestrate D E F X r args w =
     (let resultsDir = joinPath X (rnArtifactsDir r) (rnResultsDir r);
          junitFile = joinPath X resultsDir ''junit.xml'';
          jsonFile = joinPath X resultsDir ''log.jsonl'';
          selfPath = orDefault (rnSelfPath r) (arg0 X);
          result = \<lparr>rsJUnitFile = junitFile, rsJSONFile = jsonFile, rsExitCode = 0\<rparr>
      in case mkdirAll (files X) resultsDir w of
           (Some err, w1) \<Rightarrow> (\<lparr>rsJUnitFile = [], rsJSONFile = [], rsExitCode = 1\<rparr>, w1)
         | (None, w1) \<Rightarrow>
             (case runCommand X (rnGotestsumBin r) (gotestsumArgs r junitFile jsonFile selfPath args) (childEnv X r) w1 of
                (NotRun err, w2) \<Rightarrow> (result\<lparr>rsExitCode := 1\<rparr>, w2)
              | (ExitError c, w2) \<Rightarrow> checkReport D E F X r (result\<lparr>rsExitCode := c\<rparr>) w2
              | (Succeeded, w2) \<Rightarrow> checkReport D E F X r result w2))"

definition Run :: "decoder \<Rightarrow> 'e Encoder \<Rightarrow> 'f Floats \<Rightarrow> 'w RunnerEnv \<Rightarrow> string \<Rightarrow> Runner \<Rightarrow> string list \<Rightarrow> 'w \<Rightarrow> RunResult \<times> 'w" where
  "Run D E F X testPackages r args w =
     (let failed = \<lparr>rsJUnitFile = [], rsJSONFile = [], rsExitCode = 1\<rparr>
      in case initialize X r of
           Inl err \<Rightarrow> (failed, w)
         | Inr r1 \<Rightarrow>
             (case initPackages testPackages r1 of
                Inl err \<Rightarrow> (failed, w)
              | Inr r2 \<Rightarrow>
                  (case args of
                     arg # rest \<Rightarrow>
                       if arg = ''exec'' then (case execPackages X r2 rest w of (code, w') \<Rightarrow> (\<lparr>rsJUnitFile = [], rsJSONFile = [], rsExitCode = code\<rparr>, w'))
                       else orchestrate D E F X r2 args w
                   | [] \<Rightarrow> orchestrate D E F X r2 args w)))"

section \<open>Exit codes\<close>

text \<open>The outcomes of all packages, run one after the other whatever the others do, and the code of an outcome.\<close>

fun outcomes :: "'w RunnerEnv \<Rightarrow> Runner \<Rightarrow> string list \<Rightarrow> TestPackage list \<Rightarrow> 'w \<Rightarrow> CommandOutcome list" where
  "outcomes X r args [] w = []"
| "outcomes X r args (pkg # pkgs) w = (case runPackage X r args pkg w of (c, w') \<Rightarrow> c # outcomes X r args pkgs w')"

fun codeOf :: "CommandOutcome \<Rightarrow> int" where
  "codeOf Succeeded = 0"
| "codeOf (ExitError c) = (if c \<le> 0 then 1 else c)"
| "codeOf (NotRun err) = 1"

lemma codeOf_zero: "codeOf c = 0 \<longleftrightarrow> c = Succeeded" "codeOf c \<ge> 0"
  by (cases c; simp)+

lemma execLoop_code: "0 \<le> worst \<Longrightarrow> fst (execLoop X r args pkgs worst w) = fold max (map codeOf (outcomes X r args pkgs w)) worst"
proof (induction pkgs arbitrary: worst w)
  case (Cons pkg pkgs)
  obtain c w' where run: "runPackage X r args pkg w = (c, w')" by fastforce
  have "fst (execLoop X r args (pkg # pkgs) worst w) = fst (execLoop X r args pkgs (max (codeOf c) worst) w')"
    using Cons.prems by (cases c) (auto simp: run max_def)
  with Cons.IH[of "max (codeOf c) worst" w'] Cons.prems show ?case by (simp add: run)
qed simp

lemma fold_max: "fold max xs (a :: int) = 0 \<longleftrightarrow> fold max xs a \<le> 0 \<and> fold max xs a \<ge> 0" "fold max xs a \<le> b \<longleftrightarrow> a \<le> b \<and> (\<forall>x\<in>set xs. x \<le> b)" "a \<le> fold max xs a"
proof -
  show "fold max xs a = 0 \<longleftrightarrow> fold max xs a \<le> 0 \<and> fold max xs a \<ge> 0" by auto
  show "fold max xs a \<le> b \<longleftrightarrow> a \<le> b \<and> (\<forall>x\<in>set xs. x \<le> b)" by (induction xs arbitrary: a) auto
  show "a \<le> fold max xs a" by (induction xs arbitrary: a) (simp, metis fold_simps(2) max.bounded_iff max.commute)
qed

lemma exec_green: "fst (execPackages X r args w) = 0 \<longleftrightarrow> (\<forall>c\<in>set (outcomes X r args (case rnPackages r of None \<Rightarrow> [] | Some ps \<Rightarrow> ps) w). c = Succeeded)"
proof -
  let ?os = "outcomes X r args (case rnPackages r of None \<Rightarrow> [] | Some ps \<Rightarrow> ps) w"
  have "fst (execPackages X r args w) = fold max (map codeOf ?os) 0" unfolding execPackages_def by (rule execLoop_code) simp
  moreover have "fold max (map codeOf ?os) 0 = 0 \<longleftrightarrow> (\<forall>c\<in>set ?os. codeOf c \<le> 0)"
    using fold_max(2)[of "map codeOf ?os" 0 0] fold_max(3)[of 0 "map codeOf ?os"] by auto
  moreover have "codeOf c \<le> 0 \<longleftrightarrow> c = Succeeded" for c using codeOf_zero[of c] by linarith
  ultimately show ?thesis by simp
qed

text \<open>An \<open>exec.ExitError\<close> reports an unsuccessful end.\<close>

definition exit_law :: "'w RunnerEnv \<Rightarrow> bool" where
  "exit_law X \<longleftrightarrow> (\<forall>bin args env w w'. runCommand X bin args env w \<noteq> (ExitError 0, w'))"

lemma checkReport_green:
  assumes "checkReport D E F X r result w = (res, w')" "rsExitCode res = 0"
  shows "rsExitCode result = 0 \<and> (\<exists>w1. statFile (files X) (rsJUnitFile result) w = (None, w1)
     \<and> rewriteJUnitReport D E F (files X) (rsJUnitFile result) \<lparr>jrMode = rnReportMode r, jrComponent = rnComponent r, jrRepoAbbr = rnRepoAbbr r\<rparr> w1 = (None, w'))"
  using assms by (auto simp: checkReport_def split: prod.splits option.splits if_splits)

text \<open>The report of a run was dealt with: it was read, transformed and written back; or, though it was there before, the read said that it does not exist, and nothing was written.\<close>

definition report_done :: "decoder \<Rightarrow> 'e Encoder \<Rightarrow> 'f Floats \<Rightarrow> 'w Files \<Rightarrow> string \<Rightarrow> junitReportConfig \<Rightarrow> 'w \<Rightarrow> 'w \<Rightarrow> bool" where
  "report_done D E F FS path config w w' \<longleftrightarrow>
     (\<exists>data rewritten w1. readFile FS path w = (Inr data, w1) \<and> transformJUnitReport D E F data config = Inr rewritten \<and> writeFile FS path rewritten w1 = (None, w'))
   \<or> (\<exists>err. readFile FS path w = (Inl err, w') \<and> isNotExist FS err)"

lemma rewriteJUnitReport_done: "rewriteJUnitReport D E F FS path config w = (None, w') \<longleftrightarrow> report_done D E F FS path config w w'"
  by (auto simp: rewriteJUnitReport_def report_done_def split: prod.splits sum.splits option.splits if_splits)

lemma orchestrate_green:
  assumes "exit_law X" "orchestrate D E F X r args w = (res, w')" "rsExitCode res = 0"
    and "dir = joinPath X (rnArtifactsDir r) (rnResultsDir r)"
  shows "rsJUnitFile res = joinPath X dir ''junit.xml'' \<and> (\<exists>w1 w2 w3. mkdirAll (files X) dir w = (None, w1)
    \<and> runCommand X (rnGotestsumBin r) (gotestsumArgs r (rsJUnitFile res) (joinPath X dir ''log.jsonl'') (orDefault (rnSelfPath r) (arg0 X)) args) (childEnv X r) w1 = (Succeeded, w2)
    \<and> statFile (files X) (rsJUnitFile res) w2 = (None, w3)
    \<and> report_done D E F (files X) (rsJUnitFile res) \<lparr>jrMode = rnReportMode r, jrComponent = rnComponent r, jrRepoAbbr = rnRepoAbbr r\<rparr> w3 w')"
proof -
  define junit json where "junit = joinPath X dir ''junit.xml''" and "json = joinPath X dir ''log.jsonl''"
  define result where "result = \<lparr>rsJUnitFile = junit, rsJSONFile = json, rsExitCode = 0\<rparr>"
  obtain w1 c w2 where run: "mkdirAll (files X) dir w = (None, w1)"
      "runCommand X (rnGotestsumBin r) (gotestsumArgs r junit json (orDefault (rnSelfPath r) (arg0 X)) args) (childEnv X r) w1 = (c, w2)"
      "c = Succeeded \<and> checkReport D E F X r result w2 = (res, w') \<or> (\<exists>i. c = ExitError i \<and> checkReport D E F X r (result\<lparr>rsExitCode := i\<rparr>) w2 = (res, w'))"
    using assms(2,3) by (auto simp: orchestrate_def Let_def assms(4) junit_def json_def result_def split: prod.splits option.splits CommandOutcome.splits)
  have "c \<noteq> ExitError 0" using assms(1) run(2) by (auto simp: exit_law_def)
  then have c: "c = Succeeded" "checkReport D E F X r result w2 = (res, w')" using run(3) checkReport_green assms(3) by fastforce+
  have "rsJUnitFile res = junit" using c(2) by (auto simp: checkReport_def result_def split: prod.splits option.splits if_splits)
  with checkReport_green[OF c(2) assms(3)] run(1,2) show ?thesis
    unfolding c(1) rewriteJUnitReport_done by (auto simp: result_def junit_def json_def)
qed

text \<open>
  C38: a run that ends with code zero hides no failure. In the second mode (first argument \<open>exec\<close>) every package was run, whatever became of the others, and the test binary of each succeeded. In the
  first mode the directory was made, and \<open>gotestsum\<close> succeeded on the command line that makes it call this program in its second mode with the same arguments, with the report written to \<open>junit.xml\<close> in that directory;
  the report was found afterwards, and then it was read, transformed and written back without an error, or the read said that it does not exist and nothing was written.
\<close>

theorem green_run_hides_no_failure:
  assumes "exit_law X" "Run D E F X testPackages r args w = (res, w')" "rsExitCode res = 0"
  shows "\<exists>r1 r2. initialize X r = Inr r1 \<and> initPackages testPackages r1 = Inr r2 \<and>
     (if args \<noteq> [] \<and> hd args = ''exec''
      then (\<forall>c\<in>set (outcomes X r2 (tl args) (case rnPackages r2 of None \<Rightarrow> [] | Some ps \<Rightarrow> ps) w). c = Succeeded)
      else let dir = joinPath X (rnArtifactsDir r2) (rnResultsDir r2); junit = joinPath X dir ''junit.xml''; json = joinPath X dir ''log.jsonl''
        in \<exists>w1 w2 w3. mkdirAll (files X) dir w = (None, w1)
          \<and> runCommand X (rnGotestsumBin r2)
              ([''--raw-command'', ''--junitfile'', junit, ''--junitfile-project-name'', rnComponent r2, ''--jsonfile'', json, ''--format'', rnVerbosity r2,
                ''--'', if rnSelfPath r2 = [] then arg0 X else rnSelfPath r2, ''exec''] @ args) (childEnv X r2) w1 = (Succeeded, w2)
          \<and> statFile (files X) junit w2 = (None, w3)
          \<and> ((\<exists>data rewritten w4. readFile (files X) junit w3 = (Inr data, w4)
                \<and> transformJUnitReport D E F data \<lparr>jrMode = rnReportMode r2, jrComponent = rnComponent r2, jrRepoAbbr = rnRepoAbbr r2\<rparr> = Inr rewritten
                \<and> writeFile (files X) junit rewritten w4 = (None, w'))
             \<or> (\<exists>err. readFile (files X) junit w3 = (Inl err, w') \<and> isNotExist (files X) err)))"
proof -
  obtain r1 r2 where r: "initialize X r = Inr r1" "initPackages testPackages r1 = Inr r2"
    using assms(2,3) by (auto simp: Run_def Let_def split: sum.splits)
  show ?thesis
  proof (cases "args \<noteq> [] \<and> hd args = ''exec''")
    case True
    then have "fst (execPackages X r2 (tl args) w) = 0"
      using assms(2,3) r by (cases args) (auto simp: Run_def Let_def split: prod.splits)
    with r True show ?thesis by (simp add: exec_green)
  next
    case False
    then have "orchestrate D E F X r2 args w = (res, w')"
      using assms(2) r by (cases args) (auto simp: Run_def Let_def)
    from orchestrate_green[OF assms(1) this assms(3) refl] r False show ?thesis
      unfolding report_done_def gotestsumArgs_def Let_def by (simp only: if_False) auto
  qed
qed

text \<open>Two packages of which the second fails.\<close>

definition sample_env :: "nat RunnerEnv" where
  "sample_env = \<lparr>lookupEnv = (\<lambda>_. None), arg0 = ''e2e-run'', goVersion = ''go1'', parseDuration = (\<lambda>s. Inl (ErrorString s)), durationString = itoa,
     joinPath = (\<lambda>a b. a @ ''/'' @ b), runCommand = (\<lambda>bin args env w. (if w = 1 then ExitError 2 else Succeeded, Suc w)),
     files = \<lparr>readFile = (\<lambda>p w. (Inl (ErrorString ''gone''), w)), writeFile = (\<lambda>p d w. (None, w)), statFile = (\<lambda>p w. (None, w)), mkdirAll = (\<lambda>p w. (None, w)),
       isNotExist = (\<lambda>e. True)\<rparr>\<rparr>"

text \<open>The same, with a report that can be read.\<close>

definition report_env :: "nat RunnerEnv" where
  "report_env = sample_env\<lparr>files := (files sample_env)\<lparr>readFile := \<lambda>p w. (Inr ''xml'', w)\<rparr>\<rparr>"

abbreviation report_decoder :: decoder where
  "report_decoder \<equiv> \<lambda>_. (small_report, io_EOF)"

theorem green_run_hides_no_failure_witness:
  "rsExitCode (fst (Run report_decoder counting_encoder whole_seconds report_env ''e2e=/a,gw=/b'' newRunner [''exec''] 2)) = 0
   \<and> (\<exists>r2. rnPackages r2 = Some [\<lparr>tpName = ''e2e'', tpBinary = ''/a''\<rparr>, \<lparr>tpName = ''gw'', tpBinary = ''/b''\<rparr>]
       \<and> list_all (\<lambda>c. c = Succeeded) (outcomes report_env r2 [] (case rnPackages r2 of None \<Rightarrow> [] | Some ps \<Rightarrow> ps) 2))
   \<and> rsExitCode (fst (Run report_decoder counting_encoder whole_seconds report_env ''e2e=/a,gw=/b'' newRunner [''exec''] 0)) = 2
   \<and> rsExitCode (fst (Run report_decoder counting_encoder whole_seconds report_env ''e2e=/a'' (newRunner\<lparr>rnTestTimeout := 1\<rparr>) [] 2)) = 0
   \<and> (\<exists>config rewritten. transformJUnitReport report_decoder counting_encoder whole_seconds ''xml'' config = Inr rewritten)"
proof (intro conjI)
  let ?run = "Run report_decoder counting_encoder whole_seconds report_env"
  show zero: "rsExitCode (fst (?run ''e2e=/a,gw=/b'' newRunner [''exec''] 2)) = 0" by code_simp
  show "rsExitCode (fst (?run ''e2e=/a,gw=/b'' newRunner [''exec''] 0)) = 2" by code_simp
  show first: "rsExitCode (fst (?run ''e2e=/a'' (newRunner\<lparr>rnTestTimeout := 1\<rparr>) [] 2)) = 0" by code_simp
  have law: "exit_law report_env" by (simp add: exit_law_def sample_env_def report_env_def)
  obtain r1 r2 where r: "initialize report_env newRunner = Inr r1" "initPackages ''e2e=/a,gw=/b'' r1 = Inr r2"
      "\<forall>c\<in>set (outcomes report_env r2 [] (case rnPackages r2 of None \<Rightarrow> [] | Some ps \<Rightarrow> ps) 2). c = Succeeded"
    using green_run_hides_no_failure[OF law surjective_pairing zero] by auto
  have "rnPackages (projr (initPackages ''e2e=/a,gw=/b'' (projr (initialize report_env newRunner)))) =
      Some [\<lparr>tpName = ''e2e'', tpBinary = ''/a''\<rparr>, \<lparr>tpName = ''gw'', tpBinary = ''/b''\<rparr>]" by code_simp
  with r show "\<exists>r2. rnPackages r2 = Some [\<lparr>tpName = ''e2e'', tpBinary = ''/a''\<rparr>, \<lparr>tpName = ''gw'', tpBinary = ''/b''\<rparr>]
       \<and> list_all (\<lambda>c. c = Succeeded) (outcomes report_env r2 [] (case rnPackages r2 of None \<Rightarrow> [] | Some ps \<Rightarrow> ps) 2)"
    by (intro exI[of _ r2]) (simp add: list_all_iff)
  have read: "readFile (files report_env) p w = (Inr ''xml'', w)" for p w by (simp add: report_env_def)
  have plain: "\<not> ([] \<noteq> [] \<and> hd [] = ''exec'')" by simp
  show "\<exists>config rewritten. transformJUnitReport report_decoder counting_encoder whole_seconds ''xml'' config = Inr rewritten"
    using green_run_hides_no_failure[OF law surjective_pairing first] unfolding if_not_P[OF plain] Let_def read prod.inject sum.inject
    by (elim exE conjE disjE) (blast, simp)
qed

end
