(* ===== verification/TestFramework.thy ===== *)
theory TestFramework
  imports Policy
begin

text \<open>
  The framework of the end-to-end tests (\<open>test/e2e/framework\<close>): how a test finds the installed operator (\<open>discovery.go\<close>, \<open>discovery_defaults.go\<close>), which tests a profile selects (\<open>profiles*.go\<close>),
  and how a package of tests is set up, run and torn down (\<open>packages.go\<close>). The package-level variables are explicit arguments; the cluster is a world that locators and
  life cycles act on.
\<close>

section \<open>Discovery\<close>

record OperatorRef =
  orfNamespace :: string
  orfServiceAccountName :: string
  orfMetricsServiceName :: string

definition zero_ref :: OperatorRef where
  "zero_ref = \<lparr>orfNamespace = [], orfServiceAccountName = [], orfMetricsServiceName = []\<rparr>"

definition merge_ref :: "OperatorRef \<Rightarrow> OperatorRef \<Rightarrow> OperatorRef" where
  "merge_ref r other = \<lparr>orfNamespace = (if orfNamespace r = [] then orfNamespace other else orfNamespace r),
     orfServiceAccountName = (if orfServiceAccountName r = [] then orfServiceAccountName other else orfServiceAccountName r),
     orfMetricsServiceName = (if orfMetricsServiceName r = [] then orfMetricsServiceName other else orfMetricsServiceName r)\<rparr>"

definition isZero_ref :: "OperatorRef \<Rightarrow> bool" where
  "isZero_ref r \<longleftrightarrow> orfNamespace r = [] \<and> orfServiceAccountName r = [] \<and> orfMetricsServiceName r = []"

definition isComplete_ref :: "OperatorRef \<Rightarrow> bool" where
  "isComplete_ref r \<longleftrightarrow> orfNamespace r \<noteq> [] \<and> orfServiceAccountName r \<noteq> [] \<and> orfMetricsServiceName r \<noteq> []"

datatype Tier = Explicit | Platform | Fallback

definition tierOrder :: "Tier list" where
  "tierOrder = [Explicit, Platform, Fallback]"

definition tierText :: "Tier \<Rightarrow> string" where
  "tierText t = (case t of Explicit \<Rightarrow> ''Explicit'' | Platform \<Rightarrow> ''Platform'' | Fallback \<Rightarrow> ''Fallback'')"

text \<open>What is read of a pod; the client lists pods by a selector and the services of a namespace.\<close>

record OperatorPod =
  opdMeta :: ObjectMeta
  opdPhase :: string
  opdServiceAccount :: string

record 'w TestClient =
  listOperatorPods :: "string \<Rightarrow> 'w \<Rightarrow> (go_error + OperatorPod list) \<times> 'w"
  listServices :: "string \<Rightarrow> 'w \<Rightarrow> (go_error + Service list) \<times> 'w"

text \<open>A locator with the name that \<open>runtime.FuncForPC\<close> gives it, if any; the configuration it gets is the client, or nil.\<close>

record 'w LocateFunc =
  lcFunc :: "string option"
  locate :: "'w TestClient option \<Rightarrow> 'w \<Rightarrow> (go_error + OperatorRef) \<times> 'w"

definition locateFuncName :: "'w LocateFunc \<Rightarrow> string" where
  "locateFuncName fn = (case lcFunc fn of
     None \<Rightarrow> ''anonymous''
   | Some f \<Rightarrow>
       (let i = lastIndexChar f (CHR ''.''); name = (if i \<ge> 0 then drop (nat i + 1) f else f)
        in if hasPrefix name ''func'' then ''anonymous'' else name))"

text \<open>The registry; \<open>rgCached\<close> is \<open>discoverOnce\<close> with \<open>cached\<close> and \<open>cachedErr\<close>.\<close>

record 'w Registry =
  rgTiers :: "Tier \<Rightarrow> 'w LocateFunc option"
  rgCached :: "(go_error + OperatorRef) option"

definition Register_locator :: "Tier \<Rightarrow> 'w LocateFunc \<Rightarrow> 'w Registry \<Rightarrow> 'w Registry" where
  "Register_locator tier fn r = r\<lparr>rgTiers := (rgTiers r)(tier := Some fn)\<rparr>"

abbreviation DefaultNamespace :: string where "DefaultNamespace \<equiv> ''mcp-lifecycle-operator-system''"
abbreviation DefaultServiceAccountName :: string where "DefaultServiceAccountName \<equiv> ''mcp-lifecycle-operator-controller-manager''"
abbreviation DefaultMetricsServiceName :: string where "DefaultMetricsServiceName \<equiv> ''mcp-lifecycle-operator-controller-manager-metrics-service''"

definition FromDefaults :: "'w LocateFunc" where
  "FromDefaults = \<lparr>lcFunc = Some ''framework.FromDefaults'', locate = (\<lambda>_ w. (Inr \<lparr>orfNamespace = DefaultNamespace,
     orfServiceAccountName = DefaultServiceAccountName, orfMetricsServiceName = DefaultMetricsServiceName\<rparr>, w))\<rparr>"

definition FromEnvVars :: "(string \<Rightarrow> string) \<Rightarrow> 'w LocateFunc" where
  "FromEnvVars getenv = \<lparr>lcFunc = Some ''framework.FromEnvVars'', locate = (\<lambda>_ w. (Inr \<lparr>orfNamespace = getenv ''MCPLO_NAMESPACE'',
     orfServiceAccountName = getenv ''MCPLO_SA_NAME'', orfMetricsServiceName = getenv ''MCPLO_METRICS_SERVICE''\<rparr>, w))\<rparr>"

abbreviation OperatorControllerSelector :: string where
  "OperatorControllerSelector \<equiv> ''control-plane=controller-manager,app.kubernetes.io/name=mcp-lifecycle-operator''"

definition selectorMatchesLabels :: "gomap \<Rightarrow> gomap \<Rightarrow> bool" where
  "selectorMatchesLabels selector labels =
     (if gm_len selector = 0 then False
      else list_all (\<lambda>(k, v). (case gm_get labels k of None \<Rightarrow> [] | Some x \<Rightarrow> x) = v) (gm_list selector))"

definition FromPodLabels :: "'w LocateFunc" where
  "FromPodLabels = \<lparr>lcFunc = Some ''framework.FromPodLabels'', locate = (\<lambda>cfg w. case cfg of
      None \<Rightarrow> (Inr zero_ref, w)
    | Some C \<Rightarrow> (case listOperatorPods C OperatorControllerSelector w of
        (Inl err, w1) \<Rightarrow> (Inl (Wrap ''listing pods: '' err), w1)
      | (Inr pods, w1) \<Rightarrow> (case List.find (\<lambda>p. opdPhase p = ''Running'' \<and> omDeletionTimestamp (opdMeta p) = None) pods of
          None \<Rightarrow> (Inr zero_ref, w1)
        | Some pod \<Rightarrow> (case listServices C (omNamespace (opdMeta pod)) w1 of
            (Inl err, w2) \<Rightarrow> (Inl (Wrap (''listing services in '' @ omNamespace (opdMeta pod) @ '': '') err), w2)
          | (Inr svcs, w2) \<Rightarrow> (Inr \<lparr>orfNamespace = omNamespace (opdMeta pod), orfServiceAccountName = opdServiceAccount pod,
              orfMetricsServiceName = (case List.find (\<lambda>svc. containsStr (omName (svcMeta svc)) ''metrics'' \<and> selectorMatchesLabels (svcSelector svc) (omLabels (opdMeta pod))) svcs of
                 None \<Rightarrow> [] | Some svc \<Rightarrow> omName (svcMeta svc))\<rparr>, w2)))))\<rparr>"

definition ensureDefaults :: "(string \<Rightarrow> string) \<Rightarrow> 'w Registry \<Rightarrow> 'w Registry" where
  "ensureDefaults getenv r =
     (let r1 = (if rgTiers r Explicit = None then Register_locator Explicit (FromEnvVars getenv) r else r);
          r2 = (if rgTiers r1 Platform = None then Register_locator Platform FromPodLabels r1 else r1)
      in if rgTiers r2 Fallback = None then Register_locator Fallback FromDefaults r2 else r2)"

fun discoverLoop :: "(Tier \<Rightarrow> 'w LocateFunc option) \<Rightarrow> 'w TestClient option \<Rightarrow> Tier list \<Rightarrow> OperatorRef \<Rightarrow> bool \<Rightarrow> 'w \<Rightarrow> (go_error + OperatorRef \<times> bool) \<times> 'w" where
  "discoverLoop tiers cfg [] res matched w = (Inr (res, matched), w)"
| "discoverLoop tiers cfg (tier # ts) res matched w =
     (case tiers tier of
        None \<Rightarrow> discoverLoop tiers cfg ts res matched w
      | Some fn \<Rightarrow>
          (case locate fn cfg w of
             (Inl err, w') \<Rightarrow> (Inl (Wrap (''operator discovery ('' @ tierText tier @ ''/'' @ locateFuncName fn @ ''): '') err), w')
           | (Inr ref, w') \<Rightarrow>
               if isZero_ref ref then discoverLoop tiers cfg ts res matched w'
               else let res' = merge_ref res ref
                    in if isComplete_ref res' then (Inr (res', True), w') else discoverLoop tiers cfg ts res' True w'))"

definition DiscoverOperator :: "(string \<Rightarrow> string) \<Rightarrow> 'w TestClient option \<Rightarrow> 'w Registry \<Rightarrow> 'w \<Rightarrow> (go_error + OperatorRef) \<times> 'w Registry \<times> 'w" where
  "DiscoverOperator getenv cfg r w =
     (let r' = ensureDefaults getenv r
      in case discoverLoop (rgTiers r') cfg tierOrder zero_ref False w of
           (Inl err, w') \<Rightarrow> (Inl err, r', w')
         | (Inr (res, matched), w') \<Rightarrow> (if \<not> matched then Inl (ErrorString ''operator discovery: no locator matched'') else Inr res, r', w'))"

text \<open>The outcome of the first call is kept, an error included; \<open>Inl\<close> is the failure of the test by \<open>t.Fatalf\<close>.\<close>

definition MustDiscoverOperatorOnce :: "(string \<Rightarrow> string) \<Rightarrow> 'w TestClient option \<Rightarrow> 'w Registry \<Rightarrow> 'w \<Rightarrow> (go_error + OperatorRef) \<times> 'w Registry \<times> 'w" where
  "MustDiscoverOperatorOnce getenv cfg r w =
     (case rgCached r of
        Some res \<Rightarrow> (res, r, w)
      | None \<Rightarrow> (case DiscoverOperator getenv cfg r w of (res, r', w') \<Rightarrow> (res, r'\<lparr>rgCached := Some res\<rparr>, w')))"

section \<open>Profiles\<close>

text \<open>A map from a label to the values it may have; \<open>None\<close> is the nil map.\<close>

type_synonym label_sets = "(string \<times> string list) list"

record Profile =
  pfName :: string
  pfPriority :: int
  pfLabels :: "label_sets option"

type_synonym profiles = "string \<rightharpoonup> Profile"

definition RegisterProfile :: "Profile \<Rightarrow> profiles \<Rightarrow> profiles" where
  "RegisterProfile p ps = (case ps (pfName p) of
     None \<Rightarrow> ps(pfName p \<mapsto> p)
   | Some existing \<Rightarrow> if pfPriority p \<ge> pfPriority existing then ps(pfName p \<mapsto> p) else ps)"

definition LookupProfile :: "string \<Rightarrow> profiles \<Rightarrow> Profile option" where
  "LookupProfile name ps = ps name"

text \<open>\<open>Inl\<close>: the process ends with code one.\<close>

definition ResolveProfile :: "string \<Rightarrow> profiles \<Rightarrow> unit + label_sets option" where
  "ResolveProfile profileFlag ps =
     (if profileFlag = [] then Inr None
      else case LookupProfile profileFlag ps of None \<Rightarrow> Inl () | Some p \<Rightarrow> Inr (pfLabels p))"

definition defaultProfiles :: "Profile list" where
  "defaultProfiles =
     [\<lparr>pfName = ''smoke'', pfPriority = 0, pfLabels = Some [(''category'', [''lifecycle'', ''configuration'']), (''speed'', [''fast''])]\<rparr>,
      \<lparr>pfName = ''extended'', pfPriority = 0, pfLabels = Some [(''category'', [''lifecycle'', ''configuration'', ''resilience'']), (''speed'', [''fast'', ''moderate''])]\<rparr>,
      \<lparr>pfName = ''gateway-httproute'', pfPriority = 0, pfLabels = Some [(''scope'', [''gateway-conformance'', ''httproute''])]\<rparr>,
      \<lparr>pfName = ''gateway-kuadrant'', pfPriority = 0, pfLabels = Some [(''scope'', [''gateway-conformance'', ''kuadrant''])]\<rparr>]"

definition midstreamProfiles :: "Profile list" where
  "midstreamProfiles =
     [\<lparr>pfName = ''sanity'', pfPriority = 1, pfLabels = Some [(''category'', [''lifecycle'']), (''speed'', [''fast''])]\<rparr>,
      \<lparr>pfName = ''tier1'', pfPriority = 1, pfLabels = Some [(''speed'', [''fast''])]\<rparr>,
      \<lparr>pfName = ''tier2'', pfPriority = 1, pfLabels = Some [(''speed'', [''moderate''])]\<rparr>,
      \<lparr>pfName = ''tier3'', pfPriority = 1, pfLabels = Some [(''speed'', [''slow''])]\<rparr>,
      \<lparr>pfName = ''pre-upgrade'', pfPriority = 1, pfLabels = Some [(''speed'', [''fast'', ''moderate''])]\<rparr>,
      \<lparr>pfName = ''post-upgrade'', pfPriority = 1, pfLabels = Some [(''speed'', [''fast'', ''moderate''])]\<rparr>]"

section \<open>Packages\<close>

datatype LifecycleTier = DefaultTier | PlatformTier

record 'w PackageLifecycle =
  lcSetup :: "'w \<Rightarrow> go_error option \<times> 'w"
  lcTeardown :: "'w \<Rightarrow> go_error option \<times> 'w"

record 'w packageEntry =
  peLabels :: "label_sets"
  peLifecycles :: "LifecycleTier \<Rightarrow> 'w PackageLifecycle list"

type_synonym 'w packages = "string \<Rightarrow> 'w packageEntry option"

text \<open>\<open>None\<close> is a panic.\<close>

definition RegisterPackage :: "string \<Rightarrow> label_sets \<Rightarrow> 'w packages \<Rightarrow> 'w packages option" where
  "RegisterPackage name labels ps = (if ps name \<noteq> None then None else Some (ps(name := Some \<lparr>peLabels = labels, peLifecycles = (\<lambda>_. [])\<rparr>)))"

definition RegisterPackageLifecycle :: "LifecycleTier \<Rightarrow> string \<Rightarrow> 'w PackageLifecycle \<Rightarrow> 'w packages \<Rightarrow> 'w packages option" where
  "RegisterPackageLifecycle tier name lc ps = (case ps name of
     None \<Rightarrow> None
   | Some entry \<Rightarrow> Some (ps(name := Some (entry\<lparr>peLifecycles := (peLifecycles entry)(tier := peLifecycles entry tier @ [lc])\<rparr>))))"

definition resolveLifecycles :: "string \<Rightarrow> 'w packages \<Rightarrow> 'w PackageLifecycle list" where
  "resolveLifecycles name ps = (case ps name of
     None \<Rightarrow> []
   | Some entry \<Rightarrow> (let lcs = peLifecycles entry PlatformTier in if lcs \<noteq> [] then lcs else peLifecycles entry DefaultTier))"

definition labelsIntersect :: "label_sets \<Rightarrow> label_sets \<Rightarrow> bool" where
  "labelsIntersect a b = list_ex (\<lambda>(key, aVals). case map_of b key of None \<Rightarrow> False | Some bVals \<Rightarrow> list_ex (\<lambda>av. av \<in> set bVals) aVals) a"

text \<open>A loop of teardowns, whose errors are only logged.\<close>

fun teardowns :: "'w PackageLifecycle list \<Rightarrow> 'w \<Rightarrow> 'w" where
  "teardowns [] w = w"
| "teardowns (lc # lcs) w = teardowns lcs (snd (lcTeardown lc w))"

text \<open>The loop of setups, with the life cycles that are ready, the last one first; after a failure these are torn down. The flag says that all setups went well.\<close>

fun setups :: "'w PackageLifecycle list \<Rightarrow> 'w PackageLifecycle list \<Rightarrow> 'w \<Rightarrow> bool \<times> 'w" where
  "setups ready [] w = (True, w)"
| "setups ready (lc # lcs) w =
     (case lcSetup lc w of
        (Some err, w') \<Rightarrow> (False, teardowns ready w')
      | (None, w') \<Rightarrow> setups (lc # ready) lcs w')"

text \<open>
  The exit code of a package. \<open>envconf_ok\<close> says whether \<open>envconf.NewFromFlags\<close> succeeded, \<open>configure\<close> is the callback that builds the environment of the tests from the labels of the profile,
  given as the function that runs the tests.
\<close>

definition RunPackage ::
    "string \<Rightarrow> bool \<Rightarrow> string \<Rightarrow> profiles \<Rightarrow> (label_sets option \<Rightarrow> 'w \<Rightarrow> ('w \<Rightarrow> int \<times> 'w) \<times> 'w) \<Rightarrow> 'w packages \<Rightarrow> 'w \<Rightarrow> int \<times> 'w" where
  "RunPackage name envconf_ok profileFlag profs configure ps w =
     (case ps name of
        None \<Rightarrow> (1, w)
      | Some entry \<Rightarrow>
          if \<not> envconf_ok then (1, w)
          else (case ResolveProfile profileFlag profs of
                  Inl _ \<Rightarrow> (1, w)
                | Inr profileLabels \<Rightarrow>
                    if (case profileLabels of None \<Rightarrow> False | Some ls \<Rightarrow> \<not> labelsIntersect ls (peLabels entry)) then (0, w)
                    else (case configure profileLabels w of (runTests, w0) \<Rightarrow>
                           (let lcs = resolveLifecycles name ps
                            in (case setups [] lcs w0 of
                                  (False, w1) \<Rightarrow> (1, w1)
                                | (True, w1) \<Rightarrow> (case runTests w1 of (code, w2) \<Rightarrow> (code, teardowns (rev lcs) w2)))))))"

section \<open>Properties of discovery\<close>

text \<open>The value of a field in the first of some references that has it.\<close>

definition first_set :: "(OperatorRef \<Rightarrow> string) \<Rightarrow> OperatorRef list \<Rightarrow> string" where
  "first_set f refs = (case filter (\<lambda>x. x \<noteq> []) (map f refs) of [] \<Rightarrow> [] | x # _ \<Rightarrow> x)"

lemma first_set_Cons: "first_set f (r # rs) = (if f r = [] then first_set f rs else f r)"
  by (simp add: first_set_def)

definition preferred :: "OperatorRef list \<Rightarrow> OperatorRef" where
  "preferred refs = \<lparr>orfNamespace = first_set orfNamespace refs, orfServiceAccountName = first_set orfServiceAccountName refs,
     orfMetricsServiceName = first_set orfMetricsServiceName refs\<rparr>"

lemma preferred_complete: "isComplete_ref r \<Longrightarrow> preferred (r # rs) = r"
  by (simp add: preferred_def first_set_Cons isComplete_ref_def)

lemma preferred_zero: "isZero_ref ref \<Longrightarrow> preferred (r # ref # rs) = preferred (r # rs)"
  by (simp add: preferred_def first_set_Cons isZero_ref_def)

lemma preferred_merge: "preferred (r # ref # rs) = preferred (merge_ref r ref # rs)"
  by (simp add: preferred_def first_set_Cons merge_ref_def)

lemma preferred_Nil: "preferred [r] = r"
  by (simp add: preferred_def first_set_def)

lemma preferred_zero_ref: "preferred (zero_ref # rs) = preferred rs"
  by (simp add: preferred_def first_set_Cons zero_ref_def)

text \<open>Locators that are asked one after the other, in the worlds they leave behind, and that all answer without an error.\<close>

inductive asks :: "(Tier \<Rightarrow> 'w LocateFunc option) \<Rightarrow> 'w TestClient option \<Rightarrow> 'w \<Rightarrow> Tier list \<Rightarrow> OperatorRef list \<Rightarrow> 'w \<Rightarrow> bool" for tiers cfg where
  asks_none: "asks tiers cfg w [] [] w"
| asks_next: "tiers t = Some fn \<Longrightarrow> locate fn cfg w = (Inr ref, w1) \<Longrightarrow> asks tiers cfg w1 ts refs w2 \<Longrightarrow> asks tiers cfg w (t # ts) (ref # refs) w2"

inductive_cases asks_ConsE: "asks tiers cfg w (t # ts) refs w2"

lemma asks_length: "asks tiers cfg w ts refs w' \<Longrightarrow> length refs = length ts"
  by (induction rule: asks.induct) simp_all

lemma asks_nth: "asks tiers cfg w ts refs w' \<Longrightarrow> i < length ts \<Longrightarrow> \<exists>fn v v'. tiers (ts ! i) = Some fn \<and> locate fn cfg v = (Inr (refs ! i), v')"
proof (induction arbitrary: i rule: asks.induct)
  case (asks_next t fn w ref w1 ts refs w2)
  then show ?case by (cases i) auto
qed simp

lemma isZero_merge: "isZero_ref (merge_ref r ref) \<longleftrightarrow> isZero_ref r \<and> isZero_ref ref"
  by (auto simp: isZero_ref_def merge_ref_def)

text \<open>How the loop ends, from what it has collected so far.\<close>

definition loop_ends :: "(Tier \<Rightarrow> 'w LocateFunc option) \<Rightarrow> 'w TestClient option \<Rightarrow> OperatorRef \<Rightarrow> Tier list \<Rightarrow> 'w \<Rightarrow> go_error + OperatorRef \<times> bool \<Rightarrow> 'w \<Rightarrow> bool" where
  "loop_ends tiers cfg res ts w out w' \<longleftrightarrow> (\<exists>asked rest answers w1. ts = asked @ rest \<and> asks tiers cfg w asked answers w1
     \<and> (\<forall>k<length answers. \<not> isComplete_ref (preferred (res # take k answers)))
     \<and> (case out of
          Inr (ref, m) \<Rightarrow> ref = preferred (res # answers) \<and> w' = w1 \<and> m = (\<not> isZero_ref ref) \<and> (isComplete_ref ref \<or> rest = [])
        | Inl err \<Rightarrow> \<not> isComplete_ref (preferred (res # answers)) \<and> (\<exists>t us fn e. rest = t # us \<and> tiers t = Some fn \<and> locate fn cfg w1 = (Inl e, w')
            \<and> err = Wrap (''operator discovery ('' @ tierText t @ ''/'' @ locateFuncName fn @ ''): '') e)))"

lemma loop_ends_next:
  assumes "tiers t = Some fn" "locate fn cfg w = (Inr ref, w1)" "\<not> isComplete_ref res"
    and "loop_ends tiers cfg res' ts w1 out w'" "\<And>rs. preferred (res # ref # rs) = preferred (res' # rs)"
  shows "loop_ends tiers cfg res (t # ts) w out w'"
proof -
  obtain asked rest answers w2 where a: "ts = asked @ rest" "asks tiers cfg w1 asked answers w2" "\<forall>k<length answers. \<not> isComplete_ref (preferred (res' # take k answers))"
    and out: "case out of
          Inr (ref, m) \<Rightarrow> ref = preferred (res' # answers) \<and> w' = w2 \<and> m = (\<not> isZero_ref ref) \<and> (isComplete_ref ref \<or> rest = [])
        | Inl err \<Rightarrow> \<not> isComplete_ref (preferred (res' # answers)) \<and> (\<exists>t us fn e. rest = t # us \<and> tiers t = Some fn \<and> locate fn cfg w2 = (Inl e, w')
            \<and> err = Wrap (''operator discovery ('' @ tierText t @ ''/'' @ locateFuncName fn @ ''): '') e)"
    using assms(4) unfolding loop_ends_def by blast
  have "\<not> isComplete_ref (preferred (res # take k (ref # answers)))" if "k < length (ref # answers)" for k
    using that a(3) assms(3,5) by (cases k) (simp_all add: preferred_Nil)
  moreover have "asks tiers cfg w (t # asked) (ref # answers) w2" using assms(1,2) a(2) by (rule asks_next)
  moreover have "t # ts = (t # asked) @ rest" by (simp add: a(1))
  ultimately show ?thesis using out unfolding loop_ends_def assms(5)[symmetric] by blast
qed

lemma discoverLoop_ends:
  assumes "\<And>t. \<exists>fn. tiers t = Some fn" "\<not> isComplete_ref res" "discoverLoop tiers cfg ts res (\<not> isZero_ref res) w = (out, w')"
  shows "loop_ends tiers cfg res ts w out w'"
  using assms(2,3)
proof (induction ts arbitrary: res w)
  case Nil
  then show ?case unfolding loop_ends_def by (intro exI[of _ "[]"] exI[of _ w]) (auto intro: asks_none simp: preferred_Nil)
next
  case (Cons t ts)
  obtain fn where fn: "tiers t = Some fn" using assms(1) by blast
  obtain a w1 where a: "locate fn cfg w = (a, w1)" by fastforce
  show ?case
  proof (cases a)
    case (Inl e)
    with fn a Cons.prems show ?thesis unfolding loop_ends_def
      by (intro exI[of _ "[]"] exI[of _ "t # ts"] exI[of _ w]) (auto intro: asks_none simp: preferred_Nil)
  next
    case (Inr ref)
    note run = fn a[unfolded Inr]
    show ?thesis
    proof (cases "isZero_ref ref")
      case True
      with Cons run have "loop_ends tiers cfg res ts w1 out w'" by simp
      then show ?thesis by (rule loop_ends_next[where res' = res and tiers = tiers and t = t, OF run Cons.prems(1)]) (simp add: preferred_zero True)
    next
      case False
      define res' where "res' = merge_ref res ref"
      have nz: "\<not> isZero_ref res'" using False by (simp add: res'_def isZero_merge)
      show ?thesis
      proof (cases "isComplete_ref res'")
        case True
        with Cons.prems run False have "out = Inr (res', True)" "w' = w1" by (simp_all add: Let_def res'_def)
        moreover have "loop_ends tiers cfg res' ts w1 (Inr (res', True)) w1"
          unfolding loop_ends_def
          by (rule exI[of _ "[]"], rule exI[of _ ts], rule exI[of _ "[]"], rule exI[of _ w1]) (simp add: asks_none preferred_Nil True nz)
        ultimately show ?thesis using loop_ends_next[where tiers = tiers and t = t, OF run Cons.prems(1), of res'] by (simp add: preferred_merge res'_def)
      next
        case incomplete: False
        with Cons.prems run False nz have "discoverLoop tiers cfg ts res' (\<not> isZero_ref res') w1 = (out, w')" by (simp add: Let_def res'_def)
        then show ?thesis using loop_ends_next[where tiers = tiers and t = t, OF run Cons.prems(1) Cons.IH[OF incomplete]] by (simp add: preferred_merge res'_def)
      qed
    qed
  qed
qed

definition defaultLocator :: "(string \<Rightarrow> string) \<Rightarrow> Tier \<Rightarrow> 'w LocateFunc" where
  "defaultLocator getenv t = (case t of Explicit \<Rightarrow> FromEnvVars getenv | Platform \<Rightarrow> FromPodLabels | Fallback \<Rightarrow> FromDefaults)"

text \<open>The locators that discovery uses: the registered ones, and the default of a tier that has none.\<close>

definition locatorsOf :: "(string \<Rightarrow> string) \<Rightarrow> 'w Registry \<Rightarrow> Tier \<Rightarrow> 'w LocateFunc option" where
  "locatorsOf getenv r t = Some (case rgTiers r t of Some fn \<Rightarrow> fn | None \<Rightarrow> defaultLocator getenv t)"

lemma ensureDefaults_tiers: "rgTiers (ensureDefaults getenv r) = locatorsOf getenv r"
proof
  fix t
  show "rgTiers (ensureDefaults getenv r) t = locatorsOf getenv r t"
    by (cases t) (auto simp: ensureDefaults_def Register_locator_def Let_def locatorsOf_def defaultLocator_def split: option.splits)
qed

text \<open>What discovery gives, by the answers of the locators that were asked.\<close>

definition discovered :: "(Tier \<Rightarrow> 'w LocateFunc option) \<Rightarrow> 'w TestClient option \<Rightarrow> 'w \<Rightarrow> Tier list \<Rightarrow> OperatorRef list \<Rightarrow> 'w \<Rightarrow> Tier list \<Rightarrow> go_error + OperatorRef \<Rightarrow> 'w \<Rightarrow> bool" where
  "discovered tiers cfg w asked answers w1 rest res w' \<longleftrightarrow> tierOrder = asked @ rest \<and> asks tiers cfg w asked answers w1
     \<and> (\<forall>k<length answers. \<not> isComplete_ref (preferred (take k answers)))
     \<and> (case res of
          Inr ref \<Rightarrow> ref = preferred answers \<and> \<not> isZero_ref ref \<and> (isComplete_ref ref \<or> rest = []) \<and> w' = w1
        | Inl err \<Rightarrow>
            (\<exists>t ts fn e. rest = t # ts \<and> tiers t = Some fn \<and> locate fn cfg w1 = (Inl e, w') \<and> \<not> isComplete_ref (preferred answers)
               \<and> err = Wrap (''operator discovery ('' @ tierText t @ ''/'' @ locateFuncName fn @ ''): '') e)
          \<or> (rest = [] \<and> isZero_ref (preferred answers) \<and> w' = w1 \<and> err = ErrorString ''operator discovery: no locator matched''))"

lemma DiscoverOperator_discovered:
  assumes "DiscoverOperator getenv cfg r w = (res, r', w')"
  shows "\<exists>asked answers w1 rest. discovered (locatorsOf getenv r) cfg w asked answers w1 rest res w'"
proof -
  obtain out v where loop: "discoverLoop (locatorsOf getenv r) cfg tierOrder zero_ref (\<not> isZero_ref zero_ref) w = (out, v)" by fastforce
  have zero: "\<not> isComplete_ref zero_ref" "isZero_ref zero_ref" by (simp_all add: isComplete_ref_def isZero_ref_def zero_ref_def)
  have "loop_ends (locatorsOf getenv r) cfg zero_ref tierOrder w out v"
    by (rule discoverLoop_ends[OF _ zero(1) loop]) (simp add: locatorsOf_def)
  moreover have "v = w'" "res = (case out of Inl err \<Rightarrow> Inl err | Inr (ref, m) \<Rightarrow> if \<not> m then Inl (ErrorString ''operator discovery: no locator matched'') else Inr ref)"
    using assms loop zero(2) by (auto simp: DiscoverOperator_def Let_def ensureDefaults_tiers split: sum.splits prod.splits)
  ultimately obtain asked rest answers w1 where a: "tierOrder = asked @ rest" "asks (locatorsOf getenv r) cfg w asked answers w1"
      "\<forall>k<length answers. \<not> isComplete_ref (preferred (take k answers))"
    and out: "case out of
          Inr (ref, m) \<Rightarrow> ref = preferred answers \<and> w' = w1 \<and> m = (\<not> isZero_ref ref) \<and> (isComplete_ref ref \<or> rest = [])
        | Inl err \<Rightarrow> \<not> isComplete_ref (preferred answers) \<and> (\<exists>t us fn e. rest = t # us \<and> locatorsOf getenv r t = Some fn \<and> locate fn cfg w1 = (Inl e, w')
            \<and> err = Wrap (''operator discovery ('' @ tierText t @ ''/'' @ locateFuncName fn @ ''): '') e)"
    and res: "res = (case out of Inl err \<Rightarrow> Inl err | Inr (ref, m) \<Rightarrow> if \<not> m then Inl (ErrorString ''operator discovery: no locator matched'') else Inr ref)"
    unfolding loop_ends_def preferred_zero_ref by blast
  have "discovered (locatorsOf getenv r) cfg w asked answers w1 rest res w'"
  proof (cases out)
    case (Inl err)
    with out res have "res = Inl err" "\<not> isComplete_ref (preferred answers)" "\<exists>t us fn e. rest = t # us \<and> locatorsOf getenv r t = Some fn \<and> locate fn cfg w1 = (Inl e, w')
        \<and> err = Wrap (''operator discovery ('' @ tierText t @ ''/'' @ locateFuncName fn @ ''): '') e" by simp_all
    with a show ?thesis unfolding discovered_def by (simp only: sum.case) blast
  next
    case (Inr p)
    obtain ref m where p: "p = (ref, m)" by fastforce
    have "\<not> (isComplete_ref ref \<and> isZero_ref ref)" by (simp add: isComplete_ref_def isZero_ref_def)
    with out res a Inr show ?thesis unfolding discovered_def p by (cases m) auto
  qed
  then show ?thesis by blast
qed

lemma asked_first: "discovered tiers cfg w asked answers w1 rest (Inr ref) w' \<Longrightarrow> tiers Explicit = Some fn \<Longrightarrow>
    \<exists>a as v. answers = a # as \<and> locate fn cfg w = (Inr a, v)"
proof -
  assume d: "discovered tiers cfg w asked answers w1 rest (Inr ref) w'" and fn: "tiers Explicit = Some fn"
  then have a: "tierOrder = asked @ rest" "asks tiers cfg w asked answers w1" "ref = preferred answers" "\<not> isZero_ref ref"
    unfolding discovered_def by auto
  have "answers \<noteq> []" using a(3,4) by (auto simp: preferred_def isZero_ref_def first_set_def)
  then obtain ts where "asked = Explicit # ts" using a(1) asks_length[OF a(2)] by (cases asked) (auto simp: tierOrder_def)
  with a(2) fn show ?thesis by (auto elim: asks_ConsE)
qed

lemma asked_last: "discovered tiers cfg w asked answers w1 [] res w' \<Longrightarrow> tiers Fallback = Some FromDefaults \<Longrightarrow> isComplete_ref (preferred answers)"
proof -
  assume d: "discovered tiers cfg w asked answers w1 [] res w'" and fn: "tiers Fallback = Some FromDefaults"
  then have a: "asked = tierOrder" "asks tiers cfg w asked answers w1" unfolding discovered_def by auto
  then have "length answers = 3" using asks_length[OF a(2)] by (simp add: tierOrder_def)
  then obtain x y z where xyz: "answers = [x, y, z]" by (auto simp: length_Suc_conv eval_nat_numeral)
  have "asked ! 2 = Fallback" by (simp add: a(1) tierOrder_def)
  with asks_nth[OF a(2), of 2] fn have "z = \<lparr>orfNamespace = DefaultNamespace, orfServiceAccountName = DefaultServiceAccountName, orfMetricsServiceName = DefaultMetricsServiceName\<rparr>"
    by (auto simp: a(1) tierOrder_def xyz FromDefaults_def)
  then show ?thesis by (simp add: xyz preferred_def first_set_Cons isComplete_ref_def)
qed

text \<open>
  C40: discovery of the operator asks the locators of the tiers environment, platform and fallback in this order (a tier without a registered locator has its default one), each in the world that the one before
  left, and asks none once no field is missing. If one of those it asks fails, discovery fails at once with that error, the tier and the name of the locator; a locator that is not asked does not matter. If none fails, each field of
  the result is the one of the first answer that has it; the result is complete or all three tiers were asked, and discovery reports that nothing was found exactly when all were asked and no answer has a
  field. With the default locators, a variable of the environment that is set is never overridden, a result is always complete, and the only errors are those of a locator that was asked.
\<close>

theorem discovery_precedence:
  assumes "DiscoverOperator getenv cfg r w = (res, r', w')"
  shows "(\<exists>asked answers w1 rest. tierOrder = asked @ rest \<and> asks (locatorsOf getenv r) cfg w asked answers w1
      \<and> (\<forall>k<length answers. \<not> isComplete_ref (preferred (take k answers)))
      \<and> (case res of
           Inr ref \<Rightarrow> ref = preferred answers \<and> \<not> isZero_ref ref \<and> (isComplete_ref ref \<or> rest = []) \<and> w' = w1
         | Inl err \<Rightarrow>
             (\<exists>t ts fn e. rest = t # ts \<and> locatorsOf getenv r t = Some fn \<and> locate fn cfg w1 = (Inl e, w') \<and> \<not> isComplete_ref (preferred answers)
                \<and> err = Wrap (''operator discovery ('' @ tierText t @ ''/'' @ locateFuncName fn @ ''): '') e)
           \<or> (rest = [] \<and> isZero_ref (preferred answers) \<and> w' = w1 \<and> err = ErrorString ''operator discovery: no locator matched'')))
    \<and> (rgTiers r Explicit = None \<longrightarrow> (\<forall>ref. res = Inr ref \<longrightarrow>
        (getenv ''MCPLO_NAMESPACE'' \<noteq> [] \<longrightarrow> orfNamespace ref = getenv ''MCPLO_NAMESPACE'')
      \<and> (getenv ''MCPLO_SA_NAME'' \<noteq> [] \<longrightarrow> orfServiceAccountName ref = getenv ''MCPLO_SA_NAME'')
      \<and> (getenv ''MCPLO_METRICS_SERVICE'' \<noteq> [] \<longrightarrow> orfMetricsServiceName ref = getenv ''MCPLO_METRICS_SERVICE'')))
    \<and> (rgTiers r Fallback = None \<longrightarrow> (case res of Inr ref \<Rightarrow> isComplete_ref ref | Inl err \<Rightarrow> err \<noteq> ErrorString ''operator discovery: no locator matched''))"
proof -
  obtain asked answers w1 rest where d: "discovered (locatorsOf getenv r) cfg w asked answers w1 rest res w'"
    using DiscoverOperator_discovered[OF assms] by blast
  have env: "(getenv ''MCPLO_NAMESPACE'' \<noteq> [] \<longrightarrow> orfNamespace ref = getenv ''MCPLO_NAMESPACE'')
      \<and> (getenv ''MCPLO_SA_NAME'' \<noteq> [] \<longrightarrow> orfServiceAccountName ref = getenv ''MCPLO_SA_NAME'')
      \<and> (getenv ''MCPLO_METRICS_SERVICE'' \<noteq> [] \<longrightarrow> orfMetricsServiceName ref = getenv ''MCPLO_METRICS_SERVICE'')"
    if "rgTiers r Explicit = None" "res = Inr ref" for ref
  proof -
    have "locatorsOf getenv r Explicit = Some (FromEnvVars getenv)" using that(1) by (simp add: locatorsOf_def defaultLocator_def)
    with asked_first[OF d[unfolded that(2)]] obtain as where "answers = \<lparr>orfNamespace = getenv ''MCPLO_NAMESPACE'',
        orfServiceAccountName = getenv ''MCPLO_SA_NAME'', orfMetricsServiceName = getenv ''MCPLO_METRICS_SERVICE''\<rparr> # as" by (fastforce simp: FromEnvVars_def)
    then show ?thesis using d that(2) by (simp add: discovered_def preferred_def first_set_Cons)
  qed
  have complete: "case res of Inr ref \<Rightarrow> isComplete_ref ref | Inl err \<Rightarrow> err \<noteq> ErrorString ''operator discovery: no locator matched''" if "rgTiers r Fallback = None"
  proof -
    have defaults: "locatorsOf getenv r Fallback = Some FromDefaults" using that by (simp add: locatorsOf_def defaultLocator_def)
    have last: "isComplete_ref (preferred answers)" if "rest = []" by (rule asked_last[OF d[unfolded that] defaults])
    have "\<not> (isComplete_ref x \<and> isZero_ref x)" for x by (simp add: isComplete_ref_def isZero_ref_def)
    with d last show ?thesis unfolding discovered_def by (cases res) auto
  qed
  have first: "\<exists>asked answers w1 rest. discovered (locatorsOf getenv r) cfg w asked answers w1 rest res w'" using d by blast
  have second: "rgTiers r Explicit = None \<longrightarrow> (\<forall>ref. res = Inr ref \<longrightarrow>
        (getenv ''MCPLO_NAMESPACE'' \<noteq> [] \<longrightarrow> orfNamespace ref = getenv ''MCPLO_NAMESPACE'')
      \<and> (getenv ''MCPLO_SA_NAME'' \<noteq> [] \<longrightarrow> orfServiceAccountName ref = getenv ''MCPLO_SA_NAME'')
      \<and> (getenv ''MCPLO_METRICS_SERVICE'' \<noteq> [] \<longrightarrow> orfMetricsServiceName ref = getenv ''MCPLO_METRICS_SERVICE''))"
    by (intro impI allI) (rule env)
  show ?thesis by (rule conjI[OF first[unfolded discovered_def] conjI[OF second]]) (intro impI complete)
qed

section \<open>Properties of packages\<close>

text \<open>A life cycle whose steps are written down, by its index; the world carries the list of the steps so far.\<close>

datatype action = Setup nat | SetupFailed nat | Tests | Teardown nat

definition logged :: "nat \<Rightarrow> 'v PackageLifecycle \<Rightarrow> (action list \<times> 'v) PackageLifecycle" where
  "logged i lc = \<lparr>lcSetup = (\<lambda>(log, v). case lcSetup lc v of (e, v') \<Rightarrow> (e, log @ [if e = None then Setup i else SetupFailed i], v')),
     lcTeardown = (\<lambda>(log, v). case lcTeardown lc v of (e, v') \<Rightarrow> (e, log @ [Teardown i], v'))\<rparr>"

definition logged_tests :: "('v \<Rightarrow> int \<times> 'v) \<Rightarrow> action list \<times> 'v \<Rightarrow> int \<times> action list \<times> 'v" where
  "logged_tests run = (\<lambda>(log, v). case run v of (code, v') \<Rightarrow> (code, log @ [Tests], v'))"

abbreviation logged_all :: "'v PackageLifecycle list \<Rightarrow> (action list \<times> 'v) PackageLifecycle list" where
  "logged_all lcs \<equiv> map (\<lambda>(i, lc). logged i lc) (enumerate 0 lcs)"

lemma teardowns_log: "fst (teardowns (map (\<lambda>(i, lc). logged i lc) ilcs) w) = fst w @ map (\<lambda>(i, lc). Teardown i) ilcs"
  by (induction ilcs arbitrary: w) (auto simp: logged_def split: prod.splits)

lemma setups_log:
  "(fst (setups ready (map (\<lambda>(i, lc). logged i lc) ilcs) w) \<and>
      fst (snd (setups ready (map (\<lambda>(i, lc). logged i lc) ilcs) w)) = fst w @ map (\<lambda>(i, lc). Setup i) ilcs) \<or>
   (\<not> fst (setups ready (map (\<lambda>(i, lc). logged i lc) ilcs) w) \<and> (\<exists>k<length ilcs. \<exists>v.
      snd (setups ready (map (\<lambda>(i, lc). logged i lc) ilcs) w) =
        teardowns (rev (map (\<lambda>(i, lc). logged i lc) (take k ilcs)) @ ready) (fst w @ map (\<lambda>(i, lc). Setup i) (take k ilcs) @ [SetupFailed (fst (ilcs ! k))], v)))"
proof (induction ilcs arbitrary: ready w)
  case (Cons ilc ilcs)
  obtain i lc where ilc: "ilc = (i, lc)" by force
  obtain log v where w: "w = (log, v)" by force
  show ?case
  proof (cases "lcSetup lc v")
    case (Pair e v')
    show ?thesis
    proof (cases e)
      case None
      then have step: "setups ready (map (\<lambda>(i, lc). logged i lc) (ilc # ilcs)) w = setups (logged i lc # ready) (map (\<lambda>(i, lc). logged i lc) ilcs) (log @ [Setup i], v')"
        by (simp add: ilc w logged_def Pair)
      show ?thesis
        unfolding step using Cons.IH [of "logged i lc # ready" "(log @ [Setup i], v')"]
        by (auto simp: ilc w intro!: exI [of _ "Suc k" for k])
    next
      case (Some err)
      then show ?thesis
        by (auto simp: ilc w logged_def Pair intro!: exI [of _ 0])
    qed
  qed
qed simp

text \<open>The index and the life cycle of the logged ones, and the steps a run of them leaves behind.\<close>

lemma map_index_enumerate: "map (\<lambda>(i, lc). f i) (enumerate n xs) = map f [n..<n + length xs]"
proof -
  have "map (\<lambda>(i, lc). f i) (enumerate n xs) = map f (map fst (enumerate n xs))"
    unfolding map_map comp_def by (rule map_cong) auto
  then show ?thesis by simp
qed

lemma setups_enumerated:
  obtains (all) v where "setups [] (logged_all lcs) (log, v0) = (True, log @ map Setup [0..<length lcs], v)"
  | (failed) k v where "k < length lcs" "setups [] (logged_all lcs) (log, v0) = (False, log @ map Setup [0..<k] @ SetupFailed k # map Teardown (rev [0..<k]), v)"
proof -
  let ?s = "setups [] (logged_all lcs) (log, v0)"
  have steps: "map (\<lambda>(i, lc). f i) (take k (enumerate 0 lcs)) = map f [0..<k]" if "k \<le> length lcs" for f :: "nat \<Rightarrow> action" and k
    using that by (simp add: map_index_enumerate flip: take_map) (simp add: take_map)
  from setups_log [of "[]" "enumerate 0 lcs" "(log, v0)"]
  show ?thesis
  proof (elim disjE conjE exE)
    assume "fst ?s" "fst (snd ?s) = fst (log, v0) @ map (\<lambda>(i, lc). Setup i) (enumerate 0 lcs)"
    then show ?thesis
      using all [of "snd (snd ?s)"] by (cases ?s) (auto simp: map_index_enumerate)
  next
    fix k v
    assume k: "k < length (enumerate 0 lcs)" and no: "\<not> fst ?s"
      and end_state: "snd ?s = teardowns (rev (map (\<lambda>(i, lc). logged i lc) (take k (enumerate 0 lcs))) @ [])
        (fst (log, v0) @ map (\<lambda>(i, lc). Setup i) (take k (enumerate 0 lcs)) @ [SetupFailed (fst (enumerate 0 lcs ! k))], v)"
    have "fst (snd ?s) = log @ map Setup [0..<k] @ SetupFailed k # map Teardown (rev [0..<k])"
      using k unfolding end_state append_Nil2 rev_map teardowns_log
      by (simp add: steps nth_enumerate_eq flip: rev_map)
    then show ?thesis
      using failed [of k "snd (snd ?s)"] k no by (cases ?s) auto
  qed
qed

lemma selected_package_run:
  assumes "(case setups [] (logged_all lcs) ([], v) of (False, w1) \<Rightarrow> (1, w1)
     | (True, w1) \<Rightarrow> (case logged_tests (run labels) w1 of (c, w2) \<Rightarrow> (c, teardowns (rev (logged_all lcs)) w2))) = (code, log, v')"
  shows "(\<exists>v1. setups [] (logged_all lcs) ([], v) = (True, map Setup [0..<length lcs], v1) \<and> code = fst (run labels v1)
        \<and> log = map Setup [0..<length lcs] @ Tests # map Teardown (rev [0..<length lcs])) \<or>
      (\<exists>k<length lcs. code = 1 \<and> log = map Setup [0..<k] @ SetupFailed k # map Teardown (rev [0..<k]))"
proof (cases rule: setups_enumerated [of lcs "[]" v])
  case (all v1)
  obtain c v2 where c: "run labels v1 = (c, v2)" by force
  have "(code, log, v') = (c, teardowns (rev (logged_all lcs)) (map Setup [0..<length lcs] @ [Tests], v2))"
    using assms by (simp add: all c logged_tests_def)
  then have "code = c" "log = fst (teardowns (map (\<lambda>(i, lc). logged i lc) (rev (enumerate 0 lcs))) (map Setup [0..<length lcs] @ [Tests], v2))"
    by (simp_all add: rev_map) (metis fst_conv)
  then show ?thesis
    unfolding teardowns_log using c all by (intro disjI1 exI [of _ v1]) (simp add: map_index_enumerate flip: rev_map)
next
  case (failed k v1)
  then show ?thesis
    using assms by auto
qed

text \<open>
  C39: Running a package of tests leaves no life cycle behind. If the package is selected, its life cycles are set up in their order; if all setups succeed, the tests run once, every life cycle is
  torn down once, in the reverse order and even if a teardown fails, and the exit code is that of the tests; if the setup of one fails, no later one is set up, no test runs, exactly those that were set
  up are torn down in the reverse order, and the exit code is one. A package that the profile does not select is skipped with code zero, without any step.
\<close>

theorem lifecycles_torn_down:
  assumes registered: "ps name = Some entry" "resolveLifecycles name ps = logged_all lcs"
    and profile: "ResolveProfile profileFlag profs = Inr labels"
    and tests: "configure = (\<lambda>ls (log, v). (logged_tests (run ls), log, v))"
    and result: "RunPackage name True profileFlag profs configure ps ([], v) = (code, log, v')"
  shows "if \<exists>ls. labels = Some ls \<and> \<not> labelsIntersect ls (peLabels entry) then code = 0 \<and> log = [] \<and> v' = v
    else
      (\<exists>v1. setups [] (logged_all lcs) ([], v) = (True, map Setup [0..<length lcs], v1) \<and> code = fst (run labels v1)
        \<and> log = map Setup [0..<length lcs] @ Tests # map Teardown (rev [0..<length lcs])) \<or>
      (\<exists>k<length lcs. code = 1 \<and> log = map Setup [0..<k] @ SetupFailed k # map Teardown (rev [0..<k]))"
proof -
  have skip: "(\<exists>ls. labels = Some ls \<and> \<not> labelsIntersect ls (peLabels entry)) \<longleftrightarrow>
      (case labels of None \<Rightarrow> False | Some ls \<Rightarrow> \<not> labelsIntersect ls (peLabels entry))"
    by (simp split: option.split)
  have "RunPackage name True profileFlag profs configure ps ([], v) =
      (if \<exists>ls. labels = Some ls \<and> \<not> labelsIntersect ls (peLabels entry) then (0, [], v)
       else case setups [] (logged_all lcs) ([], v) of (False, w1) \<Rightarrow> (1, w1)
         | (True, w1) \<Rightarrow> (case logged_tests (run labels) w1 of (c, w2) \<Rightarrow> (c, teardowns (rev (logged_all lcs)) w2)))"
    unfolding skip RunPackage_def tests by (simp add: registered profile Let_def)
  with result selected_package_run [where lcs = lcs and v = v and run = run and labels = labels and code = code and log = log and v' = v'] show ?thesis
    by (auto split: if_splits)
qed

text \<open>Two life cycles, the second of which fails to set up: the first is torn down.\<close>

definition demo_lifecycle :: "go_error option \<Rightarrow> nat PackageLifecycle" where
  "demo_lifecycle e = \<lparr>lcSetup = (\<lambda>n. (e, n + 1)), lcTeardown = (\<lambda>n. (None, n + 10))\<rparr>"

definition demo_packages :: "(action list \<times> nat) packages" where
  "demo_packages = [''pkg'' \<mapsto> \<lparr>peLabels = [(''speed'', [''fast''])],
     peLifecycles = (\<lambda>t. case t of DefaultTier \<Rightarrow> logged_all [demo_lifecycle None, demo_lifecycle (Some (ErrorString ''down''))] | PlatformTier \<Rightarrow> [])\<rparr>]"

theorem lifecycles_torn_down_witness:
  "RunPackage ''pkg'' True [] Map.empty (\<lambda>ls (log, v). (logged_tests (\<lambda>n. (0, n)), log, v)) demo_packages ([], 0) = (1, [Setup 0, SetupFailed 1, Teardown 0], 12) \<and>
   (\<exists>k<Suc (Suc 0). [Setup 0, SetupFailed 1, Teardown 0] = map Setup [0..<k] @ SetupFailed k # map Teardown (rev [0..<k]))"
proof -
  have run: "RunPackage ''pkg'' True [] Map.empty (\<lambda>ls (log, v). (logged_tests (\<lambda>n. (0, n)), log, v)) demo_packages ([], 0) = (1, [Setup 0, SetupFailed 1, Teardown 0], 12)"
    by (simp add: RunPackage_def demo_packages_def ResolveProfile_def resolveLifecycles_def demo_lifecycle_def logged_def Let_def)
  have entry: "demo_packages ''pkg'' = Some \<lparr>peLabels = [(''speed'', [''fast''])],
      peLifecycles = (\<lambda>t. case t of DefaultTier \<Rightarrow> logged_all [demo_lifecycle None, demo_lifecycle (Some (ErrorString ''down''))] | PlatformTier \<Rightarrow> [])\<rparr>"
    unfolding demo_packages_def by (rule fun_upd_same)
  have lcs: "resolveLifecycles ''pkg'' demo_packages = logged_all [demo_lifecycle None, demo_lifecycle (Some (ErrorString ''down''))]"
    by (simp add: resolveLifecycles_def entry)
  have profile: "ResolveProfile [] Map.empty = Inr None"
    by (simp add: ResolveProfile_def)
  show ?thesis
    using run lifecycles_torn_down [OF entry lcs profile refl run]
    by (simp only: simp_thms) auto
qed

text \<open>The environment names the service account, a running pod the namespace; no metrics service is found, so its default name is taken.\<close>

definition demo_getenv :: "string \<Rightarrow> string" where
  "demo_getenv v = (if v = ''MCPLO_SA_NAME'' then ''own-sa'' else [])"

definition demo_registry :: "unit Registry" where
  "demo_registry = \<lparr>rgTiers = (\<lambda>_. None), rgCached = None\<rparr>"

definition demo_client :: "unit TestClient" where
  "demo_client = \<lparr>listOperatorPods = (\<lambda>_ w. (Inr [\<lparr>opdMeta = zero_meta\<lparr>omNamespace := ''ops''\<rparr>, opdPhase = ''Running'', opdServiceAccount = ''pod-sa''\<rparr>], w)),
     listServices = (\<lambda>_ w. (Inr [], w))\<rparr>"

theorem discovery_precedence_witness:
  "\<exists>ref. fst (DiscoverOperator demo_getenv (Some demo_client) demo_registry ()) = Inr ref \<and> orfServiceAccountName ref = ''own-sa'' \<and> isComplete_ref ref"
proof -
  obtain res r' w' where run: "DiscoverOperator demo_getenv (Some demo_client) demo_registry () = (res, r', w')" by (metis prod.exhaust)
  have "\<not> isl (fst (DiscoverOperator demo_getenv (Some demo_client) demo_registry ()))" by code_simp
  then obtain ref where ref: "res = Inr ref" unfolding run by (cases res) simp_all
  have "rgTiers demo_registry t = None" for t by (simp add: demo_registry_def)
  with discovery_precedence[OF run] ref show ?thesis unfolding run by (simp add: demo_getenv_def)
qed

end
