(* ===== verification/Spec2Isabelle.thy ===== *)
theory Spec2Isabelle
  imports Conversion Convergence Metrics Watches ProviderRegistry Startup TestRunner TestFramework
begin

text \<open>
  \<^bold>\<open>The MCP lifecycle operator.\<close> The program is a Kubernetes operator. A user describes an MCP server in an \<open>MCPServer\<close> object; the operator runs it (a Deployment, a Service and a
  NetworkPolicy, or a workload and a Service the user brings), verifies with an MCP handshake that the endpoint answers, asks a gateway provider to publish it when
  the object names a gateway, and reports all of this in the status. File names below are relative to \<open>src/\<close>; \<open>c/\<close> abbreviates \<open>internal/controller/\<close>.

  \<^bold>\<open>Parts and their interaction.\<close>

    \<^item> The API server stores \<open>v1beta1\<close> objects and calls the operator to convert them from and to \<open>v1alpha1\<close>; when the webhook is enabled, it asks the operator to admit a \<open>v1alpha1\<close> object first.
    \<^item> The reconcile loop is called with the name of a server, reads the object and runs its handlers one after the other: validation, Deployment or user workload,
      Service, NetworkPolicy, gateway binding, handshake. It then applies one status. A handler that fails ends the pass with a status for that failure.
    \<^item> For a server behind a gateway the operator writes an \<open>MCPGatewayBinding\<close>. The provider it names is a controller of its own, which writes routes and registrations and reports a URL in the status of the binding; the
      loop reads it and publishes it.
    \<^item> A registry starts the providers whose custom resources the cluster serves, and a watcher starts the others when their resources appear.
    \<^item> The main function reads flags and environment and hands the settings to all of these.
    \<^item> Beside the operator the repository has the tooling of its end-to-end tests: a framework that finds the installed operator and sets up packages of tests, and a runner that runs the compiled packages and
      rewrites their report.

  \<^bold>\<open>State and effects.\<close> A handler is a function in the state monad \<open>M\<close> of theory Env. Its state \<open>rstate\<close> has the two tables that the reconciler keeps in memory (hashes of CA bundles and the
  retry state of handshakes), the world of the API server, of any type, and the trace of everything that was sent: writes to the cluster, events, dials, audit
  records and metrics. Reads and answers come from the record \<open>Api\<close> of functions on the world, so a fact about a handler holds for every behaviour of the API server, for stale
  reads and for changes between two calls. Log lines are not in the trace. Errors are values of \<open>go_error\<close>, which keeps the wrapping that \<open>errors.As\<close> and \<open>apierrors.IsNotFound\<close> look through.
  Functions of Kubernetes and other libraries are the records \<open>K8sLib\<close>, \<open>GatewayLib\<close>, \<open>CryptoTLS\<close>, \<open>Manager\<close>, \<open>Runtime\<close> and \<open>Prometheus\<close>; what the code relies on is stated as laws (\<open>owner_laws\<close>,
  \<open>set_controller_law\<close>, \<open>equality_laws\<close>, \<open>derivative_law\<close>, \<open>index_law\<close>, \<open>crypto_laws\<close>, \<open>provider_laws\<close>, \<open>watch_law\<close>, \<open>prometheus_laws\<close>) that the sample libraries of the witnesses satisfy.
  The Go standard library that the source uses (formatting, string functions, \<open>net.ParseCIDR\<close>, \<open>encoding/json\<close> on string maps, \<open>strconv.Atoi\<close>) is defined and not assumed.

  \<^bold>\<open>Theories.\<close>

    \<^item> Prelude: Go strings and nil-able maps, the state monad with the triples \<open>valid\<close> and \<open>keeps\<close>, the locale \<open>lossless\<close>. Json, NetCIDR: the parts of the standard library with a
      parser, with the round trip of the metadata record and the meaning of an IP block (locale \<open>cidr_blocks\<close>, interpreted on the parser).
    \<^item> K8s, GatewayTypes: the fields of Kubernetes and Gateway API objects that the operator uses. Types: \<open>api/v1beta1/mcpserver_types.go\<close> and the binding. AlphaTypes: \<open>api/v1alpha1/mcpserver_types.go\<close>. Conversion:
      \<open>api/v1alpha1/mcpserver_conversion.go\<close>, the round trips of both directions and what is lost.
    \<^item> Env: libraries, API, effects and state; the judgement \<open>emits\<close> (every effect of a run is within a guard), \<open>yields\<close> (the same with a postcondition), and the locale
      \<open>guarded_handler\<close>, which each handler interprets with its own guard.
    \<^item> Telemetry: \<open>c/audit.go\<close>, \<open>c/metrics.go\<close>. Ownership, Conditions, Metadata, Validation, Workload, NetworkPolicy, ManagedDeployment, ManagedService, Handshake, Gateway, ConfigHash: the
      files of \<open>c/\<close> of the same purpose, one definition per Go function, with what each reports and may send. Handshake also has the
      transport of \<open>c/mcpserver_controller_tls.go\<close> and the locale \<open>tls_profile\<close>.
    \<^item> Reconcile: \<open>c/mcpserver_controller.go\<close>, the endpoint and the path of user workloads. ReconcileSafety: the guards of the handlers put together along the loop, the shape of every published status,
      the failure paths. Convergence: when the objects of a server are as the operator writes them (the API server may have set the default pull policy and fields the operator never writes), and that a pass then writes none of them.
    \<^item> Metrics: the registered vectors of \<open>c/metrics.go\<close> and what the metric effects of any passes leave in the metrics library. Watches: the functions \<open>SetupWithManager\<close> of the operator and of both providers, and
      which events wake them for which objects.
    \<^item> TLSConfig: \<open>cmd/tlsconfig.go\<close>, an interpretation of \<open>tls_profile\<close>. Policy: \<open>internal/webhook/policy.go\<close> and \<open>api/v1alpha1/mcpserver_webhook.go\<close>.
    \<^item> Providers: \<open>c/providers/gateway.go\<close> and \<open>predicates.go\<close>, and the locale \<open>gateway_provider\<close>: the contract of a provider towards the operator, with the lemma that a URL which the operator publishes is one
      the provider had evidence for. HTTPRouteProvider and KuadrantProvider: \<open>c/providers/httproute/controller.go\<close> and \<open>c/providers/kuadrant/\<close>, each an interpretation of the locale.
    \<^item> ProviderRegistry: \<open>c/providers/registry.go\<close> and \<open>crd_watcher.go\<close>, with a step relation over the passes of the watcher and the changes of the cluster.
    \<^item> Startup: \<open>cmd/main.go\<close>, \<open>cmd/loglevel.go\<close>, \<open>c/cache.go\<close>.
    \<^item> JUnitReport: \<open>test/e2e/runner/xml_tree.go\<close> and \<open>report_xml.go\<close>, over the token stream of the XML decoder. TestRunner: \<open>test/e2e/runner/runner.go\<close>, with commands and files as functions on a world.
      TestFramework: \<open>test/e2e/framework/discovery.go\<close>, \<open>discovery_defaults.go\<close>, \<open>profiles.go\<close> with the two sets of profiles, and \<open>packages.go\<close>.
    \<^item> This theory: the properties that span the webhook, the conversion and the Deployment, and the providers and the loop.

  \<^bold>\<open>What is shown.\<close> The loop changes only objects of the server it reconciles: it creates what the API server says is missing and updates only what already belonged to the server. Every status it applies is well formed, a failed step is reported with
  its reason, and no object of a deleted server is touched. Policies that it writes
  admit only the declared sources or, without any and under the restricted posture, the operator and the namespace of the gateway; a verified endpoint has answered a handshake over the configured TLS; retries end. Invalid configurations are reported and
  not retried, failures of the API server are. Metadata merges and settles; the two versions of the API round-trip up to the losses stated, and what a client of the old version sees of the conditions and writes back is given exactly. The admission policy means
  what its flags say and reaches the pods. Providers write only objects that belong to their binding, attach only to Gateways that the operator allows (a configured list without a valid entry ends the start), refuse a taken
  prefix, and settle. Each provider is started exactly once, and eventually. The trimmed pod cache and the pod watch lose no diagnosis. The loop
  comes to rest for a server without extra metadata, is woken by every change it depends on, reports consistent metrics and keeps nothing of a server that is gone. A test report is read and written without loss, joining its
  suites loses none of their children, a run of the tests that ends with code zero hides no failure, discovery of the operator follows its tiers and fails with the locator that fails, and a package of tests tears down what it has set up.

  \<^bold>\<open>Integers and termination.\<close> Log levels and the bytes of addresses are 8-bit words, the counters of a test report 64-bit words, retry counts 32-bit words. Ports and replica counts are the integers the API server has already bounded. Backoff delays are integers in
  nanoseconds; the cap of the code keeps them far below the width. Nothing uses fuel: loops are structural recursion over lists or have a measure (the
  parsers of Json, NetCIDR and JUnitReport), so every operation of the model returns.

  \<^bold>\<open>Not modelled.\<close> Flag parsing, the manager and the controller machinery of the libraries (queues, caches, leader election, registration of watches, webhooks and metrics): their results are parameters. Durations of metrics and
  time-outs, which are failures of a call here. Generated code (deep copies and apply configurations, also the hand-written deep copies of \<open>kuadrant/api\<close>): a value in HOL needs no copy. The hook of the coverage
  build; of the end-to-end tests the test cases and the helpers that act on a live cluster.
\<close>

section \<open>From admission to the pod\<close>

lemma default_contexts:
  "unprivileged defaultContainerSecurityContext" "unprivileged_pod \<lparr>pscRunAsNonRoot = None, pscRunAsUser = None, pscOther = []\<rparr>"
  by (simp_all add: unprivileged_def defaultContainerSecurityContext_def unprivileged_pod_def)

text \<open>What the operator runs for a server is what was admitted for it.\<close>

lemma created_pod:
  assumes "createDeployment R ms = Inr d" "admitted p (ConvertFrom K ms dst)"
  shows "\<exists>c psc sc. psContainers (depPodSpec d) = [c] \<and> psSecurityContext (depPodSpec d) = Some psc \<and> ctSecurityContext c = Some sc
     \<and> (apImageAllowlist p = [] \<or> (\<exists>pfx \<in> set (apImageAllowlist p). image_within pfx (ctImage c)))
     \<and> (if apRequireImageDigest p then pinned (ctImage c) else True)
     \<and> (if apDisallowPrivilegedSecurityContext p then unprivileged_pod psc \<and> unprivileged sc else True)"
proof -
  let ?a = "ConvertFrom K ms dst"
  let ?sec = "rtSecurity (spRuntime (msSpec ms))"
  obtain img where img: "srcContainerImage (spSource (msSpec ms)) = Some img"
    and d: "psContainers (depPodSpec d) = [serverContainer R ms img]"
      "psSecurityContext (depPodSpec d) = Some (case secPodSecurityContext ?sec of Some c \<Rightarrow> c | None \<Rightarrow> \<lparr>pscRunAsNonRoot = None, pscRunAsUser = None, pscOther = []\<rparr>)"
    using assms(1) by (auto simp: createDeployment_def Let_def split: if_splits option.splits)
  have a: "\<exists>i. srcContainerImageA (spSourceA (msSpecA ?a)) = Some i \<and> cisRefA i = cisRef img"
    "secPodSecurityContextA (rtSecurityA (spRuntimeA (msSpecA ?a))) = secPodSecurityContext ?sec"
    "secSecurityContextA (rtSecurityA (spRuntimeA (msSpecA ?a))) = secSecurityContext ?sec"
    by (simp_all add: ConvertFrom_def convertSourceFrom_def convertRuntimeConfigFrom_def convertSecurityConfigFrom_def img)
  have c: "ctImage (serverContainer R ms img) = cisRef img"
    "ctSecurityContext (serverContainer R ms img) = Some (case secSecurityContext ?sec of Some c \<Rightarrow> c | None \<Rightarrow> defaultContainerSecurityContext)"
    by (simp_all add: serverContainer_def Let_def)
  from a(1) obtain i where i: "srcContainerImageA (spSourceA (msSpecA ?a)) = Some i" "cisRefA i = cisRef img" by blast
  from assms(2) have "apImageAllowlist p = [] \<or> (\<exists>pfx \<in> set (apImageAllowlist p). image_within pfx (cisRef img))"
    "if apRequireImageDigest p then pinned (cisRef img) else True"
    "if apDisallowPrivilegedSecurityContext p
     then (case secPodSecurityContext ?sec of None \<Rightarrow> True | Some sc \<Rightarrow> unprivileged_pod sc) \<and> (case secSecurityContext ?sec of None \<Rightarrow> True | Some sc \<Rightarrow> unprivileged sc)
     else True"
    unfolding admitted_def i option.case a(2,3) by - (elim conjE, assumption)+
  then show ?thesis
    unfolding d c by (simp add: c default_contexts split: option.splits)
qed

text \<open>
  C15: the guardrail of the webhook reaches the pods. Let a server of the storage version be admitted, after its conversion to \<open>v1alpha1\<close>, by the policy that the operator reads from its flags
  and environment, with the guardrail flag at its default and no explicit \<open>false\<close> in the environment. Then every Deployment that the operator writes for it, whatever the
  API server answers, runs one container whose image is within the allowlist and pinned if the policy says so, and
  neither the pod nor the container is privileged, may escalate, runs as root or adds a privileged capability.
\<close>

theorem admitted_server_runs_unprivileged:
  assumes "pfDisallowPrivilegedSecurityContext flags"
    and "pfDisallowPrivilegedSecurityContextSet flags \<or> \<not> equalFold (trimSpace (getenv ''DISALLOW_PRIVILEGED_SECURITY_CONTEXT'')) ''false''"
    and "cvPolicy v = Some p" "p = ParseAdmissionPolicy getenv flags"
    and "run_state (ValidateCreate v (ConvertFrom K ms dst)) s0 = ((warnings, []), s1)"
    and "owner_laws K" "trace s = []" "run_state (reconcileDeployment K A R ms) s = (r, s')"
    and "e \<in> set (trace s')" "e = ECreateDeployment d \<or> e = EUpdateDeployment d"
  shows "\<exists>c psc sc. psContainers (depPodSpec d) = [c] \<and> psSecurityContext (depPodSpec d) = Some psc \<and> ctSecurityContext c = Some sc
     \<and> (apImageAllowlist p = [] \<or> (\<exists>pfx \<in> set (apImageAllowlist p). image_within pfx (ctImage c)))
     \<and> (if apRequireImageDigest p then pinned (ctImage c) else True)
     \<and> unprivileged_pod psc \<and> unprivileged sc"
proof -
  have on: "apDisallowPrivilegedSecurityContext p" unfolding assms(4) using assms(1,2) by (rule guardrail_default)
  have adm: "admitted p (ConvertFrom K ms dst)"
    using assms(3,5) by (simp add: ValidateCreate_def validate_run policyErrors_iff)
  have "deployment_guard K A R ms e" by (rule managed_deployment.run_from_empty[OF assms(6,8,7,9)])
  with assms(10) obtain d0 where "createDeployment R ms = Inr d0" "depPodSpec d = depPodSpec d0"
    by (auto simp: runs_server_def)
  with created_pod[OF this(1) adm] on show ?thesis by simp
qed

definition default_flags :: PolicyFlags where
  "default_flags = \<lparr>pfImageAllowlist = ''quay.io'', pfRequireImageDigest = False, pfMaxStorageMounts = -1, pfRequiredLabels = [],
     pfDisallowPrivilegedSecurityContext = True, pfDisallowPrivilegedSecurityContextSet = False\<rparr>"

definition sample_validator :: "nat MCPServerCustomValidator" where
  "sample_validator = \<lparr>cvPolicy = Some (ParseAdmissionPolicy (\<lambda>_. []) default_flags), cvReader = None, cvAggregate = (\<lambda>_. [])\<rparr>"

lemma sample_validates:
  "\<exists>s1. run_state (ValidateCreate sample_validator (ConvertFrom sample_lib image_server sample_alpha)) start_state = (([], []), s1)"
proof -
  have "fst (run_state (ValidateCreate sample_validator (ConvertFrom sample_lib image_server sample_alpha)) start_state) = ([], [])"
    by code_simp
  then show ?thesis by (metis prod.collapse)
qed

theorem admitted_server_runs_unprivileged_witness:
  "case run_state (reconcileDeployment sample_lib sample_api sample_reconciler image_server) start_state of (r, s') \<Rightarrow>
     \<exists>d c sc. ECreateDeployment d \<in> set (trace s') \<and> psContainers (depPodSpec d) = [c] \<and> ctSecurityContext c = Some sc \<and> unprivileged sc
       \<and> image_within ''quay.io'' (ctImage c)"
proof -
  obtain r s' where run: "run_state (reconcileDeployment sample_lib sample_api sample_reconciler image_server) start_state = (r, s')" by fastforce
  have "list_ex is_create_deployment (trace (snd (run_state (reconcileDeployment sample_lib sample_api sample_reconciler image_server) start_state)))"
    by code_simp
  with run obtain d where d: "ECreateDeployment d \<in> set (trace s')" by (auto simp: list_ex_iff elim!: is_create_deployment.elims)
  obtain s1 where v: "run_state (ValidateCreate sample_validator (ConvertFrom sample_lib image_server sample_alpha)) start_state = (([], []), s1)"
    using sample_validates by blast
  have p: "apImageAllowlist (ParseAdmissionPolicy (\<lambda>_. []) default_flags) = [''quay.io'']" by code_simp
  have flags: "pfDisallowPrivilegedSecurityContext default_flags" "cvPolicy sample_validator = Some (ParseAdmissionPolicy (\<lambda>_. []) default_flags)"
    "pfDisallowPrivilegedSecurityContextSet default_flags \<or> \<not> equalFold (trimSpace []) ''false''"
    by (simp_all add: default_flags_def sample_validator_def equalFold_def toLower_def trimSpace_def)
  from admitted_server_runs_unprivileged[OF flags(1) _ flags(2) refl v _ _ run d] flags(3) sample_lib_laws d
  show ?thesis unfolding run by (auto simp: p)
qed

section \<open>From the provider to the published address\<close>

text \<open>
  C6: the address of a server behind a gateway is backed by the gateway. Let a pass of either provider write the status of a binding, and let the operator read that binding when it resolves the
  gateway of a server. If the status has a URL, the operator publishes exactly this URL, and the provider had the evidence for it: a route that the allowed Gateway has
  accepted for its current generation and, for Kuadrant, a ready registration. If it has none, the server is not available and the address of the
  gateway is not published.
\<close>

theorem registered_address_published:
  assumes "provider_laws L G"
    and "pass = Reconcile_httproute L G allowed n ns \<and> evidence = evidence_httproute L G allowed n ns
      \<or> pass = Reconcile_kuadrant L G allowed n ns \<and> evidence = evidence_kuadrant L G allowed n ns"
    and "run_state pass s = (r, s')" "trace s = []" "EBindingStatus b \<in> set (trace s')"
    and "spGateway (msSpec ms) \<noteq> None"
    and "\<And>w. fst (getBinding A (gatewayBindingName (glK L) (srvName ms)) (srvNamespace ms) w) = Inr b"
    and "run_state (resolveGatewayStatus (glK L) A ms available url) t = ((g, available', url'), t')"
  shows "if gbURL (gbStatus b) = [] then url' = url \<and> cStatus available' \<noteq> ConditionTrue
     else url' = gbURL (gbStatus b) \<and> evidence url' \<and> (cStatus available' = ConditionTrue) = (cStatus available = ConditionTrue)"
  using assms(2)
proof (elim disjE conjE)
  assume p: "pass = Reconcile_httproute L G allowed n ns" "evidence = evidence_httproute L G allowed n ns"
  show ?thesis unfolding p(2) by (rule httproute.operator_publishes[OF assms(1) assms(3)[unfolded p(1)] assms(4-8)])
next
  assume p: "pass = Reconcile_kuadrant L G allowed n ns" "evidence = evidence_kuadrant L G allowed n ns"
  show ?thesis unfolding p(2) by (rule kuadrant.operator_publishes[OF assms(1) assms(3)[unfolded p(1)] assms(4-8)])
qed

theorem registered_address_published_witness:
  "\<exists>b. EBindingStatus b \<in> set (trace (snd (routed_run routed_route)))
     \<and> snd (snd (fst (run_state (resolveGatewayStatus sample_lib (sample_api\<lparr>getBinding := \<lambda>n ns w. (Inr b, w)\<rparr>) routed_server available_condition ''http://s'') start_state)))
       = ''https://mcp.example.com/mcp''"
proof -
  obtain r s' where run: "routed_run routed_route = (r, s')" by fastforce
  from routed_run_registers obtain b where b: "EBindingStatus b \<in> set (trace s')" "gbURL (gbStatus b) = ''https://mcp.example.com/mcp''"
    unfolding run by (auto simp: map_eq_Cons_conv simp flip: reports_of_iff)
  let ?A = "sample_api\<lparr>getBinding := \<lambda>n ns w. (Inr b, w)\<rparr>"
  obtain g av u t' where res: "run_state (resolveGatewayStatus (glK sample_gateway_lib) ?A routed_server available_condition ''http://s'') start_state = ((g, av, u), t')"
    by (metis prod.exhaust)
  have "spGateway (msSpec routed_server) \<noteq> None" by (simp add: routed_server_def)
  from registered_address_published[OF sample_provider_laws disjI1[OF conjI[OF refl refl]] run _ b(1) this _ res] b res
  have "u = ''https://mcp.example.com/mcp''" by (simp add: b(2))
  with b(1) run res show ?thesis by (auto simp: sample_gateway_lib_def intro!: exI[of _ b])
qed

end
